(* ===== verification/Prelude.thy ===== *)
theory Prelude
  imports Main "HOL-Library.Word"
begin

text \<open>
  Shared vocabulary of the development: the machine-integer types, the standard-library
  pieces of Rust the program uses (durations with saturating arithmetic, decimal rendering of
  integers, ASCII trimming and case mapping, splitting at a separator), the collections of
  rewrite rules the component theories extend, and the generic list facts they share.

  Conventions used everywhere: a Rust \<open>Result<T, E>\<close> is a sum \<open>'e + 't\<close> with
  \<open>Inl\<close> the error; \<open>Option<T>\<close> is \<open>'t option\<close>; a \<open>HashMap\<close> that is only looked up is a
  partial function, one that is iterated is an association list whose order stands for the
  (unspecified) iteration order; \<open>usize\<close>, \<open>u64\<close> and \<open>u128\<close> values that are only compared,
  counted or printed are natural numbers; strings are lists of ASCII characters.
\<close>

section \<open>Rewrite-rule collections\<close>

named_theorems frame_simps \<open>fields an operation does not touch\<close>
named_theorems view_simps \<open>the exit-pool view of a sticky store after each operation\<close>

section \<open>Machine integers\<close>

type_synonym u8 = "8 word"
type_synonym u16 = "16 word"
type_synonym u32 = "32 word"
type_synonym u64 = "64 word"
type_synonym usize = nat

section \<open>Durations\<close>

text \<open>
  \<open>std::time::Duration\<close> in nanoseconds: at most \<open>u64::MAX\<close> seconds and 999999999 nanoseconds.
\<close>

type_synonym duration = nat

definition duration_max :: duration where
  "duration_max = (2 ^ 64 - 1) * 1000000000 + 999999999"

definition from_secs :: "nat \<Rightarrow> duration" where
  "from_secs n = n * 1000000000"

definition saturating_mul :: "duration \<Rightarrow> nat \<Rightarrow> duration" where
  "saturating_mul d n = min (d * n) duration_max"

lemma from_secs_simps [simp]:
  "from_secs m \<le> from_secs n \<longleftrightarrow> m \<le> n"
  "from_secs m = from_secs n \<longleftrightarrow> m = n"
  by (simp_all add: from_secs_def)

lemma from_secs_add: "from_secs (m + n) = from_secs m + from_secs n"
  by (simp add: from_secs_def algebra_simps)

section \<open>Decimal rendering of integers\<close>

definition digit_char :: "nat \<Rightarrow> char" where
  "digit_char d = char_of (48 + d)"

fun show_nat :: "nat \<Rightarrow> string" where
  "show_nat n = (if n < 10 then [digit_char n] else show_nat (n div 10) @ [digit_char (n mod 10)])"

declare show_nat.simps [simp del]

definition show_u16 :: "u16 \<Rightarrow> string" where
  "show_u16 w = show_nat (unat w)"

definition show_u32 :: "u32 \<Rightarrow> string" where
  "show_u32 w = show_nat (unat w)"

definition read_digits :: "string \<Rightarrow> nat" where
  "read_digits s = foldl (\<lambda>acc c. acc * 10 + (of_char c - 48)) 0 s"

lemma read_digits_snoc: "read_digits (s @ [c]) = read_digits s * 10 + (of_char c - 48)"
  by (simp add: read_digits_def)

lemma of_char_digit: "d < 10 \<Longrightarrow> of_char (digit_char d) = 48 + d"
  by (simp add: digit_char_def)

lemma read_show_nat: "read_digits (show_nat n) = n"
proof (induction n rule: show_nat.induct)
  case (1 n)
  show ?case
  proof (cases "n < 10")
    case True
    then show ?thesis
      by (subst show_nat.simps) (simp add: read_digits_def of_char_digit)
  next
    case False
    with 1 show ?thesis
      by (subst show_nat.simps) (simp add: read_digits_snoc of_char_digit)
  qed
qed

lemma show_nat_inj [simp]: "show_nat m = show_nat n \<longleftrightarrow> m = n"
  by (metis read_show_nat)

lemma show_u16_inj [simp]: "show_u16 a = show_u16 b \<longleftrightarrow> a = b"
  by (simp add: show_u16_def word_unat_eq_iff)

lemma show_u32_inj [simp]: "show_u32 a = show_u32 b \<longleftrightarrow> a = b"
  by (simp add: show_u32_def word_unat_eq_iff)

lemma show_nat_nonempty [simp]: "show_nat n \<noteq> []"
  by (subst show_nat.simps) simp

lemma show_nat_digits: "c \<in> set (show_nat n) \<Longrightarrow> \<exists>d < 10. c = digit_char d"
proof (induction n rule: show_nat.induct)
  case (1 n)
  show ?case
  proof (cases "n < 10")
    case True
    with "1.prems" show ?thesis by (subst (asm) show_nat.simps) auto
  next
    case False
    with "1.prems" have "c \<in> set (show_nat (n div 10)) \<or> c = digit_char (n mod 10)"
      by (subst (asm) show_nat.simps) auto
    moreover have "n mod 10 < 10" by simp
    ultimately show ?thesis using "1.IH" [OF False] by blast
  qed
qed

lemma digit_char_not_bar: "d < 10 \<Longrightarrow> digit_char d \<noteq> CHR ''|''"
proof
  assume "d < 10" and "digit_char d = CHR ''|''"
  then have "of_char (CHR ''|'') = 48 + d" by (metis of_char_digit)
  with \<open>d < 10\<close> show False by simp
qed

lemma bar_notin_show_nat [simp]: "CHR ''|'' \<notin> set (show_nat n)"
  by (metis digit_char_not_bar show_nat_digits)

lemma bar_notin_show_word [simp]:
  "CHR ''|'' \<notin> set (show_u16 w)" "CHR ''|'' \<notin> set (show_u32 v)"
  by (simp_all add: show_u16_def show_u32_def)

section \<open>ASCII strings\<close>

definition is_ascii_space :: "char \<Rightarrow> bool" where
  "is_ascii_space c = (of_char c \<in> {9, 10, 11, 12, 13, 32 :: nat})"

definition trim :: "string \<Rightarrow> string" where
  "trim s = rev (dropWhile is_ascii_space (rev (dropWhile is_ascii_space s)))"

definition ascii_upper :: "char \<Rightarrow> char" where
  "ascii_upper c = (let n = of_char c :: nat in if 97 \<le> n \<and> n \<le> 122 then char_of (n - 32) else c)"

definition ascii_lower :: "char \<Rightarrow> char" where
  "ascii_lower c = (let n = of_char c :: nat in if 65 \<le> n \<and> n \<le> 90 then char_of (n + 32) else c)"

definition to_ascii_uppercase :: "string \<Rightarrow> string" where
  "to_ascii_uppercase = map ascii_upper"

definition to_ascii_lowercase :: "string \<Rightarrow> string" where
  "to_ascii_lowercase = map ascii_lower"

definition starts_with :: "string \<Rightarrow> string \<Rightarrow> bool" where
  "starts_with s p = (take (length p) s = p)"

text \<open>\<open>s.rsplit(p).next()\<close>: what follows the last occurrence of \<open>p\<close>.\<close>

fun after_last :: "string \<Rightarrow> string \<Rightarrow> string option" where
  "after_last p [] = (if p = [] then Some [] else None)"
| "after_last p (c # cs) =
     (case after_last p cs of
        Some r \<Rightarrow> Some r
      | None \<Rightarrow> if starts_with (c # cs) p then Some (drop (length p) (c # cs)) else None)"

definition rsplit_next :: "string \<Rightarrow> string \<Rightarrow> string" where
  "rsplit_next p s = (case after_last p s of Some r \<Rightarrow> r | None \<Rightarrow> s)"

lemma length_to_ascii_uppercase [simp]: "length (to_ascii_uppercase s) = length s"
  by (simp add: to_ascii_uppercase_def)

lemma trim_Nil [simp]: "trim [] = []"
  by (simp add: trim_def)

section \<open>Fields joined by a separator\<close>

lemma sep_append_inj:
  assumes "a @ c # b = a' @ c # b'" and "c \<notin> set a" and "c \<notin> set a'"
  shows "a = a' \<and> b = b'"
proof -
  have "takeWhile (\<lambda>x. x \<noteq> c) (a @ c # b) = a" using assms(2)
    by (induction a) auto
  moreover have "takeWhile (\<lambda>x. x \<noteq> c) (a' @ c # b') = a'" using assms(3)
    by (induction a') auto
  ultimately have "a = a'" using assms(1) by metis
  with assms(1) show ?thesis by simp
qed

section \<open>Lists\<close>

lemma distinct_take_Cons_removeAll:
  "distinct xs \<Longrightarrow> distinct (take n (x # removeAll x xs))"
  by (cases n) (auto simp: distinct_removeAll dest: in_set_takeD)

lemma removeAll_map_filter:
  "removeAll x (map f xs) = map f (filter (\<lambda>y. f y \<noteq> x) xs)"
  by (induction xs) auto

lemma extract_Some_distinct_map:
  assumes "List.extract (\<lambda>y. f y = x) xs = Some (ys, z, zs)" and "distinct (map f xs)"
  shows "f z = x \<and> filter (\<lambda>y. f y \<noteq> x) xs = ys @ zs"
proof -
  have eq: "xs = ys @ z # zs" and z: "f z = x" and ys: "\<forall>y \<in> set ys. f y \<noteq> x"
    using assms(1) by (auto simp: extract_Some_iff)
  from assms(2) eq z have "\<forall>y \<in> set zs. f y \<noteq> x"
    by (auto simp: image_iff)
  with ys eq z show ?thesis by (simp add: filter_id_conv)
qed

lemma fold_max_ge: "n \<le> fold max ns n \<and> (\<forall>m \<in> set ns. m \<le> fold max ns (n::'a::linorder))"
proof (induction ns arbitrary: n)
  case (Cons a ns)
  from this [of "max a n"] show ?case by auto
qed simp

lemma fold_min_le: "fold min ns n \<le> n \<and> (\<forall>m \<in> set ns. fold min ns (n::'a::linorder) \<le> m)"
proof (induction ns arbitrary: n)
  case (Cons a ns)
  from this [of "min a n"] show ?case by auto
qed simp

end
