(* ===== verification/Multiaddr.thy ===== *)
theory Multiaddr
  imports Prelude
begin

text \<open>
  Peer identities, multiaddresses and the pure route selection of
  \<open>crates/core/src/domain/selection.rs\<close> and \<open>crates/core/src/domain/circuit.rs\<close>.

  libp2p is a third-party package. A \<open>PeerId\<close> is only compared, so it is an opaque identifier;
  a \<open>Multiaddr\<close> is the sequence of protocol components its \<open>iter()\<close> yields, which is all the
  source reads of one. The two builders the source calls, \<open>Multiaddr::with\<close> and
  \<open>Multiaddr::with_p2p\<close>, stay parameters (a record \<open>maddr_api\<close>); \<open>maddr_laws\<close> states what
  their documentation promises.
\<close>

section \<open>Data\<close>

datatype peer_id = PeerId nat

datatype protocol =
    Ip4 string
  | Ip6 string
  | Dns string
  | Dns4 string
  | Dns6 string
  | Dnsaddr string
  | Tcp u16
  | Udp u16
  | QuicV1
  | P2p peer_id
  | P2pCircuit
  | OtherProtocol string

type_synonym multiaddr = "protocol list"

text \<open>A \<open>HashMap<PeerId, Vec<Multiaddr>>\<close>: its values are iterated by the source.\<close>

type_synonym route_map = "(peer_id \<times> multiaddr list) list"

record maddr_api =
  api_with :: "multiaddr \<Rightarrow> protocol \<Rightarrow> multiaddr"
  api_with_p2p :: "multiaddr \<Rightarrow> peer_id \<Rightarrow> multiaddr option"

section \<open>Selection\<close>

definition is_relayed :: "multiaddr \<Rightarrow> bool" where
  "is_relayed addr = list_ex (\<lambda>p. case p of P2pCircuit \<Rightarrow> True | _ \<Rightarrow> False) addr"

definition p2p_component :: "protocol \<Rightarrow> peer_id option" where
  "p2p_component p = (case p of P2p pid \<Rightarrow> Some pid | _ \<Rightarrow> None)"

definition last_p2p :: "multiaddr \<Rightarrow> peer_id option" where
  "last_p2p addr =
     (case List.map_filter p2p_component addr of [] \<Rightarrow> None | p # ps \<Rightarrow> Some (last (p # ps)))"

definition destination_peer_ids :: "multiaddr set \<Rightarrow> peer_id set" where
  "destination_peer_ids addresses = \<Union> ((\<lambda>a. set_option (last_p2p a)) ` addresses)"

record destination_peer_entry =
  entry_peer_id :: peer_id
  entry_address :: "multiaddr option"

definition candidate_routes :: "destination_peer_entry \<Rightarrow> route_map \<Rightarrow> multiaddr set" where
  "candidate_routes entry resolved =
     set (case map_of resolved (entry_peer_id entry) of Some routes \<Rightarrow> routes | None \<Rightarrow> [])
     \<union> set_option (entry_address entry)"

text \<open>
  The only caller passes a \<open>HashSet\<close> and collects both sides into sets again, so the
  unspecified order of the two \<open>Vec\<close>s is not modelled.
\<close>

definition partition_direct_first :: "multiaddr set \<Rightarrow> multiaddr set \<times> multiaddr set" where
  "partition_direct_first addrs =
     (Set.filter (\<lambda>a. \<not> is_relayed a) addrs, Set.filter is_relayed addrs)"

section \<open>Circuit synthesis\<close>

definition synthesize_circuit :: "maddr_api \<Rightarrow> multiaddr \<Rightarrow> peer_id \<Rightarrow> multiaddr option" where
  "synthesize_circuit api relay_address peer_id =
     api_with_p2p api (api_with api relay_address P2pCircuit) peer_id"

section \<open>What the documentation of the libp2p builders promises\<close>

text \<open>
  \<open>with\<close> appends a component. \<open>with_p2p\<close> appends \<open>/p2p/<peer>\<close> unless the address already
  ends in it, and fails (here \<open>None\<close>) only when the address ends in a different peer.
\<close>

definition ends_in_p2p :: "multiaddr \<Rightarrow> bool" where
  "ends_in_p2p a = (a \<noteq> [] \<and> p2p_component (last a) \<noteq> None)"

definition maddr_laws :: "maddr_api \<Rightarrow> bool" where
  "maddr_laws api \<longleftrightarrow>
     (\<forall>a p. api_with api a p = a @ [p]) \<and>
     (\<forall>a p. \<not> ends_in_p2p a \<longrightarrow> api_with_p2p api a p = Some (a @ [P2p p])) \<and>
     (\<forall>a p b. api_with_p2p api a p = Some b \<longrightarrow> b = a @ [P2p p] \<or> (b = a \<and> last_p2p a = Some p))"

text \<open>A concrete pair of builders that meets the documentation, for the witnesses.\<close>

definition list_maddr_api :: maddr_api where
  "list_maddr_api =
     \<lparr>api_with = (\<lambda>a p. a @ [p]),
      api_with_p2p = (\<lambda>a p.
        if a \<noteq> [] \<and> p2p_component (last a) \<noteq> None
        then (if last a = P2p p then Some a else None)
        else Some (a @ [P2p p]))\<rparr>"

section \<open>Facts\<close>

lemma p2p_component_simps [simp]:
  "p2p_component (P2p p) = Some p"
  "p2p_component P2pCircuit = None"
  "p2p_component c = Some q \<longleftrightarrow> c = P2p q"
  by (cases c; simp add: p2p_component_def)+

lemma last_p2p_Nil [simp]: "last_p2p [] = None"
  by (simp add: last_p2p_def List.map_filter_def)

lemma last_p2p_snoc:
  "last_p2p (a @ [c]) = (case p2p_component c of Some p \<Rightarrow> Some p | None \<Rightarrow> last_p2p a)"
  by (auto simp: last_p2p_def List.map_filter_def split: list.splits option.splits)

lemma last_p2p_snoc_P2p [simp]: "last_p2p (a @ [P2p p]) = Some p"
  by (simp add: last_p2p_snoc)

lemma last_p2p_eq_None: "last_p2p a = None \<longleftrightarrow> (\<forall>p. P2p p \<notin> set a)"
proof (induction a rule: rev_induct)
  case Nil
  then show ?case by simp
next
  case (snoc c a)
  then show ?case by (cases c) (auto simp: last_p2p_snoc p2p_component_def)
qed

lemma is_circuit_iff: "(case p of P2pCircuit \<Rightarrow> True | _ \<Rightarrow> False) = (p = P2pCircuit)"
  by (cases p) simp_all

lemma is_relayed_iff: "is_relayed a \<longleftrightarrow> P2pCircuit \<in> set a"
  by (auto simp: is_relayed_def list_ex_iff is_circuit_iff)

lemma destination_peer_ids_iff: "p \<in> destination_peer_ids A \<longleftrightarrow> (\<exists>a \<in> A. last_p2p a = Some p)"
  by (auto simp: destination_peer_ids_def)

lemma destination_peer_ids_empty [simp]: "destination_peer_ids {} = {}"
  by (simp add: destination_peer_ids_def)

lemma partition_direct_first_union:
  "partition_direct_first A = (D, R) \<Longrightarrow> D \<union> R = A \<and> D \<inter> R = {}"
  by (auto simp: partition_direct_first_def)

lemma maddr_lawsD:
  assumes "maddr_laws api"
  shows "api_with api a p = a @ [p]"
    and "\<not> ends_in_p2p a \<Longrightarrow> api_with_p2p api a q = Some (a @ [P2p q])"
    and "api_with_p2p api a q = Some b \<Longrightarrow> last_p2p b = Some q"
  using assms unfolding maddr_laws_def by (blast, blast, metis last_p2p_snoc_P2p)

lemma list_maddr_api_laws: "maddr_laws list_maddr_api"
  unfolding maddr_laws_def list_maddr_api_def ends_in_p2p_def
  by (auto split: if_splits)
    (metis append_butlast_last_id last_p2p_snoc_P2p)

lemma synthesize_circuit_last:
  "maddr_laws api \<Longrightarrow> synthesize_circuit api r p = Some a \<Longrightarrow> last_p2p a = Some p"
  unfolding synthesize_circuit_def by (rule maddr_lawsD(3))

lemma synthesize_circuit_eq:
  assumes "maddr_laws api"
  shows "synthesize_circuit api r p = Some (r @ [P2pCircuit, P2p p])"
proof -
  have "\<not> ends_in_p2p (r @ [P2pCircuit])" by (simp add: ends_in_p2p_def)
  with assms show ?thesis
    by (simp add: synthesize_circuit_def maddr_lawsD)
qed

end
