(* ===== verification/Config.thy ===== *)
theory Config
  imports Multiaddr
begin

text \<open>
  The configuration of \<open>crates/core/src/config.rs\<close> and the node filters of
  \<open>crates/core/src/filters.rs\<close>: the option records, the parsing of pinned-peer entries and
  countries, start-up validation, the filter fingerprint that keys sticky affinity, and the
  projection of the filters onto the hub's \<open>FindNodes\<close> requirements
  (\<open>crates/p2proxy/src/runtime/network/requirements.rs\<close>).

  YAML and environment extraction (figment), the ISO country tables (keshvar) and the text
  forms of libp2p's types are third-party code: each is a parameter (\<open>extract\<close>,
  \<open>country_api\<close>, \<open>text_api\<close>). A \<open>Bandwidth\<close> is its number of bits per second, the only
  reading the source takes of it.
\<close>

section \<open>Parameters: third-party text conversions\<close>

record text_api =
  parse_peer :: "string \<Rightarrow> string + peer_id"
  parse_maddr :: "string \<Rightarrow> string + multiaddr"
  show_peer :: "peer_id \<Rightarrow> string"
  show_maddr :: "multiaddr \<Rightarrow> string"

text \<open>Each lookup of the country tables yields the Alpha-2 code of the country it finds.\<close>

record country_api =
  alpha2_try_from :: "string \<Rightarrow> string option"
  alpha3_try_from :: "string \<Rightarrow> string option"
  find_by_iso_short_name :: "string \<Rightarrow> string option"
  find_by_iso_long_name :: "string \<Rightarrow> string option"

section \<open>Data\<close>

datatype proxy_protocols = Socks5

datatype filter_policy = Allow | Deny | Require

datatype sticky_reconnect = WithBackoff | FailFast

record pool_config_options =
  pool_max_total :: usize
  pool_open_timeout_secs :: nat

record server_peer_options =
  opt_destination_peers :: "destination_peer_entry list option"
  opt_fallback_to_discovery :: bool
  opt_sticky :: bool
  opt_sticky_reconnect :: sticky_reconnect
  opt_country :: "string option"
  opt_min_bandwidth :: nat
  opt_city :: "string option"
  opt_isp :: "string option"
  opt_asn :: "u32 option"
  opt_proxy :: filter_policy
  opt_mobile :: filter_policy
  opt_hosting :: filter_policy

record server =
  srv_protocol :: proxy_protocols
  srv_port :: u16
  srv_peer_options :: server_peer_options
  srv_pool :: pool_config_options

datatype socket_addr = SockV4 "32 word" u16 | SockV6 "128 word" u16

record config =
  cfg_servers :: "server list"
  cfg_listen_addrs :: "socket_addr list option"
  cfg_port :: "u16 option"
  cfg_log_level :: "string option"
  cfg_bitping_api_key :: string
  cfg_bootstrap_address :: multiaddr
  cfg_grpc_url :: string
  cfg_keypair_path :: string
  cfg_metrics_port :: u16

definition default_pool_config :: pool_config_options where
  "default_pool_config = \<lparr>pool_max_total = 30, pool_open_timeout_secs = 20\<rparr>"

section \<open>Addresses of the process\<close>

definition default_listen_addrs :: "socket_addr list" where
  "default_listen_addrs = [SockV4 0 0, SockV6 0 0]"

fun set_port :: "u16 \<Rightarrow> socket_addr \<Rightarrow> socket_addr" where
  "set_port p (SockV4 ip _) = SockV4 ip p"
| "set_port p (SockV6 ip _) = SockV6 ip p"

fun sock_port :: "socket_addr \<Rightarrow> u16" where
  "sock_port (SockV4 _ p) = p"
| "sock_port (SockV6 _ p) = p"

definition effective_listen_addrs :: "config \<Rightarrow> socket_addr list" where
  "effective_listen_addrs c =
     (case cfg_listen_addrs c of
        Some addrs \<Rightarrow> addrs
      | None \<Rightarrow>
          (case cfg_port c of
             None \<Rightarrow> default_listen_addrs
           | Some p \<Rightarrow> map (set_port p) default_listen_addrs))"

definition metrics_addr :: "config \<Rightarrow> socket_addr" where
  "metrics_addr c =
     (case effective_listen_addrs c of
        [] \<Rightarrow> SockV4 0 (cfg_metrics_port c)
      | x # _ \<Rightarrow> set_port (cfg_metrics_port c) x)"

text \<open>\<open>split(['/', ':']).next()\<close> always yields a first piece, so \<open>unwrap_or_default\<close> is not reached.\<close>

definition grpc_domain :: "config \<Rightarrow> string" where
  "grpc_domain c =
     takeWhile (\<lambda>x. x \<noteq> CHR ''/'' \<and> x \<noteq> CHR '':'') (rsplit_next ''://'' (cfg_grpc_url c))"

section \<open>Pinned-peer entries\<close>

definition entry_from_multiaddr :: "multiaddr \<Rightarrow> destination_peer_entry option" where
  "entry_from_multiaddr addr =
     (case last_p2p addr of
        None \<Rightarrow> None
      | Some pid \<Rightarrow>
          let bare_pin = (length addr = 1)
          in Some \<lparr>entry_peer_id = pid, entry_address = (if bare_pin then None else Some addr)\<rparr>)"

datatype entry_error =
    EntryEmpty
  | InvalidPeerId string string
  | InvalidMultiaddr string string
  | NoPeerComponent string

definition entry_from_str :: "text_api \<Rightarrow> string \<Rightarrow> entry_error + destination_peer_entry" where
  "entry_from_str T input =
     (let trimmed = trim input
      in if trimmed = [] then Inl EntryEmpty
         else if \<not> starts_with trimmed ''/'' then
           (case parse_peer T trimmed of
              Inl e \<Rightarrow> Inl (InvalidPeerId trimmed e)
            | Inr pid \<Rightarrow> Inr \<lparr>entry_peer_id = pid, entry_address = None\<rparr>)
         else
           (case parse_maddr T trimmed of
              Inl e \<Rightarrow> Inl (InvalidMultiaddr trimmed e)
            | Inr addr \<Rightarrow>
                (case entry_from_multiaddr addr of
                   None \<Rightarrow> Inl (NoPeerComponent trimmed)
                 | Some entry \<Rightarrow> Inr entry)))"

definition entry_to_string :: "text_api \<Rightarrow> destination_peer_entry \<Rightarrow> string" where
  "entry_to_string T e =
     (case entry_address e of Some addr \<Rightarrow> show_maddr T addr | None \<Rightarrow> show_peer T (entry_peer_id e))"

section \<open>Server options\<close>

datatype config_validation_error = EmptyPinnedList u16

definition pinned :: "server_peer_options \<Rightarrow> destination_peer_entry list" where
  "pinned opts = (case opt_destination_peers opts of Some l \<Rightarrow> l | None \<Rightarrow> [])"

definition validate :: "server_peer_options \<Rightarrow> u16 \<Rightarrow> config_validation_error + unit" where
  "validate opts port =
     (case opt_destination_peers opts of
        Some l \<Rightarrow> if l = [] then Inl (EmptyPinnedList port) else Inr ()
      | None \<Rightarrow> Inr ())"

datatype 'e load_error = Extract 'e | Invalid config_validation_error

fun validate_servers :: "server list \<Rightarrow> config_validation_error + unit" where
  "validate_servers [] = Inr ()"
| "validate_servers (s # ss) =
     (case validate (srv_peer_options s) (srv_port s) of
        Inl e \<Rightarrow> Inl e
      | Inr _ \<Rightarrow> validate_servers ss)"

definition from_path :: "('p \<Rightarrow> 'e + config) \<Rightarrow> 'p \<Rightarrow> 'e load_error + config" where
  "from_path extract path =
     (case extract path of
        Inl e \<Rightarrow> Inl (Extract e)
      | Inr c \<Rightarrow>
          (case validate_servers (cfg_servers c) of
             Inl e \<Rightarrow> Inl (Invalid e)
           | Inr _ \<Rightarrow> Inr c))"

fun policy_debug :: "filter_policy \<Rightarrow> string" where
  "policy_debug Allow = ''Allow''"
| "policy_debug Deny = ''Deny''"
| "policy_debug Require = ''Require''"

definition or_empty :: "string option \<Rightarrow> string" where
  "or_empty x = (case x of Some s \<Rightarrow> s | None \<Rightarrow> [])"

definition asn_text :: "u32 option \<Rightarrow> string" where
  "asn_text x = (case x of Some a \<Rightarrow> show_u32 a | None \<Rightarrow> [])"

definition filter_fingerprint :: "server_peer_options \<Rightarrow> u16 \<Rightarrow> string" where
  "filter_fingerprint opts port =
     ''v2|'' @ show_u16 port @ ''|'' @ or_empty (opt_country opts) @ ''|'' @ or_empty (opt_city opts)
     @ ''|'' @ or_empty (opt_isp opts) @ ''|'' @ asn_text (opt_asn opts) @ ''|''
     @ show_nat (opt_min_bandwidth opts) @ ''|'' @ policy_debug (opt_proxy opts) @ ''|''
     @ policy_debug (opt_mobile opts) @ ''|'' @ policy_debug (opt_hosting opts)"

definition options_to_string :: "text_api \<Rightarrow> server_peer_options \<Rightarrow> string" where
  "options_to_string T opts =
     (case pinned opts of
        first # rest \<Rightarrow>
          (if length (first # rest) = 1
           then ''Pinned: '' @ show_peer T (entry_peer_id first)
           else ''Pinned: '' @ show_peer T (entry_peer_id first) @ '' +''
                @ show_nat (length (first # rest) - 1) @ '' more'')
      | [] \<Rightarrow>
          (case opt_country opts of
             Some c \<Rightarrow> ''Country: '' @ c
           | None \<Rightarrow> ''Unknown''))"

section \<open>Countries\<close>

definition parse_country_alpha2 :: "country_api \<Rightarrow> string \<Rightarrow> string option" where
  "parse_country_alpha2 K input =
     (let trimmed = trim input;
          upper = to_ascii_uppercase trimmed;
          needle = to_ascii_lowercase trimmed
      in case (if length upper = 2 then alpha2_try_from K upper else None) of
           Some a2 \<Rightarrow> Some a2
         | None \<Rightarrow>
             (case (if length upper = 3 then alpha3_try_from K upper else None) of
                Some a2 \<Rightarrow> Some a2
              | None \<Rightarrow>
                  (case find_by_iso_short_name K needle of
                     Some a2 \<Rightarrow> Some a2
                   | None \<Rightarrow> find_by_iso_long_name K needle)))"

datatype country_error = UnknownCountry string

definition deserialize_country_alpha2 ::
    "country_api \<Rightarrow> string option \<Rightarrow> country_error + string option" where
  "deserialize_country_alpha2 K raw =
     (case raw of
        None \<Rightarrow> Inr None
      | Some r \<Rightarrow>
          let trimmed = trim r
          in if trimmed = [] then Inr None
             else (case parse_country_alpha2 K trimmed of
                     Some c \<Rightarrow> Inr (Some c)
                   | None \<Rightarrow> Inl (UnknownCountry trimmed)))"

section \<open>Node filters and the hub requirements they become\<close>

record node_filters =
  nf_country :: "string option"
  nf_city :: "string option"
  nf_isp :: "string option"
  nf_asn :: "u32 option"
  nf_proxy :: filter_policy
  nf_mobile :: filter_policy
  nf_hosting :: filter_policy
  nf_min_bandwidth_bps :: nat

definition node_filters_of :: "server_peer_options \<Rightarrow> node_filters" where
  "node_filters_of opts =
     \<lparr>nf_country = opt_country opts, nf_city = opt_city opts, nf_isp = opt_isp opts, nf_asn = opt_asn opts,
      nf_proxy = opt_proxy opts, nf_mobile = opt_mobile opts, nf_hosting = opt_hosting opts,
      nf_min_bandwidth_bps = opt_min_bandwidth opts\<rparr>"

fun constraint_label :: "filter_policy \<Rightarrow> string \<Rightarrow> string option" where
  "constraint_label Allow attr = None"
| "constraint_label Deny attr = Some (''no '' @ attr)"
| "constraint_label Require attr = Some (attr @ '' only'')"

definition opt_list :: "'a option \<Rightarrow> 'a list" where
  "opt_list x = (case x of Some a \<Rightarrow> [a] | None \<Rightarrow> [])"

definition filter_labels :: "server_peer_options \<Rightarrow> string list" where
  "filter_labels opts =
     opt_list (map_option (\<lambda>c. ''country: '' @ c) (opt_country opts))
     @ opt_list (map_option (\<lambda>c. ''city: '' @ c) (opt_city opts))
     @ opt_list (map_option (\<lambda>i. ''isp: '' @ i) (opt_isp opts))
     @ opt_list (map_option (\<lambda>a. ''ASN '' @ show_u32 a) (opt_asn opts))
     @ opt_list (constraint_label (opt_proxy opts) ''proxy'')
     @ opt_list (constraint_label (opt_mobile opts) ''mobile'')
     @ opt_list (constraint_label (opt_hosting opts) ''hosting'')"

datatype proxy_restriction = ProxyAllow | ProxyDisallow | ProxyOnly

datatype network_policy = NetAllowed | NetDenied | NetRequired

record requirements =
  req_countries :: "string list"
  req_cities :: "string list"
  req_isps :: "string list"
  req_asns :: "u32 list"
  req_proxy :: proxy_restriction
  req_mobile :: network_policy
  req_residential :: network_policy

fun proxy_restriction_of :: "filter_policy \<Rightarrow> proxy_restriction" where
  "proxy_restriction_of Allow = ProxyAllow"
| "proxy_restriction_of Deny = ProxyDisallow"
| "proxy_restriction_of Require = ProxyOnly"

fun network_policy_of :: "filter_policy \<Rightarrow> network_policy" where
  "network_policy_of Allow = NetAllowed"
| "network_policy_of Deny = NetDenied"
| "network_policy_of Require = NetRequired"

fun residential_policy :: "filter_policy \<Rightarrow> network_policy" where
  "residential_policy Allow = NetAllowed"
| "residential_policy Require = NetDenied"
| "residential_policy Deny = NetRequired"

definition requirements_from_filters :: "node_filters \<Rightarrow> requirements" where
  "requirements_from_filters f =
     \<lparr>req_countries = opt_list (nf_country f), req_cities = opt_list (nf_city f),
      req_isps = opt_list (nf_isp f), req_asns = opt_list (nf_asn f),
      req_proxy = proxy_restriction_of (nf_proxy f), req_mobile = network_policy_of (nf_mobile f),
      req_residential = residential_policy (nf_hosting f)\<rparr>"

end
