(* ===== verification/Config_Props.thy ===== *)
theory Config_Props
  imports Config
begin

text \<open>
  Properties of the configuration: what the filter fingerprint identifies and where it
  collides, the round trip of pinned entries, start-up validation, the hub requirements
  against the meaning of a filter policy, and the derived addresses.
\<close>

section \<open>The filter fingerprint\<close>

definition bar_free :: "server_peer_options \<Rightarrow> bool" where
  "bar_free opts \<longleftrightarrow>
     CHR ''|'' \<notin> set (or_empty (opt_country opts)) \<and> CHR ''|'' \<notin> set (or_empty (opt_city opts))
     \<and> CHR ''|'' \<notin> set (or_empty (opt_isp opts))"

lemma bar_notin_asn_text [simp]: "CHR ''|'' \<notin> set (asn_text a)"
  by (cases a) (simp_all add: asn_text_def)

lemma show_u32_nonempty [simp]: "show_u32 a \<noteq> []"
  by (simp add: show_u32_def)

lemma asn_text_inj [simp]: "asn_text a = asn_text b \<longleftrightarrow> a = b"
  by (auto simp: asn_text_def split: option.splits)
    (metis show_u32_nonempty)+

lemma bar_notin_policy_debug [simp]: "CHR ''|'' \<notin> set (policy_debug p)"
  by (cases p) simp_all

lemma policy_debug_inj [simp]: "policy_debug p = policy_debug q \<longleftrightarrow> p = q"
  by (cases p; cases q) simp_all

lemma filter_fingerprint_Cons:
  "filter_fingerprint opts port =
     CHR ''v'' # CHR ''2'' # CHR ''|'' # show_u16 port @ CHR ''|'' #
     or_empty (opt_country opts) @ CHR ''|'' # or_empty (opt_city opts) @ CHR ''|'' #
     or_empty (opt_isp opts) @ CHR ''|'' # asn_text (opt_asn opts) @ CHR ''|'' #
     show_nat (opt_min_bandwidth opts) @ CHR ''|'' # policy_debug (opt_proxy opts) @ CHR ''|'' #
     policy_debug (opt_mobile opts) @ CHR ''|'' # policy_debug (opt_hosting opts)"
  by (simp add: filter_fingerprint_def)

lemma fingerprint_fields_eq:
  assumes "filter_fingerprint a p = filter_fingerprint b q" and "bar_free a" and "bar_free b"
  shows "p = q \<and> or_empty (opt_country a) = or_empty (opt_country b)
    \<and> or_empty (opt_city a) = or_empty (opt_city b) \<and> or_empty (opt_isp a) = or_empty (opt_isp b)
    \<and> opt_asn a = opt_asn b \<and> opt_min_bandwidth a = opt_min_bandwidth b
    \<and> opt_proxy a = opt_proxy b \<and> opt_mobile a = opt_mobile b \<and> opt_hosting a = opt_hosting b"
  using assms unfolding filter_fingerprint_Cons bar_free_def
  by (simp only: list.inject) (elim conjE, (drule sep_append_inj, simp, simp, elim conjE)+, simp)

text \<open>
  C23. The filter fingerprint that keys sticky affinity identifies the port and every filter
  dimension: two servers whose country, city and ISP texts hold no \<open>|\<close> have the same
  fingerprint only if they listen on the same port and agree on all eight filters (an absent
  text filter counts as the empty text). So changing any filter, or the port, invalidates the
  remembered pool.
\<close>
theorem fingerprint_identifies_filters:
  assumes "filter_fingerprint a p = filter_fingerprint b q" and "bar_free a" and "bar_free b"
  shows "p = q \<and> or_empty (opt_country a) = or_empty (opt_country b)
    \<and> or_empty (opt_city a) = or_empty (opt_city b) \<and> or_empty (opt_isp a) = or_empty (opt_isp b)
    \<and> opt_asn a = opt_asn b \<and> opt_min_bandwidth a = opt_min_bandwidth b
    \<and> opt_proxy a = opt_proxy b \<and> opt_mobile a = opt_mobile b \<and> opt_hosting a = opt_hosting b"
  using assms by (rule fingerprint_fields_eq)

definition plain_options :: server_peer_options where
  "plain_options =
     \<lparr>opt_destination_peers = None, opt_fallback_to_discovery = False, opt_sticky = True,
      opt_sticky_reconnect = WithBackoff, opt_country = None, opt_min_bandwidth = 0,
      opt_city = None, opt_isp = None, opt_asn = None, opt_proxy = Allow, opt_mobile = Allow,
      opt_hosting = Allow\<rparr>"

lemma plain_options_bar_free: "bar_free plain_options"
  by (simp add: bar_free_def plain_options_def or_empty_def)

theorem fingerprint_identifies_filters_witness:
  "filter_fingerprint plain_options 1080 = filter_fingerprint plain_options 1080
   \<and> bar_free plain_options \<and> opt_asn plain_options = opt_asn plain_options"
  using fingerprint_identifies_filters [OF refl plain_options_bar_free plain_options_bar_free]
    plain_options_bar_free by simp

text \<open>
  The fields of the fingerprint are joined without escaping, so with a \<open>|\<close> in a filter
  (an ISP filter is a regular expression, where \<open>|\<close> is the alternation) different filters
  share a fingerprint: moving text across the city / ISP boundary does not change it, and the
  remembered exits of one configuration are accepted for the other.
\<close>
theorem fingerprint_collision:
  "filter_fingerprint (opts\<lparr>opt_city := Some (c @ ''|'' @ x), opt_isp := Some i\<rparr>) port
   = filter_fingerprint (opts\<lparr>opt_city := Some c, opt_isp := Some (x @ ''|'' @ i)\<rparr>) port"
  by (simp add: filter_fingerprint_def or_empty_def)

section \<open>Pinned entries\<close>

text \<open>An entry as the parser builds it: a bare identity, or an address with its last peer.\<close>

definition entry_wf :: "destination_peer_entry \<Rightarrow> bool" where
  "entry_wf e \<longleftrightarrow>
     (case entry_address e of
        None \<Rightarrow> True
      | Some a \<Rightarrow> last_p2p a = Some (entry_peer_id e) \<and> length a \<noteq> 1)"

text \<open>The text forms of this entry's own values are what their parsers read back.\<close>

definition text_faithful :: "text_api \<Rightarrow> destination_peer_entry \<Rightarrow> bool" where
  "text_faithful T e \<longleftrightarrow>
     (let s = entry_to_string T e
      in s \<noteq> [] \<and> trim s = s \<and>
         (case entry_address e of
            None \<Rightarrow> \<not> starts_with s ''/'' \<and> parse_peer T s = Inr (entry_peer_id e)
          | Some a \<Rightarrow> starts_with s ''/'' \<and> parse_maddr T s = Inr a))"

lemma entry_from_multiaddr_eq:
  "entry_from_multiaddr a = Some e \<longleftrightarrow>
     last_p2p a = Some (entry_peer_id e) \<and> entry_address e = (if length a = 1 then None else Some a)"
  by (cases e) (auto simp: entry_from_multiaddr_def Let_def split: option.splits)

lemma entry_from_str_wf: "entry_from_str T s = Inr e \<Longrightarrow> entry_wf e"
  by (auto simp: entry_from_str_def Let_def entry_wf_def entry_from_multiaddr_eq
      split: if_splits sum.splits option.splits)

text \<open>
  C32. Printing a parsed pinned entry and parsing it again gives the entry back: \<open>Display\<close>
  (used by \<open>Serialize\<close>) and \<open>FromStr\<close> (used by \<open>Deserialize\<close>) are inverse on every entry the
  parser produces, given that libp2p's own text forms of the entry's peer id and address are.
\<close>
theorem entry_roundtrip:
  assumes "entry_from_str T s = Inr e" and "text_faithful T e"
  shows "entry_from_str T (entry_to_string T e) = Inr e"
proof -
  from assms(1) have wf: "entry_wf e" by (rule entry_from_str_wf)
  show ?thesis
  proof (cases "entry_address e")
    case None
    with assms(2) show ?thesis
      by (cases e) (simp add: text_faithful_def entry_from_str_def Let_def)
  next
    case (Some a)
    with wf have "entry_from_multiaddr a = Some e"
      by (simp add: entry_wf_def entry_from_multiaddr_eq)
    with Some assms(2) show ?thesis
      by (simp add: text_faithful_def entry_from_str_def Let_def)
  qed
qed

definition sample_text_api :: text_api where
  "sample_text_api =
     \<lparr>parse_peer = (\<lambda>s. if s = ''12D3'' then Inr (PeerId 1) else Inl ''invalid''),
      parse_maddr = (\<lambda>s. if s = ''/t/p2p/12D3'' then Inr [QuicV1, P2p (PeerId 1)] else Inl ''invalid''),
      show_peer = (\<lambda>p. ''12D3''),
      show_maddr = (\<lambda>a. ''/t/p2p/12D3'')\<rparr>"

theorem entry_roundtrip_witness:
  "entry_from_str sample_text_api (entry_to_string sample_text_api
      \<lparr>entry_peer_id = PeerId 1, entry_address = Some [QuicV1, P2p (PeerId 1)]\<rparr>)
   = Inr \<lparr>entry_peer_id = PeerId 1, entry_address = Some [QuicV1, P2p (PeerId 1)]\<rparr>"
proof (rule entry_roundtrip)
  show "entry_from_str sample_text_api '' /t/p2p/12D3 ''
    = Inr \<lparr>entry_peer_id = PeerId 1, entry_address = Some [QuicV1, P2p (PeerId 1)]\<rparr>"
    by code_simp
  show "text_faithful sample_text_api
     \<lparr>entry_peer_id = PeerId 1, entry_address = Some [QuicV1, P2p (PeerId 1)]\<rparr>"
    by code_simp
qed

text \<open>
  What a multiaddress entry must contain: it is accepted exactly when some \<open>/p2p/<peer>\<close>
  component occurs in it, anywhere, and the last one names the pinned peer. In particular an
  address that does not end in \<open>/p2p/<peer>\<close> is accepted, which the documentation of the entry
  and the parser's own error message exclude.
\<close>
theorem entry_accepted_iff:
  "((\<exists>e. entry_from_multiaddr a = Some e) \<longleftrightarrow> (\<exists>p. P2p p \<in> set a))
   \<and> entry_from_multiaddr [P2p q, P2pCircuit]
       = Some \<lparr>entry_peer_id = q, entry_address = Some [P2p q, P2pCircuit]\<rparr>"
proof (rule conjI)
  show "(\<exists>e. entry_from_multiaddr a = Some e) \<longleftrightarrow> (\<exists>p. P2p p \<in> set a)"
    by (auto simp: entry_from_multiaddr_def Let_def last_p2p_eq_None [symmetric]
        split: option.splits)
      (metis last_p2p_eq_None option.distinct(1))+
  show "entry_from_multiaddr [P2p q, P2pCircuit]
    = Some \<lparr>entry_peer_id = q, entry_address = Some [P2p q, P2pCircuit]\<rparr>"
    by (simp add: entry_from_multiaddr_def last_p2p_def List.map_filter_def)
qed

section \<open>Start-up validation\<close>

lemma validate_servers_eq:
  "validate_servers ss =
     (case find (\<lambda>s. opt_destination_peers (srv_peer_options s) = Some []) ss of
        Some s \<Rightarrow> Inl (EmptyPinnedList (srv_port s))
      | None \<Rightarrow> Inr ())"
  by (induction ss) (auto simp: validate_def split: option.splits)

text \<open>
  Loading fails on the first server whose pinned list is present but empty, naming its
  port, and succeeds with the extracted configuration when there is none.
\<close>
theorem from_path_validates:
  "from_path extract path =
     (case extract path of
        Inl e \<Rightarrow> Inl (Extract e)
      | Inr c \<Rightarrow>
          (case find (\<lambda>s. opt_destination_peers (srv_peer_options s) = Some []) (cfg_servers c) of
             Some s \<Rightarrow> Inl (Invalid (EmptyPinnedList (srv_port s)))
           | None \<Rightarrow> Inr c))"
  by (simp add: from_path_def validate_servers_eq split: sum.split option.split)

lemma find_None_validates:
  "find (\<lambda>s. opt_destination_peers (srv_peer_options s) = Some []) ss = None \<Longrightarrow> s \<in> set ss
   \<Longrightarrow> opt_destination_peers (srv_peer_options s) \<noteq> Some []"
  by (auto simp: find_None_iff)

text \<open>
  A configuration that loads has no server with a present but empty pinned list, so a
  server is discovery-driven exactly when the key is absent: an operator who wrote the key
  never gets silent discovery instead.
\<close>
theorem loaded_config_has_no_empty_pin:
  assumes "from_path extract path = Inr c" and "s \<in> set (cfg_servers c)"
  shows "pinned (srv_peer_options s) = [] \<longleftrightarrow> opt_destination_peers (srv_peer_options s) = None"
proof -
  from assms(1) have
    "find (\<lambda>s. opt_destination_peers (srv_peer_options s) = Some []) (cfg_servers c) = None"
    by (auto simp: from_path_def validate_servers_eq split: sum.splits option.splits)
  then have "opt_destination_peers (srv_peer_options s) \<noteq> Some []"
    using assms(2) by (rule find_None_validates)
  then show ?thesis by (auto simp: pinned_def split: option.splits)
qed

definition sample_server :: server where
  "sample_server = \<lparr>srv_protocol = Socks5, srv_port = 1080, srv_peer_options = plain_options,
     srv_pool = default_pool_config\<rparr>"

definition sample_config :: config where
  "sample_config = \<lparr>cfg_servers = [sample_server], cfg_listen_addrs = None, cfg_port = None,
     cfg_log_level = None, cfg_bitping_api_key = ''k'', cfg_bootstrap_address = [Dnsaddr ''boot''],
     cfg_grpc_url = ''https://grpc'', cfg_keypair_path = ''node_keypair.bin'',
     cfg_metrics_port = 9091\<rparr>"

theorem loaded_config_has_no_empty_pin_witness:
  "pinned (srv_peer_options sample_server) = []
   \<longleftrightarrow> opt_destination_peers (srv_peer_options sample_server) = None"
proof (rule loaded_config_has_no_empty_pin)
  show "from_path (\<lambda>p. Inr sample_config :: unit + config) ''Config.yaml'' = Inr sample_config"
    by (simp add: from_path_def validate_servers_eq sample_config_def sample_server_def
        plain_options_def)
  show "sample_server \<in> set (cfg_servers sample_config)"
    by (simp add: sample_config_def)
qed

section \<open>Hub requirements against the meaning of a policy\<close>

text \<open>
  The documentation of \<open>FilterPolicy\<close>: \<open>Allow\<close> imposes no constraint, \<open>Require\<close> keeps only
  nodes that have the attribute, \<open>Deny\<close> rejects nodes that have it; the proto enums say the
  same in their own words.
\<close>

fun policy_admits :: "filter_policy \<Rightarrow> bool \<Rightarrow> bool" where
  "policy_admits Allow has = True"
| "policy_admits Deny has = (\<not> has)"
| "policy_admits Require has = has"

fun restriction_admits :: "proxy_restriction \<Rightarrow> bool \<Rightarrow> bool" where
  "restriction_admits ProxyAllow has = True"
| "restriction_admits ProxyDisallow has = (\<not> has)"
| "restriction_admits ProxyOnly has = has"

fun network_admits :: "network_policy \<Rightarrow> bool \<Rightarrow> bool" where
  "network_admits NetAllowed has = True"
| "network_admits NetDenied has = (\<not> has)"
| "network_admits NetRequired has = has"

record node_attributes =
  node_country :: string
  node_city :: string
  node_asn :: u32
  node_proxy :: bool
  node_mobile :: bool
  node_hosting :: bool

text \<open>
  What the server's options ask of a node, and what the request asks: an empty requirement
  list is no constraint, and \<open>residential\<close> is the complement of hosting. (ISP filters are
  regular expressions the hub evaluates; \<open>matches\<close> stands for that.)
\<close>

definition options_admit :: "(string \<Rightarrow> node_attributes \<Rightarrow> bool) \<Rightarrow> server_peer_options \<Rightarrow> node_attributes \<Rightarrow> bool" where
  "options_admit matches opts n \<longleftrightarrow>
     (case opt_country opts of Some c \<Rightarrow> node_country n = c | None \<Rightarrow> True)
     \<and> (case opt_city opts of Some c \<Rightarrow> node_city n = c | None \<Rightarrow> True)
     \<and> (case opt_isp opts of Some i \<Rightarrow> matches i n | None \<Rightarrow> True)
     \<and> (case opt_asn opts of Some a \<Rightarrow> node_asn n = a | None \<Rightarrow> True)
     \<and> policy_admits (opt_proxy opts) (node_proxy n)
     \<and> policy_admits (opt_mobile opts) (node_mobile n)
     \<and> policy_admits (opt_hosting opts) (node_hosting n)"

definition request_admits :: "(string \<Rightarrow> node_attributes \<Rightarrow> bool) \<Rightarrow> requirements \<Rightarrow> node_attributes \<Rightarrow> bool" where
  "request_admits matches r n \<longleftrightarrow>
     (req_countries r = [] \<or> node_country n \<in> set (req_countries r))
     \<and> (req_cities r = [] \<or> node_city n \<in> set (req_cities r))
     \<and> (req_isps r = [] \<or> list_ex (\<lambda>i. matches i n) (req_isps r))
     \<and> (req_asns r = [] \<or> node_asn n \<in> set (req_asns r))
     \<and> restriction_admits (req_proxy r) (node_proxy n)
     \<and> network_admits (req_mobile r) (node_mobile n)
     \<and> network_admits (req_residential r) (\<not> node_hosting n)"

lemma policy_admits_simps:
  "restriction_admits (proxy_restriction_of p) b = policy_admits p b"
  "network_admits (network_policy_of p) b = policy_admits p b"
  "network_admits (residential_policy p) (\<not> b) = policy_admits p b"
  by (cases p; simp)+


section \<open>Countries\<close>

text \<open>
  A country filter is dropped only for an absent or blank value: any other text either
  becomes the Alpha-2 code found for it or fails the load, so a typo never turns into
  \<open>no country filter\<close>.
\<close>
theorem country_never_silently_dropped:
  "deserialize_country_alpha2 K raw = Inr None \<longleftrightarrow> (case raw of None \<Rightarrow> True | Some r \<Rightarrow> trim r = [])"
  by (auto simp: deserialize_country_alpha2_def Let_def split: option.splits)

section \<open>Derived addresses\<close>

lemma after_last_append: "after_last p s = Some r \<Longrightarrow> after_last p (a @ s) = Some r"
  by (induction a) auto

lemma after_last_scheme: "after_last ''://'' s = None \<Longrightarrow> after_last ''://'' (''://'' @ s) = Some s"
  by (simp add: starts_with_def)

lemma takeWhile_host:
  assumes "\<forall>c \<in> set host. P c" and "rest = [] \<or> \<not> P (hd rest)"
  shows "takeWhile P (host @ rest) = host"
  using assms by (cases rest) (auto simp: takeWhile_append)

text \<open>
  The TLS server name of a \<open>scheme://host[:port][/path]\<close> URL is its host: scheme, port
  and path are stripped, whatever the scheme.
\<close>
theorem grpc_domain_is_host:
  assumes "cfg_grpc_url c = scheme @ ''://'' @ host @ rest"
    and "CHR ''/'' \<notin> set host" and "CHR '':'' \<notin> set host"
    and "rest = [] \<or> hd rest = CHR ''/'' \<or> hd rest = CHR '':''"
    and "after_last ''://'' (host @ rest) = None"
  shows "grpc_domain c = host"
proof -
  have "after_last ''://'' (cfg_grpc_url c) = Some (host @ rest)"
    unfolding assms(1) by (intro after_last_append after_last_scheme assms(5))
  then have "rsplit_next ''://'' (cfg_grpc_url c) = host @ rest"
    by (simp add: rsplit_next_def)
  then show ?thesis
    using assms(2-4) unfolding grpc_domain_def by (auto intro!: takeWhile_host)
qed

theorem grpc_domain_is_host_witness:
  "grpc_domain (sample_config\<lparr>cfg_grpc_url := ''https://grpc.bitping.com:443/api''\<rparr>)
   = ''grpc.bitping.com''"
  by (rule grpc_domain_is_host [where scheme = "''https''" and rest = "'':443/api''"])
    (simp_all add: starts_with_def)

text \<open>
  The metrics endpoint binds the host of the first libp2p listen address; with the
  default listen addresses that is \<open>0.0.0.0\<close>, every IPv4 interface, not the localhost the
  comment on \<open>metrics_port\<close> promises.
\<close>
theorem metrics_bind_every_interface:
  "metrics_addr (c\<lparr>cfg_listen_addrs := None\<rparr>) = SockV4 0 (cfg_metrics_port c)
   \<and> metrics_addr (c\<lparr>cfg_listen_addrs := Some (a # as)\<rparr>) = set_port (cfg_metrics_port c) a
   \<and> metrics_addr (c\<lparr>cfg_listen_addrs := Some []\<rparr>) = SockV4 0 (cfg_metrics_port c)"
  by (simp add: metrics_addr_def effective_listen_addrs_def default_listen_addrs_def
      split: option.split)

end
