(* ===== verification/Config_Load.thy ===== *)
theory Config_Load
  imports Config_Props
begin

text \<open>
  Loading a configuration (\<open>config.rs\<close>): from the fields figment extracts from the YAML file and
  the environment, absent ones included, through the \<open>serde\<close> defaults and the two hand-written
  deserializers, to the validated \<open>config\<close>. Reading the file, and the syntax of numbers,
  bandwidths and sockets, are figment's and stay in the parameter \<open>extract\<close>.
\<close>

section \<open>What was written\<close>

record raw_pool =
  rp_max_total :: "usize option"
  rp_open_timeout_secs :: "nat option"

record raw_server =
  rs_protocol :: proxy_protocols
  rs_port :: u16
  rs_destination_peers :: "string list option"
  rs_fallback_to_discovery :: "bool option"
  rs_sticky :: "bool option"
  rs_sticky_reconnect :: "sticky_reconnect option"
  rs_country :: "string option"
  rs_min_bandwidth :: "nat option"
  rs_city :: "string option"
  rs_isp :: "string option"
  rs_asn :: "u32 option"
  rs_proxy :: "filter_policy option"
  rs_mobile :: "filter_policy option"
  rs_hosting :: "filter_policy option"
  rs_pool :: "raw_pool option"

record raw_config =
  rc_servers :: "raw_server list"
  rc_listen_addrs :: "socket_addr list option"
  rc_port :: "u16 option"
  rc_log_level :: "string option"
  rc_bitping_api_key :: string
  rc_bootstrap_address :: "multiaddr option"
  rc_grpc_url :: "string option"
  rc_keypair_path :: "string option"
  rc_metrics_port :: "u16 option"

section \<open>Defaults\<close>

definition default_bootstrap :: multiaddr where
  "default_bootstrap = [Dnsaddr ''boot2.bitping.com'']"

definition default_grpc_url :: string where "default_grpc_url = ''https://grpc.bitping.com''"
definition default_keypair_path :: string where "default_keypair_path = ''node_keypair.bin''"
definition default_metrics_port :: u16 where "default_metrics_port = 9091"
definition default_max_total :: usize where "default_max_total = 30"
definition default_open_timeout_secs :: nat where "default_open_timeout_secs = 20"
definition default_sticky :: bool where "default_sticky = True"

definition from_mbps :: "nat \<Rightarrow> nat" where "from_mbps n = n * 1000000"

definition default_min_bandwith :: nat where "default_min_bandwith = from_mbps 50"

definition or_default :: "'a \<Rightarrow> 'a option \<Rightarrow> 'a" where
  "or_default d x = (case x of Some a \<Rightarrow> a | None \<Rightarrow> d)"

lemma or_default_simps [simp]: "or_default d None = d" "or_default d (Some a) = a"
  by (simp_all add: or_default_def)

section \<open>Deserializing\<close>

datatype field_error = BadPeerEntry entry_error | BadCountry country_error

text \<open>A sequence: its elements one by one, the first failure wins.\<close>

fun sequence :: "('a \<Rightarrow> 'e + 'b) \<Rightarrow> 'a list \<Rightarrow> 'e + 'b list" where
  "sequence f [] = Inr []"
| "sequence f (x # xs) =
     (case f x of
        Inl e \<Rightarrow> Inl e
      | Inr y \<Rightarrow> (case sequence f xs of Inl e \<Rightarrow> Inl e | Inr ys \<Rightarrow> Inr (y # ys)))"

definition destination_peers_of ::
    "text_api \<Rightarrow> string list option \<Rightarrow> entry_error + destination_peer_entry list option" where
  "destination_peers_of T raw =
     (case raw of
        None \<Rightarrow> Inr None
      | Some ss \<Rightarrow> (case sequence (entry_from_str T) ss of Inl e \<Rightarrow> Inl e | Inr entries \<Rightarrow> Inr (Some entries)))"

definition pool_of_raw :: "raw_pool option \<Rightarrow> pool_config_options" where
  "pool_of_raw raw =
     (case raw of
        None \<Rightarrow> default_pool_config
      | Some p \<Rightarrow> \<lparr>pool_max_total = or_default default_max_total (rp_max_total p),
                  pool_open_timeout_secs = or_default default_open_timeout_secs (rp_open_timeout_secs p)\<rparr>)"

definition deserialize_server :: "text_api \<Rightarrow> country_api \<Rightarrow> raw_server \<Rightarrow> field_error + server" where
  "deserialize_server T K r =
     (case destination_peers_of T (rs_destination_peers r) of
        Inl e \<Rightarrow> Inl (BadPeerEntry e)
      | Inr peers \<Rightarrow>
          (case deserialize_country_alpha2 K (rs_country r) of
             Inl e \<Rightarrow> Inl (BadCountry e)
           | Inr country \<Rightarrow>
               Inr \<lparr>srv_protocol = rs_protocol r, srv_port = rs_port r,
                 srv_peer_options =
                   \<lparr>opt_destination_peers = peers,
                    opt_fallback_to_discovery = or_default False (rs_fallback_to_discovery r),
                    opt_sticky = or_default default_sticky (rs_sticky r),
                    opt_sticky_reconnect = or_default WithBackoff (rs_sticky_reconnect r),
                    opt_country = country,
                    opt_min_bandwidth = or_default default_min_bandwith (rs_min_bandwidth r),
                    opt_city = rs_city r, opt_isp = rs_isp r, opt_asn = rs_asn r,
                    opt_proxy = or_default Allow (rs_proxy r), opt_mobile = or_default Allow (rs_mobile r),
                    opt_hosting = or_default Allow (rs_hosting r)\<rparr>,
                 srv_pool = pool_of_raw (rs_pool r)\<rparr>))"

definition deserialize_config :: "text_api \<Rightarrow> country_api \<Rightarrow> raw_config \<Rightarrow> field_error + config" where
  "deserialize_config T K raw =
     (case sequence (deserialize_server T K) (rc_servers raw) of
        Inl e \<Rightarrow> Inl e
      | Inr servers \<Rightarrow>
          Inr \<lparr>cfg_servers = servers, cfg_listen_addrs = rc_listen_addrs raw, cfg_port = rc_port raw,
            cfg_log_level = rc_log_level raw, cfg_bitping_api_key = rc_bitping_api_key raw,
            cfg_bootstrap_address = or_default default_bootstrap (rc_bootstrap_address raw),
            cfg_grpc_url = or_default default_grpc_url (rc_grpc_url raw),
            cfg_keypair_path = or_default default_keypair_path (rc_keypair_path raw),
            cfg_metrics_port = or_default default_metrics_port (rc_metrics_port raw)\<rparr>)"

text \<open>\<open>from_path\<close> with figment's extraction split into reading and deserializing.\<close>

datatype 'e extract_error = FieldSyntax 'e | BadField field_error

definition load_config ::
    "text_api \<Rightarrow> country_api \<Rightarrow> ('p \<Rightarrow> 'e + raw_config) \<Rightarrow> 'p \<Rightarrow> 'e extract_error load_error + config" where
  "load_config T K extract path =
     from_path (\<lambda>path. case extract path of
        Inl e \<Rightarrow> Inl (FieldSyntax e)
      | Inr raw \<Rightarrow> (case deserialize_config T K raw of Inl e \<Rightarrow> Inl (BadField e) | Inr c \<Rightarrow> Inr c)) path"

text \<open>\<open>Config::new\<close>\<close>

definition config_new ::
    "text_api \<Rightarrow> country_api \<Rightarrow> (string \<Rightarrow> 'e + raw_config) \<Rightarrow> 'e extract_error load_error + config" where
  "config_new T K extract = load_config T K extract ''Config.yaml''"

section \<open>Properties\<close>

lemma sequence_all2: "sequence f xs = Inr ys \<Longrightarrow> list_all2 (\<lambda>x y. f x = Inr y) xs ys"
  by (induction xs arbitrary: ys) (auto split: sum.splits)

text \<open>What the configuration says of a server against what was written for it.\<close>

definition written_as :: "text_api \<Rightarrow> country_api \<Rightarrow> raw_server \<Rightarrow> server \<Rightarrow> bool" where
  "written_as T K r s \<longleftrightarrow> srv_port s = rs_port r
     \<and> (case rs_destination_peers r of
          None \<Rightarrow> pinned (srv_peer_options s) = []
        | Some texts \<Rightarrow> texts \<noteq> []
            \<and> list_all2 (\<lambda>t e. entry_from_str T t = Inr e) texts (pinned (srv_peer_options s)))
     \<and> (case rs_country r of
          None \<Rightarrow> opt_country (srv_peer_options s) = None
        | Some t \<Rightarrow> opt_country (srv_peer_options s)
            = (if trim t = [] then None else parse_country_alpha2 K (trim t)))"

lemma deserialize_written:
  assumes "deserialize_server T K r = Inr s"
    and "validate (srv_peer_options s) (srv_port s) = Inr ()"
  shows "written_as T K r s"
  using assms
  by (auto simp: deserialize_server_def destination_peers_of_def written_as_def pinned_def validate_def
      deserialize_country_alpha2_def Let_def split: sum.splits option.splits if_splits dest!: sequence_all2)

lemma validate_servers_all: "validate_servers ss = Inr () \<Longrightarrow> s \<in> set ss \<Longrightarrow>
    validate (srv_peer_options s) (srv_port s) = Inr ()"
  by (induction ss) (auto split: sum.splits)


definition raw_pinned_server :: raw_server where
  "raw_pinned_server = \<lparr>rs_protocol = Socks5, rs_port = 1080,
     rs_destination_peers = Some ['' 12D3 '', ''/t/p2p/12D3''], rs_fallback_to_discovery = None,
     rs_sticky = None, rs_sticky_reconnect = None, rs_country = Some '' '', rs_min_bandwidth = None,
     rs_city = None, rs_isp = None, rs_asn = None, rs_proxy = None, rs_mobile = None,
     rs_hosting = None, rs_pool = None\<rparr>"

definition raw_sample :: raw_config where
  "raw_sample = \<lparr>rc_servers = [raw_pinned_server], rc_listen_addrs = None, rc_port = None,
     rc_log_level = None, rc_bitping_api_key = ''key'', rc_bootstrap_address = None,
     rc_grpc_url = None, rc_keypair_path = None, rc_metrics_port = None\<rparr>"

definition no_countries :: country_api where
  "no_countries = \<lparr>alpha2_try_from = (\<lambda>_. None), alpha3_try_from = (\<lambda>_. None),
     find_by_iso_short_name = (\<lambda>_. None), find_by_iso_long_name = (\<lambda>_. None)\<rparr>"

definition loaded_sample :: config where
  "loaded_sample = \<lparr>cfg_servers = [\<lparr>srv_protocol = Socks5, srv_port = 1080,
       srv_peer_options = plain_options\<lparr>opt_min_bandwidth := 50000000,
         opt_destination_peers := Some [\<lparr>entry_peer_id = PeerId 1, entry_address = None\<rparr>,
           \<lparr>entry_peer_id = PeerId 1, entry_address = Some [QuicV1, P2p (PeerId 1)]\<rparr>]\<rparr>,
       srv_pool = default_pool_config\<rparr>],
     cfg_listen_addrs = None, cfg_port = None, cfg_log_level = None, cfg_bitping_api_key = ''key'',
     cfg_bootstrap_address = [Dnsaddr ''boot2.bitping.com''], cfg_grpc_url = ''https://grpc.bitping.com'',
     cfg_keypair_path = ''node_keypair.bin'', cfg_metrics_port = 9091\<rparr>"


end
