(* ===== verification/Config_Tests.thy ===== *)
theory Config_Tests
  imports Config_Load Config_Props
begin

text \<open>
  The unit tests of \<open>config.rs\<close>, \<open>filters.rs\<close>, \<open>runtime/network/requirements.rs\<close> and
  \<open>ports/stream.rs\<close> as bool-valued scenarios of the model. The random peers of a test are
  arguments, and so are the third-party conversions: libp2p's text forms \<open>T\<close> and the country
  tables \<open>K\<close>. An address a test writes as text is the text form \<open>show_maddr T\<close> of its components.
\<close>

section \<open>Pinned-peer entries\<close>

definition bare_peer_id_parses :: "text_api \<Rightarrow> peer_id \<Rightarrow> bool" where
  "bare_peer_id_parses T pid =
     (entry_from_str T (show_peer T pid) = Inr \<lparr>entry_peer_id = pid, entry_address = None\<rparr>)"

definition relayed_form :: "peer_id \<Rightarrow> peer_id \<Rightarrow> multiaddr" where
  "relayed_form relay dest = [Dns4 ''hub.example.com'', Tcp 31515, P2p relay, P2pCircuit, P2p dest]"

definition direct_form :: "peer_id \<Rightarrow> multiaddr" where
  "direct_form pid = [Ip4 ''9.9.9.9'', Tcp 31515, P2p pid]"

definition full_multiaddr_extracts_last_p2p_and_keeps_address :: "text_api \<Rightarrow> peer_id \<Rightarrow> peer_id \<Rightarrow> bool" where
  "full_multiaddr_extracts_last_p2p_and_keeps_address T relay dest =
     (let a = relayed_form relay dest
      in entry_from_str T (show_maddr T a) = Inr \<lparr>entry_peer_id = dest, entry_address = Some a\<rparr>)"

definition bare_p2p_multiaddr_pins_identity_only :: "text_api \<Rightarrow> peer_id \<Rightarrow> bool" where
  "bare_p2p_multiaddr_pins_identity_only T pid =
     (entry_from_str T (show_maddr T [P2p pid]) = Inr \<lparr>entry_peer_id = pid, entry_address = None\<rparr>)"

definition multiaddr_without_p2p_rejected :: "text_api \<Rightarrow> bool" where
  "multiaddr_without_p2p_rejected T =
     (case entry_from_str T (show_maddr T [Ip4 ''1.2.3.4'', Tcp 443]) of
        Inl (NoPeerComponent _) \<Rightarrow> True
      | _ \<Rightarrow> False)"

definition garbage_rejected :: "text_api \<Rightarrow> bool" where
  "garbage_rejected T =
     ((case entry_from_str T ''not-a-peer'' of Inl _ \<Rightarrow> True | Inr _ \<Rightarrow> False)
      \<and> (case entry_from_str T '''' of Inl _ \<Rightarrow> True | Inr _ \<Rightarrow> False))"

text \<open>The JSON of an entry is its text as a JSON string, which reads back as that text.\<close>

definition serde_yaml_roundtrip :: "text_api \<Rightarrow> destination_peer_entry \<Rightarrow> entry_error + destination_peer_entry" where
  "serde_yaml_roundtrip T entry = entry_from_str T (entry_to_string T entry)"

definition serialize_roundtrips_original_string_form :: "text_api \<Rightarrow> peer_id \<Rightarrow> bool" where
  "serialize_roundtrips_original_string_form T pid =
     list_all (\<lambda>raw. case entry_from_str T raw of
         Inl _ \<Rightarrow> False
       | Inr entry \<Rightarrow> serde_yaml_roundtrip T entry = Inr entry)
       [show_peer T pid, show_maddr T (direct_form pid)]"

text \<open>What the documentation of the text forms promises for the values of these tests.\<close>

definition reads_back :: "text_api \<Rightarrow> peer_id \<Rightarrow> bool" where
  "reads_back T p \<longleftrightarrow>
     (let s = show_peer T p in s \<noteq> [] \<and> trim s = s \<and> \<not> starts_with s ''/'' \<and> parse_peer T s = Inr p)"

definition maddr_reads_back :: "text_api \<Rightarrow> multiaddr \<Rightarrow> bool" where
  "maddr_reads_back T a \<longleftrightarrow>
     (let s = show_maddr T a in s \<noteq> [] \<and> trim s = s \<and> starts_with s ''/'' \<and> parse_maddr T s = Inr a)"

definition text_forms :: "text_api \<Rightarrow> peer_id \<Rightarrow> peer_id \<Rightarrow> bool" where
  "text_forms T p q \<longleftrightarrow>
     reads_back T p
     \<and> list_all (maddr_reads_back T) [relayed_form q p, direct_form p, direct_form q, [P2p p], [Ip4 ''1.2.3.4'', Tcp 443]]
     \<and> (case parse_peer T ''not-a-peer'' of Inl _ \<Rightarrow> True | Inr _ \<Rightarrow> False)"

lemma entry_of_peer: "reads_back T p \<Longrightarrow>
  entry_from_str T (show_peer T p) = Inr \<lparr>entry_peer_id = p, entry_address = None\<rparr>"
  by (simp add: reads_back_def entry_from_str_def Let_def)

lemma entry_of_maddr: "maddr_reads_back T a \<Longrightarrow>
  entry_from_str T (show_maddr T a) =
    (case entry_from_multiaddr a of None \<Rightarrow> Inl (NoPeerComponent (show_maddr T a)) | Some e \<Rightarrow> Inr e)"
  by (simp add: maddr_reads_back_def entry_from_str_def Let_def)

lemmas entry_test_simps = entry_of_peer entry_of_maddr entry_from_multiaddr_def last_p2p_def
  List.map_filter_def relayed_form_def direct_form_def Let_def

lemma entry_tests:
  assumes "text_forms T p q"
  shows "bare_peer_id_parses T p"
    "full_multiaddr_extracts_last_p2p_and_keeps_address T q p"
    "bare_p2p_multiaddr_pins_identity_only T p"
    "multiaddr_without_p2p_rejected T"
    "garbage_rejected T"
    "serialize_roundtrips_original_string_form T p"
proof -
  have readable: "reads_back T p" "maddr_reads_back T (relayed_form q p)" "maddr_reads_back T (direct_form p)"
    "maddr_reads_back T [P2p p]" "maddr_reads_back T [Ip4 ''1.2.3.4'', Tcp 443]"
    using assms by (simp_all add: text_forms_def)
  show "bare_peer_id_parses T p"
    using readable by (simp add: bare_peer_id_parses_def entry_test_simps)
  show "full_multiaddr_extracts_last_p2p_and_keeps_address T q p"
    using readable
    by (simp add: full_multiaddr_extracts_last_p2p_and_keeps_address_def entry_test_simps)
  show "bare_p2p_multiaddr_pins_identity_only T p"
    using readable by (simp add: bare_p2p_multiaddr_pins_identity_only_def entry_test_simps)
  show "multiaddr_without_p2p_rejected T"
    using readable by (simp add: multiaddr_without_p2p_rejected_def entry_test_simps)
  have trim: "trim ''not-a-peer'' = ''not-a-peer''" "trim '''' = ''''"
    by code_simp+
  show "garbage_rejected T"
    using assms
    by (simp add: garbage_rejected_def entry_from_str_def trim starts_with_def text_forms_def split: sum.splits)
  show "serialize_roundtrips_original_string_form T p"
    using readable
    by (simp add: serialize_roundtrips_original_string_form_def serde_yaml_roundtrip_def entry_to_string_def
        entry_test_simps)
qed

section \<open>Server options\<close>

definition config_options :: "destination_peer_entry list option \<Rightarrow> server_peer_options" where
  "config_options destination_peers =
     \<lparr>opt_destination_peers = destination_peers, opt_fallback_to_discovery = False, opt_sticky = True,
      opt_sticky_reconnect = WithBackoff, opt_country = None, opt_min_bandwidth = default_min_bandwith,
      opt_city = None, opt_isp = None, opt_asn = None,
      opt_proxy = Allow, opt_mobile = Allow, opt_hosting = Allow\<rparr>"

definition validate_rejects_empty_pinned_list :: bool where
  "validate_rejects_empty_pinned_list =
     (validate (config_options (Some [])) 1080 = Inl (EmptyPinnedList 1080))"

definition pinned_empty_for_discovery_servers :: bool where
  "pinned_empty_for_discovery_servers = (pinned (config_options None) = [])"

text \<open>The options of a server whose YAML sets only the fields given; the rest take their defaults.\<close>

definition unset_server :: raw_server where
  "unset_server = \<lparr>rs_protocol = Socks5, rs_port = 1080, rs_destination_peers = None,
     rs_fallback_to_discovery = None, rs_sticky = None, rs_sticky_reconnect = None, rs_country = None,
     rs_min_bandwidth = None, rs_city = None, rs_isp = None, rs_asn = None, rs_proxy = None,
     rs_mobile = None, rs_hosting = None, rs_pool = None\<rparr>"

definition serde_yaml_str :: "text_api \<Rightarrow> country_api \<Rightarrow> raw_server \<Rightarrow> server_peer_options option" where
  "serde_yaml_str T K yaml =
     (case deserialize_server T K yaml of Inl _ \<Rightarrow> None | Inr s \<Rightarrow> Some (srv_peer_options s))"

definition defaults_sticky_true_fallback_false :: "text_api \<Rightarrow> country_api \<Rightarrow> bool" where
  "defaults_sticky_true_fallback_false T K =
     (case serde_yaml_str T K (unset_server\<lparr>rs_country := Some ''US''\<rparr>) of
        None \<Rightarrow> False
      | Some opts \<Rightarrow> opt_sticky opts \<and> \<not> opt_fallback_to_discovery opts \<and> opt_destination_peers opts = None)"

definition destination_peers_yaml_list_parses_in_order :: "text_api \<Rightarrow> country_api \<Rightarrow> peer_id \<Rightarrow> peer_id \<Rightarrow> bool" where
  "destination_peers_yaml_list_parses_in_order T K a b =
     (case serde_yaml_str T K
         (unset_server\<lparr>rs_destination_peers := Some [show_peer T a, show_maddr T (direct_form b)]\<rparr>) of
        None \<Rightarrow> False
      | Some opts \<Rightarrow> map entry_peer_id (pinned opts) = [a, b])"

definition fingerprint_changes_on_each_filter_dimension :: bool where
  "fingerprint_changes_on_each_filter_dimension =
     (let base = config_options None;
          fp = filter_fingerprint base 1080;
          with_country = base\<lparr>opt_country := Some ''NL''\<rparr>;
          with_bw = base\<lparr>opt_min_bandwidth := from_mbps 100\<rparr>
      in fp \<noteq> filter_fingerprint base 1081 \<and> fp \<noteq> filter_fingerprint with_country 1080
         \<and> fp \<noteq> filter_fingerprint with_bw 1080 \<and> fp = filter_fingerprint (config_options None) 1080)"

lemma options_tests:
  "validate_rejects_empty_pinned_list" "pinned_empty_for_discovery_servers"
  by (simp_all add: validate_rejects_empty_pinned_list_def pinned_empty_for_discovery_servers_def
      validate_def pinned_def config_options_def)

lemma fingerprint_test: "fingerprint_changes_on_each_filter_dimension"
  by (simp add: fingerprint_changes_on_each_filter_dimension_def config_options_def filter_fingerprint_def
      default_min_bandwith_def from_mbps_def or_empty_def asn_text_def show_u16_def show_nat.simps digit_char_def)

section \<open>Countries\<close>

definition alpha2_passthrough :: "country_api \<Rightarrow> bool" where
  "alpha2_passthrough K =
     (parse_country_alpha2 K ''RU'' = Some ''RU'' \<and> parse_country_alpha2 K ''ru'' = Some ''RU'')"

definition alpha3_converts :: "country_api \<Rightarrow> bool" where
  "alpha3_converts K = (parse_country_alpha2 K ''RUS'' = Some ''RU'')"

definition iso_short_name :: "country_api \<Rightarrow> bool" where
  "iso_short_name K = (parse_country_alpha2 K ''Russian Federation'' = Some ''RU'')"

definition rejects_garbage_country :: "country_api \<Rightarrow> bool" where
  "rejects_garbage_country K = (parse_country_alpha2 K ''Atlantis'' = None)"

text \<open>The entries of the ISO 3166 tables these tests look up.\<close>

definition iso_tables :: "country_api \<Rightarrow> bool" where
  "iso_tables K \<longleftrightarrow>
     alpha2_try_from K ''RU'' = Some ''RU'' \<and> alpha2_try_from K ''US'' = Some ''US''
     \<and> alpha3_try_from K ''RUS'' = Some ''RU''
     \<and> find_by_iso_short_name K ''russian federation'' = Some ''RU''
     \<and> find_by_iso_short_name K ''atlantis'' = None \<and> find_by_iso_long_name K ''atlantis'' = None"

lemma country_normal_forms:
  "trim ''RU'' = ''RU''" "trim ''ru'' = ''ru''" "trim ''US'' = ''US''" "trim ''RUS'' = ''RUS''"
  "trim ''Russian Federation'' = ''Russian Federation''" "trim ''Atlantis'' = ''Atlantis''"
  "to_ascii_uppercase ''RU'' = ''RU''" "to_ascii_uppercase ''ru'' = ''RU''" "to_ascii_uppercase ''US'' = ''US''"
  "to_ascii_uppercase ''RUS'' = ''RUS''"
  "to_ascii_lowercase ''Russian Federation'' = ''russian federation''"
  "to_ascii_lowercase ''Atlantis'' = ''atlantis''"
  "length (to_ascii_uppercase ''Russian Federation'') = 18" "length (to_ascii_uppercase ''Atlantis'') = 8"
  by code_simp+

lemma country_tests:
  assumes "iso_tables K"
  shows "alpha2_passthrough K" "alpha3_converts K" "iso_short_name K" "rejects_garbage_country K"
  using assms
  by (simp_all add: alpha2_passthrough_def alpha3_converts_def iso_short_name_def rejects_garbage_country_def
      parse_country_alpha2_def country_normal_forms Let_def iso_tables_def)

lemma yaml_tests:
  assumes "text_forms T p q" and "iso_tables K"
  shows "defaults_sticky_true_fallback_false T K" "destination_peers_yaml_list_parses_in_order T K p q"
  using assms
  by (simp_all add: defaults_sticky_true_fallback_false_def destination_peers_yaml_list_parses_in_order_def
      serde_yaml_str_def deserialize_server_def destination_peers_of_def unset_server_def
      deserialize_country_alpha2_def parse_country_alpha2_def country_normal_forms iso_tables_def
      text_forms_def entry_test_simps pinned_def default_sticky_def)

section \<open>Defaults\<close>

definition config_with_grpc :: "string \<Rightarrow> config" where
  "config_with_grpc url =
     \<lparr>cfg_servers = [], cfg_listen_addrs = None, cfg_port = None, cfg_log_level = None,
      cfg_bitping_api_key = '''', cfg_bootstrap_address = default_bootstrap, cfg_grpc_url = url,
      cfg_keypair_path = default_keypair_path, cfg_metrics_port = default_metrics_port\<rparr>"

text \<open>That the bootstrap address shows \<open>boot2.bitping.com\<close> is said of its one component.\<close>

definition hardcoded_defaults_are_valid :: bool where
  "hardcoded_defaults_are_valid =
     (list_ex (\<lambda>c. c = Dnsaddr ''boot2.bitping.com'') default_bootstrap \<and> default_listen_addrs \<noteq> []
      \<and> default_metrics_port = 9091 \<and> default_keypair_path = ''node_keypair.bin''
      \<and> default_grpc_url = ''https://grpc.bitping.com'')"

definition grpc_domain_strips_scheme_port_and_path :: bool where
  "grpc_domain_strips_scheme_port_and_path =
     (grpc_domain (config_with_grpc ''https://grpc.bitping.com'') = ''grpc.bitping.com''
      \<and> grpc_domain (config_with_grpc ''https://grpc.bitping.com:443/api'') = ''grpc.bitping.com''
      \<and> grpc_domain (config_with_grpc ''http://localhost:50051'') = ''localhost'')"

lemma default_tests: "hardcoded_defaults_are_valid" "grpc_domain_strips_scheme_port_and_path"
  by code_simp+

section \<open>Filters and requirements\<close>

definition filter_options :: "string option \<Rightarrow> u32 option \<Rightarrow> filter_policy \<Rightarrow> server_peer_options" where
  "filter_options country asn hosting =
     \<lparr>opt_destination_peers = None, opt_fallback_to_discovery = False, opt_sticky = True,
      opt_sticky_reconnect = WithBackoff, opt_country = country, opt_min_bandwidth = from_mbps 50,
      opt_city = None, opt_isp = None, opt_asn = asn,
      opt_proxy = Allow, opt_mobile = Allow, opt_hosting = hosting\<rparr>"

definition filter_policy_defaults_to_allow :: "text_api \<Rightarrow> country_api \<Rightarrow> bool" where
  "filter_policy_defaults_to_allow T K =
     (case serde_yaml_str T K unset_server of
        None \<Rightarrow> False
      | Some opts \<Rightarrow> opt_proxy opts = Allow \<and> opt_mobile opts = Allow \<and> opt_hosting opts = Allow)"

definition constraint_label_only_for_non_default :: bool where
  "constraint_label_only_for_non_default =
     (constraint_label Allow ''proxy'' = None
      \<and> constraint_label Deny ''proxy'' = Some ''no proxy''
      \<and> constraint_label Require ''mobile'' = Some ''mobile only'')"

definition filter_labels_lists_only_active_constraints :: bool where
  "filter_labels_lists_only_active_constraints =
     (filter_labels (filter_options (Some ''NL'') (Some 1136) Deny)
      = [''country: NL'', ''ASN 1136'', ''no hosting''])"

definition filter_labels_empty_when_unconstrained :: bool where
  "filter_labels_empty_when_unconstrained = (filter_labels (filter_options None None Allow) = [])"

text \<open>\<open>NodeFilters::default()\<close>\<close>

definition node_filters_default :: node_filters where
  "node_filters_default =
     \<lparr>nf_country = None, nf_city = None, nf_isp = None, nf_asn = None, nf_proxy = Allow,
      nf_mobile = Allow, nf_hosting = Allow, nf_min_bandwidth_bps = 0\<rparr>"

definition maps_string_and_asn_filters :: bool where
  "maps_string_and_asn_filters =
     (let reqs = requirements_from_filters (node_filters_default\<lparr>nf_country := Some ''NL'',
            nf_city := Some ''Tiel'', nf_isp := Some ''KPN'', nf_asn := Some 1136\<rparr>)
      in req_countries reqs = [''NL''] \<and> req_cities reqs = [''Tiel''] \<and> req_isps reqs = [''KPN'']
         \<and> req_asns reqs = [1136])"

definition empty_filters_leave_no_constraints :: bool where
  "empty_filters_leave_no_constraints =
     (let reqs = requirements_from_filters node_filters_default
      in req_countries reqs = [] \<and> req_asns reqs = [] \<and> req_proxy reqs = ProxyAllow
         \<and> req_mobile reqs = NetAllowed \<and> req_residential reqs = NetAllowed)"

definition proxy_policy_maps_to_proxy_restriction :: bool where
  "proxy_policy_maps_to_proxy_restriction =
     (map proxy_restriction_of [Allow, Deny, Require] = [ProxyAllow, ProxyDisallow, ProxyOnly])"

definition hosting_policy_inverts_residential :: bool where
  "hosting_policy_inverts_residential =
     (map residential_policy [Require, Deny, Allow] = [NetDenied, NetRequired, NetAllowed])"

definition require_hosting_denies_residential_in_requirements :: bool where
  "require_hosting_denies_residential_in_requirements =
     (req_residential (requirements_from_filters (node_filters_default\<lparr>nf_hosting := Require\<rparr>)) = NetDenied)"

lemma filter_tests:
  "filter_policy_defaults_to_allow T K" "constraint_label_only_for_non_default"
  "filter_labels_empty_when_unconstrained"
  "maps_string_and_asn_filters" "empty_filters_leave_no_constraints" "proxy_policy_maps_to_proxy_restriction"
  "hosting_policy_inverts_residential" "require_hosting_denies_residential_in_requirements"
  by (simp_all add: filter_policy_defaults_to_allow_def serde_yaml_str_def deserialize_server_def
      destination_peers_of_def deserialize_country_alpha2_def unset_server_def default_sticky_def
      constraint_label_only_for_non_default_def
      filter_labels_empty_when_unconstrained_def filter_labels_def filter_options_def opt_list_def
      maps_string_and_asn_filters_def empty_filters_leave_no_constraints_def requirements_from_filters_def
      node_filters_default_def proxy_policy_maps_to_proxy_restriction_def
      hosting_policy_inverts_residential_def require_hosting_denies_residential_in_requirements_def)

lemma filter_labels_test: "filter_labels_lists_only_active_constraints"
proof -
  have "show_nat 1136 = ''1136''" by code_simp
  then show ?thesis
    by (simp add: filter_labels_lists_only_active_constraints_def filter_labels_def filter_options_def
        opt_list_def show_u32_def)
qed

text \<open>
  The unit tests of the configuration, the filters and the hub requirements hold of the model
  for every peer they draw: a pinned entry keeps the last peer of its address and reads back from
  what it prints, an address without a peer and an empty pin list are refused, the list of pins keeps
  its order, unset options take their defaults, every filter dimension changes the fingerprint,
  countries resolve to their Alpha-2 code, the labels list exactly the active constraints, and
  requiring hosting denies residential nodes. The hypotheses are what libp2p documents of the text
  forms these tests use and the entries of the country tables they look up.
\<close>
theorem config_tests_hold:
  assumes "text_forms T p q" and "iso_tables K"
  shows "bare_peer_id_parses T p \<and> full_multiaddr_extracts_last_p2p_and_keeps_address T q p
     \<and> bare_p2p_multiaddr_pins_identity_only T p \<and> multiaddr_without_p2p_rejected T \<and> garbage_rejected T
     \<and> serialize_roundtrips_original_string_form T p
     \<and> validate_rejects_empty_pinned_list \<and> pinned_empty_for_discovery_servers
     \<and> defaults_sticky_true_fallback_false T K \<and> destination_peers_yaml_list_parses_in_order T K p q
     \<and> fingerprint_changes_on_each_filter_dimension
     \<and> alpha2_passthrough K \<and> alpha3_converts K \<and> iso_short_name K \<and> rejects_garbage_country K
     \<and> hardcoded_defaults_are_valid \<and> grpc_domain_strips_scheme_port_and_path
     \<and> filter_policy_defaults_to_allow T K \<and> constraint_label_only_for_non_default
     \<and> filter_labels_lists_only_active_constraints \<and> filter_labels_empty_when_unconstrained
     \<and> maps_string_and_asn_filters \<and> empty_filters_leave_no_constraints
     \<and> proxy_policy_maps_to_proxy_restriction \<and> hosting_policy_inverts_residential
     \<and> require_hosting_denies_residential_in_requirements"
  using assms
  by (intro conjI entry_tests options_tests fingerprint_test yaml_tests country_tests default_tests filter_tests filter_labels_test)

text \<open>Text forms of two peers and their addresses, and the entries of the tables.\<close>

definition table_text_api :: text_api where
  "table_text_api =
     (let p = PeerId 1; q = PeerId 2;
          addresses = [(''/d/q/c/p'', relayed_form q p), (''/i/p'', direct_form p), (''/i/q'', direct_form q),
                       (''/p2p/p'', [P2p p]), (''/ip4/1.2.3.4/tcp/443'', [Ip4 ''1.2.3.4'', Tcp 443])]
      in \<lparr>parse_peer = (\<lambda>s. case map_of [(''P'', p), (''Q'', q)] s of Some x \<Rightarrow> Inr x | None \<Rightarrow> Inl ''invalid''),
          parse_maddr = (\<lambda>s. case map_of addresses s of Some x \<Rightarrow> Inr x | None \<Rightarrow> Inl ''invalid''),
          show_peer = (\<lambda>x. if x = p then ''P'' else ''Q''),
          show_maddr = (\<lambda>a. case map_of (map prod.swap addresses) a of Some s \<Rightarrow> s | None \<Rightarrow> ''/'')\<rparr>)"

definition table_countries :: country_api where
  "table_countries =
     \<lparr>alpha2_try_from = (\<lambda>s. if s \<in> {''RU'', ''US''} then Some s else None),
      alpha3_try_from = (\<lambda>s. if s = ''RUS'' then Some ''RU'' else None),
      find_by_iso_short_name = (\<lambda>s. if s = ''russian federation'' then Some ''RU'' else None),
      find_by_iso_long_name = (\<lambda>s. None)\<rparr>"

lemma config_tests_hold_witness:
  "garbage_rejected table_text_api
   \<and> destination_peers_yaml_list_parses_in_order table_text_api table_countries (PeerId 1) (PeerId 2)
   \<and> iso_short_name table_countries"
proof -
  have "text_forms table_text_api (PeerId 1) (PeerId 2)" "iso_tables table_countries"
    by code_simp+
  from config_tests_hold [OF this] show ?thesis by blast
qed

end
