(* ===== verification/Events.thy ===== *)
theory Events
  imports Config
begin

text \<open>
  The observability events of \<open>crates/core/src/events.rs\<close> and the error types of the ports
  (\<open>crates/core/src/ports/network.rs\<close>, \<open>stream.rs\<close>, \<open>auth.rs\<close>) and of the connect flow
  (\<open>crates/core/src/domain/connect.rs\<close>). Error payloads that only carry formatted text of a
  third-party error are strings.
\<close>

section \<open>Events\<close>

record pool_peer =
  pp_peer_id :: peer_id
  pp_addresses :: "multiaddr list"

datatype destination_source = Pinned usize | Sticky | Discovered | Manual

record pinned_peer_status =
  ps_peer_id :: peer_id
  ps_rank :: usize
  ps_resolvable :: bool

datatype connection_events = Connecting | Connected peer_id | Disconnected peer_id

datatype session_id = SessionId nat

datatype target_addr = TargetIp socket_addr | TargetDomain string u16

datatype session_events = SessionNew session_id target_addr peer_id | SessionEnd session_id

datatype bandwidth_events = Upload session_id u64 | Download session_id u64

datatype events =
    LocalPeerId peer_id
  | Connection connection_events
  | Session session_events
  | Bandwidth bandwidth_events
  | ErrorEvent string
  | ServerPool u16 "pool_peer list"
  | PeerRoute peer_id multiaddr bool
  | ActiveDestination u16 "peer_id option" "destination_source option"
  | PinnedPeerStatuses u16 "pinned_peer_status list"
  | StickyPool u16 "pool_peer list"

section \<open>Errors\<close>

datatype directory_error = HubTimeout | Rejected string | Unsupported string | TaskFailed string

datatype dial_error = NoneConnected | DialShutdown

datatype connect_error =
    PinnedExhausted u16 usize
  | DiscoveryExhausted u16 usize
  | ConnectShutdown
  | DirectoryFailed directory_error

datatype stream_error =
    UnsupportedProtocol peer_id string
  | StreamIo peer_id string
  | OpenTimeout peer_id

fun is_terminal_for_peer :: "stream_error \<Rightarrow> bool" where
  "is_terminal_for_peer (UnsupportedProtocol _ _) = True"
| "is_terminal_for_peer _ = False"

datatype auth_error = EmptyToken | MalformedToken string | Transport string | Signing string

end
