(* ===== verification/Ports.thy ===== *)
theory Ports
  imports Events
begin

text \<open>
  The ports of \<open>crates/core/src/ports\<close>: the boundary between the pure core and its adapters.

  The network-facing ports (\<open>PeerDirectory\<close>, \<open>Dialer\<close>, \<open>Clock\<close>) are operations of an
  environment of arbitrary type \<open>'w\<close>: each takes the environment and returns its answer and
  the environment afterwards, so the model covers every sequence of answers a hub, a swarm and
  a clock can give. \<open>StickyStore\<close> is a record of operations over a store of type \<open>'s\<close>; the
  locale \<open>exit_pool_store\<close> is its contract, stated over an abstract view of the store: per
  listen port, the fingerprint and the peers, most recently used first. \<open>EventSink\<close> is the
  list of emitted events.
\<close>

section \<open>Directory, dialer and clock\<close>

record 'w ports =
  port_resolve_peers :: "peer_id list \<Rightarrow> 'w \<Rightarrow> (directory_error + route_map) \<times> 'w"
  port_find_nodes :: "server \<Rightarrow> usize \<Rightarrow> 'w \<Rightarrow> (directory_error + pool_peer list) \<times> 'w"
  port_dial_and_wait :: "multiaddr set \<Rightarrow> 'w \<Rightarrow> (dial_error + peer_id option) \<times> 'w"
  port_is_connected :: "peer_id \<Rightarrow> 'w \<Rightarrow> bool \<times> 'w"
  port_sleep :: "duration \<Rightarrow> 'w \<Rightarrow> 'w"
  port_utc_now :: "'w \<Rightarrow> int"

section \<open>The sticky store\<close>

record 's sticky_store =
  ss_pool :: "u16 \<Rightarrow> string \<Rightarrow> 's \<Rightarrow> peer_id list \<times> 's"
  ss_direct_address :: "u16 \<Rightarrow> peer_id \<Rightarrow> 's \<Rightarrow> multiaddr option"
  ss_remember :: "int \<Rightarrow> u16 \<Rightarrow> string \<Rightarrow> peer_id \<Rightarrow> usize \<Rightarrow> 's \<Rightarrow> bool \<times> 's"
  ss_note_direct_address :: "peer_id \<Rightarrow> multiaddr \<Rightarrow> 's \<Rightarrow> 's"
  ss_forget_peer :: "u16 \<Rightarrow> peer_id \<Rightarrow> 's \<Rightarrow> 's"
  ss_snapshot :: "u16 \<Rightarrow> string \<Rightarrow> 's \<Rightarrow> pool_peer list"

section \<open>The abstract exit pools\<close>

type_synonym exit_pools = "u16 \<rightharpoonup> string \<times> peer_id list"

definition pool_of :: "exit_pools \<Rightarrow> u16 \<Rightarrow> string \<Rightarrow> peer_id list" where
  "pool_of v port fp = (case v port of Some (f, ids) \<Rightarrow> if f = fp then ids else [] | None \<Rightarrow> [])"

definition pools_checked :: "exit_pools \<Rightarrow> u16 \<Rightarrow> string \<Rightarrow> exit_pools" where
  "pools_checked v port fp =
     (case v port of Some (f, ids) \<Rightarrow> if f = fp then v else v(port := None) | None \<Rightarrow> v)"

definition pools_remember :: "exit_pools \<Rightarrow> u16 \<Rightarrow> string \<Rightarrow> peer_id \<Rightarrow> usize \<Rightarrow> exit_pools" where
  "pools_remember v port fp peer mx =
     v(port \<mapsto> (fp, take (max mx 1) (peer # removeAll peer (pool_of v port fp))))"

definition pools_forget :: "exit_pools \<Rightarrow> u16 \<Rightarrow> peer_id \<Rightarrow> exit_pools" where
  "pools_forget v port peer =
     (case v port of
        None \<Rightarrow> v
      | Some (f, ids) \<Rightarrow>
          (let ids' = removeAll peer ids
           in if ids' = [] then v(port := None) else v(port \<mapsto> (f, ids'))))"

definition pools_ok :: "exit_pools \<Rightarrow> bool" where
  "pools_ok v \<longleftrightarrow> (\<forall>port f ids. v port = Some (f, ids) \<longrightarrow> distinct ids \<and> ids \<noteq> [])"

lemma pools_okD: "pools_ok v \<Longrightarrow> v port = Some (f, ids) \<Longrightarrow> distinct ids \<and> ids \<noteq> []"
  by (auto simp: pools_ok_def)

lemma pool_of_distinct: "pools_ok v \<Longrightarrow> distinct (pool_of v port fp)"
  by (auto simp: pool_of_def dest: pools_okD split: option.split)

lemma pools_ok_checked: "pools_ok v \<Longrightarrow> pools_ok (pools_checked v port fp)"
  by (auto simp: pools_ok_def pools_checked_def split: option.splits if_splits)

lemma pools_ok_remember: "pools_ok v \<Longrightarrow> pools_ok (pools_remember v port fp peer mx)"
  using distinct_take_Cons_removeAll [of "pool_of v port fp" "max mx 1" peer]
    pool_of_distinct [of v port fp]
  by (auto simp: pools_ok_def pools_remember_def)

lemma pools_ok_forget: "pools_ok v \<Longrightarrow> pools_ok (pools_forget v port peer)"
  by (auto simp: pools_ok_def pools_forget_def Let_def distinct_removeAll
      split: option.splits if_splits)

lemma pool_of_checked [view_simps]:
  "pool_of (pools_checked v port fp) port fp = pool_of v port fp"
  by (auto simp: pool_of_def pools_checked_def split: option.splits)

lemma pool_of_remember [view_simps]:
  "pool_of (pools_remember v port fp peer mx) port fp
     = take (max mx 1) (peer # removeAll peer (pool_of v port fp))"
  by (simp add: pool_of_def pools_remember_def)

lemma pool_of_forget [view_simps]:
  "pool_of (pools_forget v port peer) port fp = removeAll peer (pool_of v port fp)"
  by (auto simp: pool_of_def pools_forget_def Let_def split: option.splits)

lemma pools_frame [frame_simps]:
  assumes "q \<noteq> port"
  shows "pools_checked v port fp q = v q" "pools_remember v port fp peer mx q = v q"
    "pools_forget v port peer q = v q"
  using assms
  by (auto simp: pools_checked_def pools_remember_def pools_forget_def Let_def split: option.splits)

section \<open>The contract of a sticky store\<close>

locale exit_pool_store =
  fixes S :: "'s sticky_store"
    and view :: "'s \<Rightarrow> exit_pools"
    and invar :: "'s \<Rightarrow> bool"
  assumes invar_ok: "invar s \<Longrightarrow> pools_ok (view s)"
    and pool_result: "fst (ss_pool S port fp s) = pool_of (view s) port fp"
    and pool_view: "view (snd (ss_pool S port fp s)) = pools_checked (view s) port fp"
    and pool_invar: "invar s \<Longrightarrow> invar (snd (ss_pool S port fp s))"
    and remember_result:
      "fst (ss_remember S now port fp peer mx s)
         = (\<not> (\<exists>rest. pool_of (view s) port fp = peer # rest))"
    and remember_view:
      "invar s \<Longrightarrow> view (snd (ss_remember S now port fp peer mx s))
         = pools_remember (view s) port fp peer mx"
    and remember_invar: "invar s \<Longrightarrow> invar (snd (ss_remember S now port fp peer mx s))"
    and note_view: "view (ss_note_direct_address S peer a s) = view s"
    and note_invar: "invar s \<Longrightarrow> invar (ss_note_direct_address S peer a s)"
    and forget_view: "view (ss_forget_peer S port peer s) = pools_forget (view s) port peer"
    and forget_invar: "invar s \<Longrightarrow> invar (ss_forget_peer S port peer s)"
    and snapshot_result: "map pp_peer_id (ss_snapshot S port fp s) = pool_of (view s) port fp"
begin

lemmas store_views = pool_result pool_view remember_view note_view forget_view snapshot_result
lemmas store_invars = pool_invar remember_invar note_invar forget_invar

text \<open>A remembered peer is at the front of the pool, which never exceeds its cap.\<close>

lemma remember_front:
  assumes "invar s"
  shows "\<exists>rest. pool_of (view (snd (ss_remember S now port fp peer mx s))) port fp = peer # rest
    \<and> length (peer # rest) \<le> max mx 1"
  using assms by (cases "max mx 1") (auto simp: remember_view view_simps)

text \<open>Asking for a pool under new filters empties it for good: the old filters lose it too.\<close>

lemma invalidation_is_permanent:
  assumes "pool_of (view s) port fp' = []"
  shows "fst (ss_pool S port fp (snd (ss_pool S port fp' s))) = []"
  using assms
  by (auto simp: pool_result pool_view pool_of_def pools_checked_def split: option.splits if_splits)

lemma forget_excludes:
  "peer \<notin> set (fst (ss_pool S port fp (ss_forget_peer S port peer s)))"
  by (simp add: pool_result forget_view view_simps)

lemma remember_then_same_front:
  assumes "invar s"
  shows "fst (ss_remember S now' port fp peer mx (snd (ss_remember S now port fp peer mx s))) = False"
  using remember_front [OF assms, of now port fp peer mx] by (auto simp: remember_result)

end

end
