(* ===== verification/Sticky_State.thy ===== *)
theory Sticky_State
  imports Ports
begin

text \<open>
  The in-memory exit affinity of \<open>crates/core/src/domain/sticky.rs\<close>: per listen port a
  fingerprint and a pool of proven-good exits, most recently used first, and the six operations
  of the \<open>StickyStore\<close> port on it. \<open>Utc::now()\<close> is the \<open>now\<close> argument of \<open>remember\<close>. The pools
  are looked up by port only (the one loop over all of them treats each alike), so the
  \<open>HashMap\<close> is a partial function.

  The interpretation \<open>sticky\<close> discharges the contract of \<open>Ports\<close> for this model.
\<close>

section \<open>State\<close>

record sticky_peer =
  sp_peer_id :: peer_id
  sp_address :: "multiaddr option"
  sp_updated_at :: int

record sticky_pool =
  pool_fingerprint :: string
  pool_peers :: "sticky_peer list"

record sticky_state =
  st_pools :: "u16 \<rightharpoonup> sticky_pool"

definition default_sticky :: sticky_state where
  "default_sticky = \<lparr>st_pools = Map.empty\<rparr>"

section \<open>Operations\<close>

definition sticky_pool_of :: "u16 \<Rightarrow> string \<Rightarrow> sticky_state \<Rightarrow> peer_id list \<times> sticky_state" where
  "sticky_pool_of port fingerprint st =
     (case st_pools st port of
        None \<Rightarrow> ([], st)
      | Some pool \<Rightarrow>
          if pool_fingerprint pool = fingerprint then (map sp_peer_id (pool_peers pool), st)
          else ([], st\<lparr>st_pools := (st_pools st)(port := None)\<rparr>))"

definition sticky_direct_address :: "u16 \<Rightarrow> peer_id \<Rightarrow> sticky_state \<Rightarrow> multiaddr option" where
  "sticky_direct_address port peer st =
     (case st_pools st port of
        None \<Rightarrow> None
      | Some pool \<Rightarrow>
          (case find (\<lambda>p. sp_peer_id p = peer) (pool_peers pool) of
             None \<Rightarrow> None
           | Some p \<Rightarrow> sp_address p))"

text \<open>\<open>position\<close> then \<open>remove\<close>: the entry of the peer and the list without it.\<close>

definition take_entry :: "int \<Rightarrow> peer_id \<Rightarrow> sticky_peer list \<Rightarrow> sticky_peer \<times> sticky_peer list" where
  "take_entry now peer peers =
     (case List.extract (\<lambda>p. sp_peer_id p = peer) peers of
        Some (before, entry, after) \<Rightarrow> (entry, before @ after)
      | None \<Rightarrow> (\<lparr>sp_peer_id = peer, sp_address = None, sp_updated_at = now\<rparr>, peers))"

definition sticky_remember ::
    "int \<Rightarrow> u16 \<Rightarrow> string \<Rightarrow> peer_id \<Rightarrow> usize \<Rightarrow> sticky_state \<Rightarrow> bool \<times> sticky_state" where
  "sticky_remember now port fingerprint peer mx st =
     (let mx' = max mx 1;
          pool = (case st_pools st port of
                    Some p \<Rightarrow> p
                  | None \<Rightarrow> \<lparr>pool_fingerprint = fingerprint, pool_peers = []\<rparr>);
          pool = (if pool_fingerprint pool \<noteq> fingerprint
                  then pool\<lparr>pool_fingerprint := fingerprint, pool_peers := []\<rparr> else pool);
          was_front = (case pool_peers pool of p # _ \<Rightarrow> sp_peer_id p = peer | [] \<Rightarrow> False);
          (entry, others) = take_entry now peer (pool_peers pool);
          entry = entry\<lparr>sp_updated_at := now\<rparr>;
          pool = pool\<lparr>pool_peers := take mx' (entry # others)\<rparr>
      in (\<not> was_front, st\<lparr>st_pools := (st_pools st)(port \<mapsto> pool)\<rparr>))"

fun note_entry :: "peer_id \<Rightarrow> multiaddr \<Rightarrow> sticky_peer list \<Rightarrow> sticky_peer list" where
  "note_entry peer address [] = []"
| "note_entry peer address (e # es) =
     (if sp_peer_id e = peer
      then (if sp_address e \<noteq> Some address then e\<lparr>sp_address := Some address\<rparr> else e) # es
      else e # note_entry peer address es)"

definition sticky_note_direct_address :: "peer_id \<Rightarrow> multiaddr \<Rightarrow> sticky_state \<Rightarrow> sticky_state" where
  "sticky_note_direct_address peer address st =
     st\<lparr>st_pools := (\<lambda>port. map_option
          (\<lambda>pool. pool\<lparr>pool_peers := note_entry peer address (pool_peers pool)\<rparr>) (st_pools st port))\<rparr>"

definition sticky_forget_peer :: "u16 \<Rightarrow> peer_id \<Rightarrow> sticky_state \<Rightarrow> sticky_state" where
  "sticky_forget_peer port peer st =
     (case st_pools st port of
        None \<Rightarrow> st
      | Some pool \<Rightarrow>
          (let pool' = pool\<lparr>pool_peers := filter (\<lambda>p. sp_peer_id p \<noteq> peer) (pool_peers pool)\<rparr>
           in if pool_peers pool' = [] then st\<lparr>st_pools := (st_pools st)(port := None)\<rparr>
              else st\<lparr>st_pools := (st_pools st)(port \<mapsto> pool')\<rparr>))"

definition sticky_snapshot :: "u16 \<Rightarrow> string \<Rightarrow> sticky_state \<Rightarrow> pool_peer list" where
  "sticky_snapshot port fingerprint st =
     (case st_pools st port of
        None \<Rightarrow> []
      | Some pool \<Rightarrow>
          if pool_fingerprint pool = fingerprint
          then map (\<lambda>p. \<lparr>pp_peer_id = sp_peer_id p, pp_addresses = opt_list (sp_address p)\<rparr>)
                 (pool_peers pool)
          else [])"

definition state_store :: "sticky_state sticky_store" where
  "state_store =
     \<lparr>ss_pool = sticky_pool_of, ss_direct_address = sticky_direct_address,
      ss_remember = sticky_remember, ss_note_direct_address = sticky_note_direct_address,
      ss_forget_peer = sticky_forget_peer, ss_snapshot = sticky_snapshot\<rparr>"

section \<open>Abstract view and invariant\<close>

definition sticky_view :: "sticky_state \<Rightarrow> exit_pools" where
  "sticky_view st port =
     map_option (\<lambda>pool. (pool_fingerprint pool, map sp_peer_id (pool_peers pool))) (st_pools st port)"

definition sticky_wf :: "sticky_state \<Rightarrow> bool" where
  "sticky_wf st \<longleftrightarrow>
     (\<forall>port pool. st_pools st port = Some pool \<longrightarrow>
        distinct (map sp_peer_id (pool_peers pool)) \<and> pool_peers pool \<noteq> [])"

lemma state_store_simps [simp]:
  "ss_pool state_store = sticky_pool_of" "ss_direct_address state_store = sticky_direct_address"
  "ss_remember state_store = sticky_remember"
  "ss_note_direct_address state_store = sticky_note_direct_address"
  "ss_forget_peer state_store = sticky_forget_peer" "ss_snapshot state_store = sticky_snapshot"
  by (simp_all add: state_store_def)

lemma sticky_wf_iff: "sticky_wf st \<longleftrightarrow> pools_ok (sticky_view st)"
  by (auto simp: sticky_wf_def pools_ok_def sticky_view_def)

lemma sticky_wf_default: "sticky_wf default_sticky"
  by (simp add: sticky_wf_def default_sticky_def)

lemma sticky_pool_result: "fst (sticky_pool_of port fp st) = pool_of (sticky_view st) port fp"
  by (auto simp: sticky_pool_of_def pool_of_def sticky_view_def split: option.split)

lemma sticky_pool_view: "sticky_view (snd (sticky_pool_of port fp st)) = pools_checked (sticky_view st) port fp"
  by (rule ext) (auto simp: sticky_pool_of_def pools_checked_def sticky_view_def split: option.split)

lemma note_entry_ids [simp]: "map sp_peer_id (note_entry peer a es) = map sp_peer_id es"
  by (induction es) auto

lemma sticky_note_view: "sticky_view (sticky_note_direct_address peer a st) = sticky_view st"
  by (rule ext) (simp add: sticky_view_def sticky_note_direct_address_def option.map_comp o_def)

lemma sticky_forget_view:
  "sticky_view (sticky_forget_peer port peer st) = pools_forget (sticky_view st) port peer"
  by (rule ext)
    (auto simp: sticky_view_def sticky_forget_peer_def pools_forget_def Let_def removeAll_map_filter
      split: option.split)

lemma sticky_snapshot_result: "map pp_peer_id (sticky_snapshot port fp st) = pool_of (sticky_view st) port fp"
  by (auto simp: sticky_snapshot_def pool_of_def sticky_view_def o_def split: option.split)

text \<open>The pool \<open>remember\<close> starts from: the stored one, or an empty one under the new filters.\<close>

definition base_peers :: "sticky_state \<Rightarrow> u16 \<Rightarrow> string \<Rightarrow> sticky_peer list" where
  "base_peers st port fp =
     (case st_pools st port of
        Some p \<Rightarrow> if pool_fingerprint p = fp then pool_peers p else []
      | None \<Rightarrow> [])"

lemma sticky_pool_updates:
  "(p::sticky_pool)\<lparr>pool_fingerprint := f, pool_peers := l\<rparr> = \<lparr>pool_fingerprint = f, pool_peers = l\<rparr>"
  "(p::sticky_pool)\<lparr>pool_peers := l\<rparr> = \<lparr>pool_fingerprint = pool_fingerprint p, pool_peers = l\<rparr>"
  by (cases p, simp)+

lemma sticky_remember_eq:
  "sticky_remember now port fp peer mx st =
     (let (entry, others) = take_entry now peer (base_peers st port fp)
      in (\<not> (case base_peers st port fp of p # _ \<Rightarrow> sp_peer_id p = peer | [] \<Rightarrow> False),
          st\<lparr>st_pools := (st_pools st)(port \<mapsto> \<lparr>pool_fingerprint = fp,
              pool_peers = take (max mx 1) (entry\<lparr>sp_updated_at := now\<rparr> # others)\<rparr>)\<rparr>))"
  by (auto simp: sticky_remember_def base_peers_def Let_def sticky_pool_updates
      split: option.split prod.split)

lemma base_peers_ids: "map sp_peer_id (base_peers st port fp) = pool_of (sticky_view st) port fp"
  by (auto simp: base_peers_def pool_of_def sticky_view_def split: option.split)

lemma take_entry_ids:
  assumes "distinct (map sp_peer_id peers)" and "take_entry now peer peers = (entry, others)"
  shows "sp_peer_id entry = peer \<and> map sp_peer_id others = removeAll peer (map sp_peer_id peers)"
proof (cases "List.extract (\<lambda>p. sp_peer_id p = peer) peers")
  case None
  then have "\<forall>p \<in> set peers. sp_peer_id p \<noteq> peer"
    by (simp add: extract_None_iff)
  then have "peer \<notin> set (map sp_peer_id peers)" by auto
  then have "removeAll peer (map sp_peer_id peers) = map sp_peer_id peers"
    by (rule removeAll_id)
  with None assms(2) show ?thesis by (auto simp: take_entry_def)
next
  case (Some x)
  then obtain before after where x: "List.extract (\<lambda>p. sp_peer_id p = peer) peers = Some (before, entry, after)"
    and others: "others = before @ after"
    using assms(2) by (auto simp: take_entry_def split: prod.splits)
  have "sp_peer_id entry = peer \<and> filter (\<lambda>p. sp_peer_id p \<noteq> peer) peers = before @ after"
    using x assms(1) by (rule extract_Some_distinct_map)
  then show ?thesis unfolding others removeAll_map_filter by simp
qed

lemma sticky_remember_view:
  assumes "sticky_wf st"
  shows "sticky_view (snd (sticky_remember now port fp peer mx st))
    = pools_remember (sticky_view st) port fp peer mx"
proof -
  obtain entry others where te: "take_entry now peer (base_peers st port fp) = (entry, others)"
    by fastforce
  have "distinct (map sp_peer_id (base_peers st port fp))"
    using assms by (simp add: base_peers_ids pool_of_distinct sticky_wf_iff)
  then have ids: "sp_peer_id entry = peer"
    "map sp_peer_id others = removeAll peer (pool_of (sticky_view st) port fp)"
    using take_entry_ids [OF _ te] by (simp_all add: base_peers_ids)
  define P where "P = \<lparr>pool_fingerprint = fp,
    pool_peers = take (max mx 1) (entry\<lparr>sp_updated_at := now\<rparr> # others)\<rparr>"
  have st': "snd (sticky_remember now port fp peer mx st) = st\<lparr>st_pools := (st_pools st)(port \<mapsto> P)\<rparr>"
    by (simp add: sticky_remember_eq te P_def)
  have "map sp_peer_id (pool_peers P)
    = take (max mx 1) (peer # removeAll peer (pool_of (sticky_view st) port fp))"
    by (simp add: P_def take_map [symmetric] ids)
  then show ?thesis
    unfolding st' by (intro ext) (simp add: sticky_view_def pools_remember_def P_def)
qed

lemma sticky_remember_result:
  "fst (sticky_remember now port fp peer mx st)
     = (\<not> (\<exists>rest. pool_of (sticky_view st) port fp = peer # rest))"
proof -
  have "(case base_peers st port fp of p # _ \<Rightarrow> sp_peer_id p = peer | [] \<Rightarrow> False)
    = (\<exists>rest. map sp_peer_id (base_peers st port fp) = peer # rest)"
    by (cases "base_peers st port fp") auto
  then show ?thesis
    by (simp add: sticky_remember_eq base_peers_ids split: prod.split)
qed

section \<open>The contract\<close>

interpretation sticky: exit_pool_store state_store sticky_view sticky_wf
  by unfold_locales
    (simp_all add: sticky_wf_iff sticky_pool_result sticky_pool_view sticky_remember_result
      sticky_remember_view sticky_note_view sticky_forget_view sticky_snapshot_result
      pools_ok_checked pools_ok_remember pools_ok_forget)

end
