(* ===== verification/Sticky_Props.thy ===== *)
theory Sticky_Props
  imports Sticky_State
begin

text \<open>
  Properties of the in-memory exit affinity: it implements the abstract most-recently-used
  pools of \<open>Ports\<close>, every reachable state is well formed, and the observed direct addresses
  behave as the port documents.
\<close>

section \<open>Reachable states\<close>

datatype sticky_op =
    OpPool u16 string
  | OpRemember int u16 string peer_id usize
  | OpNote peer_id multiaddr
  | OpForget u16 peer_id

fun run_sticky_op :: "sticky_op \<Rightarrow> sticky_state \<Rightarrow> sticky_state" where
  "run_sticky_op (OpPool port fp) st = snd (sticky_pool_of port fp st)"
| "run_sticky_op (OpRemember now port fp peer mx) st = snd (sticky_remember now port fp peer mx st)"
| "run_sticky_op (OpNote peer a) st = sticky_note_direct_address peer a st"
| "run_sticky_op (OpForget port peer) st = sticky_forget_peer port peer st"

lemma run_sticky_op_wf: "sticky_wf st \<Longrightarrow> sticky_wf (run_sticky_op q st)"
  using sticky.store_invars by (cases q) simp_all

lemma fold_sticky_wf: "sticky_wf st \<Longrightarrow> sticky_wf (fold run_sticky_op ops st)"
  by (induction ops arbitrary: st) (simp_all add: run_sticky_op_wf)

text \<open>
  From the empty store, whatever operations are run in whatever order, no pool ever holds
  a peer twice and no pool is ever left empty.
\<close>
theorem sticky_reachable_wf: "sticky_wf (fold run_sticky_op ops default_sticky)"
  by (rule fold_sticky_wf) (rule sticky_wf_default)

text \<open>
  C8. The store implements the abstract most-recently-used pools: \<open>remember\<close> puts the peer in
  front of its port's pool, once, cut at the cap, starting over when the filters changed;
  \<open>pool\<close> drops a pool remembered under other filters; \<open>forget_peer\<close> drops one peer, and the
  pool with its last peer; \<open>note_direct_address\<close> never changes who is in a pool. Every other
  port is untouched.
\<close>
theorem sticky_refines_mru_pools:
  assumes "sticky_wf st"
  shows "sticky_view (snd (sticky_remember now port fp peer mx st))
      = pools_remember (sticky_view st) port fp peer mx
    \<and> sticky_pool_of port fp st
      = (pool_of (sticky_view st) port fp, snd (sticky_pool_of port fp st))
    \<and> sticky_view (snd (sticky_pool_of port fp st)) = pools_checked (sticky_view st) port fp
    \<and> sticky_view (sticky_forget_peer port peer st) = pools_forget (sticky_view st) port peer
    \<and> sticky_view (sticky_note_direct_address peer a st) = sticky_view st"
  using assms sticky.store_views by (simp add: prod_eq_iff)

definition sample_sticky :: sticky_state where
  "sample_sticky = fold run_sticky_op
     [OpRemember 1 1080 ''fp'' (PeerId 1) 3, OpRemember 2 1080 ''fp'' (PeerId 2) 3] default_sticky"

theorem sticky_refines_mru_pools_witness:
  "sticky_view (snd (sticky_remember 3 1080 ''fp'' (PeerId 1) 3 sample_sticky))
     = pools_remember (sticky_view sample_sticky) 1080 ''fp'' (PeerId 1) 3
   \<and> pool_of (sticky_view sample_sticky) 1080 ''fp'' = [PeerId 2, PeerId 1]"
proof (rule conjI)
  have "sticky_wf sample_sticky" unfolding sample_sticky_def by (rule fold_sticky_wf) (rule sticky_wf_default)
  then show "sticky_view (snd (sticky_remember 3 1080 ''fp'' (PeerId 1) 3 sample_sticky))
     = pools_remember (sticky_view sample_sticky) 1080 ''fp'' (PeerId 1) 3"
    using sticky_refines_mru_pools by blast
  show "pool_of (sticky_view sample_sticky) 1080 ''fp'' = [PeerId 2, PeerId 1]"
    by code_simp
qed

text \<open>
  A remembered peer is immediately at the front of its pool, which holds at most
  \<open>max(1, max)\<close> peers; remembering it again reports no change of the front peer.
\<close>
theorem remember_bounded_front:
  assumes "sticky_wf st"
  shows "\<exists>rest. fst (sticky_pool_of port fp (snd (sticky_remember now port fp peer mx st))) = peer # rest
      \<and> length (peer # rest) \<le> max mx 1
      \<and> fst (sticky_remember now' port fp peer mx (snd (sticky_remember now port fp peer mx st))) = False"
  using sticky.remember_front [OF assms, of now port fp peer mx]
    sticky.remember_then_same_front [OF assms, of now' port fp peer mx now]
  by (auto simp: sticky_pool_result)

theorem remember_bounded_front_witness:
  "\<exists>rest. fst (sticky_pool_of 1080 ''fp'' (snd (sticky_remember 9 1080 ''fp'' (PeerId 7) 0 default_sticky)))
       = PeerId 7 # rest
     \<and> length (PeerId 7 # rest) \<le> max 0 1
     \<and> fst (sticky_remember 10 1080 ''fp'' (PeerId 7) 0
          (snd (sticky_remember 9 1080 ''fp'' (PeerId 7) 0 default_sticky))) = False"
  by (rule remember_bounded_front [OF sticky_wf_default])

text \<open>
  Invalidation is permanent: once a port's pool was asked for under filters it does not
  hold, the filters it was remembered under find nothing either, so an exit that no longer
  matches is never reused.
\<close>
theorem filter_change_invalidates:
  assumes "fst (sticky_pool_of port fp' st) = []"
  shows "fst (sticky_pool_of port fp (snd (sticky_pool_of port fp' st))) = []"
  using assms sticky.invalidation_is_permanent [of st port fp' fp] by (simp add: sticky_pool_result)

theorem filter_change_invalidates_witness:
  "fst (sticky_pool_of 1080 ''fp'' (snd (sticky_pool_of 1080 ''other'' sample_sticky))) = []"
  by (rule filter_change_invalidates) code_simp

section \<open>Direct addresses\<close>

lemma find_note_entry:
  "find (\<lambda>p. sp_peer_id p = q) (note_entry peer a es)
     = map_option (\<lambda>p. if q = peer then p\<lparr>sp_address := Some a\<rparr> else p)
         (find (\<lambda>p. sp_peer_id p = q) es)"
  by (induction es) (auto simp: option.map_ident)

lemma member_ids_iff_find:
  "q \<in> sp_peer_id ` set es \<longleftrightarrow> find (\<lambda>p. sp_peer_id p = q) es \<noteq> None"
  by (auto simp: find_None_iff)

text \<open>
  An observed direct address is recorded exactly for the pools the peer already belongs
  to: there a later lookup returns it, elsewhere nothing is added, and no other peer's address
  changes.
\<close>
theorem note_direct_address_spec:
  "sticky_direct_address port q (sticky_note_direct_address peer a st)
     = (if q = peer \<and> (\<exists>f ids. sticky_view st port = Some (f, ids) \<and> peer \<in> set ids) then Some a
        else sticky_direct_address port q st)"
  by (cases "st_pools st port")
    (auto simp: sticky_direct_address_def sticky_note_direct_address_def sticky_view_def
      find_note_entry member_ids_iff_find split: option.split)

end
