(* ===== verification/File_Sticky.thy ===== *)
theory File_Sticky
  imports Sticky_State
begin

text \<open>
  The file-backed store of \<open>crates/p2proxy/src/adapters/file_sticky.rs\<close>: the pure pools of
  \<open>Sticky_State\<close> with versioned JSON persistence. Every mutating operation saves; a save
  writes a temporary file and renames it over the store.

  The JSON codec (serde) is a parameter. The file system is explicit: a map from paths to
  contents and a script of outcomes, one per write or rename (success once the script is
  used up), so a failing or half-done write is a value of the model.
\<close>

section \<open>File system\<close>

datatype file_path = FilePath string string

fun with_extension :: "file_path \<Rightarrow> string \<Rightarrow> file_path" where
  "with_extension (FilePath stem _) ext = FilePath stem ext"

datatype io_outcome = IoOk | IoFail "string option"

record disk =
  disk_files :: "file_path \<rightharpoonup> string"
  disk_script :: "io_outcome list"
  disk_unreadable :: "file_path set"

definition next_outcome :: "disk \<Rightarrow> io_outcome \<times> disk" where
  "next_outcome d =
     (case disk_script d of [] \<Rightarrow> (IoOk, d) | x # xs \<Rightarrow> (x, d\<lparr>disk_script := xs\<rparr>))"

definition fs_write :: "file_path \<Rightarrow> string \<Rightarrow> disk \<Rightarrow> (unit + unit) \<times> disk" where
  "fs_write p content d =
     (case next_outcome d of
        (IoOk, d') \<Rightarrow> (Inr (), d'\<lparr>disk_files := (disk_files d')(p \<mapsto> content)\<rparr>)
      | (IoFail left, d') \<Rightarrow> (Inl (), d'\<lparr>disk_files := (disk_files d')(p := left)\<rparr>))"

definition fs_rename :: "file_path \<Rightarrow> file_path \<Rightarrow> disk \<Rightarrow> (unit + unit) \<times> disk" where
  "fs_rename src dst d =
     (case next_outcome d of
        (IoOk, d') \<Rightarrow>
          (Inr (), d'\<lparr>disk_files := (disk_files d')(dst := disk_files d' src, src := None)\<rparr>)
      | (IoFail _, d') \<Rightarrow> (Inl (), d'))"

datatype read_result = NotFound | ReadError | ReadOk string

definition fs_read :: "file_path \<Rightarrow> disk \<Rightarrow> read_result" where
  "fs_read p d =
     (case disk_files d p of
        None \<Rightarrow> NotFound
      | Some raw \<Rightarrow> if p \<in> disk_unreadable d then ReadError else ReadOk raw)"

section \<open>The store\<close>

definition STORE_VERSION :: nat where
  "STORE_VERSION = 2"

record sticky_file =
  file_version :: nat
  file_servers :: "u16 \<rightharpoonup> sticky_pool"

record sticky_entry_v1 =
  v1_peer_id :: peer_id
  v1_fingerprint :: string
  v1_updated_at :: int

text \<open>serde: writing a store, probing the version, and reading the two file shapes.\<close>

record json_codec =
  to_json :: "sticky_file \<Rightarrow> string option"
  probe_version :: "string \<Rightarrow> nat option"
  read_v2 :: "string \<Rightarrow> sticky_file option"
  read_v1 :: "string \<Rightarrow> (u16 \<rightharpoonup> sticky_entry_v1) option"

record file_sticky =
  fst_path :: file_path
  fst_state :: sticky_state
  fst_disk :: disk

datatype sticky_store_error = Serialize | Persist file_path

definition migrate_v1 :: "(u16 \<rightharpoonup> sticky_entry_v1) \<Rightarrow> (u16 \<rightharpoonup> sticky_pool)" where
  "migrate_v1 servers = (\<lambda>port. map_option
     (\<lambda>entry. \<lparr>pool_fingerprint = v1_fingerprint entry,
               pool_peers = [\<lparr>sp_peer_id = v1_peer_id entry, sp_address = None,
                              sp_updated_at = v1_updated_at entry\<rparr>]\<rparr>) (servers port))"

definition parse_store :: "json_codec \<Rightarrow> string \<Rightarrow> (u16 \<rightharpoonup> sticky_pool)" where
  "parse_store J raw =
     (let version = (case probe_version J raw of Some v \<Rightarrow> v | None \<Rightarrow> 0)
      in if version = STORE_VERSION then
           (case read_v2 J raw of Some f \<Rightarrow> file_servers f | None \<Rightarrow> Map.empty)
         else if version = 1 then
           (case read_v1 J raw of Some s \<Rightarrow> migrate_v1 s | None \<Rightarrow> Map.empty)
         else Map.empty)"

definition load :: "json_codec \<Rightarrow> file_path \<Rightarrow> disk \<Rightarrow> file_sticky" where
  "load J path d =
     (let pools = (case fs_read path d of
                     NotFound \<Rightarrow> Map.empty
                   | ReadError \<Rightarrow> Map.empty
                   | ReadOk raw \<Rightarrow> parse_store J raw)
      in \<lparr>fst_path = path, fst_state = \<lparr>st_pools = pools\<rparr>, fst_disk = d\<rparr>)"

definition save :: "json_codec \<Rightarrow> file_sticky \<Rightarrow> (sticky_store_error + unit) \<times> file_sticky" where
  "save J fs =
     (let file = \<lparr>file_version = STORE_VERSION, file_servers = st_pools (fst_state fs)\<rparr>
      in case to_json J file of
           None \<Rightarrow> (Inl Serialize, fs)
         | Some json \<Rightarrow>
             (let tmp = with_extension (fst_path fs) ''json.tmp''
              in case fs_write tmp json (fst_disk fs) of
                   (Inl (), d) \<Rightarrow> (Inl (Persist (fst_path fs)), fs\<lparr>fst_disk := d\<rparr>)
                 | (Inr (), d) \<Rightarrow>
                     (case fs_rename tmp (fst_path fs) d of
                        (Inl (), d') \<Rightarrow> (Inl (Persist (fst_path fs)), fs\<lparr>fst_disk := d'\<rparr>)
                      | (Inr (), d') \<Rightarrow> (Inr (), fs\<lparr>fst_disk := d'\<rparr>))))"

definition save_best_effort :: "json_codec \<Rightarrow> file_sticky \<Rightarrow> file_sticky" where
  "save_best_effort J fs = snd (save J fs)"

section \<open>The port on it\<close>

definition file_pool :: "json_codec \<Rightarrow> u16 \<Rightarrow> string \<Rightarrow> file_sticky \<Rightarrow> peer_id list \<times> file_sticky" where
  "file_pool J port fp fs =
     (let (pool, st) = sticky_pool_of port fp (fst_state fs)
      in (pool, save_best_effort J (fs\<lparr>fst_state := st\<rparr>)))"

definition file_direct_address :: "u16 \<Rightarrow> peer_id \<Rightarrow> file_sticky \<Rightarrow> multiaddr option" where
  "file_direct_address port peer fs = sticky_direct_address port peer (fst_state fs)"

definition file_remember ::
    "json_codec \<Rightarrow> int \<Rightarrow> u16 \<Rightarrow> string \<Rightarrow> peer_id \<Rightarrow> usize \<Rightarrow> file_sticky \<Rightarrow> bool \<times> file_sticky" where
  "file_remember J now port fp peer mx fs =
     (let (changed, st) = sticky_remember now port fp peer mx (fst_state fs)
      in (changed, save_best_effort J (fs\<lparr>fst_state := st\<rparr>)))"

definition file_note_direct_address :: "json_codec \<Rightarrow> peer_id \<Rightarrow> multiaddr \<Rightarrow> file_sticky \<Rightarrow> file_sticky" where
  "file_note_direct_address J peer a fs =
     save_best_effort J (fs\<lparr>fst_state := sticky_note_direct_address peer a (fst_state fs)\<rparr>)"

definition file_forget_peer :: "json_codec \<Rightarrow> u16 \<Rightarrow> peer_id \<Rightarrow> file_sticky \<Rightarrow> file_sticky" where
  "file_forget_peer J port peer fs =
     save_best_effort J (fs\<lparr>fst_state := sticky_forget_peer port peer (fst_state fs)\<rparr>)"

definition file_snapshot :: "u16 \<Rightarrow> string \<Rightarrow> file_sticky \<Rightarrow> pool_peer list" where
  "file_snapshot port fp fs = sticky_snapshot port fp (fst_state fs)"

definition file_store :: "json_codec \<Rightarrow> file_sticky sticky_store" where
  "file_store J =
     \<lparr>ss_pool = file_pool J, ss_direct_address = file_direct_address,
      ss_remember = file_remember J, ss_note_direct_address = file_note_direct_address J,
      ss_forget_peer = file_forget_peer J, ss_snapshot = file_snapshot\<rparr>"

section \<open>Saving never touches the pools\<close>

lemma save_frame [frame_simps]:
  "fst_state (snd (save J fs)) = fst_state fs" "fst_path (snd (save J fs)) = fst_path fs"
  by (auto simp: save_def Let_def split: option.split prod.split sum.split unit.split)

lemma save_best_effort_frame [simp]:
  "fst_state (save_best_effort J fs) = fst_state fs" "fst_path (save_best_effort J fs) = fst_path fs"
  by (simp_all add: save_best_effort_def frame_simps)

definition file_view :: "file_sticky \<Rightarrow> exit_pools" where
  "file_view fs = sticky_view (fst_state fs)"

definition file_wf :: "file_sticky \<Rightarrow> bool" where
  "file_wf fs \<longleftrightarrow> sticky_wf (fst_state fs)"

lemma file_store_simps [simp]:
  "ss_pool (file_store J) = file_pool J" "ss_direct_address (file_store J) = file_direct_address"
  "ss_remember (file_store J) = file_remember J"
  "ss_note_direct_address (file_store J) = file_note_direct_address J"
  "ss_forget_peer (file_store J) = file_forget_peer J" "ss_snapshot (file_store J) = file_snapshot"
  by (simp_all add: file_store_def)

lemma file_ops_state [simp]:
  "fst (file_pool J port fp fs) = fst (sticky_pool_of port fp (fst_state fs))"
  "fst_state (snd (file_pool J port fp fs)) = snd (sticky_pool_of port fp (fst_state fs))"
  "fst (file_remember J now port fp peer mx fs) = fst (sticky_remember now port fp peer mx (fst_state fs))"
  "fst_state (snd (file_remember J now port fp peer mx fs))
     = snd (sticky_remember now port fp peer mx (fst_state fs))"
  "fst_state (file_note_direct_address J peer a fs) = sticky_note_direct_address peer a (fst_state fs)"
  "fst_state (file_forget_peer J port peer fs) = sticky_forget_peer port peer (fst_state fs)"
  by (simp_all add: file_pool_def file_remember_def file_note_direct_address_def
      file_forget_peer_def split: prod.split)

text \<open>The file-backed store meets the same contract, whatever the codec and the disk do.\<close>

interpretation file_sticky: exit_pool_store "file_store J" file_view file_wf
  for J :: json_codec
  by unfold_locales
    (simp_all add: file_view_def file_wf_def file_snapshot_def sticky_wf_iff sticky_pool_result
      sticky_pool_view sticky_remember_result sticky_remember_view sticky_note_view
      sticky_forget_view sticky_snapshot_result pools_ok_checked pools_ok_remember pools_ok_forget)

end
