(* ===== verification/File_Props.thy ===== *)
theory File_Props
  imports File_Sticky
begin

text \<open>
  Properties of the file-backed store: a save replaces the file atomically or leaves it
  alone, a saved store loads back, and every file shape loads to a defined state.
\<close>

section \<open>Atomic replacement\<close>

definition stored_file :: "file_sticky \<Rightarrow> sticky_file" where
  "stored_file fs = \<lparr>file_version = STORE_VERSION, file_servers = st_pools (fst_state fs)\<rparr>"

definition file_content :: "file_sticky \<Rightarrow> file_path \<Rightarrow> string option" where
  "file_content fs p = disk_files (fst_disk fs) p"

lemma next_outcomeD:
  "next_outcome d = (x, d') \<Longrightarrow> disk_files d' = disk_files d \<and> disk_unreadable d' = disk_unreadable d"
  by (auto simp: next_outcome_def split: list.splits)

lemma fs_write_files:
  assumes "fs_write p c d = (r, d')"
  shows "q \<noteq> p \<Longrightarrow> disk_files d' q = disk_files d q" and "r = Inr () \<Longrightarrow> disk_files d' p = Some c"
    and "disk_unreadable d' = disk_unreadable d"
  using assms by (auto simp: fs_write_def dest: next_outcomeD split: prod.splits io_outcome.splits)

lemma fs_rename_files:
  assumes "fs_rename s t d = (r, d')"
  shows "r = Inl () \<Longrightarrow> disk_files d' = disk_files d"
    and "r = Inr () \<Longrightarrow> disk_files d' = (disk_files d)(t := disk_files d s, s := None)"
    and "disk_unreadable d' = disk_unreadable d"
  using assms by (auto simp: fs_rename_def dest: next_outcomeD split: prod.splits io_outcome.splits)

lemma save_outcome:
  assumes "with_extension (fst_path fs) ''json.tmp'' \<noteq> fst_path fs"
  shows "case save J fs of
      (Inr _, fs') \<Rightarrow> file_content fs' (fst_path fs) = to_json J (stored_file fs)
        \<and> file_content fs' (with_extension (fst_path fs) ''json.tmp'') = None
    | (Inl _, fs') \<Rightarrow> file_content fs' (fst_path fs) = file_content fs (fst_path fs)"
proof (cases "to_json J (stored_file fs)")
  case None
  then show ?thesis by (simp add: save_def stored_file_def)
next
  case (Some json)
  let ?t = "with_extension (fst_path fs) ''json.tmp''"
  obtain r d where w: "fs_write ?t json (fst_disk fs) = (r, d)" by fastforce
  obtain r' d' where m: "fs_rename ?t (fst_path fs) d = (r', d')" by fastforce
  note facts = fs_write_files [OF w] fs_rename_files [OF m]
  show ?thesis using Some w m facts assms
    by (cases r; cases r') (auto simp: save_def stored_file_def Let_def file_content_def split: unit.split)
qed

text \<open>
  C21. A save is atomic under every outcome of its write and its rename, a partial write
  included: on success the store file holds exactly the serialized pools and the temporary
  file is gone; on any failure the store file is what it was before.
\<close>
theorem save_is_atomic:
  assumes "with_extension (fst_path fs) ''json.tmp'' \<noteq> fst_path fs"
  shows "case save J fs of
      (Inr _, fs') \<Rightarrow> file_content fs' (fst_path fs) = to_json J (stored_file fs)
        \<and> file_content fs' (with_extension (fst_path fs) ''json.tmp'') = None
    | (Inl _, fs') \<Rightarrow> file_content fs' (fst_path fs) = file_content fs (fst_path fs)"
  using assms by (rule save_outcome)

definition sample_pools :: "u16 \<rightharpoonup> sticky_pool" where
  "sample_pools = [1080 \<mapsto> \<lparr>pool_fingerprint = ''fp'',
     pool_peers = [\<lparr>sp_peer_id = PeerId 1, sp_address = None, sp_updated_at = 5\<rparr>]\<rparr>]"

definition sample_codec :: json_codec where
  "sample_codec = \<lparr>to_json = (\<lambda>f. Some ''{json}''), probe_version = (\<lambda>s. if s = ''{json}'' then Some 2 else None),
     read_v2 = (\<lambda>s. if s = ''{json}'' then Some \<lparr>file_version = 2, file_servers = sample_pools\<rparr> else None),
     read_v1 = (\<lambda>s. None)\<rparr>"

definition sample_file_sticky :: "io_outcome list \<Rightarrow> file_sticky" where
  "sample_file_sticky script = \<lparr>fst_path = FilePath ''sticky_peers'' ''json'',
     fst_state = \<lparr>st_pools = sample_pools\<rparr>,
     fst_disk = \<lparr>disk_files = [FilePath ''sticky_peers'' ''json'' \<mapsto> ''{old}''], disk_script = script,
                 disk_unreadable = {}\<rparr>\<rparr>"

theorem save_is_atomic_witness:
  "case save sample_codec (sample_file_sticky [IoFail (Some ''{hal'')]) of
      (Inr _, fs') \<Rightarrow> file_content fs' (fst_path (sample_file_sticky [IoFail (Some ''{hal'')]))
          = to_json sample_codec (stored_file (sample_file_sticky [IoFail (Some ''{hal'')]))
        \<and> file_content fs' (with_extension (fst_path (sample_file_sticky [IoFail (Some ''{hal'')])) ''json.tmp'') = None
    | (Inl _, fs') \<Rightarrow> file_content fs' (fst_path (sample_file_sticky [IoFail (Some ''{hal'')]))
          = file_content (sample_file_sticky [IoFail (Some ''{hal'')]) (fst_path (sample_file_sticky [IoFail (Some ''{hal'')]))"
  by (rule save_is_atomic) (simp add: sample_file_sticky_def)

section \<open>Round trip\<close>

text \<open>serde reads back what it wrote for this store.\<close>

definition codec_faithful :: "json_codec \<Rightarrow> file_sticky \<Rightarrow> bool" where
  "codec_faithful J fs \<longleftrightarrow>
     (case to_json J (stored_file fs) of
        None \<Rightarrow> False
      | Some json \<Rightarrow> probe_version J json = Some STORE_VERSION
          \<and> read_v2 J json = Some (stored_file fs))"

lemma save_unreadable [frame_simps]:
  "disk_unreadable (fst_disk (snd (save J fs))) = disk_unreadable (fst_disk fs)"
  by (auto simp: save_def Let_def dest: fs_write_files(3) fs_rename_files(3)
      split: option.split prod.split sum.split unit.split)

text \<open>
  C22. A store that was saved successfully loads back with exactly the same pools, so exits
  survive a restart.
\<close>
theorem load_after_save:
  assumes "fst (save J fs) = Inr ()" and "codec_faithful J fs"
    and "with_extension (fst_path fs) ''json.tmp'' \<noteq> fst_path fs"
    and "fst_path fs \<notin> disk_unreadable (fst_disk fs)"
  shows "fst_state (load J (fst_path fs) (fst_disk (snd (save J fs)))) = fst_state fs"
proof -
  obtain json where json: "to_json J (stored_file fs) = Some json"
    "probe_version J json = Some STORE_VERSION" "read_v2 J json = Some (stored_file fs)"
    using assms(2) by (auto simp: codec_faithful_def split: option.splits)
  have "disk_files (fst_disk (snd (save J fs))) (fst_path fs) = Some json"
    using save_outcome [OF assms(3), of J] assms(1) json(1)
    by (auto simp: file_content_def split: prod.splits)
  then have "fs_read (fst_path fs) (fst_disk (snd (save J fs))) = ReadOk json"
    using assms(4) by (simp add: fs_read_def frame_simps)
  with json show ?thesis by (simp add: load_def parse_store_def stored_file_def)
qed

theorem load_after_save_witness:
  "fst_state (load sample_codec (fst_path (sample_file_sticky []))
     (fst_disk (snd (save sample_codec (sample_file_sticky []))))) = fst_state (sample_file_sticky [])"
proof (rule load_after_save)
  show "fst (save sample_codec (sample_file_sticky [])) = Inr ()" by code_simp
  show "codec_faithful sample_codec (sample_file_sticky [])"
    by (simp add: codec_faithful_def sample_codec_def stored_file_def sample_file_sticky_def STORE_VERSION_def)
qed (simp_all add: sample_file_sticky_def)

section \<open>Every file shape\<close>

text \<open>
  Loading is total: a missing, unreadable, corrupt or unknown-version file is the empty
  store, and a version-1 file becomes one well-formed single-peer pool per port under the
  fingerprint it recorded.
\<close>
theorem load_every_shape:
  "(case fs_read path d of
      ReadOk raw \<Rightarrow>
        (case probe_version J raw of
           Some (Suc 0) \<Rightarrow>
             (case read_v1 J raw of
                Some servers \<Rightarrow> file_wf (load J path d)
                  \<and> file_view (load J path d) = (\<lambda>port. map_option (\<lambda>e. (v1_fingerprint e, [v1_peer_id e])) (servers port))
              | None \<Rightarrow> fst_state (load J path d) = default_sticky)
         | Some (Suc (Suc 0)) \<Rightarrow>
             fst_state (load J path d)
               = (case read_v2 J raw of Some f \<Rightarrow> \<lparr>st_pools = file_servers f\<rparr> | None \<Rightarrow> default_sticky)
         | _ \<Rightarrow> fst_state (load J path d) = default_sticky)
    | _ \<Rightarrow> fst_state (load J path d) = default_sticky)"
  by (auto simp: load_def parse_store_def STORE_VERSION_def default_sticky_def Let_def file_wf_def
      sticky_wf_def migrate_v1_def file_view_def sticky_view_def fun_eq_iff option.map_comp o_def
      split: read_result.split option.split nat.split)

end
