(* ===== verification/Backoff.thy ===== *)
theory Backoff
  imports Prelude
begin

text \<open>
  The exponential delay schedule of \<open>crates/core/src/domain/backoff.rs\<close>. A \<open>Duration\<close> is a
  number of nanoseconds; \<open>saturating_mul\<close> stops at \<open>Duration::MAX\<close>.
\<close>

record backoff =
  bo_initial :: duration
  bo_current :: duration
  bo_factor :: nat
  bo_max :: duration

definition backoff_new :: "duration \<Rightarrow> nat \<Rightarrow> duration \<Rightarrow> backoff" where
  "backoff_new initial factor mx =
     \<lparr>bo_initial = initial, bo_current = initial, bo_factor = max factor 1, bo_max = mx\<rparr>"

definition next_delay :: "backoff \<Rightarrow> duration \<times> backoff" where
  "next_delay b =
     (let delay = min (bo_current b) (bo_max b)
      in (delay, b\<lparr>bo_current := min (saturating_mul (bo_current b) (bo_factor b)) (bo_max b)\<rparr>))"

definition backoff_reset :: "backoff \<Rightarrow> backoff" where
  "backoff_reset b = b\<lparr>bo_current := bo_initial b\<rparr>"

text \<open>The delays of \<open>n\<close> successive calls, the sequence the unit tests of the source collect.\<close>

fun delays :: "nat \<Rightarrow> backoff \<Rightarrow> duration list" where
  "delays 0 b = []"
| "delays (Suc n) b = (case next_delay b of (d, b') \<Rightarrow> d # delays n b')"

section \<open>The schedule in closed form\<close>

lemma next_delay_fields [simp]:
  "bo_initial (snd (next_delay b)) = bo_initial b"
  "bo_factor (snd (next_delay b)) = bo_factor b"
  "bo_max (snd (next_delay b)) = bo_max b"
  by (simp_all add: next_delay_def Let_def)

lemma fst_next_delay: "fst (next_delay b) = min (bo_current b) (bo_max b)"
  by (simp add: next_delay_def Let_def)

lemma length_delays [simp]: "length (delays n b) = n"
  by (induction n arbitrary: b) (simp_all split: prod.splits)

lemma min_mult_absorb:
  fixes c m f :: nat
  assumes "0 < f"
  shows "min (min c m * f) m = min (c * f) m"
proof (cases "c \<le> m")
  case True
  then show ?thesis by simp
next
  case False
  then have "m \<le> c" by simp
  moreover have "1 \<le> f" using assms by simp
  ultimately have "m * 1 \<le> c * f" by (rule mult_le_mono)
  moreover have "m \<le> m * f" using assms by simp
  ultimately show ?thesis using False by (simp add: min_absorb2)
qed

lemma delays_nth:
  assumes "0 < bo_factor b" and "bo_max b \<le> duration_max" and "i < n"
  shows "delays n b ! i = min (bo_current b * bo_factor b ^ i) (bo_max b)"
  using assms
proof (induction n arbitrary: b i)
  case 0
  then show ?case by simp
next
  case (Suc n)
  obtain d b' where nd: "next_delay b = (d, b')" by fastforce
  have d: "d = min (bo_current b) (bo_max b)"
    using nd fst_next_delay [of b] by simp
  have b': "bo_factor b' = bo_factor b" "bo_max b' = bo_max b"
    using nd next_delay_fields [of b] by auto
  have cur: "bo_current b' = min (bo_current b * bo_factor b) (bo_max b)"
    using nd Suc.prems(2) by (auto simp: next_delay_def Let_def saturating_mul_def)
  show ?case
  proof (cases i)
    case 0
    with nd d show ?thesis by simp
  next
    case (Suc j)
    then have "delays (Suc n) b ! i = min (bo_current b' * bo_factor b ^ j) (bo_max b)"
      using nd Suc.IH [of b' j] Suc.prems b' by simp
    also have "\<dots> = min (bo_current b * bo_factor b * bo_factor b ^ j) (bo_max b)"
    proof -
      have "min (min (bo_current b * bo_factor b) (bo_max b) * bo_factor b ^ j) (bo_max b)
        = min (bo_current b * bo_factor b * bo_factor b ^ j) (bo_max b)"
        using Suc.prems(1) by (intro min_mult_absorb) simp
      then show ?thesis using cur by simp
    qed
    finally show ?thesis using Suc by (simp add: mult.assoc)
  qed
qed

lemma backoff_new_fields [simp]:
  "bo_initial (backoff_new i f m) = i" "bo_current (backoff_new i f m) = i"
  "bo_factor (backoff_new i f m) = max f 1" "bo_max (backoff_new i f m) = m"
  by (simp_all add: backoff_new_def)

text \<open>
  The schedule is exponential and capped: the \<open>i\<close>-th delay is \<open>initial * factor ^ i\<close>
  (a factor of zero counts as one), never more than the maximum, with no overflow however
  many calls are made.
\<close>
theorem backoff_schedule:
  assumes "mx \<le> duration_max" and "i < n"
  shows "delays n (backoff_new initial factor mx) ! i = min (initial * max factor 1 ^ i) mx"
  using assms by (subst delays_nth) simp_all

theorem backoff_schedule_witness:
  "delays 6 (backoff_new (from_secs 1) 2 (from_secs 8)) ! 5 = min (from_secs 1 * max 2 1 ^ 5) (from_secs 8)"
proof (rule backoff_schedule)
  show "from_secs 8 \<le> duration_max" by (simp add: from_secs_def duration_max_def)
qed simp

text \<open>The two delays between the three attempts of a sticky reconnect.\<close>

lemma reconnect_delays:
  "next_delay (backoff_new (from_secs 1) 2 (from_secs 8))
     = (from_secs 1, (backoff_new (from_secs 1) 2 (from_secs 8))\<lparr>bo_current := from_secs 2\<rparr>)"
  "fst (next_delay ((backoff_new (from_secs 1) 2 (from_secs 8))\<lparr>bo_current := from_secs 2\<rparr>)) = from_secs 2"
  by (simp_all add: next_delay_def backoff_new_def saturating_mul_def from_secs_def duration_max_def)

end
