(* ===== verification/Connect.thy ===== *)
theory Connect
  imports Sticky_State Backoff
begin

text \<open>
  The connect flow of \<open>crates/core/src/domain/connect.rs\<close>: how a server gets its exit peer.
  \<open>ConnectCtx\<close> splits into what it only reads (\<open>connect_ctx\<close>: the ports, the store's
  operations, the relay address, the libp2p builders and text forms) and what the flow changes
  (\<open>conn_state\<close>: the environment behind the ports, the sticky store, the emitted events, and
  the delays asked of the clock). Each \<open>async\<close> method is a function from the state to its
  result and the next state; each bounded \<open>for\<close> loop is a recursion on the attempts left.
\<close>

section \<open>Context, state and results\<close>

definition FINDNODES_DISCOVERY_LIMIT :: usize where "FINDNODES_DISCOVERY_LIMIT = 25"
definition MAX_DISCOVERY_ATTEMPTS :: usize where "MAX_DISCOVERY_ATTEMPTS = 20"
definition MAX_PINNED_PASSES :: usize where "MAX_PINNED_PASSES = 20"
definition STICKY_RECONNECT_ATTEMPTS :: usize where "STICKY_RECONNECT_ATTEMPTS = 3"

record ('w, 's) connect_ctx =
  cx_ports :: "'w ports"
  cx_store :: "'s sticky_store"
  cx_relay_address :: multiaddr
  cx_maddr :: maddr_api
  cx_text :: text_api

record ('w, 's) conn_state =
  cs_world :: 'w
  cs_sticky :: 's
  cs_events :: "events list"
  cs_sleeps :: "duration list"

record connected_destination =
  cd_peer :: peer_id
  cd_source :: destination_source

definition sticky_destination :: "peer_id \<Rightarrow> connected_destination" where
  "sticky_destination peer = \<lparr>cd_peer = peer, cd_source = Sticky\<rparr>"

definition sleep_for :: "('w, 's) connect_ctx \<Rightarrow> duration \<Rightarrow> ('w, 's) conn_state \<Rightarrow> ('w, 's) conn_state" where
  "sleep_for C d st =
     st\<lparr>cs_world := port_sleep (cx_ports C) d (cs_world st), cs_sleeps := cs_sleeps st @ [d]\<rparr>"

definition emit :: "events \<Rightarrow> ('w, 's) conn_state \<Rightarrow> ('w, 's) conn_state" where
  "emit e st = st\<lparr>cs_events := cs_events st @ [e]\<rparr>"

section \<open>Routes and dialing\<close>

definition resolve_routes ::
    "('w, 's) connect_ctx \<Rightarrow> peer_id list \<Rightarrow> ('w, 's) conn_state \<Rightarrow> route_map \<times> ('w, 's) conn_state" where
  "resolve_routes C peers st =
     (case port_resolve_peers (cx_ports C) peers (cs_world st) of
        (Inr routes, w) \<Rightarrow> (routes, st\<lparr>cs_world := w\<rparr>)
      | (Inl (Unsupported _), w) \<Rightarrow>
          (List.map_filter
             (\<lambda>p. map_option (\<lambda>a. (p, [a])) (synthesize_circuit (cx_maddr C) (cx_relay_address C) p)) peers,
           st\<lparr>cs_world := w\<rparr>)
      | (Inl _, w) \<Rightarrow> ([], st\<lparr>cs_world := w\<rparr>))"

definition dial_set ::
    "('w, 's) connect_ctx \<Rightarrow> multiaddr set \<Rightarrow> ('w, 's) conn_state \<Rightarrow> peer_id option \<times> ('w, 's) conn_state" where
  "dial_set C addresses st =
     (if Set.is_empty addresses then (None, st)
      else
        (case port_dial_and_wait (cx_ports C) addresses (cs_world st) of
           (Inr reached, w) \<Rightarrow> (reached, st\<lparr>cs_world := w\<rparr>)
         | (Inl _, w) \<Rightarrow> (None, st\<lparr>cs_world := w\<rparr>)))"

definition dial ::
    "('w, 's) connect_ctx \<Rightarrow> multiaddr set \<Rightarrow> ('w, 's) conn_state \<Rightarrow> peer_id option \<times> ('w, 's) conn_state" where
  "dial C addresses st =
     (case partition_direct_first addresses of
        (direct, relay) \<Rightarrow>
          (case dial_set C direct st of
             (Some peer, st') \<Rightarrow> (Some peer, st')
           | (None, st') \<Rightarrow> dial_set C relay st'))"

definition try_reach_peer ::
    "('w, 's) connect_ctx \<Rightarrow> server \<Rightarrow> peer_id \<Rightarrow> ('w, 's) conn_state \<Rightarrow> peer_id option \<times> ('w, 's) conn_state" where
  "try_reach_peer C server peer st =
     (let remembered =
            (case ss_direct_address (cx_store C) (srv_port server) peer (cs_sticky st) of
               None \<Rightarrow> {}
             | Some direct \<Rightarrow> set (opt_list (api_with_p2p (cx_maddr C) direct peer)))
      in case resolve_routes C [peer] st of
           (resolved, st') \<Rightarrow>
             (let routes = remembered \<union> set (concat (map snd resolved));
                  routes = (if Set.is_empty routes
                    then set (opt_list (synthesize_circuit (cx_maddr C) (cx_relay_address C) peer))
                    else routes)
              in dial C routes st'))"

definition reach_specific_peer ::
    "('w, 's) connect_ctx \<Rightarrow> server \<Rightarrow> peer_id \<Rightarrow> ('w, 's) conn_state \<Rightarrow> peer_id option \<times> ('w, 's) conn_state" where
  "reach_specific_peer C server peer st = try_reach_peer C server peer st"

section \<open>The sticky store\<close>

definition remember ::
    "('w, 's) connect_ctx \<Rightarrow> server \<Rightarrow> string \<Rightarrow> peer_id \<Rightarrow> ('w, 's) conn_state \<Rightarrow> ('w, 's) conn_state" where
  "remember C server fingerprint peer st =
     (if opt_sticky (srv_peer_options server)
      then st\<lparr>cs_sticky := snd (ss_remember (cx_store C) (port_utc_now (cx_ports C) (cs_world st))
             (srv_port server) fingerprint peer (pool_max_total (srv_pool server)) (cs_sticky st))\<rparr>
      else st)"

definition forget :: "('w, 's) connect_ctx \<Rightarrow> server \<Rightarrow> peer_id \<Rightarrow> ('w, 's) conn_state \<Rightarrow> ('w, 's) conn_state" where
  "forget C server peer st =
     st\<lparr>cs_sticky := ss_forget_peer (cx_store C) (srv_port server) peer (cs_sticky st)\<rparr>"

text \<open>\<open>attempt + 1 < STICKY_RECONNECT_ATTEMPTS\<close> holds while attempts are left after this one.\<close>

fun reconnect_loop ::
    "('w, 's) connect_ctx \<Rightarrow> server \<Rightarrow> peer_id \<Rightarrow> nat \<Rightarrow> backoff \<Rightarrow> ('w, 's) conn_state
     \<Rightarrow> peer_id option \<times> ('w, 's) conn_state" where
  "reconnect_loop C server peer 0 b st = (None, st)"
| "reconnect_loop C server peer (Suc left) b st =
     (case try_reach_peer C server peer st of
        (Some reached, st') \<Rightarrow> (Some reached, st')
      | (None, st') \<Rightarrow>
          if 0 < left then
            (case next_delay b of (d, b') \<Rightarrow> reconnect_loop C server peer left b' (sleep_for C d st'))
          else reconnect_loop C server peer left b st')"

definition reconnect_sticky_peer ::
    "('w, 's) connect_ctx \<Rightarrow> server \<Rightarrow> peer_id \<Rightarrow> ('w, 's) conn_state \<Rightarrow> peer_id option \<times> ('w, 's) conn_state" where
  "reconnect_sticky_peer C server peer st =
     reconnect_loop C server peer STICKY_RECONNECT_ATTEMPTS
       (backoff_new (from_secs 1) 2 (from_secs 8)) st"

fun pool_loop ::
    "('w, 's) connect_ctx \<Rightarrow> server \<Rightarrow> peer_id option \<Rightarrow> peer_id list \<Rightarrow> ('w, 's) conn_state
     \<Rightarrow> peer_id option \<times> ('w, 's) conn_state" where
  "pool_loop C server skip [] st = (None, st)"
| "pool_loop C server skip (peer # peers) st =
     (if Some peer = skip then pool_loop C server skip peers st
      else
        (case try_reach_peer C server peer st of
           (Some reached, st') \<Rightarrow> (Some reached, st')
         | (None, st') \<Rightarrow> pool_loop C server skip peers (forget C server peer st')))"

definition connect_sticky_pool ::
    "('w, 's) connect_ctx \<Rightarrow> server \<Rightarrow> string \<Rightarrow> peer_id option \<Rightarrow> ('w, 's) conn_state
     \<Rightarrow> peer_id option \<times> ('w, 's) conn_state" where
  "connect_sticky_pool C server fingerprint skip st =
     (if \<not> opt_sticky (srv_peer_options server) then (None, st)
      else
        (case ss_pool (cx_store C) (srv_port server) fingerprint (cs_sticky st) of
           (peers, s) \<Rightarrow> pool_loop C server skip peers (st\<lparr>cs_sticky := s\<rparr>)))"

section \<open>Discovery\<close>

definition discovery_error_text :: "('w, 's) connect_ctx \<Rightarrow> server \<Rightarrow> string" where
  "discovery_error_text C server =
     ''Failed to connect with any peer for :'' @ show_u16 (srv_port server) @ '' after ''
     @ show_nat MAX_DISCOVERY_ATTEMPTS @ '' attempts (filter: ''
     @ options_to_string (cx_text C) (srv_peer_options server) @ '').''"

definition candidate_addresses :: "('w, 's) connect_ctx \<Rightarrow> pool_peer list \<Rightarrow> multiaddr set" where
  "candidate_addresses C candidates =
     set (concat (map
       (\<lambda>c. if pp_addresses c = []
             then opt_list (synthesize_circuit (cx_maddr C) (cx_relay_address C) (pp_peer_id c))
             else pp_addresses c) candidates))"

fun discovery_loop ::
    "('w, 's) connect_ctx \<Rightarrow> server \<Rightarrow> string \<Rightarrow> nat \<Rightarrow> ('w, 's) conn_state
     \<Rightarrow> (connect_error + connected_destination) \<times> ('w, 's) conn_state" where
  "discovery_loop C server fingerprint 0 st =
     (Inl (DiscoveryExhausted (srv_port server) MAX_DISCOVERY_ATTEMPTS),
      emit (ErrorEvent (discovery_error_text C server)) st)"
| "discovery_loop C server fingerprint (Suc left) st =
     (case port_find_nodes (cx_ports C) server FINDNODES_DISCOVERY_LIMIT (cs_world st) of
        (Inl _, w) \<Rightarrow>
          discovery_loop C server fingerprint left (sleep_for C (from_secs 1) (st\<lparr>cs_world := w\<rparr>))
      | (Inr candidates, w) \<Rightarrow>
          (let st' = emit (ServerPool (srv_port server) candidates) (st\<lparr>cs_world := w\<rparr>)
           in if candidates = [] then
                discovery_loop C server fingerprint left (sleep_for C (from_secs 1) st')
              else
                (case dial C (candidate_addresses C candidates) st' of
                   (Some peer, st'') \<Rightarrow>
                     (Inr \<lparr>cd_peer = peer, cd_source = Discovered\<rparr>, remember C server fingerprint peer st'')
                 | (None, st'') \<Rightarrow> discovery_loop C server fingerprint left st'')))"

definition run_discovery ::
    "('w, 's) connect_ctx \<Rightarrow> server \<Rightarrow> string \<Rightarrow> ('w, 's) conn_state
     \<Rightarrow> (connect_error + connected_destination) \<times> ('w, 's) conn_state" where
  "run_discovery C server fingerprint st =
     discovery_loop C server fingerprint MAX_DISCOVERY_ATTEMPTS st"

text \<open>The tail of \<open>connect_discovered\<close>: the pool pre-pass, then a fresh discovery.\<close>

definition pool_then_discovery ::
    "('w, 's) connect_ctx \<Rightarrow> server \<Rightarrow> string \<Rightarrow> peer_id option \<Rightarrow> ('w, 's) conn_state
     \<Rightarrow> (connect_error + connected_destination) \<times> ('w, 's) conn_state" where
  "pool_then_discovery C server fingerprint avoid st =
     (case connect_sticky_pool C server fingerprint avoid st of
        (Some peer, st') \<Rightarrow> (Inr (sticky_destination peer), remember C server fingerprint peer st')
      | (None, st') \<Rightarrow> run_discovery C server fingerprint st')"

definition connect_discovered ::
    "('w, 's) connect_ctx \<Rightarrow> server \<Rightarrow> peer_id option \<Rightarrow> ('w, 's) conn_state
     \<Rightarrow> (connect_error + connected_destination) \<times> ('w, 's) conn_state" where
  "connect_discovered C server avoid st =
     (let opts = srv_peer_options server;
          fingerprint = filter_fingerprint opts (srv_port server)
      in case avoid of
           Some old \<Rightarrow>
             if opt_sticky opts \<and> opt_sticky_reconnect opts = WithBackoff then
               (case reconnect_sticky_peer C server old st of
                  (Some peer, st') \<Rightarrow> (Inr (sticky_destination peer), remember C server fingerprint peer st')
                | (None, st') \<Rightarrow> pool_then_discovery C server fingerprint avoid (forget C server old st'))
             else pool_then_discovery C server fingerprint avoid st
         | None \<Rightarrow> pool_then_discovery C server fingerprint avoid st)"

section \<open>Pinned peers\<close>

fun adopt_loop ::
    "('w, 's) connect_ctx \<Rightarrow> usize \<Rightarrow> destination_peer_entry list \<Rightarrow> usize \<times> peer_id \<Rightarrow> ('w, 's) conn_state
     \<Rightarrow> (usize \<times> peer_id) \<times> ('w, 's) conn_state" where
  "adopt_loop C better [] own st = (own, st)"
| "adopt_loop C better (entry # entries) own st =
     (case port_is_connected (cx_ports C) (entry_peer_id entry) (cs_world st) of
        (connected, w) \<Rightarrow>
          if connected then ((better, entry_peer_id entry), st\<lparr>cs_world := w\<rparr>)
          else adopt_loop C (Suc better) entries own (st\<lparr>cs_world := w\<rparr>))"

definition adopt_best_pinned_rank ::
    "('w, 's) connect_ctx \<Rightarrow> destination_peer_entry list \<Rightarrow> usize \<Rightarrow> peer_id \<Rightarrow> ('w, 's) conn_state
     \<Rightarrow> (usize \<times> peer_id) \<times> ('w, 's) conn_state" where
  "adopt_best_pinned_rank C pins rank peer st = adopt_loop C 0 (take rank pins) (rank, peer) st"

definition pinned_statuses :: "destination_peer_entry list \<Rightarrow> route_map \<Rightarrow> pinned_peer_status list" where
  "pinned_statuses pins resolved =
     map (\<lambda>(rank, entry). \<lparr>ps_peer_id = entry_peer_id entry, ps_rank = rank,
            ps_resolvable = \<not> Set.is_empty (candidate_routes entry resolved)\<rparr>)
       (List.enumerate 0 pins)"

fun rank_loop ::
    "('w, 's) connect_ctx \<Rightarrow> destination_peer_entry list \<Rightarrow> route_map \<Rightarrow> (nat \<times> destination_peer_entry) list
     \<Rightarrow> ('w, 's) conn_state \<Rightarrow> connected_destination option \<times> ('w, 's) conn_state" where
  "rank_loop C pins resolved [] st = (None, st)"
| "rank_loop C pins resolved ((rank, entry) # ranked) st =
     (let routes = candidate_routes entry resolved
      in if Set.is_empty routes then rank_loop C pins resolved ranked st
         else
           (case dial C routes st of
              (None, st') \<Rightarrow> rank_loop C pins resolved ranked st'
            | (Some peer, st') \<Rightarrow>
                (case adopt_best_pinned_rank C pins rank peer st' of
                   ((rank', peer'), st'') \<Rightarrow>
                     (Some \<lparr>cd_peer = peer', cd_source = Pinned rank'\<rparr>, st''))))"

definition pinned_error_text :: "server \<Rightarrow> destination_peer_entry list \<Rightarrow> string" where
  "pinned_error_text server pins =
     ''All '' @ show_nat (length pins) @ '' pinned peer(s) for :'' @ show_u16 (srv_port server)
     @ '' are offline or unresolvable.''"

fun pinned_passes ::
    "('w, 's) connect_ctx \<Rightarrow> server \<Rightarrow> destination_peer_entry list \<Rightarrow> nat \<Rightarrow> ('w, 's) conn_state
     \<Rightarrow> (connect_error + connected_destination) \<times> ('w, 's) conn_state" where
  "pinned_passes C server pins 0 st =
     (Inl (PinnedExhausted (srv_port server) (length pins)),
      emit (ErrorEvent (pinned_error_text server pins)) st)"
| "pinned_passes C server pins (Suc left) st =
     (case resolve_routes C (map entry_peer_id pins) st of
        (resolved, st') \<Rightarrow>
          (case rank_loop C pins resolved (List.enumerate 0 pins)
                  (emit (PinnedPeerStatuses (srv_port server) (pinned_statuses pins resolved)) st') of
             (Some d, st'') \<Rightarrow> (Inr d, st'')
           | (None, st'') \<Rightarrow>
               if opt_fallback_to_discovery (srv_peer_options server)
               then connect_discovered C server None st''
               else pinned_passes C server pins left (sleep_for C (from_secs 1) st'')))"

definition connect_pinned ::
    "('w, 's) connect_ctx \<Rightarrow> server \<Rightarrow> destination_peer_entry list \<Rightarrow> ('w, 's) conn_state
     \<Rightarrow> (connect_error + connected_destination) \<times> ('w, 's) conn_state" where
  "connect_pinned C server pins st = pinned_passes C server pins MAX_PINNED_PASSES st"

definition connect ::
    "('w, 's) connect_ctx \<Rightarrow> server \<Rightarrow> peer_id option \<Rightarrow> ('w, 's) conn_state
     \<Rightarrow> (connect_error + connected_destination) \<times> ('w, 's) conn_state" where
  "connect C server avoid st =
     (let pins = pinned (srv_peer_options server)
      in if pins = [] then connect_discovered C server avoid st else connect_pinned C server pins st)"

end
