(* ===== verification/Connect_Flow.thy ===== *)
theory Connect_Flow
  imports Connect
begin

text \<open>
  The shape of the connect flow, proved once for every predicate. A flow searches (phase
  \<open>I\<close>) until one dial lands, and is then settled on a peer (phase \<open>F peer\<close>): while it searches
  it may ask the directory, sleep, report, read the pool and forget peers; once settled it may
  only ask which pinned peers are connected and remember the peer. The locale \<open>connect_phases\<close>
  states one law per port call, with the guard under which the flow makes that call, and shows
  that a whole \<open>connect\<close> ends in phase \<open>F\<close> when it succeeds and in phase \<open>I\<close> when it fails.

  \<open>log_ports\<close> wraps any environment so that it also records the calls made to it; it is the
  instance that states what a connect asks of the network.
\<close>

section \<open>Guards\<close>

text \<open>A server whose pins are its only exits, and one whose exit affinity can be consulted.\<close>

definition hard_pinned :: "server \<Rightarrow> bool" where
  "hard_pinned server \<longleftrightarrow>
     pinned (srv_peer_options server) \<noteq> [] \<and> \<not> opt_fallback_to_discovery (srv_peer_options server)"

definition uses_affinity :: "server \<Rightarrow> bool" where
  "uses_affinity server \<longleftrightarrow> opt_sticky (srv_peer_options server) \<and> \<not> hard_pinned server"

definition one_kind :: "multiaddr set \<Rightarrow> bool" where
  "one_kind A \<longleftrightarrow> A \<noteq> {} \<and> ((\<forall>a \<in> A. is_relayed a) \<or> (\<forall>a \<in> A. \<not> is_relayed a))"

definition reached ::
    "('st \<Rightarrow> bool) \<Rightarrow> (peer_id \<Rightarrow> 'st \<Rightarrow> bool) \<Rightarrow> peer_id option \<Rightarrow> 'st \<Rightarrow> bool" where
  "reached I F r st = (case r of None \<Rightarrow> I st | Some p \<Rightarrow> F p st)"

definition settled ::
    "('st \<Rightarrow> bool) \<Rightarrow> (peer_id \<Rightarrow> 'st \<Rightarrow> bool)
     \<Rightarrow> (connect_error + connected_destination) \<times> 'st \<Rightarrow> bool" where
  "settled I F r = (case fst r of Inl _ \<Rightarrow> I (snd r) | Inr d \<Rightarrow> F (cd_peer d) (snd r))"

text \<open>What a flow reports: errors, and the candidates and pins of its own server.\<close>

fun flow_event :: "server \<Rightarrow> events \<Rightarrow> bool" where
  "flow_event server (ErrorEvent _) = True"
| "flow_event server (ServerPool port _) = (port = srv_port server)"
| "flow_event server (PinnedPeerStatuses port _) = (port = srv_port server)"
| "flow_event server _ = False"

text \<open>Settled by discovery or affinity: the last step is to remember the peer.\<close>

definition remembered ::
    "('w, 's) connect_ctx \<Rightarrow> server \<Rightarrow> string \<Rightarrow> (peer_id \<Rightarrow> ('w, 's) conn_state \<Rightarrow> bool)
     \<Rightarrow> peer_id \<Rightarrow> ('w, 's) conn_state \<Rightarrow> bool" where
  "remembered C server fp F p st \<longleftrightarrow> (\<exists>st0. F p st0 \<and> st = remember C server fp p st0)"

lemma rememberedI [intro]: "F p st \<Longrightarrow> remembered C server fp F p (remember C server fp p st)"
  by (auto simp: remembered_def)

lemma reached_simps [simp]: "reached I F None st = I st" "reached I F (Some p) st = F p st"
  by (simp_all add: reached_def)

lemma settled_simps [simp]:
  "settled I F (Inl e, st) = I st" "settled I F (Inr d, st) = F (cd_peer d) st"
  by (simp_all add: settled_def)

lemma reached_iff: "reached I F r st \<longleftrightarrow> (r = None \<longrightarrow> I st) \<and> (\<forall>p. r = Some p \<longrightarrow> F p st)"
  by (cases r) simp_all

section \<open>The two phases\<close>

locale connect_phases =
  fixes C :: "('w, 's) connect_ctx"
    and server :: server
    and I :: "('w, 's) conn_state \<Rightarrow> bool"
    and F :: "peer_id \<Rightarrow> ('w, 's) conn_state \<Rightarrow> bool"
  assumes resolve_law:
      "I st \<Longrightarrow> port_resolve_peers (cx_ports C) ps (cs_world st) = (r, w) \<Longrightarrow> I (st\<lparr>cs_world := w\<rparr>)"
    and find_law:
      "I st \<Longrightarrow> \<not> hard_pinned server \<Longrightarrow>
       port_find_nodes (cx_ports C) server FINDNODES_DISCOVERY_LIMIT (cs_world st) = (found, w) \<Longrightarrow>
       I (st\<lparr>cs_world := w\<rparr>)"
    and dial_law:
      "I st \<Longrightarrow> one_kind A \<Longrightarrow> port_dial_and_wait (cx_ports C) A (cs_world st) = (dialed, w) \<Longrightarrow>
       reached I F (case dialed of Inr hit \<Rightarrow> hit | Inl _ \<Rightarrow> None) (st\<lparr>cs_world := w\<rparr>)"
    and connected_law:
      "F p st \<Longrightarrow> port_is_connected (cx_ports C) q (cs_world st) = (yes, w) \<Longrightarrow>
       F (if yes then q else p) (st\<lparr>cs_world := w\<rparr>)"
    and sleep_law: "I st \<Longrightarrow> I (sleep_for C d st)"
    and emit_law: "I st \<Longrightarrow> flow_event server e \<Longrightarrow> I (emit e st)"
    and pool_law:
      "I st \<Longrightarrow> uses_affinity server \<Longrightarrow>
       I (st\<lparr>cs_sticky := snd (ss_pool (cx_store C) (srv_port server) fp (cs_sticky st))\<rparr>)"
    and forget_law: "I st \<Longrightarrow> uses_affinity server \<Longrightarrow> I (forget C server p st)"
    and remember_law:
      "F p st \<Longrightarrow> \<not> hard_pinned server \<Longrightarrow> F p (remember C server fp p st)"
begin

lemma resolve_routes_phase: "I st \<Longrightarrow> resolve_routes C ps st = (r, st') \<Longrightarrow> I st'"
  by (auto simp: resolve_routes_def dest: resolve_law
      split: prod.splits sum.splits directory_error.splits)

lemma dial_set_phase:
  assumes "I st" and "A \<noteq> {} \<Longrightarrow> one_kind A" and "dial_set C A st = (r, st')"
  shows "reached I F r st'"
proof (cases "A = {}")
  case True
  with assms show ?thesis by (simp add: dial_set_def)
next
  case False
  obtain dialed w where d: "port_dial_and_wait (cx_ports C) A (cs_world st) = (dialed, w)"
    by fastforce
  from dial_law [OF assms(1) assms(2) [OF False] d] assms(3) False d show ?thesis
    by (auto simp: dial_set_def split: sum.splits)
qed

lemma dial_phase:
  assumes "I st" and "dial C A st = (r, st')"
  shows "reached I F r st'"
proof -
  obtain r1 st1 where d1: "dial_set C (Set.filter (\<lambda>a. \<not> is_relayed a) A) st = (r1, st1)"
    by fastforce
  have s1: "reached I F r1 st1"
    by (rule dial_set_phase [OF assms(1) _ d1]) (auto simp: one_kind_def)
  show ?thesis
  proof (cases r1)
    case None
    with s1 have "I st1" by simp
    then show ?thesis
      using assms(2) d1 None
      by (intro dial_set_phase [of st1 "Set.filter is_relayed A"])
        (auto simp: one_kind_def dial_def partition_direct_first_def)
  next
    case (Some p)
    with s1 assms(2) d1 show ?thesis by (auto simp: dial_def partition_direct_first_def)
  qed
qed

lemma try_reach_phase:
  assumes "I st" and "try_reach_peer C server p st = (r, st')"
  shows "reached I F r st'"
proof -
  obtain res st1 where "resolve_routes C [p] st = (res, st1)" by fastforce
  with assms show ?thesis
    by (auto simp: try_reach_peer_def Let_def intro: dial_phase resolve_routes_phase split: if_splits)
qed

lemma reconnect_phase:
  assumes "I st" and "reconnect_loop C server p n b st = (r, st')"
  shows "reached I F r st'"
  using assms
proof (induction n arbitrary: b st)
  case 0
  then show ?case by simp
next
  case (Suc n)
  obtain r1 st1 where t: "try_reach_peer C server p st = (r1, st1)" by fastforce
  have "reached I F r1 st1" by (rule try_reach_phase [OF Suc.prems(1) t])
  then show ?case
    using Suc.prems(2) Suc.IH t
    by (cases r1) (auto split: if_splits prod.splits intro: sleep_law)
qed

lemma pool_loop_phase:
  assumes "I st" and "uses_affinity server" and "pool_loop C server skip ps st = (r, st')"
  shows "reached I F r st'"
  using assms
proof (induction ps arbitrary: st)
  case Nil
  then show ?case by simp
next
  case (Cons p ps)
  obtain r1 st1 where t: "try_reach_peer C server p st = (r1, st1)" by fastforce
  have "reached I F r1 st1" by (rule try_reach_phase [OF Cons.prems(1) t])
  then show ?case
    using Cons.prems Cons.IH t
    by (cases r1) (auto split: if_splits intro: forget_law)
qed

lemma sticky_pool_phase:
  assumes "I st" and "\<not> hard_pinned server" and "connect_sticky_pool C server fp skip st = (r, st')"
  shows "reached I F r st'"
proof (cases "opt_sticky (srv_peer_options server)")
  case True
  with assms(2) have ua: "uses_affinity server" by (simp add: uses_affinity_def)
  obtain ids s where p: "ss_pool (cx_store C) (srv_port server) fp (cs_sticky st) = (ids, s)"
    by fastforce
  have "I (st\<lparr>cs_sticky := s\<rparr>)" using pool_law [OF assms(1) ua, of fp] p by simp
  with assms(3) True p ua show ?thesis
    by (auto simp: connect_sticky_pool_def intro: pool_loop_phase)
next
  case False
  with assms show ?thesis by (simp add: connect_sticky_pool_def)
qed

lemma discovery_phase:
  assumes "I st" and "\<not> hard_pinned server"
  shows "settled I (remembered C server fp F) (discovery_loop C server fp n st)"
  using assms
proof (induction n arbitrary: st)
  case 0
  then show ?case by (simp add: emit_law)
next
  case (Suc n)
  obtain found w where f:
    "port_find_nodes (cx_ports C) server FINDNODES_DISCOVERY_LIMIT (cs_world st) = (found, w)"
    by fastforce
  have Iw: "I (st\<lparr>cs_world := w\<rparr>)" by (rule find_law [OF Suc.prems(1) Suc.prems(2) f])
  show ?case
  proof (cases found)
    case (Inl e)
    with f Suc.IH Suc.prems(2) sleep_law [OF Iw] show ?thesis by simp
  next
    case (Inr cs)
    let ?st = "emit (ServerPool (srv_port server) cs) (st\<lparr>cs_world := w\<rparr>)"
    have Ie: "I ?st" by (rule emit_law [OF Iw]) simp
    obtain r1 st1 where d: "dial C (candidate_addresses C cs) ?st = (r1, st1)" by fastforce
    have "reached I F r1 st1" by (rule dial_phase [OF Ie d])
    then show ?thesis
      using f Inr d Suc.IH Suc.prems(2) sleep_law [OF Ie]
      by (cases r1) (auto simp: Let_def)
  qed
qed

lemma pool_then_discovery_phase:
  assumes "I st" and "\<not> hard_pinned server"
  shows "settled I (remembered C server fp F) (pool_then_discovery C server fp avoid st)"
proof -
  obtain r1 st1 where c: "connect_sticky_pool C server fp avoid st = (r1, st1)" by fastforce
  have "reached I F r1 st1" by (rule sticky_pool_phase [OF assms c])
  then show ?thesis
    using c assms(2) discovery_phase
    by (cases r1) (auto simp: pool_then_discovery_def run_discovery_def sticky_destination_def)
qed

lemma discovered_remembers:
  assumes "I st" and "\<not> hard_pinned server"
  shows "settled I (remembered C server (filter_fingerprint (srv_peer_options server) (srv_port server)) F)
    (connect_discovered C server avoid st)"
proof (cases avoid)
  case None
  with assms show ?thesis by (simp add: connect_discovered_def Let_def pool_then_discovery_phase)
next
  case (Some old)
  obtain r1 st1 where c: "reconnect_sticky_peer C server old st = (r1, st1)" by fastforce
  then have r: "reached I F r1 st1"
    using assms(1) by (auto simp: reconnect_sticky_peer_def intro: reconnect_phase)
  show ?thesis
  proof (cases "opt_sticky (srv_peer_options server)
      \<and> opt_sticky_reconnect (srv_peer_options server) = WithBackoff")
    case True
    with assms(2) have ua: "uses_affinity server" by (simp add: uses_affinity_def)
    show ?thesis
    proof (cases r1)
      case None
      with r have "I (forget C server old st1)" using ua by (simp add: forget_law)
      then show ?thesis using None c True Some assms(2)
        by (simp add: connect_discovered_def Let_def pool_then_discovery_phase)
    next
      case (Some p)
      with r Some \<open>avoid = Some old\<close> c True show ?thesis
        by (auto simp: connect_discovered_def Let_def sticky_destination_def)
    qed
  next
    case False
    with assms Some pool_then_discovery_phase [OF assms] show ?thesis
      by (auto simp: connect_discovered_def Let_def)
  qed
qed

lemma discovered_phase:
  assumes "I st" and "\<not> hard_pinned server"
  shows "settled I F (connect_discovered C server avoid st)"
  using discovered_remembers [OF assms, of avoid] remember_law [OF _ assms(2)]
  by (auto simp: settled_def remembered_def split: sum.splits)

lemma adopt_phase:
  assumes "F p st" and "adopt_loop C k es (rank, p) st = ((rank', p'), st')"
  shows "F p' st'"
  using assms
proof (induction es arbitrary: k st)
  case Nil
  then show ?case by simp
next
  case (Cons e es)
  obtain yes w where c: "port_is_connected (cx_ports C) (entry_peer_id e) (cs_world st) = (yes, w)"
    by fastforce
  from connected_law [OF Cons.prems(1) c] Cons.prems(2) Cons.IH c show ?case
    by (auto split: if_splits)
qed

lemma rank_loop_phase:
  assumes "I st" and "rank_loop C pins res ranked st = (r, st')"
  shows "reached I F (map_option cd_peer r) st'"
  using assms
proof (induction ranked arbitrary: st)
  case Nil
  then show ?case by simp
next
  case (Cons re ranked)
  obtain rank e where re: "re = (rank, e)" by fastforce
  obtain r1 st1 where d: "dial C (candidate_routes e res) st = (r1, st1)" by fastforce
  have s: "reached I F r1 st1" by (rule dial_phase [OF Cons.prems(1) d])
  show ?case
  proof (cases "Set.is_empty (candidate_routes e res)")
    case True
    with Cons re show ?thesis by (simp add: Let_def)
  next
    case nonempty: False
    show ?thesis
    proof (cases r1)
      case None
      with Cons re d s nonempty show ?thesis by (simp add: Let_def)
    next
      case (Some p)
      with s have "F p st1" by simp
      then show ?thesis using Cons.prems(2) re d Some nonempty
        by (auto simp: Let_def adopt_best_pinned_rank_def split: prod.splits intro: adopt_phase)
    qed
  qed
qed

lemma pinned_phase:
  assumes "I st" and "pinned (srv_peer_options server) \<noteq> []"
  shows "settled I F (pinned_passes C server pins n st)"
  using assms
proof (induction n arbitrary: st)
  case 0
  then show ?case by (simp add: emit_law)
next
  case (Suc n)
  obtain res st1 where rr: "resolve_routes C (map entry_peer_id pins) st = (res, st1)" by fastforce
  let ?st = "emit (PinnedPeerStatuses (srv_port server) (pinned_statuses pins res)) st1"
  have Ie: "I ?st" by (rule emit_law [OF resolve_routes_phase [OF Suc.prems(1) rr]]) simp
  obtain r st2 where rl: "rank_loop C pins res (List.enumerate 0 pins) ?st = (r, st2)" by fastforce
  have s: "reached I F (map_option cd_peer r) st2" by (rule rank_loop_phase [OF Ie rl])
  show ?case
  proof (cases r)
    case (Some d)
    with s rr rl show ?thesis by simp
  next
    case None
    with s have I2: "I st2" by simp
    show ?thesis
    proof (cases "opt_fallback_to_discovery (srv_peer_options server)")
      case True
      then have "\<not> hard_pinned server" by (simp add: hard_pinned_def)
      with None rr rl True discovered_phase [OF I2, of None] show ?thesis by simp
    next
      case False
      with None rr rl Suc.IH [OF sleep_law [OF I2]] Suc.prems(2) show ?thesis by simp
    qed
  qed
qed

theorem connect_phase:
  assumes "I st"
  shows "settled I F (connect C server avoid st)"
proof (cases "pinned (srv_peer_options server) = []")
  case True
  then have "\<not> hard_pinned server" by (simp add: hard_pinned_def)
  with True assms show ?thesis by (simp add: connect_def Let_def discovered_phase)
next
  case False
  with assms show ?thesis by (simp add: connect_def Let_def connect_pinned_def pinned_phase)
qed

end

section \<open>Recording the calls\<close>

datatype call =
    CallResolve "peer_id list"
  | CallFind
  | CallDial "multiaddr set" "peer_id option"
  | CallConnected peer_id bool
  | CallSleep duration

definition log_ports :: "'w ports \<Rightarrow> ('w \<times> call list) ports" where
  "log_ports P =
     \<lparr>port_resolve_peers = (\<lambda>ps (w, l).
        case port_resolve_peers P ps w of (r, w') \<Rightarrow> (r, (w', l @ [CallResolve ps]))),
      port_find_nodes = (\<lambda>s n (w, l).
        case port_find_nodes P s n w of (r, w') \<Rightarrow> (r, (w', l @ [CallFind]))),
      port_dial_and_wait = (\<lambda>A (w, l).
        case port_dial_and_wait P A w of (r, w') \<Rightarrow>
          (r, (w', l @ [CallDial A (case r of Inr hit \<Rightarrow> hit | Inl _ \<Rightarrow> None)]))),
      port_is_connected = (\<lambda>p (w, l).
        case port_is_connected P p w of (b, w') \<Rightarrow> (b, (w', l @ [CallConnected p b]))),
      port_sleep = (\<lambda>d (w, l). (port_sleep P d w, l @ [CallSleep d])),
      port_utc_now = (\<lambda>(w, l). port_utc_now P w)\<rparr>"

definition log_ctx :: "('w, 's) connect_ctx \<Rightarrow> ('w \<times> call list, 's) connect_ctx" where
  "log_ctx C = \<lparr>cx_ports = log_ports (cx_ports C), cx_store = cx_store C,
     cx_relay_address = cx_relay_address C, cx_maddr = cx_maddr C, cx_text = cx_text C\<rparr>"

lemma log_ctx_simps [simp]:
  "cx_ports (log_ctx C) = log_ports (cx_ports C)" "cx_store (log_ctx C) = cx_store C"
  "cx_relay_address (log_ctx C) = cx_relay_address C" "cx_maddr (log_ctx C) = cx_maddr C"
  "cx_text (log_ctx C) = cx_text C"
  by (simp_all add: log_ctx_def)

definition call_log :: "('w \<times> call list, 's) conn_state \<Rightarrow> call list" where
  "call_log st = snd (cs_world st)"

fun search_call :: "server \<Rightarrow> call \<Rightarrow> bool" where
  "search_call server (CallDial A hit) = (one_kind A \<and> hit = None)"
| "search_call server CallFind = (\<not> hard_pinned server)"
| "search_call server (CallConnected p b) = False"
| "search_call server _ = True"

text \<open>The peer a settled flow is on: the one dialed, or the last one found connected.\<close>

fun adopted :: "peer_id \<Rightarrow> call list \<Rightarrow> peer_id" where
  "adopted p [] = p"
| "adopted p (CallConnected q True # cs) = adopted q cs"
| "adopted p (_ # cs) = adopted p cs"

lemma adopted_snoc: "adopted p (cs @ [c]) = adopted (adopted p cs) [c]"
  by (induction p cs rule: adopted.induct) simp_all

fun is_check :: "call \<Rightarrow> bool" where
  "is_check (CallConnected _ _) = True"
| "is_check _ = False"

definition settled_log :: "server \<Rightarrow> peer_id \<Rightarrow> call list \<Rightarrow> bool" where
  "settled_log server p l \<longleftrightarrow>
     (\<exists>search A first checks. l = search @ CallDial A (Some first) # checks
        \<and> list_all (search_call server) search \<and> one_kind A
        \<and> list_all is_check checks \<and> p = adopted first checks)"

lemma settled_log_single:
  assumes "list_all (search_call server) l" and "one_kind A"
  shows "settled_log server p (l @ [CallDial A (Some p)])"
  unfolding settled_log_def
  by (rule exI [of _ l], rule exI [of _ A], rule exI [of _ p], rule exI [of _ "[]"])
    (simp add: assms)

lemma settled_log_snoc:
  assumes "settled_log server p l"
  shows "settled_log server (if b then q else p) (l @ [CallConnected q b])"
proof -
  obtain search A first checks where l: "l = search @ CallDial A (Some first) # checks"
    and h: "list_all (search_call server) search" "one_kind A"
      "list_all is_check checks" "p = adopted first checks"
    using assms unfolding settled_log_def by blast
  have "(if b then q else p) = adopted first (checks @ [CallConnected q b])"
    using h(4) by (simp add: adopted_snoc)
  then show ?thesis
    unfolding settled_log_def l
    by (intro exI [of _ search] exI [of _ A] exI [of _ first] exI [of _ "checks @ [CallConnected q b]"])
      (use h in auto)
qed

interpretation trace: connect_phases "log_ctx C" server
    "\<lambda>st. list_all (search_call server) (call_log st)" "\<lambda>p st. settled_log server p (call_log st)"
  for C :: "('w, 's) connect_ctx" and server :: server
proof (unfold_locales, goal_cases)
  case (3 st A dialed w)
  then show ?case
    by (auto simp: reached_iff call_log_def log_ports_def settled_log_single
        split: prod.splits sum.splits option.splits)
next
  case (4 p st q yes w)
  then show ?case
    using settled_log_snoc [of server p "call_log st" yes q]
    by (auto simp: call_log_def log_ports_def split: prod.splits)
qed (auto simp: call_log_def log_ports_def sleep_for_def emit_def forget_def remember_def
      split: prod.splits)

end
