(* ===== verification/Fakes.thy ===== *)
theory Fakes
  imports Connect
begin

text \<open>
  The scriptable adapters of \<open>crates/core/src/testing/fakes.rs\<close> and the builders of
  \<open>crates/core/src/testing/builders.rs\<close>: the environment the source's own tests run the connect
  flow against. It gives concrete runs of the model. A fake whose answer depends on the
  iteration order of a hash set takes that order from the environment (\<open>fw_peer_order\<close>,
  \<open>fw_address_order\<close>).
\<close>

record fake_directory =
  fd_find_responses :: "(directory_error + pool_peer list) list"
  fd_resolved :: "(peer_id \<times> multiaddr list) list"
  fd_resolve_unsupported :: bool
  fd_find_calls :: usize
  fd_resolve_calls :: usize

record fake_dialer =
  fl_reachable :: "peer_id set"
  fl_reachable_addrs :: "multiaddr set option"
  fl_connected :: "peer_id set"
  fl_dialed :: "multiaddr set list"

record fake_world =
  fw_directory :: fake_directory
  fw_dialer :: fake_dialer
  fw_slept :: "duration list"
  fw_now :: int
  fw_peer_order :: "peer_id list"
  fw_address_order :: "multiaddr list"

definition fake_directory_new :: fake_directory where
  "fake_directory_new =
     \<lparr>fd_find_responses = [], fd_resolved = [], fd_resolve_unsupported = False,
      fd_find_calls = 0, fd_resolve_calls = 0\<rparr>"

definition fake_directory_unsupported :: fake_directory where
  "fake_directory_unsupported = fake_directory_new\<lparr>fd_resolve_unsupported := True\<rparr>"

definition fake_resolve_peers ::
    "peer_id list \<Rightarrow> fake_directory \<Rightarrow> (directory_error + route_map) \<times> fake_directory" where
  "fake_resolve_peers peers d =
     (let d' = d\<lparr>fd_resolve_calls := fd_resolve_calls d + 1\<rparr>
      in if fd_resolve_unsupported d then (Inl (Unsupported ''fake''), d')
         else (Inr (List.map_filter
                 (\<lambda>p. map_option (\<lambda>a. (p, a)) (map_of (fd_resolved d) p)) peers), d'))"

definition fake_find_nodes :: "fake_directory \<Rightarrow> (directory_error + pool_peer list) \<times> fake_directory" where
  "fake_find_nodes d =
     (let d' = d\<lparr>fd_find_calls := fd_find_calls d + 1\<rparr>
      in case fd_find_responses d of
           [] \<Rightarrow> (Inr [], d')
         | r # rs \<Rightarrow> (r, d'\<lparr>fd_find_responses := rs\<rparr>))"

definition fake_dialer_new :: fake_dialer where
  "fake_dialer_new =
     \<lparr>fl_reachable = {}, fl_reachable_addrs = None, fl_connected = {}, fl_dialed = []\<rparr>"

definition fake_dialer_reachable :: "peer_id set \<Rightarrow> fake_dialer" where
  "fake_dialer_reachable ps = fake_dialer_new\<lparr>fl_reachable := ps\<rparr>"

definition fake_dialer_reachable_addresses :: "multiaddr set \<Rightarrow> fake_dialer" where
  "fake_dialer_reachable_addresses as = fake_dialer_new\<lparr>fl_reachable_addrs := Some as\<rparr>"

definition fake_dial_and_wait ::
    "peer_id list \<Rightarrow> multiaddr list \<Rightarrow> multiaddr set \<Rightarrow> fake_dialer
     \<Rightarrow> (dial_error + peer_id option) \<times> fake_dialer" where
  "fake_dial_and_wait peer_order address_order addresses d =
     (let d' = d\<lparr>fl_dialed := fl_dialed d @ [addresses]\<rparr>;
          hit = (case fl_reachable_addrs d of
                   Some as \<Rightarrow>
                     Option.bind (find (\<lambda>a. a \<in> addresses \<and> a \<in> as) address_order) last_p2p
                 | None \<Rightarrow>
                     find (\<lambda>p. p \<in> destination_peer_ids addresses \<and> p \<in> fl_reachable d) peer_order)
      in (Inr hit, case hit of Some p \<Rightarrow> d'\<lparr>fl_connected := insert p (fl_connected d)\<rparr> | None \<Rightarrow> d'))"

definition fake_is_connected :: "peer_id \<Rightarrow> fake_dialer \<Rightarrow> bool" where
  "fake_is_connected p d = (p \<in> fl_connected d)"

text \<open>The clock never waits: it records the durations it is asked for.\<close>

definition fake_sleep :: "duration \<Rightarrow> fake_world \<Rightarrow> fake_world" where
  "fake_sleep d w = w\<lparr>fw_slept := fw_slept w @ [d]\<rparr>"

declare fake_sleep_def [simp]

definition fake_ports :: "fake_world ports" where
  "fake_ports =
     \<lparr>port_resolve_peers = (\<lambda>peers w. case fake_resolve_peers peers (fw_directory w) of
          (r, d) \<Rightarrow> (r, w\<lparr>fw_directory := d\<rparr>)),
      port_find_nodes = (\<lambda>server limit w. case fake_find_nodes (fw_directory w) of
          (r, d) \<Rightarrow> (r, w\<lparr>fw_directory := d\<rparr>)),
      port_dial_and_wait = (\<lambda>A w.
          case fake_dial_and_wait (fw_peer_order w) (fw_address_order w) A (fw_dialer w) of
          (r, d) \<Rightarrow> (r, w\<lparr>fw_dialer := d\<rparr>)),
      port_is_connected = (\<lambda>p w. (fake_is_connected p (fw_dialer w), w)),
      port_sleep = fake_sleep,
      port_utc_now = fw_now\<rparr>"

section \<open>Builders\<close>

definition direct_addr :: "peer_id \<Rightarrow> multiaddr" where
  "direct_addr p = [Ip4 ''198.51.100.7'', Tcp 443, P2p p]"

definition relay_addr :: multiaddr where
  "relay_addr = [Dns4 ''boot.example.com'', Tcp 45445]"

definition options :: server_peer_options where
  "options = \<lparr>opt_destination_peers = None, opt_fallback_to_discovery = False, opt_sticky = True,
     opt_sticky_reconnect = WithBackoff, opt_country = None, opt_min_bandwidth = 0,
     opt_city = None, opt_isp = None, opt_asn = None,
     opt_proxy = Allow, opt_mobile = Allow, opt_hosting = Allow\<rparr>"

definition discovery_server :: "u16 \<Rightarrow> server" where
  "discovery_server port = \<lparr>srv_protocol = Socks5, srv_port = port, srv_peer_options = options,
     srv_pool = default_pool_config\<rparr>"

definition pinned_server :: "u16 \<Rightarrow> peer_id list \<Rightarrow> server" where
  "pinned_server port peers = (discovery_server port)\<lparr>srv_peer_options := options
     \<lparr>opt_destination_peers := Some (map (\<lambda>p. \<lparr>entry_peer_id = p, entry_address = None\<rparr>) peers)\<rparr>\<rparr>"

text \<open>The fake dialer only ever reports a peer one of the dialed addresses ends in.\<close>

lemma fake_dial_faithful:
  assumes "fake_dial_and_wait po ao A d = (Inr (Some p), d')"
  shows "p \<in> destination_peer_ids A"
  using assms
  by (auto simp: fake_dial_and_wait_def Let_def find_Some_iff destination_peer_ids_iff
      split: option.splits bind_splits)

end
