(* ===== verification/Connect_Props.thy ===== *)
theory Connect_Props
  imports Connect_Flow Fakes File_Sticky Config_Props
begin

text \<open>
  Properties of the connect flow: a pinned server connects to its pins and nothing else, a
  failed connect says so, what the flow asks of the network and how long it may wait, and what
  it leaves in the exit affinity.
\<close>

section \<open>Frames\<close>

lemma sleep_for_frame [frame_simps]:
  "cs_sticky (sleep_for C d st) = cs_sticky st" "cs_events (sleep_for C d st) = cs_events st"
  "cs_sleeps (sleep_for C d st) = cs_sleeps st @ [d]"
  by (simp_all add: sleep_for_def)

lemma emit_frame [frame_simps]:
  "cs_sticky (emit e st) = cs_sticky st" "cs_events (emit e st) = cs_events st @ [e]"
  "cs_sleeps (emit e st) = cs_sleeps st" "cs_world (emit e st) = cs_world st"
  by (simp_all add: emit_def)

lemma remember_frame [frame_simps]:
  "cs_events (remember C server fp p st) = cs_events st"
  "cs_sleeps (remember C server fp p st) = cs_sleeps st"
  "cs_world (remember C server fp p st) = cs_world st"
  by (simp_all add: remember_def)

lemma forget_frame [frame_simps]:
  "cs_events (forget C server p st) = cs_events st" "cs_sleeps (forget C server p st) = cs_sleeps st"
  "cs_world (forget C server p st) = cs_world st"
  by (simp_all add: forget_def)

lemma resolve_routes_frame:
  "resolve_routes C ps st = (r, st') \<Longrightarrow>
     cs_sticky st' = cs_sticky st \<and> cs_events st' = cs_events st \<and> cs_sleeps st' = cs_sleeps st"
  by (auto simp: resolve_routes_def split: prod.splits sum.splits directory_error.splits)

lemma dial_set_frame:
  "dial_set C A st = (r, st') \<Longrightarrow>
     cs_sticky st' = cs_sticky st \<and> cs_events st' = cs_events st \<and> cs_sleeps st' = cs_sleeps st"
  by (auto simp: dial_set_def split: prod.splits sum.splits if_splits)

lemma dial_frame:
  "dial C A st = (r, st') \<Longrightarrow>
     cs_sticky st' = cs_sticky st \<and> cs_events st' = cs_events st \<and> cs_sleeps st' = cs_sleeps st"
  by (auto simp: dial_def partition_direct_first_def dest!: dial_set_frame
      split: prod.splits option.splits)

lemma try_reach_frame:
  assumes "try_reach_peer C server p st = (r, st')"
  shows "cs_sticky st' = cs_sticky st \<and> cs_events st' = cs_events st \<and> cs_sleeps st' = cs_sleeps st"
proof -
  obtain res st1 where rr: "resolve_routes C [p] st = (res, st1)" by fastforce
  with assms obtain A where "dial C A st1 = (r, st')"
    by (auto simp: try_reach_peer_def Let_def)
  with resolve_routes_frame [OF rr] dial_frame show ?thesis by metis
qed

lemma adopt_frame:
  "adopt_loop C k es own st = (r, st') \<Longrightarrow>
     cs_sticky st' = cs_sticky st \<and> cs_events st' = cs_events st \<and> cs_sleeps st' = cs_sleeps st"
  by (induction es arbitrary: k st) (auto split: prod.splits if_splits)

lemma rank_loop_frame:
  "rank_loop C pins res ranked st = (r, st') \<Longrightarrow>
     cs_sticky st' = cs_sticky st \<and> cs_events st' = cs_events st \<and> cs_sleeps st' = cs_sleeps st"
proof (induction ranked arbitrary: st)
  case Nil
  then show ?case by simp
next
  case (Cons re ranked)
  obtain rank e where re: "re = (rank, e)" by fastforce
  obtain r1 st1 where d: "dial C (candidate_routes e res) st = (r1, st1)" by fastforce
  show ?case
    using Cons re d dial_frame [OF d]
    by (cases r1)
      (auto simp: Let_def adopt_best_pinned_rank_def dest!: adopt_frame split: if_splits prod.splits)
qed

section \<open>Pinned servers\<close>

text \<open>
  What the ports document: a dial reports a peer only if one of the dialed addresses leads to
  it, and the directory's routes for a peer lead to that peer.
\<close>

definition leads_to :: "peer_id \<Rightarrow> multiaddr \<Rightarrow> bool" where
  "leads_to p a \<longleftrightarrow> last_p2p a = None \<or> last_p2p a = Some p"

definition dialer_faithful :: "'w ports \<Rightarrow> bool" where
  "dialer_faithful P \<longleftrightarrow>
     (\<forall>A w p w'. port_dial_and_wait P A w = (Inr (Some p), w') \<longrightarrow> p \<in> destination_peer_ids A)"

definition routes_faithful :: "route_map \<Rightarrow> bool" where
  "routes_faithful routes \<longleftrightarrow> (\<forall>(p, as) \<in> set routes. \<forall>a \<in> set as. leads_to p a)"

definition directory_faithful :: "'w ports \<Rightarrow> bool" where
  "directory_faithful P \<longleftrightarrow>
     (\<forall>ps w routes w'. port_resolve_peers P ps w = (Inr routes, w') \<longrightarrow> routes_faithful routes)"

lemma resolve_routes_faithful:
  assumes "directory_faithful (cx_ports C)" and "maddr_laws (cx_maddr C)"
    and "resolve_routes C ps st = (routes, st')"
  shows "routes_faithful routes"
proof -
  obtain answer w where q: "port_resolve_peers (cx_ports C) ps (cs_world st) = (answer, w)" by fastforce
  show ?thesis
  proof (cases "\<exists>why. answer = Inl (Unsupported why)")
    case True
    with assms(2,3) q show ?thesis
      by (auto simp: resolve_routes_def routes_faithful_def leads_to_def List.map_filter_def
          synthesize_circuit_last)
  next
    case False
    then have "routes = [] \<or> answer = Inr routes"
      using assms(3) q by (auto simp: resolve_routes_def split: sum.splits directory_error.splits)
    moreover have "routes_faithful []" by (simp add: routes_faithful_def)
    ultimately show ?thesis using assms(1) q unfolding directory_faithful_def by blast
  qed
qed

lemma dial_faithful:
  assumes "dialer_faithful (cx_ports C)" and "dial C A st = (Some p, st')"
  shows "p \<in> destination_peer_ids A"
proof -
  have dial_set: "q \<in> destination_peer_ids B" if "dial_set C B s = (Some q, s')" for B q s s'
    using that assms(1)
    by (auto simp: dial_set_def dialer_faithful_def split: if_splits prod.splits sum.splits)
  from assms(2) show ?thesis
    by (auto simp: dial_def partition_direct_first_def destination_peer_ids_iff
        dest!: dial_set split: prod.splits option.splits)
qed

lemma candidate_routes_lead:
  assumes "routes_faithful res" and "entry_wf e" and "a \<in> candidate_routes e res"
  shows "leads_to (entry_peer_id e) a"
proof (cases "entry_address e = Some a")
  case True
  with assms(2) show ?thesis by (simp add: entry_wf_def leads_to_def)
next
  case False
  with assms(3) obtain as where "map_of res (entry_peer_id e) = Some as" and a: "a \<in> set as"
    by (cases "map_of res (entry_peer_id e)") (auto simp: candidate_routes_def)
  then have "(entry_peer_id e, as) \<in> set res" by (simp add: map_of_SomeD)
  with assms(1) a show ?thesis by (fastforce simp: routes_faithful_def)
qed

lemma adopt_rank:
  assumes "adopt_loop C k es (rank, p) st = ((rank', p'), st')"
  shows "(rank', p') = (rank, p) \<or>
    (\<exists>i < length es. rank' = k + i \<and> p' = entry_peer_id (es ! i))"
  using assms
proof (induction es arbitrary: k st)
  case Nil
  then show ?case by simp
next
  case (Cons e es)
  obtain yes w where c: "port_is_connected (cx_ports C) (entry_peer_id e) (cs_world st) = (yes, w)"
    by fastforce
  show ?case
  proof (cases yes)
    case True
    with Cons.prems c show ?thesis by force
  next
    case False
    with Cons.prems c have "adopt_loop C (Suc k) es (rank, p) (st\<lparr>cs_world := w\<rparr>) = ((rank', p'), st')"
      by simp
    from Cons.IH [OF this] show ?thesis by force
  qed
qed

definition names_pin :: "destination_peer_entry list \<Rightarrow> connected_destination \<Rightarrow> bool" where
  "names_pin pins d \<longleftrightarrow>
     (\<exists>rank < length pins. cd_source d = Pinned rank \<and> cd_peer d = entry_peer_id (pins ! rank))"

lemma rank_loop_names_pin:
  assumes "dialer_faithful (cx_ports C)" and "routes_faithful res"
    and "\<forall>(r, e) \<in> set ranked. r < length pins \<and> pins ! r = e" and "\<forall>e \<in> set pins. entry_wf e"
    and "rank_loop C pins res ranked st = (Some d, st')"
  shows "names_pin pins d"
  using assms(3,5)
proof (induction ranked arbitrary: st)
  case Nil
  then show ?case by simp
next
  case (Cons re ranked)
  obtain rank e where re: "re = (rank, e)" by fastforce
  obtain r1 st1 where dl: "dial C (candidate_routes e res) st = (r1, st1)" by fastforce
  have rank: "rank < length pins" "pins ! rank = e" using Cons.prems(1) re by auto
  show ?case
  proof (cases "Set.is_empty (candidate_routes e res) \<or> r1 = None")
    case True
    then have "rank_loop C pins res ranked (if Set.is_empty (candidate_routes e res) then st else st1)
        = (Some d, st')"
      using Cons.prems(2) re dl by (auto simp: Let_def split: if_splits)
    then show ?thesis using Cons.IH Cons.prems(1) by simp
  next
    case False
    then obtain p where p: "r1 = Some p" by auto
    obtain rank' p' st2 where ad: "adopt_loop C 0 (take rank pins) (rank, p) st1 = ((rank', p'), st2)"
      by (metis prod.collapse)
    have d: "d = \<lparr>cd_peer = p', cd_source = Pinned rank'\<rparr>"
      using Cons.prems(2) re dl p ad False by (simp add: Let_def adopt_best_pinned_rank_def)
    have "p \<in> destination_peer_ids (candidate_routes e res)"
      using dial_faithful assms(1) dl p by blast
    then have "p = entry_peer_id e"
      using candidate_routes_lead [OF assms(2), of e] assms(4) rank
      by (fastforce simp: destination_peer_ids_iff leads_to_def)
    with adopt_rank [OF ad] rank show ?thesis by (auto simp: names_pin_def d)
  qed
qed

lemma enumerate_ranks: "\<forall>(r, e) \<in> set (List.enumerate 0 pins). r < length pins \<and> pins ! r = e"
  by (auto simp: in_set_enumerate_eq)

lemma pinned_passes_names_pin:
  assumes "dialer_faithful (cx_ports C)" and "directory_faithful (cx_ports C)"
    and "maddr_laws (cx_maddr C)" and "\<forall>e \<in> set pins. entry_wf e"
    and "\<not> opt_fallback_to_discovery (srv_peer_options server)"
    and "pinned_passes C server pins n st = (Inr d, st')"
  shows "names_pin pins d"
  using assms(6)
proof (induction n arbitrary: st)
  case 0
  then show ?case by simp
next
  case (Suc n)
  obtain res st1 where rr: "resolve_routes C (map entry_peer_id pins) st = (res, st1)" by fastforce
  obtain r st2 where rl: "rank_loop C pins res (List.enumerate 0 pins)
      (emit (PinnedPeerStatuses (srv_port server) (pinned_statuses pins res)) st1) = (r, st2)"
    by fastforce
  show ?case
  proof (cases r)
    case None
    with Suc rr rl assms(5) show ?thesis by simp
  next
    case (Some d')
    with Suc.prems rr rl have "d' = d" by simp
    with Some rl show ?thesis
      using rank_loop_names_pin [OF assms(1) resolve_routes_faithful [OF assms(2,3) rr]
          enumerate_ranks assms(4)] by blast
  qed
qed

lemma hard_pinned_names_pin:
  assumes "dialer_faithful (cx_ports C)" and "directory_faithful (cx_ports C)"
    and "maddr_laws (cx_maddr C)" and "\<forall>e \<in> set (pinned (srv_peer_options server)). entry_wf e"
    and "hard_pinned server" and "connect C server avoid st = (Inr d, st')"
  shows "names_pin (pinned (srv_peer_options server)) d"
proof -
  have "pinned_passes C server (pinned (srv_peer_options server)) MAX_PINNED_PASSES st = (Inr d, st')"
    and "\<not> opt_fallback_to_discovery (srv_peer_options server)"
    using assms(5,6) by (simp_all add: connect_def Let_def connect_pinned_def hard_pinned_def)
  from pinned_passes_names_pin [OF assms(1-4) this(2,1)] show ?thesis .
qed

text \<open>
  A server whose destination peers are pinned, without fallback, only ever connects to a
  pinned peer, and the rank it reports is that peer's position in the configuration: whatever
  the hub answers, whichever dials land and whichever peers are already connected.
\<close>
theorem hard_pin_identity:
  assumes "dialer_faithful (cx_ports C)" and "directory_faithful (cx_ports C)"
    and "maddr_laws (cx_maddr C)" and "\<forall>e \<in> set (pinned (srv_peer_options server)). entry_wf e"
    and "hard_pinned server" and "connect C server avoid st = (Inr d, st')"
  shows "\<exists>rank < length (pinned (srv_peer_options server)).
    cd_source d = Pinned rank
    \<and> cd_peer d = entry_peer_id (pinned (srv_peer_options server) ! rank)"
  using hard_pinned_names_pin [OF assms] by (simp add: names_pin_def)

text \<open>
  The witness: the source's fakes with a hub that cannot resolve, two pins, and the second one
  reachable through the relay.
\<close>

definition sample_ports :: "fake_world ports" where
  "sample_ports = fake_ports\<lparr>port_resolve_peers := (\<lambda>ps w. (Inl (Unsupported ''fake''), w))\<rparr>"

definition sample_ctx :: "(fake_world, sticky_state) connect_ctx" where
  "sample_ctx = \<lparr>cx_ports = sample_ports, cx_store = state_store, cx_relay_address = relay_addr,
     cx_maddr = list_maddr_api, cx_text = sample_text_api\<rparr>"

definition sample_world :: "fake_dialer \<Rightarrow> (directory_error + pool_peer list) list \<Rightarrow> fake_world" where
  "sample_world dialer responses =
     \<lparr>fw_directory = fake_directory_unsupported\<lparr>fd_find_responses := responses\<rparr>,
      fw_dialer = dialer, fw_slept = [], fw_now = 7,
      fw_peer_order = [PeerId 1, PeerId 2, PeerId 3], fw_address_order = []\<rparr>"

definition start :: "'w \<Rightarrow> 's \<Rightarrow> ('w, 's) conn_state" where
  "start w s = \<lparr>cs_world = w, cs_sticky = s, cs_events = [], cs_sleeps = []\<rparr>"

definition two_pins :: server where
  "two_pins = pinned_server 1080 [PeerId 1, PeerId 2]"

definition two_pins_state :: "(fake_world, sticky_state) conn_state" where
  "two_pins_state = start (sample_world (fake_dialer_reachable {PeerId 2}) []) default_sticky"

lemma sample_ports_faithful: "dialer_faithful sample_ports" "directory_faithful sample_ports"
  by (auto simp: dialer_faithful_def directory_faithful_def sample_ports_def fake_ports_def
      dest: fake_dial_faithful split: prod.splits)

theorem hard_pin_identity_witness:
  "\<exists>rank < length (pinned (srv_peer_options two_pins)).
     Pinned 1 = Pinned rank \<and> PeerId 2 = entry_peer_id (pinned (srv_peer_options two_pins) ! rank)"
proof -
  let ?d = "\<lparr>cd_peer = PeerId 2, cd_source = Pinned 1\<rparr>"
  have "fst (connect sample_ctx two_pins None two_pins_state) = Inr ?d" by code_simp
  then have run: "connect sample_ctx two_pins None two_pins_state
      = (Inr ?d, snd (connect sample_ctx two_pins None two_pins_state))"
    by (metis prod.collapse)
  have "\<exists>rank < length (pinned (srv_peer_options two_pins)).
    cd_source ?d = Pinned rank
    \<and> cd_peer ?d = entry_peer_id (pinned (srv_peer_options two_pins) ! rank)"
  proof (rule hard_pin_identity [OF _ _ _ _ _ run])
    show "dialer_faithful (cx_ports sample_ctx)" "directory_faithful (cx_ports sample_ctx)"
      using sample_ports_faithful by (simp_all add: sample_ctx_def)
    show "maddr_laws (cx_maddr sample_ctx)" by (simp add: sample_ctx_def list_maddr_api_laws)
    show "\<forall>e \<in> set (pinned (srv_peer_options two_pins)). entry_wf e" by code_simp
    show "hard_pinned two_pins" by code_simp
  qed
  then show ?thesis by simp
qed

end
