(* ===== verification/Connect_Effects.thy ===== *)
theory Connect_Effects
  imports Connect_Props
begin

text \<open>
  What a connect does besides naming a peer: how it reports failure, in which order it dials,
  how long it can wait and how often it can ask the hub, and what it leaves in the exit
  affinity.
\<close>

section \<open>Failure\<close>

lemma discovery_loop_error:
  "discovery_loop C server fp n st = (Inl e, st') \<Longrightarrow>
     e = DiscoveryExhausted (srv_port server) MAX_DISCOVERY_ATTEMPTS
     \<and> (\<exists>st0. st' = emit (ErrorEvent (discovery_error_text C server)) st0)"
  by (induction n arbitrary: st) (auto simp: Let_def split: prod.splits sum.splits if_splits option.splits)

lemma pool_then_discovery_error:
  "pool_then_discovery C server fp avoid st = (Inl e, st') \<Longrightarrow>
     e = DiscoveryExhausted (srv_port server) MAX_DISCOVERY_ATTEMPTS
     \<and> (\<exists>st0. st' = emit (ErrorEvent (discovery_error_text C server)) st0)"
  by (auto simp: pool_then_discovery_def run_discovery_def dest: discovery_loop_error
      split: prod.splits option.splits)

lemma discovered_error:
  "connect_discovered C server avoid st = (Inl e, st') \<Longrightarrow>
     e = DiscoveryExhausted (srv_port server) MAX_DISCOVERY_ATTEMPTS
     \<and> (\<exists>st0. st' = emit (ErrorEvent (discovery_error_text C server)) st0)"
  by (auto simp: connect_discovered_def Let_def dest: pool_then_discovery_error
      split: prod.splits option.splits if_splits)

lemma pinned_passes_error:
  assumes "pinned_passes C server pins n st = (Inl e, st')"
  shows "if n > 0 \<and> opt_fallback_to_discovery (srv_peer_options server)
    then e = DiscoveryExhausted (srv_port server) MAX_DISCOVERY_ATTEMPTS
      \<and> (\<exists>st0. st' = emit (ErrorEvent (discovery_error_text C server)) st0)
    else e = PinnedExhausted (srv_port server) (length pins)
      \<and> (\<exists>st0. st' = emit (ErrorEvent (pinned_error_text server pins)) st0)
      \<and> cs_sleeps st' = cs_sleeps st @ replicate n (from_secs 1)"
  using assms
proof (induction n arbitrary: st)
  case 0
  then show ?case by (auto simp: frame_simps)
next
  case (Suc n)
  obtain res st1 where rr: "resolve_routes C (map entry_peer_id pins) st = (res, st1)" by fastforce
  obtain r st2 where rl: "rank_loop C pins res (List.enumerate 0 pins)
      (emit (PinnedPeerStatuses (srv_port server) (pinned_statuses pins res)) st1) = (r, st2)"
    by fastforce
  have none: "r = None" using Suc.prems rr rl by (cases r) auto
  have sl: "cs_sleeps st2 = cs_sleeps st"
    using rank_loop_frame [OF rl] resolve_routes_frame [OF rr] by (simp add: frame_simps)
  show ?case
  proof (cases "opt_fallback_to_discovery (srv_peer_options server)")
    case True
    with Suc.prems rr rl none show ?thesis using discovered_error by force
  next
    case False
    with Suc.prems rr rl none
    have "pinned_passes C server pins n (sleep_for C (from_secs 1) st2) = (Inl e, st')" by simp
    from Suc.IH [OF this] False sl show ?thesis by (simp add: frame_simps replicate_app_Cons_same)
  qed
qed


definition offline_state :: "(fake_world, sticky_state) conn_state" where
  "offline_state = start (sample_world fake_dialer_new []) default_sticky"

text \<open>With no reachable peer no race lands, so no connect settles.\<close>

definition offline :: "(fake_world, 's) conn_state \<Rightarrow> bool" where
  "offline st \<longleftrightarrow> fl_reachable (fw_dialer (cs_world st)) = {}
     \<and> fl_reachable_addrs (fw_dialer (cs_world st)) = None"

definition in_sample_world :: "(fake_world, 's) connect_ctx \<Rightarrow> (fake_world, 's) connect_ctx" where
  "in_sample_world C = C\<lparr>cx_ports := sample_ports\<rparr>"

interpretation offline: connect_phases "in_sample_world C" server offline "\<lambda>_ _. False"
  for C :: "(fake_world, 's) connect_ctx" and server :: server
proof (unfold_locales, goal_cases)
  case (3 st A dialed w)
  then show ?case
    by (auto simp: offline_def in_sample_world_def sample_ports_def fake_ports_def fake_dial_and_wait_def
        Let_def reached_iff find_Some_iff split: prod.splits sum.splits option.splits)
qed (auto simp: offline_def in_sample_world_def sample_ports_def fake_ports_def sleep_for_def emit_def
      forget_def fake_find_nodes_def Let_def split: prod.splits list.splits)

lemma offline_connect_fails:
  assumes "offline st" and "in_sample_world C = C"
  shows "\<exists>e. connect C server avoid st = (Inl e, snd (connect C server avoid st))"
  using offline.connect_phase [OF assms(1), of C server avoid] assms(2)
  by (cases "connect C server avoid st"; cases "fst (connect C server avoid st)") (simp_all add: settled_def)

lemma sample_ctx_world: "in_sample_world sample_ctx = sample_ctx"
  by (simp add: in_sample_world_def sample_ctx_def)

lemma offline_start: "offline (start (sample_world fake_dialer_new rs) s)"
  by (simp add: offline_def start_def sample_world_def fake_dialer_new_def)


section \<open>The order of dialing\<close>

text \<open>
  A relay is a last resort: \<open>dial\<close> first races all the direct addresses at once, and the
  relay circuits are dialed, in one second race, only when there was no direct address or no
  direct address connected. Nothing else is asked of the network and an empty race is never
  started.
\<close>
theorem relay_is_last_resort:
  "let direct = {a \<in> A. \<not> is_relayed a}; relay = {a \<in> A. is_relayed a};
       (hit, st') = dial (log_ctx C) A st
   in (direct = {} \<and> relay = {} \<and> hit = None \<and> call_log st' = call_log st)
    \<or> (direct = {} \<and> relay \<noteq> {} \<and> call_log st' = call_log st @ [CallDial relay hit])
    \<or> (direct \<noteq> {} \<and> hit \<noteq> None \<and> call_log st' = call_log st @ [CallDial direct hit])
    \<or> (direct \<noteq> {} \<and> relay = {} \<and> hit = None \<and> call_log st' = call_log st @ [CallDial direct None])
    \<or> (direct \<noteq> {} \<and> relay \<noteq> {}
        \<and> call_log st' = call_log st @ [CallDial direct None, CallDial relay hit])"
proof -
  have log: "call_log s' = call_log s @ (if B = {} then [] else [CallDial B r]) \<and> (B = {} \<longrightarrow> r = None)"
    if "dial_set (log_ctx C) B s = (r, s')" for B r s s'
    using that
    by (auto simp: dial_set_def call_log_def log_ports_def split: if_splits prod.splits sum.splits)
  obtain r1 st1 where d1: "dial_set (log_ctx C) {a \<in> A. \<not> is_relayed a} st = (r1, st1)" by fastforce
  obtain r2 st2 where d2: "dial_set (log_ctx C) {a \<in> A. is_relayed a} st1 = (r2, st2)" by fastforce
  have "dial (log_ctx C) A st = (if r1 = None then (r2, st2) else (r1, st1))"
    using d1 d2 by (cases r1) (simp_all add: dial_def partition_direct_first_def)
  then show ?thesis
    using log [OF d1] log [OF d2] by (cases r1; cases r2) (auto simp: Let_def)
qed

text \<open>
  C11. The calls of any connect, in order: it searches, with every race non-empty and all direct
  or all relayed, none of them landing; a successful connect then has exactly one landed race,
  after which it only checks which pinned peers are connected, and the peer it returns is the
  one that race reached or the last one a check found connected. A failed connect has no landed
  race. A server with pins only never asks the hub for candidates.
\<close>
theorem connect_call_discipline:
  "case connect (log_ctx C) server avoid \<lparr>cs_world = (w, []), cs_sticky = s, cs_events = [], cs_sleeps = []\<rparr> of
     (Inl e, st') \<Rightarrow> list_all (search_call server) (call_log st')
   | (Inr d, st') \<Rightarrow> \<exists>search A first checks.
       call_log st' = search @ CallDial A (Some first) # checks
       \<and> list_all (search_call server) search \<and> one_kind A
       \<and> list_all is_check checks \<and> cd_peer d = adopted first checks"
  using trace.connect_phase
    [of server "\<lparr>cs_world = (w, []), cs_sticky = s, cs_events = [], cs_sleeps = []\<rparr>" C avoid]
  by (simp add: call_log_def settled_def settled_log_def case_prod_beta split: sum.splits)

section \<open>Bounded effort\<close>

text \<open>
  The cost of a call log when a candidate request costs \<open>a\<close> and a unit of sleep costs \<open>b\<close>.
\<close>

fun call_cost :: "nat \<Rightarrow> nat \<Rightarrow> call \<Rightarrow> nat" where
  "call_cost a b CallFind = a"
| "call_cost a b (CallSleep d) = b * d"
| "call_cost a b _ = 0"

definition effort :: "nat \<Rightarrow> nat \<Rightarrow> call list \<Rightarrow> nat" where
  "effort a b l = sum_list (map (call_cost a b) l)"

lemma effort_snoc: "effort a b (l @ [c]) = effort a b l + call_cost a b c"
  by (simp add: effort_def)

lemma effort_find_sleep:
  "effort 1 0 l = length (filter (\<lambda>c. c = CallFind) l)"
  "effort 0 1 l = sum_list (List.map_filter (\<lambda>c. case c of CallSleep d \<Rightarrow> Some d | _ \<Rightarrow> None) l)"
proof (induction l)
  case (Cons c l)
  {
    case 1
    with Cons show ?case by (cases c) (simp_all add: effort_def)
  next
    case 2
    with Cons show ?case by (cases c) (simp_all add: effort_def List.map_filter_def)
  }
qed (simp_all add: effort_def List.map_filter_def)

lemma free_calls:
  "resolve_routes (log_ctx C) ps st = (r, st') \<Longrightarrow> effort a b (call_log st') = effort a b (call_log st)"
  "dial_set (log_ctx C) A st = (hit, st') \<Longrightarrow> effort a b (call_log st') = effort a b (call_log st)"
  by (auto simp: resolve_routes_def dial_set_def call_log_def log_ports_def effort_snoc
      split: prod.splits sum.splits directory_error.splits if_splits)

lemma free_dial:
  "dial (log_ctx C) A st = (hit, st') \<Longrightarrow> effort a b (call_log st') = effort a b (call_log st)"
  by (auto simp: dial_def partition_direct_first_def dest!: free_calls(2) [where a = a and b = b]
      split: prod.splits option.splits)

lemma free_try:
  assumes "try_reach_peer (log_ctx C) server p st = (hit, st')"
  shows "effort a b (call_log st') = effort a b (call_log st)"
proof -
  obtain res st1 where rr: "resolve_routes (log_ctx C) [p] st = (res, st1)" by fastforce
  with assms obtain A where "dial (log_ctx C) A st1 = (hit, st')"
    by (auto simp: try_reach_peer_def Let_def)
  with free_calls(1) [OF rr] free_dial show ?thesis by metis
qed

lemma effort_steps [simp]:
  "effort a b (call_log (sleep_for (log_ctx C) d st)) = effort a b (call_log st) + b * d"
  "call_log (emit e st) = call_log st" "call_log (remember C' server fp p st) = call_log st"
  "call_log (forget C' server p st) = call_log st" "call_log (st\<lparr>cs_sticky := s\<rparr>) = call_log st"
  by (auto simp: call_log_def sleep_for_def log_ports_def emit_def remember_def forget_def effort_snoc
      split: prod.splits)

lemma free_pool_loop:
  "pool_loop (log_ctx C) server skip ps st = (hit, st') \<Longrightarrow>
     effort a b (call_log st') = effort a b (call_log st)"
proof (induction ps arbitrary: st)
  case (Cons p ps)
  obtain r1 st1 where t: "try_reach_peer (log_ctx C) server p st = (r1, st1)" by fastforce
  from Cons t free_try [OF t, of a b] show ?case
    by (cases r1) (auto split: if_splits)
qed simp

lemma free_sticky_pool:
  "connect_sticky_pool (log_ctx C) server fp skip st = (hit, st') \<Longrightarrow>
     effort a b (call_log st') = effort a b (call_log st)"
  by (auto simp: connect_sticky_pool_def dest: free_pool_loop [where a = a and b = b]
      split: if_splits prod.splits)

lemma reconnect_effort:
  assumes "reconnect_sticky_peer (log_ctx C) server p st = (hit, st')"
  shows "effort a b (call_log st') \<le> effort a b (call_log st) + b * from_secs 3"
proof -
  have three: "STICKY_RECONNECT_ATTEMPTS = Suc (Suc (Suc 0))" by (simp add: STICKY_RECONNECT_ATTEMPTS_def)
  have secs: "from_secs 3 = from_secs 1 + from_secs 2" by (simp add: from_secs_def)
  define b2 where b2: "b2 = (backoff_new (from_secs 1) 2 (from_secs 8))\<lparr>bo_current := from_secs 2\<rparr>"
  have d1: "next_delay (backoff_new (from_secs 1) 2 (from_secs 8)) = (from_secs 1, b2)"
    unfolding b2 by (rule reconnect_delays(1))
  obtain b3 where d2: "next_delay b2 = (from_secs 2, b3)"
    using reconnect_delays(2) b2 by (metis prod.collapse)
  from assms show ?thesis
    unfolding reconnect_sticky_peer_def three secs
    by (auto simp: d1 [unfolded One_nat_def] d2 distrib_left split: prod.splits option.splits
        dest!: free_try [where a = a and b = b])
qed

lemma discovery_effort:
  "effort a b (call_log (snd (discovery_loop (log_ctx C) server fp n st)))
     \<le> effort a b (call_log st) + n * (a + b * from_secs 1)"
proof (induction n arbitrary: st)
  case 0
  then show ?case by simp
next
  case (Suc n)
  obtain found w where f:
    "port_find_nodes (log_ports (cx_ports C)) server FINDNODES_DISCOVERY_LIMIT (cs_world st) = (found, w)"
    by (metis surj_pair)
  have lw: "effort a b (call_log (st\<lparr>cs_world := w\<rparr>)) = effort a b (call_log st) + a"
    using f by (auto simp: call_log_def log_ports_def effort_snoc split: prod.splits)
  show ?case
  proof (cases found)
    case (Inl e)
    with f lw Suc.IH [of "sleep_for (log_ctx C) (from_secs 1) (st\<lparr>cs_world := w\<rparr>)"] show ?thesis by simp
  next
    case (Inr cs)
    let ?st = "emit (ServerPool (srv_port server) cs) (st\<lparr>cs_world := w\<rparr>)"
    obtain hit st1 where d: "dial (log_ctx C) (candidate_addresses (log_ctx C) cs) ?st = (hit, st1)"
      by fastforce
    show ?thesis
      using f lw Inr d free_dial [OF d, of a b] Suc.IH [of st1]
        Suc.IH [of "sleep_for (log_ctx C) (from_secs 1) ?st"]
      by (cases hit) (auto simp: Let_def)
  qed
qed

lemma pool_then_discovery_effort:
  "effort a b (call_log (snd (pool_then_discovery (log_ctx C) server fp avoid st)))
     \<le> effort a b (call_log st) + 20 * (a + b * from_secs 1)"
proof -
  obtain hit st1 where c: "connect_sticky_pool (log_ctx C) server fp avoid st = (hit, st1)" by fastforce
  show ?thesis
    using c free_sticky_pool [OF c, of a b] discovery_effort [of a b C server fp 20 st1]
    by (cases hit) (simp_all add: pool_then_discovery_def run_discovery_def MAX_DISCOVERY_ATTEMPTS_def)
qed

lemma discovered_effort:
  "effort a b (call_log (snd (connect_discovered (log_ctx C) server avoid st)))
     \<le> effort a b (call_log st) + (if avoid = None then 0 else b * from_secs 3)
       + 20 * (a + b * from_secs 1)"
proof -
  let ?fp = "filter_fingerprint (srv_peer_options server) (srv_port server)"
  note tail = pool_then_discovery_effort [of a b C server ?fp avoid]
  show ?thesis
  proof (cases avoid)
    case None
    with tail [of st] show ?thesis by (simp add: connect_discovered_def Let_def)
  next
    case (Some old)
    obtain hit st1 where r: "reconnect_sticky_peer (log_ctx C) server old st = (hit, st1)" by fastforce
    show ?thesis
      using Some r reconnect_effort [OF r, of a b] tail [of st] tail [of "forget (log_ctx C) server old st1"]
      by (cases hit) (auto simp: connect_discovered_def Let_def)
  qed
qed

lemma free_adopt:
  "adopt_loop (log_ctx C) k es own st = (r, st') \<Longrightarrow>
     effort a b (call_log st') = effort a b (call_log st)"
proof (induction es arbitrary: k st)
  case (Cons e es)
  obtain yes w where c: "port_is_connected (log_ports (cx_ports C)) (entry_peer_id e) (cs_world st) = (yes, w)"
    by (metis surj_pair)
  then have "effort a b (call_log (st\<lparr>cs_world := w\<rparr>)) = effort a b (call_log st)"
    by (auto simp: call_log_def log_ports_def effort_snoc split: prod.splits)
  with Cons c show ?case by (cases yes) auto
qed simp

lemma free_rank_loop:
  "rank_loop (log_ctx C) pins res ranked st = (r, st') \<Longrightarrow>
     effort a b (call_log st') = effort a b (call_log st)"
proof (induction ranked arbitrary: st)
  case (Cons re ranked)
  obtain rank e where re: "re = (rank, e)" by fastforce
  obtain r1 st1 where d: "dial (log_ctx C) (candidate_routes e res) st = (r1, st1)" by fastforce
  show ?case
    using Cons re d free_dial [OF d, of a b]
    by (cases r1)
      (auto simp: Let_def adopt_best_pinned_rank_def dest!: free_adopt [where a = a and b = b]
        split: if_splits prod.splits)
qed simp

lemma pinned_effort:
  "n \<le> 20 \<Longrightarrow> effort a b (call_log (snd (pinned_passes (log_ctx C) server pins n st)))
     \<le> effort a b (call_log st) + (if opt_fallback_to_discovery (srv_peer_options server)
         then 20 * (a + b * from_secs 1) else n * (b * from_secs 1))"
proof (induction n arbitrary: st)
  case 0
  then show ?case by simp
next
  case (Suc n)
  obtain res st1 where rr: "resolve_routes (log_ctx C) (map entry_peer_id pins) st = (res, st1)"
    by fastforce
  obtain r st2 where rl: "rank_loop (log_ctx C) pins res (List.enumerate 0 pins)
      (emit (PinnedPeerStatuses (srv_port server) (pinned_statuses pins res)) st1) = (r, st2)"
    by fastforce
  have e2: "effort a b (call_log st2) = effort a b (call_log st)"
    using free_calls(1) [OF rr, of a b] free_rank_loop [OF rl, of a b] by simp
  show ?case
    using rr rl e2 Suc.prems Suc.IH [of "sleep_for (log_ctx C) (from_secs 1) st2"]
      discovered_effort [of a b C server None st2]
    by (cases r) (simp_all split: if_splits)
qed

lemma connect_effort:
  "effort a b (call_log (snd (connect (log_ctx C) server avoid st)))
     \<le> effort a b (call_log st) + b * from_secs 3 + 20 * (a + b * from_secs 1)"
proof (cases "pinned (srv_peer_options server) = []")
  case True
  then show ?thesis
    using discovered_effort [of a b C server avoid st] by (simp add: connect_def Let_def split: if_splits)
next
  case False
  have "20 * (b * from_secs 1) \<le> 20 * (a + b * from_secs 1)" by simp
  with False show ?thesis
    using pinned_effort [of 20 a b C server "pinned (srv_peer_options server)" st]
    by (simp add: connect_def Let_def connect_pinned_def MAX_PINNED_PASSES_def split: if_splits)
qed

text \<open>
  C20. One connect is one bounded effort: it asks the hub for candidates at most twenty times and
  asks the clock for at most 23 seconds of delay in total (three seconds of backoff on the
  dropped peer, then at most twenty one-second pauses), whatever the environment answers.
\<close>
theorem connect_bounded_effort:
  "length (filter (\<lambda>c. c = CallFind)
       (call_log (snd (connect (log_ctx C) server avoid
          \<lparr>cs_world = (w, []), cs_sticky = s, cs_events = [], cs_sleeps = []\<rparr>)))) \<le> 20
   \<and> sum_list (List.map_filter (\<lambda>c. case c of CallSleep d \<Rightarrow> Some d | _ \<Rightarrow> None)
       (call_log (snd (connect (log_ctx C) server avoid
          \<lparr>cs_world = (w, []), cs_sticky = s, cs_events = [], cs_sleeps = []\<rparr>)))) \<le> from_secs 23"
proof -
  let ?st = "\<lparr>cs_world = (w, []), cs_sticky = s, cs_events = [], cs_sleeps = []\<rparr>"
  have zero: "effort a b (call_log ?st) = 0" for a b by (simp add: call_log_def effort_def)
  have secs: "from_secs 3 + 20 * from_secs 1 = from_secs 23" by (simp add: from_secs_def)
  show ?thesis
    unfolding effort_find_sleep [symmetric]
    using connect_effort [of 1 0 C server avoid ?st] connect_effort [of 0 1 C server avoid ?st] secs
    by (simp add: zero)
qed

section \<open>Recording changes nothing\<close>

definition unlog :: "('w \<times> call list, 's) conn_state \<Rightarrow> ('w, 's) conn_state" where
  "unlog st = \<lparr>cs_world = fst (cs_world st), cs_sticky = cs_sticky st, cs_events = cs_events st,
     cs_sleeps = cs_sleeps st\<rparr>"

lemma unlog_steps [simp]:
  "unlog (sleep_for (log_ctx C) d st) = sleep_for C d (unlog st)"
  "unlog (emit e st) = emit e (unlog st)"
  "unlog (remember (log_ctx C) server fp p st) = remember C server fp p (unlog st)"
  "unlog (forget (log_ctx C) server p st) = forget C server p (unlog st)"
  "unlog (st\<lparr>cs_sticky := s\<rparr>) = (unlog st)\<lparr>cs_sticky := s\<rparr>"
  "cs_sticky (unlog st) = cs_sticky st"
  by (auto simp: unlog_def sleep_for_def emit_def remember_def forget_def log_ports_def
      split: prod.splits)

lemma unlog_resolve:
  "resolve_routes C ps (unlog st) = map_prod id unlog (resolve_routes (log_ctx C) ps st)"
  by (auto simp: resolve_routes_def log_ports_def unlog_def split: prod.splits sum.splits directory_error.splits)

lemma unlog_dial_set:
  "dial_set C A (unlog st) = map_prod id unlog (dial_set (log_ctx C) A st)"
  by (auto simp: dial_set_def log_ports_def unlog_def split: prod.splits sum.splits)

lemma unlog_dial: "dial C A (unlog st) = map_prod id unlog (dial (log_ctx C) A st)"
  by (auto simp: dial_def partition_direct_first_def unlog_dial_set split: prod.splits option.splits)

lemma unlog_try:
  "try_reach_peer C server p (unlog st) = map_prod id unlog (try_reach_peer (log_ctx C) server p st)"
  by (simp add: try_reach_peer_def Let_def unlog_resolve unlog_dial case_prod_beta
      cong: option.case_cong)

lemma unlog_reconnect_loop:
  "reconnect_loop C server p n b (unlog st) = map_prod id unlog (reconnect_loop (log_ctx C) server p n b st)"
  by (induction n arbitrary: b st)
    (auto simp: unlog_try simp flip: unlog_steps(1) split: prod.splits option.splits)

lemma unlog_pool_loop:
  "pool_loop C server skip ps (unlog st) = map_prod id unlog (pool_loop (log_ctx C) server skip ps st)"
  by (induction ps arbitrary: st)
    (auto simp: unlog_try simp flip: unlog_steps(4) split: prod.splits option.splits)

lemma unlog_sticky_pool:
  "connect_sticky_pool C server fp skip (unlog st)
     = map_prod id unlog (connect_sticky_pool (log_ctx C) server fp skip st)"
  by (auto simp: connect_sticky_pool_def unlog_pool_loop simp flip: unlog_steps(5) split: prod.splits)

lemma unlog_find:
  "port_find_nodes (cx_ports (log_ctx C)) server n (cs_world st) = (r, w) \<Longrightarrow>
     port_find_nodes (cx_ports C) server n (cs_world (unlog st)) = (r, fst w)
     \<and> (unlog st)\<lparr>cs_world := fst w\<rparr> = unlog (st\<lparr>cs_world := w\<rparr>)"
  by (auto simp: log_ports_def unlog_def split: prod.splits)

lemma unlog_discovery_loop:
  "discovery_loop C server fp n (unlog st) = map_prod id unlog (discovery_loop (log_ctx C) server fp n st)"
proof (induction n arbitrary: st)
  case 0
  then show ?case by (simp add: discovery_error_text_def)
next
  case (Suc n)
  have addrs: "candidate_addresses (log_ctx C) = candidate_addresses C"
    by (rule ext) (simp add: candidate_addresses_def)
  obtain found w where f: "port_find_nodes (cx_ports (log_ctx C)) server FINDNODES_DISCOVERY_LIMIT
      (cs_world st) = (found, w)" by (metis surj_pair)
  note unlog_find [OF f]
  with f Suc.IH show ?case
    by (cases found)
      (auto simp: Let_def addrs unlog_dial simp del: log_ctx_simps(1)
        simp flip: unlog_steps(1-3) split: prod.splits option.splits)
qed

lemma unlog_pool_then_discovery:
  "pool_then_discovery C server fp avoid (unlog st)
     = map_prod id unlog (pool_then_discovery (log_ctx C) server fp avoid st)"
  by (auto simp: pool_then_discovery_def run_discovery_def unlog_sticky_pool unlog_discovery_loop
      split: prod.splits option.splits)

lemma unlog_discovered:
  "connect_discovered C server avoid (unlog st)
     = map_prod id unlog (connect_discovered (log_ctx C) server avoid st)"
  by (auto simp: connect_discovered_def Let_def reconnect_sticky_peer_def unlog_reconnect_loop
      unlog_pool_then_discovery simp flip: unlog_steps(4) split: prod.splits option.splits)

lemma unlog_adopt:
  "adopt_loop C k es own (unlog st) = map_prod id unlog (adopt_loop (log_ctx C) k es own st)"
proof (induction es arbitrary: k st)
  case (Cons e es)
  obtain yes w where c: "port_is_connected (cx_ports (log_ctx C)) (entry_peer_id e) (cs_world st) = (yes, w)"
    by (metis surj_pair)
  then have "port_is_connected (cx_ports C) (entry_peer_id e) (cs_world (unlog st)) = (yes, fst w)"
    and "(unlog st)\<lparr>cs_world := fst w\<rparr> = unlog (st\<lparr>cs_world := w\<rparr>)"
    by (auto simp: log_ports_def unlog_def split: prod.splits)
  with c Cons show ?case by (simp del: log_ctx_simps(1))
qed simp

lemma unlog_rank_loop:
  "rank_loop C pins res ranked (unlog st) = map_prod id unlog (rank_loop (log_ctx C) pins res ranked st)"
proof (induction ranked arbitrary: st)
  case (Cons re ranked)
  obtain rank e where re: "re = (rank, e)" by fastforce
  obtain r1 st1 where d: "dial (log_ctx C) (candidate_routes e res) st = (r1, st1)" by fastforce
  with Cons re show ?case
    by (cases r1) (auto simp: Let_def unlog_dial unlog_adopt adopt_best_pinned_rank_def split: prod.splits)
qed simp

lemma unlog_pinned_passes:
  "pinned_passes C server pins n (unlog st) = map_prod id unlog (pinned_passes (log_ctx C) server pins n st)"
proof (induction n arbitrary: st)
  case (Suc n)
  then show ?case
    by (simp add: unlog_resolve unlog_rank_loop unlog_discovered case_prod_beta id_def
        flip: unlog_steps(1,2) split: option.split)
qed simp

text \<open>
  The recording environment is transparent: running against it and dropping the record
  gives the run of the original environment, so what is stated of call logs holds of every
  connect.
\<close>
theorem recording_is_transparent:
  "connect C server avoid (unlog st) = map_prod id unlog (connect (log_ctx C) server avoid st)"
  by (simp add: connect_def Let_def connect_pinned_def unlog_pinned_passes unlog_discovered)

end
