(* ===== verification/Connect_Affinity.thy ===== *)
theory Connect_Affinity
  imports Connect_Effects File_Props
begin

text \<open>
  What a connect leaves in the exit affinity. The facts are proved once against the contract of
  a sticky store and then read off for the file-backed store the binary uses.
\<close>

section \<open>Against the contract\<close>

lemma discovery_loop_sticky:
  "discovery_loop C server fp n st = (Inl e, st') \<Longrightarrow> cs_sticky st' = cs_sticky st"
proof (induction n arbitrary: st)
  case 0
  then show ?case by (auto simp: frame_simps)
next
  case (Suc n)
  obtain found w where f:
    "port_find_nodes (cx_ports C) server FINDNODES_DISCOVERY_LIMIT (cs_world st) = (found, w)"
    by fastforce
  show ?case
  proof (cases found)
    case (Inl e')
    with Suc.prems f
    have "discovery_loop C server fp n (sleep_for C (from_secs 1) (st\<lparr>cs_world := w\<rparr>)) = (Inl e, st')"
      by simp
    from Suc.IH [OF this] show ?thesis by (simp add: frame_simps)
  next
    case (Inr cs)
    let ?st = "emit (ServerPool (srv_port server) cs) (st\<lparr>cs_world := w\<rparr>)"
    obtain hit st1 where d: "dial C (candidate_addresses C cs) ?st = (hit, st1)" by fastforce
    show ?thesis
    proof (cases "cs = []")
      case True
      with Suc.prems f Inr
      have "discovery_loop C server fp n (sleep_for C (from_secs 1) ?st) = (Inl e, st')" by simp
      from Suc.IH [OF this] show ?thesis by (simp add: frame_simps)
    next
      case False
      with Suc.prems f Inr d have "hit = None" by (cases hit) auto
      with Suc.prems f Inr d False have "discovery_loop C server fp n st1 = (Inl e, st')" by simp
      from Suc.IH [OF this] dial_frame [OF d] show ?thesis by (simp add: frame_simps)
    qed
  qed
qed

lemma reconnect_loop_sticky:
  "reconnect_loop C server p n b st = (hit, st') \<Longrightarrow> cs_sticky st' = cs_sticky st"
proof (induction n arbitrary: b st)
  case (Suc n)
  obtain r1 st1 where t: "try_reach_peer C server p st = (r1, st1)" by fastforce
  show ?case
  proof (cases r1)
    case None
    with Suc.prems t obtain b' st2 where l: "reconnect_loop C server p n b' st2 = (hit, st')"
      and "cs_sticky st2 = cs_sticky st1"
      by (auto simp: frame_simps split: if_splits prod.splits)
    with Suc.IH [OF l] try_reach_frame [OF t] show ?thesis by simp
  next
    case (Some p')
    with Suc.prems t try_reach_frame [OF t] show ?thesis by simp
  qed
qed simp

context exit_pool_store
begin

lemma pool_loop_none:
  assumes "cx_store C = S" and "pool_loop C server skip ids st = (None, st')"
  shows "pool_of (view (cs_sticky st')) (srv_port server) fp
    = filter (\<lambda>p. p \<notin> set ids \<or> Some p = skip) (pool_of (view (cs_sticky st)) (srv_port server) fp)"
  using assms(2)
proof (induction ids arbitrary: st)
  case Nil
  then show ?case by simp
next
  case (Cons p ids)
  show ?case
  proof (cases "Some p = skip")
    case True
    then have skip: "(q \<notin> set (p # ids) \<or> Some q = skip) = (q \<notin> set ids \<or> Some q = skip)" for q
      by auto
    from Cons True show ?thesis by (simp only: skip) simp
  next
    case False
    obtain st1 where t: "try_reach_peer C server p st = (None, st1)"
      and rest: "pool_loop C server skip ids (forget C server p st1) = (None, st')"
      using Cons.prems False by (auto split: prod.splits option.splits)
    have "pool_of (view (cs_sticky (forget C server p st1))) (srv_port server) fp
      = filter (\<lambda>q. q \<noteq> p) (pool_of (view (cs_sticky st)) (srv_port server) fp)"
      using try_reach_frame [OF t] assms(1)
      by (simp add: forget_def forget_view view_simps removeAll_filter_not_eq neq_commute)
    with Cons.IH [OF rest] False show ?thesis by (auto intro: filter_cong)
  qed
qed

lemma sticky_pool_none:
  assumes "cx_store C = S" and "opt_sticky (srv_peer_options server)"
    and "connect_sticky_pool C server fp skip st = (None, st')"
  shows "set (pool_of (view (cs_sticky st')) (srv_port server) fp)
    \<subseteq> {p \<in> set (pool_of (view (cs_sticky st)) (srv_port server) fp). Some p = skip}"
proof -
  obtain ids s where q: "ss_pool S (srv_port server) fp (cs_sticky st) = (ids, s)" by fastforce
  then have ids: "ids = pool_of (view (cs_sticky st)) (srv_port server) fp"
    and s: "pool_of (view s) (srv_port server) fp = ids"
    using pool_result [of "srv_port server" fp "cs_sticky st"]
      pool_view [of "srv_port server" fp "cs_sticky st"] by (auto simp: view_simps)
  have "pool_loop C server skip ids (st\<lparr>cs_sticky := s\<rparr>) = (None, st')"
    using assms q by (simp add: connect_sticky_pool_def)
  from pool_loop_none [OF assms(1) this, of fp] show ?thesis using ids s by auto
qed

lemma pool_then_discovery_failed:
  assumes "cx_store C = S" and "opt_sticky (srv_peer_options server)"
    and "pool_then_discovery C server fp avoid st = (Inl e, st')"
  shows "set (pool_of (view (cs_sticky st')) (srv_port server) fp)
    \<subseteq> {p \<in> set (pool_of (view (cs_sticky st)) (srv_port server) fp). Some p = avoid}"
proof -
  obtain st1 where pool: "connect_sticky_pool C server fp avoid st = (None, st1)"
    and "run_discovery C server fp st1 = (Inl e, st')"
    using assms(3) by (auto simp: pool_then_discovery_def split: prod.splits option.splits)
  then have "cs_sticky st' = cs_sticky st1" by (auto simp: run_discovery_def dest: discovery_loop_sticky)
  with sticky_pool_none [OF assms(1,2) pool] show ?thesis by simp
qed

lemma discovered_failed:
  assumes "cx_store C = S" and "opt_sticky (srv_peer_options server)"
    and "connect_discovered C server avoid st = (Inl e, st')"
    and "p \<in> set (pool_of (view (cs_sticky st')) (srv_port server)
            (filter_fingerprint (srv_peer_options server) (srv_port server)))"
  shows "avoid = Some p \<and> opt_sticky_reconnect (srv_peer_options server) \<noteq> WithBackoff"
proof -
  let ?fp = "filter_fingerprint (srv_peer_options server) (srv_port server)"
  show ?thesis
  proof (cases "\<exists>old. avoid = Some old \<and> opt_sticky_reconnect (srv_peer_options server) = WithBackoff")
    case True
    then obtain old where old: "avoid = Some old"
        "opt_sticky_reconnect (srv_peer_options server) = WithBackoff" by blast
    obtain st1 where
        "pool_then_discovery C server ?fp avoid (forget C server old st1) = (Inl e, st')"
      using assms(2,3) old
      by (auto simp: connect_discovered_def Let_def split: prod.splits option.splits)
    from pool_then_discovery_failed [OF assms(1,2) this] assms(1,4) old show ?thesis
      by (auto simp: forget_def forget_view view_simps)
  next
    case False
    then have "pool_then_discovery C server ?fp avoid st = (Inl e, st')"
      using assms(2,3) by (auto simp: connect_discovered_def Let_def split: option.splits)
    from pool_then_discovery_failed [OF assms(1,2) this] assms(4) False show ?thesis by auto
  qed
qed

lemma remembered_front:
  assumes "cx_store C = S" and "opt_sticky (srv_peer_options server)"
    and "remembered C server fp (\<lambda>_ st. invar (cs_sticky st)) p st"
  shows "\<exists>rest. fst (ss_pool S (srv_port server) fp (cs_sticky st)) = p # rest
    \<and> length (p # rest) \<le> max (pool_max_total (srv_pool server)) 1"
proof -
  obtain st0 where "invar (cs_sticky st0)" and st: "st = remember C server fp p st0"
    using assms(3) by (auto simp: remembered_def)
  from remember_front [OF this(1), of "port_utc_now (cx_ports C) (cs_world st0)" "srv_port server" fp p
      "pool_max_total (srv_pool server)"]
  show ?thesis using assms(1,2) st by (simp add: remember_def pool_result)
qed

end

section \<open>The file-backed store\<close>

definition with_file_store :: "json_codec \<Rightarrow> ('w, file_sticky) connect_ctx \<Rightarrow> ('w, file_sticky) connect_ctx" where
  "with_file_store J C = C\<lparr>cx_store := file_store J\<rparr>"

lemma with_file_store_simps [simp]:
  "cx_store (with_file_store J C) = file_store J" "cx_ports (with_file_store J C) = cx_ports C"
  by (simp_all add: with_file_store_def)

text \<open>The store stays well formed, and only the server's own port is ever written.\<close>

definition other_ports_kept :: "server \<Rightarrow> exit_pools \<Rightarrow> ('w, file_sticky) conn_state \<Rightarrow> bool" where
  "other_ports_kept server v st \<longleftrightarrow> file_wf (cs_sticky st)
     \<and> (\<forall>q. q \<noteq> srv_port server \<longrightarrow> file_view (cs_sticky st) q = v q)"

interpretation affinity: connect_phases "with_file_store J C" server
    "other_ports_kept server v" "\<lambda>_. other_ports_kept server v"
  for J :: json_codec and C :: "('w, file_sticky) connect_ctx" and server :: server and v :: exit_pools
proof (unfold_locales, goal_cases)
  case (3 st A dialed w)
  then show ?case by (simp add: other_ports_kept_def reached_iff)
next
  case (7 st fp)
  then show ?case
    using file_sticky.pool_invar [of "cs_sticky st"] file_sticky.pool_view [of _ "srv_port server" fp "cs_sticky st"]
    by (simp add: other_ports_kept_def frame_simps)
next
  case (8 st p)
  then show ?case
    using file_sticky.forget_invar [of "cs_sticky st"] file_sticky.forget_view [of _ "srv_port server" p "cs_sticky st"]
    by (simp add: other_ports_kept_def forget_def frame_simps)
next
  case (9 p st fp)
  then show ?case
    using file_sticky.remember_invar [of "cs_sticky st"] file_sticky.remember_view [of "cs_sticky st"]
    by (simp add: other_ports_kept_def remember_def frame_simps)
qed (simp_all add: other_ports_kept_def frame_simps)

text \<open>Servers that cannot use the affinity leave the store as it is.\<close>

interpretation untouched: connect_phases C server
    "\<lambda>st. uses_affinity server \<or> cs_sticky st = s" "\<lambda>_ st. uses_affinity server \<or> cs_sticky st = s"
  for C :: "('w, 's) connect_ctx" and server :: server and s :: 's
  by unfold_locales
    (auto simp: reached_iff frame_simps remember_def uses_affinity_def)

section \<open>Properties\<close>

text \<open>
  A connect keeps the affinity file well formed (no exit twice, no empty pool) and writes
  only its own listen port: every other server's exits are what they were.
\<close>
theorem connect_keeps_other_ports:
  assumes "file_wf (cs_sticky st)"
  shows "file_wf (cs_sticky (snd (connect (with_file_store J C) server avoid st)))
    \<and> (q \<noteq> srv_port server \<longrightarrow>
        file_view (cs_sticky (snd (connect (with_file_store J C) server avoid st))) q
        = file_view (cs_sticky st) q)"
  using affinity.connect_phase [of server "file_view (cs_sticky st)" st J C avoid] assms
  by (auto simp: other_ports_kept_def settled_def split: sum.splits)

text \<open>
  A server that has only pins, or whose stickiness is off, never reads or writes the exit
  affinity: a connect leaves the store exactly as it found it.
\<close>
theorem connect_without_affinity:
  assumes "hard_pinned server \<or> \<not> opt_sticky (srv_peer_options server)"
  shows "cs_sticky (snd (connect C server avoid st)) = cs_sticky st"
  using untouched.connect_phase [where server = server and s = "cs_sticky st" and st = st and C = C and avoid = avoid] assms
  by (auto simp: settled_def uses_affinity_def split: sum.splits)

theorem connect_without_affinity_witness:
  "cs_sticky (snd (connect sample_ctx two_pins None two_pins_state)) = default_sticky"
  using connect_without_affinity [of two_pins sample_ctx None two_pins_state]
  by (simp add: hard_pinned_def two_pins_def pinned_server_def discovery_server_def options_def
      pinned_def two_pins_state_def start_def)


definition sample_file_ctx :: "(fake_world, file_sticky) connect_ctx" where
  "sample_file_ctx =
     \<lparr>cx_ports = sample_ports, cx_store = file_store sample_codec, cx_relay_address = relay_addr,
      cx_maddr = list_maddr_api, cx_text = sample_text_api\<rparr>"

definition offered_state :: "(fake_world, file_sticky) conn_state" where
  "offered_state = start (sample_world (fake_dialer_reachable {PeerId 3})
      [Inr [\<lparr>pp_peer_id = PeerId 3, pp_addresses = [direct_addr (PeerId 3)]\<rparr>]]) (sample_file_sticky [])"



definition fail_fast_server :: server where
  "fail_fast_server = (discovery_server 1080)\<lparr>srv_peer_options := options\<lparr>opt_sticky_reconnect := FailFast\<rparr>\<rparr>"

definition remembered_state :: "(fake_world, file_sticky) conn_state" where
  "remembered_state = start (sample_world fake_dialer_new [])
     (snd (file_remember sample_codec 1 1080
        (filter_fingerprint (srv_peer_options fail_fast_server) 1080) (PeerId 3) 5 (sample_file_sticky [])))"


text \<open>
  The dropped peer is not avoided by the discovery: with the affinity off, a hub that
  offers only the peer that just dropped gets the server connected to it again, although the
  documentation of \<open>connect\<close> says the dropped peer is skipped on discovery.
\<close>
theorem discovery_returns_avoided_peer:
  "fst (connect sample_ctx
      ((discovery_server 1080)\<lparr>srv_peer_options := options\<lparr>opt_sticky := False\<rparr>\<rparr>)
      (Some (PeerId 3))
      (start (sample_world (fake_dialer_reachable {PeerId 3})
         [Inr [\<lparr>pp_peer_id = PeerId 3, pp_addresses = [direct_addr (PeerId 3)]\<rparr>]]) default_sticky))
   = Inr \<lparr>cd_peer = PeerId 3, cd_source = Discovered\<rparr>"
  by code_simp

end
