(* ===== verification/Discovery.thy ===== *)
theory Discovery
  imports Connect_Affinity
begin

text \<open>
  The discovery actor of \<open>crates/p2proxy/src/runtime/discovery\<close>: it owns the sticky store and
  the destination of every listen port, runs the connect flow, and reacts to connections that
  come up or close.

  \<open>discovery_ctx\<close> is what the actor reads of \<open>Context\<close>; the actor's environment (the world
  behind the ports, its sticky store and the events sent) is a \<open>conn_state\<close>. \<open>destinations\<close> is
  iterated by the source, so it is an association list. Instants are readings \<open>dx_now\<close> of a
  clock of the world. A rediscovery spawned for later is an entry of \<open>da_timers\<close>: the port and
  the delay; \<open>discovery_step\<close> lets it send its \<open>DiscoverFor\<close>.
\<close>

section \<open>State\<close>

definition REDISCOVERY_COOLDOWN :: duration where
  "REDISCOVERY_COOLDOWN = from_secs 30"

datatype discovery_event =
    DiscoverFor u16
  | RequestNewPeer u16
  | PeerClosed peer_id
  | PeerUnusable peer_id
  | PeerConnected peer_id multiaddr bool
  | SelectPeer u16 peer_id

record ('w, 's) discovery_ctx =
  dx_config :: config
  dx_connect :: "('w, 's) connect_ctx"
  dx_now :: "'w \<Rightarrow> duration"

record ('w, 's) discovery_actor =
  da_env :: "('w, 's) conn_state"
  da_destinations :: "(u16 \<times> peer_id option) list"
  da_last_rediscovery :: "u16 \<rightharpoonup> duration"
  da_pending :: "u16 set"
  da_direct_peers :: "peer_id set"
  da_timers :: "(u16 \<times> duration) list"

definition discovery_actor_new ::
    "('w, 's) conn_state \<Rightarrow> (u16 \<times> peer_id option) list \<Rightarrow> ('w, 's) discovery_actor" where
  "discovery_actor_new env destinations =
     \<lparr>da_env = env, da_destinations = destinations, da_last_rediscovery = Map.empty,
      da_pending = {}, da_direct_peers = {}, da_timers = []\<rparr>"

definition server_for :: "('w, 's) discovery_ctx \<Rightarrow> u16 \<Rightarrow> server option" where
  "server_for X port = find (\<lambda>s. srv_port s = port) (cfg_servers (dx_config X))"

definition send_event :: "events \<Rightarrow> ('w, 's) discovery_actor \<Rightarrow> ('w, 's) discovery_actor" where
  "send_event e a = a\<lparr>da_env := emit e (da_env a)\<rparr>"

definition with_sticky :: "('s \<Rightarrow> 's) \<Rightarrow> ('w, 's) discovery_actor \<Rightarrow> ('w, 's) discovery_actor" where
  "with_sticky f a = a\<lparr>da_env := (da_env a)\<lparr>cs_sticky := f (cs_sticky (da_env a))\<rparr>\<rparr>"

section \<open>Destinations\<close>

definition store_destination ::
    "u16 \<Rightarrow> peer_id option \<Rightarrow> (u16 \<times> peer_id option) list \<Rightarrow> (u16 \<times> peer_id option) list" where
  "store_destination port v = map (\<lambda>(p, h). if p = port then (p, v) else (p, h))"

definition set_destination ::
    "u16 \<Rightarrow> connected_destination \<Rightarrow> ('w, 's) discovery_actor \<Rightarrow> ('w, 's) discovery_actor" where
  "set_destination port d a =
     send_event (ActiveDestination port (Some (cd_peer d)) (Some (cd_source d)))
       (a\<lparr>da_destinations := store_destination port (Some (cd_peer d)) (da_destinations a)\<rparr>)"

definition clear_destination :: "u16 \<Rightarrow> ('w, 's) discovery_actor \<Rightarrow> ('w, 's) discovery_actor" where
  "clear_destination port a =
     send_event (ActiveDestination port None None)
       (a\<lparr>da_destinations := store_destination port None (da_destinations a)\<rparr>)"

definition emit_sticky_pool ::
    "('w, 's) discovery_ctx \<Rightarrow> server \<Rightarrow> ('w, 's) discovery_actor \<Rightarrow> ('w, 's) discovery_actor" where
  "emit_sticky_pool X server a =
     (let fingerprint = filter_fingerprint (srv_peer_options server) (srv_port server)
      in send_event (StickyPool (srv_port server)
           (ss_snapshot (cx_store (dx_connect X)) (srv_port server) fingerprint (cs_sticky (da_env a)))) a)"

definition discovery_connect ::
    "('w, 's) discovery_ctx \<Rightarrow> server \<Rightarrow> peer_id option \<Rightarrow> ('w, 's) discovery_actor
     \<Rightarrow> (connect_error + connected_destination) \<times> ('w, 's) discovery_actor" where
  "discovery_connect X server avoid a =
     (case connect (dx_connect X) server avoid (da_env a) of (r, env) \<Rightarrow> (r, a\<lparr>da_env := env\<rparr>))"

definition discover ::
    "('w, 's) discovery_ctx \<Rightarrow> u16 \<Rightarrow> peer_id option \<Rightarrow> ('w, 's) discovery_actor
     \<Rightarrow> peer_id option \<times> ('w, 's) discovery_actor" where
  "discover X port avoid a =
     (let a = a\<lparr>da_pending := da_pending a - {port}\<rparr>
      in case server_for X port of
           None \<Rightarrow> (None, a)
         | Some server \<Rightarrow>
             (case discovery_connect X server avoid a of
                (result, a) \<Rightarrow>
                  (let a = emit_sticky_pool X server a
                   in case result of
                        Inr d \<Rightarrow> (Some (cd_peer d), set_destination port d a)
                      | Inl e \<Rightarrow> (None, clear_destination port a))))"

definition adopt_specific ::
    "('w, 's) discovery_ctx \<Rightarrow> server \<Rightarrow> peer_id \<Rightarrow> destination_source \<Rightarrow> ('w, 's) discovery_actor
     \<Rightarrow> ('w, 's) discovery_actor" where
  "adopt_specific X server peer source a =
     (let fingerprint = filter_fingerprint (srv_peer_options server) (srv_port server);
          C = dx_connect X;
          a = with_sticky (\<lambda>s. snd (ss_remember (cx_store C)
                (port_utc_now (cx_ports C) (cs_world (da_env a))) (srv_port server) fingerprint peer
                (pool_max_total (srv_pool server)) s)) a;
          a = set_destination (srv_port server) \<lparr>cd_peer = peer, cd_source = source\<rparr> a
      in emit_sticky_pool X server a)"

section \<open>Reacting to peers\<close>

definition serving :: "peer_id \<Rightarrow> ('w, 's) discovery_actor \<Rightarrow> u16 list" where
  "serving peer a = map fst (filter (\<lambda>(port, h). h = Some peer) (da_destinations a))"

definition close_port ::
    "('w, 's) discovery_ctx \<Rightarrow> peer_id \<Rightarrow> u16 \<Rightarrow> ('w, 's) discovery_actor \<Rightarrow> ('w, 's) discovery_actor" where
  "close_port X peer port a =
     (let now = dx_now X (cs_world (da_env a));
          elapsed = map_option (\<lambda>at. now - at) (da_last_rediscovery a port)
      in case elapsed of
           Some e \<Rightarrow>
             if e < REDISCOVERY_COOLDOWN then
               (let a = clear_destination port a
                in if port \<in> da_pending a then a
                   else a\<lparr>da_pending := insert port (da_pending a),
                          da_timers := da_timers a @ [(port, REDISCOVERY_COOLDOWN - e)]\<rparr>)
             else snd (discover X port (Some peer)
                    (a\<lparr>da_last_rediscovery := (da_last_rediscovery a)(port \<mapsto> now)\<rparr>))
         | None \<Rightarrow> snd (discover X port (Some peer)
                    (a\<lparr>da_last_rediscovery := (da_last_rediscovery a)(port \<mapsto> now)\<rparr>)))"

definition handle_peer_closed ::
    "('w, 's) discovery_ctx \<Rightarrow> peer_id \<Rightarrow> ('w, 's) discovery_actor \<Rightarrow> ('w, 's) discovery_actor" where
  "handle_peer_closed X peer a =
     (let a = a\<lparr>da_direct_peers := da_direct_peers a - {peer}\<rparr>
      in fold (close_port X peer) (serving peer a) a)"

definition promote_direct ::
    "('w, 's) discovery_ctx \<Rightarrow> peer_id \<Rightarrow> multiaddr \<Rightarrow> ('w, 's) discovery_actor \<Rightarrow> ('w, 's) discovery_actor" where
  "promote_direct X peer address a =
     with_sticky (ss_note_direct_address (cx_store (dx_connect X)) peer address) a"

definition rotate_port ::
    "('w, 's) discovery_ctx \<Rightarrow> peer_id \<Rightarrow> u16 \<Rightarrow> ('w, 's) discovery_actor \<Rightarrow> ('w, 's) discovery_actor" where
  "rotate_port X candidate port a =
     (case server_for X port of
        None \<Rightarrow> a
      | Some server \<Rightarrow>
          (let fingerprint = filter_fingerprint (srv_peer_options server) port
           in case ss_pool (cx_store (dx_connect X)) port fingerprint (cs_sticky (da_env a)) of
                (ids, s) \<Rightarrow>
                  (let a = with_sticky (\<lambda>_. s) a
                   in if candidate \<notin> set ids then a else adopt_specific X server candidate Sticky a)))"

definition relay_stuck :: "peer_id \<Rightarrow> ('w, 's) discovery_actor \<Rightarrow> u16 list" where
  "relay_stuck candidate a =
     map fst (filter (\<lambda>(port, h). case h of
                Some active \<Rightarrow> active \<noteq> candidate \<and> active \<notin> da_direct_peers a
              | None \<Rightarrow> False) (da_destinations a))"

definition rotate_off_relay_if_better ::
    "('w, 's) discovery_ctx \<Rightarrow> peer_id \<Rightarrow> ('w, 's) discovery_actor \<Rightarrow> ('w, 's) discovery_actor" where
  "rotate_off_relay_if_better X candidate a = fold (rotate_port X candidate) (relay_stuck candidate a) a"

definition forget_everywhere ::
    "('w, 's) discovery_ctx \<Rightarrow> peer_id \<Rightarrow> ('w, 's) discovery_actor \<Rightarrow> ('w, 's) discovery_actor" where
  "forget_everywhere X peer a =
     fold (\<lambda>server. with_sticky (ss_forget_peer (cx_store (dx_connect X)) (srv_port server) peer))
       (cfg_servers (dx_config X)) a"

definition handle_peer_unusable ::
    "('w, 's) discovery_ctx \<Rightarrow> peer_id \<Rightarrow> ('w, 's) discovery_actor \<Rightarrow> ('w, 's) discovery_actor" where
  "handle_peer_unusable X peer a =
     (let a = forget_everywhere X peer a;
          a = fold (\<lambda>port a. snd (discover X port None a)) (serving peer a) a
      in fold (emit_sticky_pool X) (cfg_servers (dx_config X)) a)"

text \<open>The em dash of the message is its three UTF-8 bytes.\<close>

definition select_error_text :: "('w, 's) discovery_ctx \<Rightarrow> u16 \<Rightarrow> peer_id \<Rightarrow> string" where
  "select_error_text X port peer =
     ''could not reach peer '' @ show_peer (cx_text (dx_connect X)) peer @ '' for :'' @ show_u16 port
     @ '' '' @ [CHR 0xE2, CHR 0x80, CHR 0x94] @ '' active exit unchanged''"

definition select_peer ::
    "('w, 's) discovery_ctx \<Rightarrow> u16 \<Rightarrow> peer_id \<Rightarrow> ('w, 's) discovery_actor \<Rightarrow> ('w, 's) discovery_actor" where
  "select_peer X port peer a =
     (case server_for X port of
        None \<Rightarrow> a
      | Some server \<Rightarrow>
          (case reach_specific_peer (dx_connect X) server peer (da_env a) of
             (Some hit, env) \<Rightarrow> adopt_specific X server hit Manual (a\<lparr>da_env := env\<rparr>)
           | (None, env) \<Rightarrow> send_event (ErrorEvent (select_error_text X port peer)) (a\<lparr>da_env := env\<rparr>)))"

text \<open>The reply of \<open>RequestNewPeer\<close> is the first component.\<close>

fun discovery_handle ::
    "('w, 's) discovery_ctx \<Rightarrow> discovery_event \<Rightarrow> ('w, 's) discovery_actor
     \<Rightarrow> peer_id option option \<times> ('w, 's) discovery_actor" where
  "discovery_handle X (DiscoverFor port) a = (None, snd (discover X port None a))"
| "discovery_handle X (RequestNewPeer port) a =
     (case discover X port None a of (peer, a) \<Rightarrow> (Some peer, a))"
| "discovery_handle X (PeerClosed peer) a = (None, handle_peer_closed X peer a)"
| "discovery_handle X (PeerUnusable peer) a = (None, handle_peer_unusable X peer a)"
| "discovery_handle X (PeerConnected peer address relayed) a =
     (None,
      if relayed then a\<lparr>da_direct_peers := da_direct_peers a - {peer}\<rparr>
      else rotate_off_relay_if_better X peer
             (promote_direct X peer address (a\<lparr>da_direct_peers := insert peer (da_direct_peers a)\<rparr>)))"
| "discovery_handle X (SelectPeer port peer) a = (None, select_peer X port peer a)"

section \<open>Runs\<close>

text \<open>
  One step: an event of the mailbox is handled, or a spawned task wakes and its \<open>DiscoverFor\<close>
  is handled. Between steps the world moves on by itself.
\<close>

inductive discovery_step ::
    "('w, 's) discovery_ctx \<Rightarrow> ('w, 's) discovery_actor \<Rightarrow> ('w, 's) discovery_actor \<Rightarrow> bool"
  for X :: "('w, 's) discovery_ctx" where
  handle_event: "discovery_step X a (snd (discovery_handle X e a))"
| timer_fires: "da_timers a = ts @ (port, d) # us \<Longrightarrow>
     discovery_step X a (snd (discovery_handle X (DiscoverFor port) (a\<lparr>da_timers := ts @ us\<rparr>)))"
| world_moves: "discovery_step X a (a\<lparr>da_env := (da_env a)\<lparr>cs_world := w\<rparr>\<rparr>)"

inductive_cases discovery_stepE: "discovery_step X a b"

end
