(* ===== verification/Discovery_Inv.thy ===== *)
theory Discovery_Inv
  imports Discovery
begin

text \<open>
  Invariants of the discovery actor. The locale \<open>actor_invariant\<close> lists the elementary updates
  the handlers are made of and lifts any predicate they preserve to every run of the actor;
  its interpretations give the lock step of destinations and events, the bookkeeping of
  throttled rediscoveries, the cooldown itself, and the well-formedness of the affinity file.
\<close>

lemma server_for_Some: "server_for X port = Some s \<Longrightarrow> srv_port s = port \<and> s \<in> set (cfg_servers (dx_config X))"
  by (auto simp: server_for_def find_Some_iff)

lemma send_event_frame [simp]:
  "da_destinations (send_event e a) = da_destinations a" "da_pending (send_event e a) = da_pending a"
  "da_last_rediscovery (send_event e a) = da_last_rediscovery a" "da_timers (send_event e a) = da_timers a"
  "da_direct_peers (send_event e a) = da_direct_peers a"
  "cs_sticky (da_env (send_event e a)) = cs_sticky (da_env a)"
  "cs_events (da_env (send_event e a)) = cs_events (da_env a) @ [e]"
  "cs_world (da_env (send_event e a)) = cs_world (da_env a)"
  by (simp_all add: send_event_def frame_simps)

lemma with_sticky_frame [simp]:
  "da_destinations (with_sticky f a) = da_destinations a" "da_pending (with_sticky f a) = da_pending a"
  "da_last_rediscovery (with_sticky f a) = da_last_rediscovery a" "da_timers (with_sticky f a) = da_timers a"
  "da_direct_peers (with_sticky f a) = da_direct_peers a"
  "cs_sticky (da_env (with_sticky f a)) = f (cs_sticky (da_env a))"
  "cs_events (da_env (with_sticky f a)) = cs_events (da_env a)"
  "cs_world (da_env (with_sticky f a)) = cs_world (da_env a)"
  by (simp_all add: with_sticky_def)

lemma discover_unpend:
  "discover X port avoid a = discover X port avoid (a\<lparr>da_pending := da_pending a - {port}\<rparr>)"
  by (simp add: discover_def)

section \<open>From elementary updates to runs\<close>

inductive store_call :: "('w, 's) discovery_ctx \<Rightarrow> ('s \<Rightarrow> 's) \<Rightarrow> bool"
  for X :: "('w, 's) discovery_ctx" where
  "store_call X (\<lambda>s. snd (ss_pool (cx_store (dx_connect X)) port fp s))"
| "store_call X (\<lambda>s. snd (ss_remember (cx_store (dx_connect X)) now port fp peer mx s))"
| "store_call X (ss_note_direct_address (cx_store (dx_connect X)) peer address)"
| "store_call X (ss_forget_peer (cx_store (dx_connect X)) port peer)"

locale actor_invariant =
  fixes X :: "('w, 's) discovery_ctx"
    and J :: "('w, 's) discovery_actor \<Rightarrow> bool"
  assumes unpend_law: "J a \<Longrightarrow> J (a\<lparr>da_pending := da_pending a - {port}\<rparr>)"
    and connect_law: "J a \<Longrightarrow> discovery_connect X server avoid a = (r, a') \<Longrightarrow> J a'"
    and reach_law:
      "J a \<Longrightarrow> reach_specific_peer (dx_connect X) server peer (da_env a) = (hit, env) \<Longrightarrow>
       J (a\<lparr>da_env := env\<rparr>)"
    and pool_event_law: "J a \<Longrightarrow> J (send_event (StickyPool port peers) a)"
    and error_event_law: "J a \<Longrightarrow> J (send_event (ErrorEvent msg) a)"
    and set_law: "J a \<Longrightarrow> J (set_destination port dest a)"
    and clear_law: "J a \<Longrightarrow> J (clear_destination port a)"
    and store_law: "J a \<Longrightarrow> store_call X f \<Longrightarrow> J (with_sticky f a)"
    and stamp_law:
      "J a \<Longrightarrow> now = dx_now X (cs_world (da_env a)) \<Longrightarrow>
       (\<And>at. da_last_rediscovery a port = Some at \<Longrightarrow> REDISCOVERY_COOLDOWN \<le> now - at) \<Longrightarrow>
       J (a\<lparr>da_last_rediscovery := (da_last_rediscovery a)(port \<mapsto> now)\<rparr>)"
    and schedule_law:
      "J a \<Longrightarrow> 0 < d \<Longrightarrow> d \<le> REDISCOVERY_COOLDOWN \<Longrightarrow>
       J (a\<lparr>da_pending := insert port (da_pending a), da_timers := da_timers a @ [(port, d)]\<rparr>)"
    and fire_law:
      "J a \<Longrightarrow> da_timers a = ts @ (port, d) # us \<Longrightarrow>
       J (a\<lparr>da_timers := ts @ us, da_pending := da_pending a - {port}\<rparr>)"
    and direct_law: "J a \<Longrightarrow> J (a\<lparr>da_direct_peers := ps\<rparr>)"
    and world_law: "J a \<Longrightarrow> J (a\<lparr>da_env := (da_env a)\<lparr>cs_world := w\<rparr>\<rparr>)"
begin

lemma discover_J:
  assumes "J a"
  shows "J (snd (discover X port avoid a))"
proof (cases "server_for X port")
  case None
  then show ?thesis using unpend_law [OF assms] by (simp add: discover_def)
next
  case (Some server)
  obtain r a' where c: "discovery_connect X server avoid (a\<lparr>da_pending := da_pending a - {port}\<rparr>) = (r, a')"
    by fastforce
  from connect_law [OF unpend_law [OF assms] c] have "J (emit_sticky_pool X server a')"
    by (simp add: emit_sticky_pool_def Let_def pool_event_law)
  with Some c show ?thesis
    by (auto simp: discover_def Let_def set_law clear_law split: sum.splits)
qed

lemma adopt_specific_J: "J a \<Longrightarrow> J (adopt_specific X server peer source a)"
  unfolding adopt_specific_def emit_sticky_pool_def Let_def
  by (intro pool_event_law set_law store_law store_call.intros)

lemma close_port_J:
  assumes "J a"
  shows "J (close_port X peer port a)"
proof -
  let ?now = "dx_now X (cs_world (da_env a))"
  have stamp: "J (snd (discover X port (Some peer)
      (a\<lparr>da_last_rediscovery := (da_last_rediscovery a)(port \<mapsto> ?now)\<rparr>)))"
    if "\<And>at. da_last_rediscovery a port = Some at \<Longrightarrow> REDISCOVERY_COOLDOWN \<le> ?now - at"
    by (rule discover_J [OF stamp_law [OF assms refl that]])
  have throttled: "J (clear_destination port a
      \<lparr>da_pending := insert port (da_pending (clear_destination port a)),
       da_timers := da_timers (clear_destination port a) @ [(port, d)]\<rparr>)"
    if "0 < d" "d \<le> REDISCOVERY_COOLDOWN" for d
    by (rule schedule_law [OF clear_law [OF assms] that])
  show ?thesis
  proof (cases "da_last_rediscovery a port")
    case None
    with stamp show ?thesis by (simp add: close_port_def Let_def)
  next
    case (Some at)
    then show ?thesis
      using stamp throttled clear_law [OF assms] by (auto simp: close_port_def Let_def)
  qed
qed

lemma fold_J: "J a \<Longrightarrow> (\<And>x a. J a \<Longrightarrow> J (f x a)) \<Longrightarrow> J (fold f xs a)"
  by (induction xs arbitrary: a) simp_all

lemma rotate_port_J: "J a \<Longrightarrow> J (rotate_port X candidate port a)"
proof -
  assume a: "J a"
  show ?thesis
  proof (cases "server_for X port")
    case None
    with a show ?thesis by (simp add: rotate_port_def)
  next
    case (Some server)
    let ?fp = "filter_fingerprint (srv_peer_options server) port"
    have same: "with_sticky (\<lambda>_. snd (ss_pool (cx_store (dx_connect X)) port ?fp (cs_sticky (da_env a)))) a
      = with_sticky (\<lambda>s. snd (ss_pool (cx_store (dx_connect X)) port ?fp s)) a"
      by (simp add: with_sticky_def)
    have "J (with_sticky (\<lambda>s. snd (ss_pool (cx_store (dx_connect X)) port ?fp s)) a)"
      by (rule store_law [OF a store_call.intros(1)])
    with Some show ?thesis
      by (simp add: rotate_port_def Let_def case_prod_beta same adopt_specific_J)
  qed
qed

lemma handle_J:
  assumes "J a"
  shows "J (snd (discovery_handle X e a))"
proof (cases e)
  case (PeerClosed peer)
  then show ?thesis using assms
    by (auto simp: handle_peer_closed_def Let_def intro!: fold_J close_port_J direct_law)
next
  case (PeerUnusable peer)
  then show ?thesis using assms
    by (auto simp: handle_peer_unusable_def forget_everywhere_def emit_sticky_pool_def Let_def
        intro!: fold_J discover_J pool_event_law store_law store_call.intros)
next
  case (PeerConnected peer address relayed)
  then show ?thesis using assms
    by (auto simp: rotate_off_relay_if_better_def promote_direct_def
        intro!: fold_J rotate_port_J direct_law store_law store_call.intros)
next
  case (SelectPeer port peer)
  then show ?thesis using assms adopt_specific_J reach_law
    by (auto simp: select_peer_def intro!: error_event_law split: option.splits prod.splits)
qed (auto simp: case_prod_beta assms discover_J)

lemma step_J: "discovery_step X a b \<Longrightarrow> J a \<Longrightarrow> J b"
proof (erule discovery_stepE, goal_cases)
  case (2 ts port d us)
  have "J (snd (discover X port None (a\<lparr>da_timers := ts @ us, da_pending := da_pending a - {port}\<rparr>)))"
    by (rule discover_J [OF fire_law]) (use 2 in simp_all)
  then show ?case using 2 discover_unpend [of X port None "a\<lparr>da_timers := ts @ us\<rparr>"] by simp
qed (simp_all add: handle_J world_law)

theorem run_J: "(discovery_step X)\<^sup>*\<^sup>* a b \<Longrightarrow> J a \<Longrightarrow> J b"
  by (induction rule: rtranclp_induct) (auto intro: step_J)

end

end
