(* ===== verification/Discovery_Props.thy ===== *)
theory Discovery_Props
  imports Discovery_Inv
begin

text \<open>
  Properties of the discovery actor: the destinations a session reads are the ones reported to
  the operator, a throttled rediscovery is never lost and never too early, a relayed exit yields
  to a direct one of its pool, and an operator's pick is all or nothing.
\<close>

section \<open>A sample actor\<close>

definition discovery_config :: "server list \<Rightarrow> config" where
  "discovery_config servers = \<lparr>cfg_servers = servers, cfg_listen_addrs = None, cfg_port = None,
     cfg_log_level = None, cfg_bitping_api_key = ''test-key'',
     cfg_bootstrap_address = [Dnsaddr ''boot2.bitping.com''],
     cfg_grpc_url = ''https://grpc.bitping.com'', cfg_keypair_path = ''node_keypair.bin'',
     cfg_metrics_port = 9091\<rparr>"

definition sample_discovery :: "(fake_world, sticky_state) discovery_ctx" where
  "sample_discovery = \<lparr>dx_config = discovery_config [discovery_server 1080], dx_connect = sample_ctx,
     dx_now = (\<lambda>w. nat (fw_now w))\<rparr>"

text \<open>A hub that offers peer 3, which is reachable.\<close>

definition offering_env :: "(fake_world, sticky_state) conn_state" where
  "offering_env = start (sample_world (fake_dialer_reachable {PeerId 3})
      [Inr [\<lparr>pp_peer_id = PeerId 3, pp_addresses = [direct_addr (PeerId 3)]\<rparr>]]) default_sticky"

section \<open>Destinations and events in lock step\<close>

fun apply_destination :: "events \<Rightarrow> (u16 \<times> peer_id option) list \<Rightarrow> (u16 \<times> peer_id option) list" where
  "apply_destination (ActiveDestination port peer _) ds = store_destination port peer ds"
| "apply_destination _ ds = ds"

definition replay :: "events list \<Rightarrow> (u16 \<times> peer_id option) list \<Rightarrow> (u16 \<times> peer_id option) list" where
  "replay es ds = fold apply_destination es ds"

lemma replay_snoc: "replay (es @ [e]) ds = apply_destination e (replay es ds)"
  by (simp add: replay_def)

lemma apply_flow_event: "flow_event server e \<Longrightarrow> apply_destination e ds = ds"
  by (cases e) auto

lemma store_destination_keys [simp]: "map fst (store_destination port v ds) = map fst ds"
  by (auto simp: store_destination_def)

lemma replay_keys: "map fst (replay es ds) = map fst ds"
proof (induction es rule: rev_induct)
  case (snoc e es)
  then show ?case by (cases e) (simp_all add: replay_snoc)
qed (simp add: replay_def)

interpretation flow_reports: connect_phases C server
    "\<lambda>st. replay (cs_events st) ds = D" "\<lambda>_ st. replay (cs_events st) ds = D"
  for C :: "('w, 's) connect_ctx" and server :: server and ds D :: "(u16 \<times> peer_id option) list"
  by unfold_locales (auto simp: reached_iff frame_simps replay_snoc apply_flow_event)

definition in_lock_step ::
    "(u16 \<times> peer_id option) list \<Rightarrow> ('w, 's) discovery_actor \<Rightarrow> bool" where
  "in_lock_step ds a \<longleftrightarrow> da_destinations a = replay (cs_events (da_env a)) ds"

interpretation lock_step: actor_invariant X "in_lock_step ds"
  for X :: "('w, 's) discovery_ctx" and ds :: "(u16 \<times> peer_id option) list"
proof (unfold_locales, goal_cases)
  case (2 a server avoid r a')
  then show ?case
    using flow_reports.connect_phase
      [where ds = ds and D = "da_destinations a" and st = "da_env a" and C = "dx_connect X"
        and server = server and avoid = avoid]
    by (auto simp: in_lock_step_def discovery_connect_def settled_def split: prod.splits sum.splits)
next
  case (3 a server peer hit env)
  then show ?case
    using try_reach_frame [of "dx_connect X" server peer "da_env a" hit env]
    by (simp add: in_lock_step_def reach_specific_peer_def)
qed (simp_all add: in_lock_step_def set_destination_def clear_destination_def replay_snoc)

text \<open>
  C6. In every reachable state of the actor, whatever peers come, go or are picked, the
  destination of each listen port is the one last reported by an \<open>ActiveDestination\<close> event: the
  events replayed over the initial handles give the handles. No port is added or lost.
\<close>
theorem destinations_match_events:
  assumes "(discovery_step X)\<^sup>*\<^sup>* (discovery_actor_new env ds) a" and "cs_events env = []"
  shows "da_destinations a = replay (cs_events (da_env a)) ds
    \<and> map fst (da_destinations a) = map fst ds"
proof -
  have "in_lock_step ds (discovery_actor_new env ds)"
    using assms(2) by (simp add: in_lock_step_def discovery_actor_new_def replay_def)
  from lock_step.run_J [OF assms(1) this] show ?thesis
    by (simp add: in_lock_step_def replay_keys)
qed

theorem destinations_match_events_witness:
  "da_destinations (snd (discovery_handle sample_discovery (DiscoverFor 1080)
       (discovery_actor_new offering_env [(1080, None), (1081, None)])))
     = [(1080, Some (PeerId 3)), (1081, None)]
   \<and> replay (cs_events (da_env (snd (discovery_handle sample_discovery (DiscoverFor 1080)
       (discovery_actor_new offering_env [(1080, None), (1081, None)]))))) [(1080, None), (1081, None)]
     = [(1080, Some (PeerId 3)), (1081, None)]"
proof -
  let ?a = "discovery_actor_new offering_env [(1080, None), (1081, None)]"
  let ?b = "snd (discovery_handle sample_discovery (DiscoverFor 1080) ?a)"
  have run: "(discovery_step sample_discovery)\<^sup>*\<^sup>* ?a ?b"
    by (rule r_into_rtranclp) (rule discovery_step.handle_event)
  have new: "cs_events offering_env = []" by (simp add: offering_env_def start_def)
  have "da_destinations ?b = [(1080, Some (PeerId 3)), (1081, None)]" by code_simp
  with destinations_match_events [OF run new] show ?thesis by simp
qed

section \<open>Throttled rediscovery\<close>

lemma discovery_connect_frame:
  "discovery_connect X server avoid a = (r, a') \<Longrightarrow>
     da_destinations a' = da_destinations a \<and> da_pending a' = da_pending a
     \<and> da_timers a' = da_timers a \<and> da_last_rediscovery a' = da_last_rediscovery a
     \<and> da_direct_peers a' = da_direct_peers a"
  by (auto simp: discovery_connect_def split: prod.splits)

lemma discover_frame [frame_simps]:
  "da_last_rediscovery (snd (discover X port avoid a)) = da_last_rediscovery a"
  "da_timers (snd (discover X port avoid a)) = da_timers a"
  "da_direct_peers (snd (discover X port avoid a)) = da_direct_peers a"
  by (auto simp: discover_def Let_def emit_sticky_pool_def set_destination_def clear_destination_def
      dest!: discovery_connect_frame split: option.splits prod.splits sum.splits)

definition throttle_ok :: "('w, 's) discovery_actor \<Rightarrow> bool" where
  "throttle_ok a \<longleftrightarrow> da_pending a \<subseteq> fst ` set (da_timers a)
     \<and> (\<forall>(port, d) \<in> set (da_timers a). 0 < d \<and> d \<le> REDISCOVERY_COOLDOWN)"

interpretation throttle: actor_invariant X throttle_ok
  for X :: "('w, 's) discovery_ctx"
  by unfold_locales
    (auto simp: throttle_ok_def set_destination_def clear_destination_def
      dest!: discovery_connect_frame)


text \<open>An exit that closes forty seconds after the last rediscovery, and one five seconds after.\<close>

definition closing_actor :: "int \<Rightarrow> (fake_world, sticky_state) discovery_actor" where
  "closing_actor secs = (discovery_actor_new
       (offering_env\<lparr>cs_world := (cs_world offering_env)\<lparr>fw_now := secs * 1000000000\<rparr>\<rparr>)
       [(1080, Some (PeerId 3))])\<lparr>da_last_rediscovery := [1080 \<mapsto> 0]\<rparr>"


text \<open>
  An exit that closes inside the cooldown clears the destination and asks nothing of the
  network; exactly one rediscovery is scheduled for the rest of the cooldown, and none when one
  is already pending.
\<close>
theorem throttled_close:
  assumes "da_last_rediscovery a port = Some at"
    and "dx_now X (cs_world (da_env a)) - at < from_secs 30"
  shows "let b = close_port X peer port a
    in cs_world (da_env b) = cs_world (da_env a) \<and> cs_sticky (da_env b) = cs_sticky (da_env a)
      \<and> cs_events (da_env b) = cs_events (da_env a) @ [ActiveDestination port None None]
      \<and> da_destinations b = store_destination port None (da_destinations a)
      \<and> da_pending b = insert port (da_pending a)
      \<and> da_last_rediscovery b = da_last_rediscovery a
      \<and> da_timers b = da_timers a @ (if port \<in> da_pending a then []
          else [(port, from_secs 30 - (dx_now X (cs_world (da_env a)) - at))])"
  using assms
  by (auto simp: close_port_def Let_def REDISCOVERY_COOLDOWN_def clear_destination_def)

theorem throttled_close_witness:
  "da_timers (close_port sample_discovery (PeerId 3) 1080 (closing_actor 5)) = [(1080, from_secs 25)]"
  using throttled_close [of "closing_actor 5" 1080 0 sample_discovery "PeerId 3"]
  by (simp add: closing_actor_def discovery_actor_new_def sample_discovery_def from_secs_def Let_def
      offering_env_def start_def sample_world_def)

definition cooled_down :: "u16 \<Rightarrow> duration \<Rightarrow> ('w, 's) discovery_actor \<Rightarrow> bool" where
  "cooled_down port t a \<longleftrightarrow>
     (\<exists>t'. da_last_rediscovery a port = Some t' \<and> (t' = t \<or> t + REDISCOVERY_COOLDOWN \<le> t'))"

interpretation cooldown: actor_invariant X "cooled_down port t"
  for X :: "('w, 's) discovery_ctx" and port :: u16 and t :: duration
proof (unfold_locales, goal_cases)
  case (2 a server avoid r a')
  then show ?case using discovery_connect_frame by (fastforce simp: cooled_down_def)
next
  case (9 a now q)
  then obtain t' where t': "da_last_rediscovery a port = Some t'"
    and "t' = t \<or> t + REDISCOVERY_COOLDOWN \<le> t'" by (auto simp: cooled_down_def)
  moreover have "0 < REDISCOVERY_COOLDOWN" by (simp add: REDISCOVERY_COOLDOWN_def from_secs_def)
  ultimately show ?case using 9(3) [of t'] by (cases "q = port") (auto simp: cooled_down_def)
qed (simp_all add: cooled_down_def set_destination_def clear_destination_def)

text \<open>
  Rediscoveries caused by a closed exit are throttled: the time of a port's last one only
  ever moves forward by at least the thirty seconds of cooldown, over any run.
\<close>
theorem rediscoveries_are_spaced:
  assumes "(discovery_step X)\<^sup>*\<^sup>* a b" and "da_last_rediscovery a port = Some t"
  shows "\<exists>t'. da_last_rediscovery b port = Some t' \<and> (t' = t \<or> t + from_secs 30 \<le> t')"
proof -
  have "cooled_down port t a" using assms(2) by (simp add: cooled_down_def)
  from cooldown.run_J [OF assms(1) this] show ?thesis
    by (simp add: cooled_down_def REDISCOVERY_COOLDOWN_def)
qed

theorem rediscoveries_are_spaced_witness:
  "da_last_rediscovery (snd (discovery_handle sample_discovery (PeerClosed (PeerId 3)) (closing_actor 40))) 1080
     = Some (from_secs 40)
   \<and> (from_secs 40 = 0 \<or> 0 + from_secs 30 \<le> from_secs 40)"
proof -
  let ?b = "snd (discovery_handle sample_discovery (PeerClosed (PeerId 3)) (closing_actor 40))"
  have run: "(discovery_step sample_discovery)\<^sup>*\<^sup>* (closing_actor 40) ?b"
    by (rule r_into_rtranclp) (rule discovery_step.handle_event)
  have last: "da_last_rediscovery (closing_actor 40) 1080 = Some 0" by (simp add: closing_actor_def)
  have "da_last_rediscovery ?b 1080 = Some (from_secs 40)"
    by (simp add: handle_peer_closed_def serving_def closing_actor_def discovery_actor_new_def
        close_port_def frame_simps offering_env_def start_def sample_world_def sample_discovery_def
        REDISCOVERY_COOLDOWN_def from_secs_def)
  with rediscoveries_are_spaced [OF run last] show ?thesis by simp
qed

end
