(* ===== verification/Discovery_Switch.thy ===== *)
theory Discovery_Switch
  imports Discovery_Props
begin

text \<open>
  Switching exits: the rotation off a relay, the operator's pick, and the peers that turn out
  to be unusable.
\<close>

section \<open>Rotation\<close>

definition current_fingerprint :: "server \<Rightarrow> string" where
  "current_fingerprint s = filter_fingerprint (srv_peer_options s) (srv_port s)"

text \<open>The port is configured and the candidate is in its pool under the current filters.\<close>

definition in_pool_of_port ::
    "('s \<Rightarrow> exit_pools) \<Rightarrow> ('w, 's) discovery_ctx \<Rightarrow> peer_id \<Rightarrow> 's \<Rightarrow> u16 \<Rightarrow> bool" where
  "in_pool_of_port view X candidate s port \<longleftrightarrow>
     (case server_for X port of
        None \<Rightarrow> False
      | Some server \<Rightarrow> candidate \<in> set (pool_of (view s) port (current_fingerprint server)))"

lemma pool_of_cong: "v port = v' port \<Longrightarrow> pool_of v port fp = pool_of v' port fp"
  by (simp add: pool_of_def)

lemma store_destination_map:
  "store_destination port v ds = map (\<lambda>(p, h). (p, if p = port then v else h)) ds"
  by (auto simp: store_destination_def)

context exit_pool_store
begin

lemma rotate_port_effect:
  assumes "cx_store (dx_connect X) = S" and "invar (cs_sticky (da_env a))"
  shows "da_destinations (rotate_port X candidate port a)
      = (if in_pool_of_port view X candidate (cs_sticky (da_env a)) port
         then store_destination port (Some candidate) (da_destinations a) else da_destinations a)
    \<and> invar (cs_sticky (da_env (rotate_port X candidate port a)))
    \<and> (\<forall>q. q \<noteq> port \<longrightarrow> view (cs_sticky (da_env (rotate_port X candidate port a))) q
          = view (cs_sticky (da_env a)) q)"
proof (cases "server_for X port")
  case None
  with assms show ?thesis by (simp add: rotate_port_def in_pool_of_port_def)
next
  case (Some server)
  then have port: "srv_port server = port" using server_for_Some by blast
  let ?fp = "filter_fingerprint (srv_peer_options server) port"
  let ?s = "cs_sticky (da_env a)"
  obtain ids s where p: "ss_pool S port ?fp ?s = (ids, s)" by fastforce
  have ids: "ids = pool_of (view ?s) port ?fp" using pool_result [of port ?fp ?s] p by simp
  have inv: "invar s" using pool_invar [OF assms(2), of port ?fp] p by simp
  have other: "view s q = view ?s q" if "q \<noteq> port" for q
    using pool_view [of port ?fp ?s] p that by (simp add: frame_simps)
  show ?thesis
    using Some p ids inv other port assms(1)
    by (auto simp: rotate_port_def in_pool_of_port_def current_fingerprint_def Let_def
        adopt_specific_def emit_sticky_pool_def set_destination_def remember_view remember_invar
        frame_simps)
qed

lemma rotate_fold_effect:
  assumes "cx_store (dx_connect X) = S" and "distinct ports" and "invar (cs_sticky (da_env a))"
  shows "da_destinations (fold (rotate_port X candidate) ports a)
    = map (\<lambda>(p, h). (p, if p \<in> set ports \<and> in_pool_of_port view X candidate (cs_sticky (da_env a)) p
                        then Some candidate else h)) (da_destinations a)"
  using assms(2,3)
proof (induction ports arbitrary: a)
  case Nil
  then show ?case by (simp add: case_prod_beta)
next
  case (Cons port ports)
  let ?b = "rotate_port X candidate port a"
  note eff = rotate_port_effect [OF assms(1) Cons.prems(2), of candidate port]
  have same: "in_pool_of_port view X candidate (cs_sticky (da_env ?b)) p
      = in_pool_of_port view X candidate (cs_sticky (da_env a)) p" if "p \<in> set ports" for p
  proof -
    have "p \<noteq> port" using that Cons.prems(1) by auto
    then have "view (cs_sticky (da_env ?b)) p = view (cs_sticky (da_env a)) p" using eff by blast
    then show ?thesis by (auto simp: in_pool_of_port_def pool_of_def split: option.split)
  qed
  have "da_destinations (fold (rotate_port X candidate) ports ?b)
    = map (\<lambda>(p, h). (p, if p \<in> set ports \<and> in_pool_of_port view X candidate (cs_sticky (da_env ?b)) p
                        then Some candidate else h)) (da_destinations ?b)"
    using Cons.prems eff by (intro Cons.IH) simp_all
  then show ?case
    using eff same Cons.prems(1)
    by (auto simp: store_destination_map intro!: map_cong)
qed

end

definition with_file_discovery ::
    "json_codec \<Rightarrow> ('w, file_sticky) discovery_ctx \<Rightarrow> ('w, file_sticky) discovery_ctx" where
  "with_file_discovery J X = X\<lparr>dx_connect := with_file_store J (dx_connect X)\<rparr>"

lemma with_file_discovery_simps [simp]:
  "dx_connect (with_file_discovery J X) = with_file_store J (dx_connect X)"
  "dx_config (with_file_discovery J X) = dx_config X" "dx_now (with_file_discovery J X) = dx_now X"
  "server_for (with_file_discovery J X) = server_for X"
  by (simp_all add: with_file_discovery_def server_for_def fun_eq_iff)

definition on_relay :: "('w, 's) discovery_actor \<Rightarrow> peer_id \<Rightarrow> peer_id option \<Rightarrow> bool" where
  "on_relay a candidate h \<longleftrightarrow>
     (case h of Some active \<Rightarrow> active \<noteq> candidate \<and> active \<notin> da_direct_peers a | None \<Rightarrow> False)"

text \<open>
  C19. A relay is never the steady state, and only a relay is rotated away: when a peer comes up
  directly, exactly the ports whose active exit has no direct connection and whose pool, under
  the current filters, holds the new peer are switched to it; every other destination stays. A
  peer that comes up relayed changes no destination.
\<close>
theorem direct_peer_replaces_relayed_exit:
  assumes "distinct (map fst (da_destinations a))" and "file_wf (cs_sticky (da_env a))"
  shows "da_destinations (snd (discovery_handle (with_file_discovery J X) (PeerConnected peer addr False) a))
      = map (\<lambda>(port, h). (port,
          if on_relay a peer h \<and> in_pool_of_port file_view X peer (cs_sticky (da_env a)) port
          then Some peer else h)) (da_destinations a)
    \<and> da_destinations (snd (discovery_handle (with_file_discovery J X) (PeerConnected peer addr True) a))
      = da_destinations a"
proof -
  let ?X = "with_file_discovery J X"
  let ?a = "promote_direct ?X peer addr (a\<lparr>da_direct_peers := insert peer (da_direct_peers a)\<rparr>)"
  have stuck: "relay_stuck peer ?a = map fst (filter (\<lambda>(port, h). on_relay a peer h) (da_destinations a))"
    unfolding relay_stuck_def promote_direct_def on_relay_def
    by (rule arg_cong [where f = "map fst"]) (auto intro!: filter_cong split: option.splits)
  have wf: "file_wf (cs_sticky (da_env ?a))"
    using file_sticky.note_invar [OF assms(2), of J peer addr] by (simp add: promote_direct_def)
  have "file_view (cs_sticky (da_env ?a)) = file_view (cs_sticky (da_env a))"
    using file_sticky.note_view [of J peer addr "cs_sticky (da_env a)"] by (simp add: promote_direct_def)
  then have same: "in_pool_of_port file_view ?X peer (cs_sticky (da_env ?a)) q
      = in_pool_of_port file_view X peer (cs_sticky (da_env a)) q" for q
    by (simp add: in_pool_of_port_def cong: option.case_cong)
  have "distinct (relay_stuck peer ?a)"
    unfolding stuck using assms(1) by (simp add: distinct_map_filter)
  have store: "cx_store (dx_connect ?X) = file_store J" and da: "da_destinations ?a = da_destinations a"
    by (simp_all add: promote_direct_def)
  have rotated: "da_destinations (rotate_off_relay_if_better ?X peer ?a)
    = map (\<lambda>(p, h). (p, if p \<in> set (relay_stuck peer ?a)
          \<and> in_pool_of_port file_view X peer (cs_sticky (da_env a)) p
        then Some peer else h)) (da_destinations a)"
    using file_sticky.rotate_fold_effect [OF store \<open>distinct (relay_stuck peer ?a)\<close> wf, of peer]
    by (simp only: rotate_off_relay_if_better_def same da)
  have iff: "p \<in> set (relay_stuck peer ?a) \<longleftrightarrow> on_relay a peer h" if "(p, h) \<in> set (da_destinations a)" for p h
  proof -
    have "p \<in> set (relay_stuck peer ?a) \<longleftrightarrow> (\<exists>h'. (p, h') \<in> set (da_destinations a) \<and> on_relay a peer h')"
      unfolding stuck by (auto simp: image_iff)
    with that eq_key_imp_eq_value [OF assms(1)] show ?thesis by blast
  qed
  have "map (\<lambda>(p, h). (p, if p \<in> set (relay_stuck peer ?a)
          \<and> in_pool_of_port file_view X peer (cs_sticky (da_env a)) p
        then Some peer else h)) (da_destinations a)
    = map (\<lambda>(p, h). (p, if on_relay a peer h
          \<and> in_pool_of_port file_view X peer (cs_sticky (da_env a)) p
        then Some peer else h)) (da_destinations a)"
  proof (rule map_cong [OF refl])
    fix x assume "x \<in> set (da_destinations a)"
    with iff [of "fst x" "snd x"]
    have "fst x \<in> set (relay_stuck peer ?a) \<longleftrightarrow> on_relay a peer (snd x)" by simp
    then show "(case x of (p, h) \<Rightarrow> (p, if p \<in> set (relay_stuck peer ?a)
          \<and> in_pool_of_port file_view X peer (cs_sticky (da_env a)) p then Some peer else h))
      = (case x of (p, h) \<Rightarrow> (p, if on_relay a peer h
          \<and> in_pool_of_port file_view X peer (cs_sticky (da_env a)) p then Some peer else h))"
      by (simp only: case_prod_beta)
  qed
  with rotated show ?thesis by (simp only: discovery_handle.simps) simp
qed

section \<open>The affinity file\<close>

interpretation actor_affinity: actor_invariant "with_file_discovery J X" "\<lambda>a. file_wf (cs_sticky (da_env a))"
  for J :: json_codec and X :: "('w, file_sticky) discovery_ctx"
proof (unfold_locales, goal_cases)
  case (2 a server avoid r a')
  then show ?case
    using affinity.connect_phase [of server "file_view (cs_sticky (da_env a))" "da_env a" J "dx_connect X" avoid]
    by (auto simp: discovery_connect_def other_ports_kept_def settled_def split: prod.splits sum.splits)
next
  case (3 a server peer hit env)
  then show ?case
    using try_reach_frame [of "with_file_store J (dx_connect X)" server peer "da_env a" hit env]
    by (simp add: reach_specific_peer_def)
next
  case (8 a f)
  from 8(2) show ?case
    using file_sticky.store_invars [OF 8(1)] by (cases rule: store_call.cases) simp_all
qed (simp_all add: set_destination_def clear_destination_def)

text \<open>
  C30. The actor never corrupts the affinity: in every state it can reach from a well-formed
  file, no pool holds an exit twice and none is empty.
\<close>
theorem discovery_keeps_affinity_wf:
  assumes "(discovery_step (with_file_discovery J X))\<^sup>*\<^sup>* a b" and "file_wf (cs_sticky (da_env a))"
  shows "file_wf (cs_sticky (da_env b))"
  using actor_affinity.run_J assms by blast

section \<open>The operator's pick\<close>

text \<open>
  A manual selection is all or nothing. If the peer cannot be reached, destinations and
  affinity stay as they are and one error is reported. If it is reached, the port's destination
  is the reached peer, reported as chosen manually, and the peer is at the front of the pool.
\<close>
theorem select_peer_all_or_nothing:
  assumes "file_wf (cs_sticky (da_env a))" and "server_for X port = Some server"
  shows "case reach_specific_peer (with_file_store J (dx_connect X)) server peer (da_env a) of
     (None, env) \<Rightarrow>
       da_destinations (select_peer (with_file_discovery J X) port peer a) = da_destinations a
       \<and> cs_sticky (da_env (select_peer (with_file_discovery J X) port peer a)) = cs_sticky (da_env a)
       \<and> (\<exists>msg. cs_events (da_env (select_peer (with_file_discovery J X) port peer a))
            = cs_events (da_env a) @ [ErrorEvent msg])
   | (Some hit, env) \<Rightarrow>
       da_destinations (select_peer (with_file_discovery J X) port peer a)
         = store_destination port (Some hit) (da_destinations a)
       \<and> ActiveDestination port (Some hit) (Some Manual)
           \<in> set (cs_events (da_env (select_peer (with_file_discovery J X) port peer a)))
       \<and> (\<exists>rest. fst (file_pool J port (current_fingerprint server)
            (cs_sticky (da_env (select_peer (with_file_discovery J X) port peer a)))) = hit # rest)"
proof -
  let ?C = "with_file_store J (dx_connect X)"
  have port: "srv_port server = port" using server_for_Some [OF assms(2)] by simp
  obtain hit env where r: "reach_specific_peer ?C server peer (da_env a) = (hit, env)" by fastforce
  have fr: "cs_sticky env = cs_sticky (da_env a)" "cs_events env = cs_events (da_env a)"
    using try_reach_frame [of ?C server peer "da_env a" hit env] r by (simp_all add: reach_specific_peer_def)
  show ?thesis
  proof (cases hit)
    case None
    with r assms(2) fr show ?thesis by (simp add: select_peer_def)
  next
    case (Some p)
    have "\<exists>rest. fst (file_pool J port (current_fingerprint server)
        (snd (file_remember J (port_utc_now (cx_ports (dx_connect X)) (cs_world env)) port
          (current_fingerprint server) p (pool_max_total (srv_pool server)) (cs_sticky (da_env a))))) = p # rest"
      using file_sticky.remember_front [OF assms(1), of J
          "port_utc_now (cx_ports (dx_connect X)) (cs_world env)" port "current_fingerprint server" p
          "pool_max_total (srv_pool server)"]
      unfolding file_sticky.pool_result [of J, symmetric] file_store_simps by blast
    with Some r assms(2) port fr show ?thesis
      by (simp add: select_peer_def adopt_specific_def Let_def emit_sticky_pool_def set_destination_def
          current_fingerprint_def del: file_ops_state)
  qed
qed

text \<open>The witnesses: two exits in the pool of port 1080, the active one relayed.\<close>

definition pooled_sticky :: file_sticky where
  "pooled_sticky = snd (file_remember sample_codec 1 1080 (current_fingerprint (discovery_server 1080))
     (PeerId 2) 5 (sample_file_sticky []))"

lemma pooled_sticky_wf: "file_wf pooled_sticky"
  unfolding pooled_sticky_def
proof -
  have "file_wf (sample_file_sticky [])"
    by (simp add: file_wf_def sticky_wf_def sample_file_sticky_def sample_pools_def)
  from file_sticky.remember_invar [OF this, of sample_codec 1 1080
      "current_fingerprint (discovery_server 1080)" "PeerId 2" 5]
  show "file_wf (snd (file_remember sample_codec 1 1080 (current_fingerprint (discovery_server 1080))
     (PeerId 2) 5 (sample_file_sticky [])))" by simp
qed

definition file_discovery :: "(fake_world, file_sticky) discovery_ctx" where
  "file_discovery = \<lparr>dx_config = discovery_config [discovery_server 1080],
     dx_connect = sample_file_ctx, dx_now = (\<lambda>w. nat (fw_now w))\<rparr>"

definition relayed_actor :: "(fake_world, file_sticky) discovery_actor" where
  "relayed_actor = discovery_actor_new
     (start (sample_world (fake_dialer_reachable {PeerId 2}) []) pooled_sticky) [(1080, Some (PeerId 1))]"

theorem direct_peer_replaces_relayed_exit_witness:
  "da_destinations (snd (discovery_handle (with_file_discovery sample_codec file_discovery)
      (PeerConnected (PeerId 2) (direct_addr (PeerId 2)) False) relayed_actor)) = [(1080, Some (PeerId 2))]
   \<and> da_destinations (snd (discovery_handle (with_file_discovery sample_codec file_discovery)
      (PeerConnected (PeerId 2) (direct_addr (PeerId 2)) True) relayed_actor)) = [(1080, Some (PeerId 1))]"
proof -
  have pool: "in_pool_of_port file_view file_discovery (PeerId 2) pooled_sticky 1080" by code_simp
  have state: "da_destinations relayed_actor = [(1080, Some (PeerId 1))]"
    "cs_sticky (da_env relayed_actor) = pooled_sticky" "da_direct_peers relayed_actor = {}"
    by (simp_all add: relayed_actor_def discovery_actor_new_def start_def)
  have "distinct (map fst (da_destinations relayed_actor))" "file_wf (cs_sticky (da_env relayed_actor))"
    by (simp_all add: state pooled_sticky_wf)
  from direct_peer_replaces_relayed_exit [OF this, of sample_codec file_discovery "PeerId 2"
      "direct_addr (PeerId 2)"] show ?thesis
    using pool by (simp add: state on_relay_def)
qed

theorem select_peer_all_or_nothing_witness:
  "da_destinations (select_peer (with_file_discovery sample_codec file_discovery) 1080 (PeerId 2) relayed_actor)
     = store_destination 1080 (Some (PeerId 2)) [(1080, Some (PeerId 1))]"
proof -
  let ?C = "with_file_store sample_codec (dx_connect file_discovery)"
  have "fst (reach_specific_peer ?C (discovery_server 1080) (PeerId 2) (da_env relayed_actor)) = Some (PeerId 2)"
    by code_simp
  then obtain env where r: "reach_specific_peer ?C (discovery_server 1080) (PeerId 2) (da_env relayed_actor)
      = (Some (PeerId 2), env)" by (metis prod.collapse)
  have wf: "file_wf (cs_sticky (da_env relayed_actor))"
    by (simp add: relayed_actor_def discovery_actor_new_def start_def pooled_sticky_wf)
  have srv: "server_for file_discovery 1080 = Some (discovery_server 1080)"
    by (simp add: server_for_def file_discovery_def discovery_config_def discovery_server_def)
  show ?thesis
    using select_peer_all_or_nothing [OF wf srv, of sample_codec "PeerId 2"] r
    by (simp add: relayed_actor_def discovery_actor_new_def)
qed

theorem discovery_keeps_affinity_wf_witness:
  "file_wf (cs_sticky (da_env (snd (discovery_handle (with_file_discovery sample_codec file_discovery)
      (PeerUnusable (PeerId 1)) relayed_actor))))"
proof (rule discovery_keeps_affinity_wf [OF r_into_rtranclp, OF discovery_step.handle_event])
  show "file_wf (cs_sticky (da_env relayed_actor))"
    by (simp add: relayed_actor_def discovery_actor_new_def start_def pooled_sticky_wf)
qed

section \<open>Unusable peers and pinned servers\<close>

text \<open>
  Dropping an unusable peer does not keep it out: when the hub offers it again, the
  rediscovery started by the very same event adopts it again and remembers it, although the
  handler is documented to drop the peer so that it is never re-adopted.
\<close>
theorem unusable_peer_readopted:
  "da_destinations (snd (discovery_handle sample_discovery (PeerUnusable (PeerId 3))
      (discovery_actor_new offering_env [(1080, Some (PeerId 3))]))) = [(1080, Some (PeerId 3))]
   \<and> sticky_view (cs_sticky (da_env (snd (discovery_handle sample_discovery (PeerUnusable (PeerId 3))
      (discovery_actor_new offering_env [(1080, Some (PeerId 3))]))))) 1080
     = Some (current_fingerprint (discovery_server 1080), [PeerId 3])"
  by (rule conjI; code_simp)

text \<open>
  A rotation can take a server off its pins: the pool of a port is keyed by filters that do
  not include the pins, so a peer remembered before the pins were configured replaces a relayed
  pinned exit as soon as it connects directly.
\<close>
theorem rotation_leaves_pins:
  "hard_pinned two_pins
   \<and> PeerId 3 \<notin> set (map entry_peer_id (pinned (srv_peer_options two_pins)))
   \<and> da_destinations (snd (discovery_handle
        (sample_discovery\<lparr>dx_config := discovery_config [two_pins]\<rparr>)
        (PeerConnected (PeerId 3) (direct_addr (PeerId 3)) False)
        (discovery_actor_new (start (sample_world fake_dialer_new [])
             (snd (sticky_remember 1 1080 (current_fingerprint (discovery_server 1080)) (PeerId 3) 5
                default_sticky))) [(1080, Some (PeerId 1))])))
     = [(1080, Some (PeerId 3))]"
  by (intro conjI; code_simp)

end
