(* ===== verification/Network.thy ===== *)
theory Network
  imports Events "HOL-Library.Multiset"
begin

text \<open>
  The network actor of \<open>crates/p2proxy/src/runtime/network/actor.rs\<close>, sole owner of the swarm:
  the commands it answers, the swarm events it reacts to, the dials in flight and the link to
  the bootstrap hub; and the handle and gateway through which the ports reach it
  (\<open>handle.rs\<close>, \<open>adapters/swarm_gateway.rs\<close>).

  The libp2p swarm, the signing of hub queries and the hub itself are third-party: the swarm is
  a state of type \<open>'sw\<close> with the operations \<open>swarm_api\<close>, signing is a parameter, and the
  hub's answer is an argument of the spawned task. A oneshot channel is a number; what is sent
  on it is recorded in \<open>na_replies\<close>. A spawned task is an entry of \<open>na_tasks\<close>. A \<open>HashSet\<close> of
  addresses to dial is given as the list of its elements in iteration order.
\<close>

section \<open>Commands, queries and replies\<close>

type_synonym channel = nat

datatype network_command =
    CmdResolvePeers "peer_id list" channel
  | CmdFindNodes node_filters usize channel
  | CmdDial "multiaddr list" channel
  | CmdIsConnected peer_id channel
  | CmdNotifyBandwidth string

text \<open>The exclusion \<open>less_than\<close> is the \<open>u64\<close> before its conversion to a float.\<close>

datatype query_request =
    QueryResolvePeers "peer_id list"
  | QueryFindNodes requirements nat u16

datatype query_response =
    ResponseFindNodes "(peer_id \<times> multiaddr list) list"
  | ResponseFindNode "peer_id option"
  | ResponseError string

datatype network_reply =
    ReplyResolve "directory_error + route_map"
  | ReplyFind "directory_error + pool_peer list"
  | ReplyDial "dial_error + peer_id option"
  | ReplyConnected bool

text \<open>
  What the actor distinguishes of a swarm event. \<open>ConnectionClosed\<close> carries libp2p's
  \<open>num_established\<close>, the connections to the peer that remain, which the handler leaves unread.
\<close>

datatype swarm_event =
    ConnectionEstablished peer_id multiaddr bool
  | ConnectionClosed peer_id u32
  | OutgoingConnectionError "peer_id option"
  | PingFailure peer_id
  | PingOk peer_id
  | OtherSwarmEvent

datatype network_input =
    InCommand network_command
  | InSwarm swarm_event
  | ExpireDials
  | RetryBootstrap
  | Shutdown

text \<open>The tasks the actor spawns: a signed hub query, a notification, or a message to discovery.\<close>

datatype network_task =
    TaskResolve query_request channel
  | TaskFind query_request channel
  | TaskNotify string
  | TaskPeerConnected peer_id multiaddr bool
  | TaskPeerClosed peer_id

record 'sw swarm_api =
  sw_dial :: "multiaddr \<Rightarrow> 'sw \<Rightarrow> bool \<times> 'sw"
  sw_is_connected :: "peer_id \<Rightarrow> 'sw \<Rightarrow> bool"
  sw_connected_peers :: "'sw \<Rightarrow> peer_id list"
  sw_disconnect :: "peer_id \<Rightarrow> 'sw \<Rightarrow> 'sw"
  sw_next :: "'sw \<Rightarrow> 'sw"

record 'sw network_ctx =
  nx_api :: "'sw swarm_api"
  nx_bootstrap_peer_id :: peer_id
  nx_bootstrap_address :: multiaddr
  nx_max_resolve :: nat
  nx_sign :: "query_request \<Rightarrow> string + query_request"
  nx_shutdown_events :: nat

record pending_dial =
  pd_candidates :: "peer_id set"
  pd_reply :: channel
  pd_deadline :: duration

record 'sw network_actor =
  na_swarm :: 'sw
  na_pending_dials :: "pending_dial list"
  na_bootstrap_connected :: bool
  na_bootstrap_dialing :: bool
  na_ping_strikes :: "peer_id \<rightharpoonup> u32"
  na_replies :: "(channel \<times> network_reply) list"
  na_events :: "events list"
  na_tasks :: "network_task list"

definition DIAL_TIMEOUT :: duration where "DIAL_TIMEOUT = from_secs 10"
definition MAX_PING_STRIKES :: u32 where "MAX_PING_STRIKES = 3"

definition network_actor_new :: "'sw \<Rightarrow> 'sw network_actor" where
  "network_actor_new sw = \<lparr>na_swarm = sw, na_pending_dials = [], na_bootstrap_connected = True,
     na_bootstrap_dialing = False, na_ping_strikes = Map.empty, na_replies = [], na_events = [],
     na_tasks = []\<rparr>"

definition send_reply :: "channel \<Rightarrow> network_reply \<Rightarrow> 'sw network_actor \<Rightarrow> 'sw network_actor" where
  "send_reply ch r a = a\<lparr>na_replies := na_replies a @ [(ch, r)]\<rparr>"

definition spawn_task :: "network_task \<Rightarrow> 'sw network_actor \<Rightarrow> 'sw network_actor" where
  "spawn_task t a = a\<lparr>na_tasks := na_tasks a @ [t]\<rparr>"

definition emit_network :: "events \<Rightarrow> 'sw network_actor \<Rightarrow> 'sw network_actor" where
  "emit_network e a = a\<lparr>na_events := na_events a @ [e]\<rparr>"

section \<open>Dials in flight\<close>

text \<open>\<open>Vec::swap_remove\<close>: the last element takes the place of the removed one.\<close>

definition swap_remove :: "nat \<Rightarrow> 'a list \<Rightarrow> 'a \<times> 'a list" where
  "swap_remove i xs = (xs ! i, butlast (xs[i := last xs]))"

lemma length_swap_remove [simp]: "length (snd (swap_remove i xs)) = length xs - 1"
  by (simp add: swap_remove_def)

text \<open>The loop both sweeps share: remove and answer every dial that passes the test.\<close>

function drain_loop ::
    "(pending_dial \<Rightarrow> bool) \<Rightarrow> network_reply \<Rightarrow> nat \<Rightarrow> pending_dial list \<Rightarrow> (channel \<times> network_reply) list
     \<Rightarrow> pending_dial list \<times> (channel \<times> network_reply) list" where
  "drain_loop test reply i pending replies =
     (if i < length pending then
        (if test (pending ! i) then
           (case swap_remove i pending of
              (d, pending') \<Rightarrow> drain_loop test reply i pending' (replies @ [(pd_reply d, reply)]))
         else drain_loop test reply (i + 1) pending replies)
      else (pending, replies))"
  by pat_completeness auto
termination
  by (relation "measure (\<lambda>(test, reply, i, pending, replies). length pending - i)")
    (auto simp: swap_remove_def)

declare drain_loop.simps [simp del]

definition complete_pending_dials :: "peer_id \<Rightarrow> 'sw network_actor \<Rightarrow> 'sw network_actor" where
  "complete_pending_dials peer a =
     (case drain_loop (\<lambda>d. peer \<in> pd_candidates d) (ReplyDial (Inr (Some peer))) 0
             (na_pending_dials a) (na_replies a) of
        (pending, replies) \<Rightarrow> a\<lparr>na_pending_dials := pending, na_replies := replies\<rparr>)"

definition expire_dials :: "duration \<Rightarrow> 'sw network_actor \<Rightarrow> 'sw network_actor" where
  "expire_dials now a =
     (case drain_loop (\<lambda>d. pd_deadline d \<le> now) (ReplyDial (Inr None)) 0
             (na_pending_dials a) (na_replies a) of
        (pending, replies) \<Rightarrow> a\<lparr>na_pending_dials := pending, na_replies := replies\<rparr>)"

section \<open>Commands\<close>

definition failed_to_sign :: "string \<Rightarrow> string" where
  "failed_to_sign e = ''failed to sign request: '' @ e"

fun handle_command ::
    "'sw network_ctx \<Rightarrow> duration \<Rightarrow> network_command \<Rightarrow> 'sw network_actor \<Rightarrow> 'sw network_actor" where
  "handle_command N now (CmdResolvePeers peers ch) a =
     (case nx_sign N (QueryResolvePeers (take (nx_max_resolve N) peers)) of
        Inr request \<Rightarrow> spawn_task (TaskResolve request ch) a
      | Inl e \<Rightarrow> send_reply ch (ReplyResolve (Inl (Unsupported (failed_to_sign e)))) a)"
| "handle_command N now (CmdFindNodes filters limit ch) a =
     (case nx_sign N (QueryFindNodes (requirements_from_filters filters) (nf_min_bandwidth_bps filters)
             (of_nat (min limit 65535))) of
        Inr request \<Rightarrow> spawn_task (TaskFind request ch) a
      | Inl e \<Rightarrow> send_reply ch (ReplyFind (Inl (Rejected (failed_to_sign e)))) a)"
| "handle_command N now (CmdDial addresses ch) a =
     (let candidates = destination_peer_ids (set addresses)
      in if Set.is_empty candidates then send_reply ch (ReplyDial (Inr None)) a
         else a\<lparr>na_swarm := fold (\<lambda>addr sw. snd (sw_dial (nx_api N) addr sw)) addresses (na_swarm a),
                na_pending_dials := na_pending_dials a @
                  [\<lparr>pd_candidates = candidates, pd_reply = ch, pd_deadline = now + DIAL_TIMEOUT\<rparr>]\<rparr>)"
| "handle_command N now (CmdIsConnected peer ch) a =
     send_reply ch (ReplyConnected (sw_is_connected (nx_api N) peer (na_swarm a))) a"
| "handle_command N now (CmdNotifyBandwidth report) a = spawn_task (TaskNotify report) a"

text \<open>What a finished query task replies; \<open>Inl\<close> is the failure or timeout of the ask itself.\<close>

fun resolve_answer :: "string + query_response \<Rightarrow> directory_error + route_map" where
  "resolve_answer (Inr (ResponseFindNodes ps)) = Inr ps"
| "resolve_answer (Inr (ResponseError e)) = Inl (Unsupported e)"
| "resolve_answer (Inr (ResponseFindNode _)) = Inl (Rejected ''expected FindNodes'')"
| "resolve_answer (Inl e) = Inl (Unsupported e)"

fun find_answer :: "string + query_response \<Rightarrow> directory_error + pool_peer list" where
  "find_answer (Inr (ResponseFindNodes ps)) =
     Inr (map (\<lambda>(p, as). \<lparr>pp_peer_id = p, pp_addresses = as\<rparr>) ps)"
| "find_answer (Inr (ResponseError e)) = Inl (Rejected e)"
| "find_answer (Inr (ResponseFindNode _)) = Inl (Rejected ''expected FindNodes'')"
| "find_answer (Inl _) = Inl HubTimeout"

section \<open>Swarm events\<close>

fun handle_swarm_event ::
    "'sw network_ctx \<Rightarrow> swarm_event \<Rightarrow> 'sw network_actor \<Rightarrow> 'sw network_actor" where
  "handle_swarm_event N (ConnectionEstablished peer address relayed) a =
     (let a = complete_pending_dials peer a;
          a = (if peer = nx_bootstrap_peer_id N
               then a\<lparr>na_bootstrap_connected := True, na_bootstrap_dialing := False\<rparr> else a);
          a = emit_network (Connection (Connected peer)) a;
          a = emit_network (PeerRoute peer address relayed) a
      in if peer \<noteq> nx_bootstrap_peer_id N then spawn_task (TaskPeerConnected peer address relayed) a else a)"
| "handle_swarm_event N (ConnectionClosed peer num_established) a =
     (let a = a\<lparr>na_ping_strikes := (na_ping_strikes a)(peer := None)\<rparr>;
          a = (if peer = nx_bootstrap_peer_id N
               then a\<lparr>na_bootstrap_connected := False, na_bootstrap_dialing := False\<rparr> else a);
          a = emit_network (Connection (Disconnected peer)) a
      in spawn_task (TaskPeerClosed peer) a)"
| "handle_swarm_event N (OutgoingConnectionError peer) a =
     (if peer = Some (nx_bootstrap_peer_id N) then a\<lparr>na_bootstrap_dialing := False\<rparr> else a)"
| "handle_swarm_event N (PingFailure peer) a =
     (let strikes = (case na_ping_strikes a peer of Some n \<Rightarrow> n | None \<Rightarrow> 0) + 1
      in if strikes < MAX_PING_STRIKES
         then a\<lparr>na_ping_strikes := (na_ping_strikes a)(peer \<mapsto> strikes)\<rparr>
         else a\<lparr>na_ping_strikes := (na_ping_strikes a)(peer := None),
                na_swarm := sw_disconnect (nx_api N) peer (na_swarm a)\<rparr>)"
| "handle_swarm_event N (PingOk peer) a = a\<lparr>na_ping_strikes := (na_ping_strikes a)(peer := None)\<rparr>"
| "handle_swarm_event N OtherSwarmEvent a = a"

section \<open>The bootstrap link and shutdown\<close>

definition try_dial_bootstrap :: "'sw network_ctx \<Rightarrow> 'sw network_actor \<Rightarrow> 'sw network_actor" where
  "try_dial_bootstrap N a =
     (if na_bootstrap_connected a \<or> na_bootstrap_dialing a then a
      else
        (case sw_dial (nx_api N) (nx_bootstrap_address N) (na_swarm a) of
           (True, sw) \<Rightarrow> a\<lparr>na_swarm := sw, na_bootstrap_dialing := True\<rparr>
         | (False, sw) \<Rightarrow> a\<lparr>na_swarm := sw\<rparr>))"

text \<open>\<open>nx_shutdown_events\<close> is the number of swarm events that arrive before the one-second deadline.\<close>

fun shutdown_loop :: "'sw swarm_api \<Rightarrow> nat \<Rightarrow> 'sw \<Rightarrow> 'sw" where
  "shutdown_loop A 0 sw = sw"
| "shutdown_loop A (Suc n) sw =
     (if sw_connected_peers A sw = [] then sw else shutdown_loop A n (sw_next A sw))"

definition graceful_shutdown :: "'sw network_ctx \<Rightarrow> 'sw network_actor \<Rightarrow> 'sw network_actor" where
  "graceful_shutdown N a =
     (let sw = fold (sw_disconnect (nx_api N)) (sw_connected_peers (nx_api N) (na_swarm a)) (na_swarm a)
      in a\<lparr>na_swarm := shutdown_loop (nx_api N) (nx_shutdown_events N) sw\<rparr>)"

text \<open>One input, at time \<open>now\<close>.\<close>

fun network_handle ::
    "'sw network_ctx \<Rightarrow> duration \<Rightarrow> network_input \<Rightarrow> 'sw network_actor \<Rightarrow> 'sw network_actor" where
  "network_handle N now (InCommand c) a = handle_command N now c a"
| "network_handle N now (InSwarm e) a = handle_swarm_event N e a"
| "network_handle N now ExpireDials a = expire_dials now a"
| "network_handle N now RetryBootstrap a = try_dial_bootstrap N a"
| "network_handle N now Shutdown a = graceful_shutdown N a"

text \<open>The loop of \<open>run\<close>: one retry, then whatever \<open>select!\<close> delivers, until a shutdown.\<close>

fun run_inputs ::
    "'sw network_ctx \<Rightarrow> (duration \<times> network_input) list \<Rightarrow> 'sw network_actor \<Rightarrow> 'sw network_actor" where
  "run_inputs N [] a = a"
| "run_inputs N ((now, i) # ins) a =
     (if i = Shutdown then network_handle N now i a
      else run_inputs N ins (network_handle N now i a))"

definition run_network ::
    "'sw network_ctx \<Rightarrow> (duration \<times> network_input) list \<Rightarrow> 'sw network_actor \<Rightarrow> 'sw network_actor" where
  "run_network N ins a = run_inputs N ins (network_handle N 0 RetryBootstrap a)"

section \<open>The handle and the gateway\<close>

text \<open>What waiting on a command's channel ends with.\<close>

datatype 'a awaited = ActorStopped | ReplyDropped | Answered 'a

fun handle_resolve_peers :: "(directory_error + route_map) awaited \<Rightarrow> directory_error + route_map" where
  "handle_resolve_peers ActorStopped = Inl (TaskFailed ''network actor stopped'')"
| "handle_resolve_peers ReplyDropped = Inl (TaskFailed ''network actor dropped reply'')"
| "handle_resolve_peers (Answered r) = r"

fun handle_find_nodes :: "(directory_error + pool_peer list) awaited \<Rightarrow> directory_error + pool_peer list" where
  "handle_find_nodes ActorStopped = Inl (TaskFailed ''network actor stopped'')"
| "handle_find_nodes ReplyDropped = Inl (TaskFailed ''network actor dropped reply'')"
| "handle_find_nodes (Answered r) = r"

fun handle_dial :: "(dial_error + peer_id option) awaited \<Rightarrow> dial_error + peer_id option" where
  "handle_dial ActorStopped = Inl DialShutdown"
| "handle_dial ReplyDropped = Inl DialShutdown"
| "handle_dial (Answered r) = r"

fun handle_is_connected :: "bool awaited \<Rightarrow> bool" where
  "handle_is_connected (Answered b) = b"
| "handle_is_connected _ = False"

text \<open>The command each port call of the gateway sends.\<close>

definition gateway_resolve_peers :: "peer_id list \<Rightarrow> channel \<Rightarrow> network_command" where
  "gateway_resolve_peers peers ch = CmdResolvePeers peers ch"

definition gateway_find_nodes :: "server \<Rightarrow> usize \<Rightarrow> channel \<Rightarrow> network_command" where
  "gateway_find_nodes server limit ch = CmdFindNodes (node_filters_of (srv_peer_options server)) limit ch"

definition gateway_dial :: "multiaddr list \<Rightarrow> channel \<Rightarrow> network_command" where
  "gateway_dial addresses ch = CmdDial addresses ch"

definition gateway_is_connected :: "peer_id \<Rightarrow> channel \<Rightarrow> network_command" where
  "gateway_is_connected peer ch = CmdIsConnected peer ch"

end
