(* ===== verification/Network_Props.thy ===== *)
theory Network_Props
  imports Network
begin

text \<open>
  Properties of the network actor: every dial is answered exactly once, only with a peer one of
  its addresses leads to, and in time; a connection is given up exactly on the third ping
  failure in a row; and the bootstrap link.
\<close>

section \<open>A sample swarm\<close>

text \<open>A swarm that records what it is told and accepts every dial.\<close>

record sample_swarm =
  sample_dialed :: "multiaddr list"
  sample_connected :: "peer_id list"

definition sample_network :: "sample_swarm network_ctx" where
  "sample_network =
     \<lparr>nx_api = \<lparr>sw_dial = (\<lambda>a s. (True, s\<lparr>sample_dialed := sample_dialed s @ [a]\<rparr>)),
                 sw_is_connected = (\<lambda>p s. p \<in> set (sample_connected s)),
                 sw_connected_peers = sample_connected,
                 sw_disconnect = (\<lambda>p s. s\<lparr>sample_connected := removeAll p (sample_connected s)\<rparr>),
                 sw_next = (\<lambda>s. s)\<rparr>,
      nx_bootstrap_peer_id = PeerId 0, nx_bootstrap_address = [Dnsaddr ''boot2.bitping.com''],
      nx_max_resolve = 100, nx_sign = Inr, nx_shutdown_events = 3\<rparr>"

definition idle_swarm :: sample_swarm where
  "idle_swarm = \<lparr>sample_dialed = [], sample_connected = [PeerId 0, PeerId 4]\<rparr>"

definition dial_inputs :: "(duration \<times> network_input) list" where
  "dial_inputs = [(5, InCommand (CmdDial [[Ip4 ''198.51.100.7'', Tcp 443, P2p (PeerId 3)]] 1)),
     (6, InSwarm (ConnectionEstablished (PeerId 3) [Ip4 ''198.51.100.7'', Tcp 443] False)),
     (7, InCommand (CmdDial [[Ip4 ''198.51.100.8'', Tcp 443, P2p (PeerId 4)]] 2))]"

section \<open>The sweep over the dials in flight\<close>

lemma mset_swap_remove:
  assumes "i < length xs"
  shows "mset xs = add_mset (fst (swap_remove i xs)) (mset (snd (swap_remove i xs)))"
proof -
  have "xs \<noteq> []" using assms by auto
  then obtain ys z where xs: "xs = ys @ [z]" by (metis rev_exhaust)
  show ?thesis
  proof (cases "i < length ys")
    case True
    then have "mset (ys[i := z]) = add_mset z (mset ys - {#ys ! i#})" by (rule mset_update)
    moreover have "ys ! i \<in># mset ys" using True by simp
    ultimately show ?thesis using True xs
      by (simp add: swap_remove_def list_update_append nth_append butlast_append)
  next
    case False
    with assms xs have "i = length ys" by simp
    then show ?thesis using xs by (simp add: swap_remove_def)
  qed
qed

text \<open>What is left of the first \<open>i\<close> entries was already looked at, and none of them passed.\<close>

lemma drain_loop_spec:
  assumes "\<forall>d \<in> set (take i pending). \<not> test d"
  shows "\<exists>answered. snd (drain_loop test reply i pending replies) = replies @ map (\<lambda>d. (pd_reply d, reply)) answered
    \<and> mset answered = filter_mset test (mset pending)
    \<and> mset (fst (drain_loop test reply i pending replies)) = filter_mset (\<lambda>d. \<not> test d) (mset pending)"
  using assms
proof (induction test reply i pending replies rule: drain_loop.induct)
  case (1 test reply i pending replies)
  show ?case
  proof (cases "i < length pending")
    case False
    with "1.prems" have "\<forall>d \<in> set pending. \<not> test d" by simp
    then have "filter test pending = []" and "filter (\<lambda>d. \<not> test d) pending = pending" by simp_all
    then have "filter_mset test (mset pending) = {#}" and "filter_mset (\<lambda>d. \<not> test d) (mset pending) = mset pending"
      by (metis mset_filter mset.simps(1))+
    with False show ?thesis by (subst (1 2) drain_loop.simps) simp
  next
    case bound: True
    show ?thesis
    proof (cases "test (pending ! i)")
      case True
      obtain d pending' where sr: "swap_remove i pending = (d, pending')" by fastforce
      then have d: "d = pending ! i" and p': "pending' = butlast (pending[i := last pending])"
        by (simp_all add: swap_remove_def)
      have "take i pending' = take i pending" using bound p' by (simp add: take_butlast)
      then have "\<forall>d \<in> set (take i pending'). \<not> test d" using "1.prems" by simp
      from "1.IH"(1) [OF bound True sr [symmetric] this]
      obtain answered where a: "snd (drain_loop test reply i pending' (replies @ [(pd_reply d, reply)]))
          = (replies @ [(pd_reply d, reply)]) @ map (\<lambda>d. (pd_reply d, reply)) answered"
        "mset answered = filter_mset test (mset pending')"
        "mset (fst (drain_loop test reply i pending' (replies @ [(pd_reply d, reply)])))
          = filter_mset (\<lambda>d. \<not> test d) (mset pending')" by blast
      have "mset pending = add_mset d (mset pending')" using mset_swap_remove [OF bound] sr by simp
      then show ?thesis using bound True sr a d
        by (subst (1 2) drain_loop.simps) (auto intro!: exI [of _ "d # answered"])
    next
      case False
      have "\<forall>d \<in> set (take (i + 1) pending). \<not> test d"
        using "1.prems" False bound by (auto simp: take_Suc_conv_app_nth)
      from "1.IH"(2) [OF bound False this] show ?thesis using bound False
        by (subst (1 2) drain_loop.simps) simp
    qed
  qed
qed

lemma drain_spec:
  assumes "drain_loop test reply 0 pending replies = (pending', replies')"
  shows "\<exists>answered. replies' = replies @ map (\<lambda>d. (pd_reply d, reply)) answered
    \<and> mset answered = filter_mset test (mset pending)
    \<and> mset pending' = filter_mset (\<lambda>d. \<not> test d) (mset pending)"
  using drain_loop_spec [of 0 pending test reply replies] assms by simp

text \<open>
  The in-place sweep by \<open>swap_remove\<close> is the plain filter: a dial in flight is answered
  exactly once if the new connection is one of its candidates, and kept otherwise, whatever the
  order in which the sweep moves the others around.
\<close>
theorem complete_pending_dials_is_filter:
  "\<exists>answered.
     na_replies (complete_pending_dials peer a)
       = na_replies a @ map (\<lambda>d. (pd_reply d, ReplyDial (Inr (Some peer)))) answered
     \<and> mset answered = filter_mset (\<lambda>d. peer \<in> pd_candidates d) (mset (na_pending_dials a))
     \<and> mset (na_pending_dials (complete_pending_dials peer a))
       = filter_mset (\<lambda>d. peer \<notin> pd_candidates d) (mset (na_pending_dials a))"
  using drain_spec [of "\<lambda>d. peer \<in> pd_candidates d" "ReplyDial (Inr (Some peer))"
      "na_pending_dials a" "na_replies a"]
  by (auto simp: complete_pending_dials_def split: prod.splits)

lemma complete_pending_dials_frame [frame_simps]:
  "na_swarm (complete_pending_dials peer a) = na_swarm a"
  "na_ping_strikes (complete_pending_dials peer a) = na_ping_strikes a"
  "na_bootstrap_connected (complete_pending_dials peer a) = na_bootstrap_connected a"
  "na_bootstrap_dialing (complete_pending_dials peer a) = na_bootstrap_dialing a"
  "na_events (complete_pending_dials peer a) = na_events a"
  "na_tasks (complete_pending_dials peer a) = na_tasks a"
  by (simp_all add: complete_pending_dials_def split: prod.split)

lemma expire_dials_frame [frame_simps]:
  "na_swarm (expire_dials now a) = na_swarm a"
  "na_ping_strikes (expire_dials now a) = na_ping_strikes a"
  "na_bootstrap_connected (expire_dials now a) = na_bootstrap_connected a"
  "na_bootstrap_dialing (expire_dials now a) = na_bootstrap_dialing a"
  "na_events (expire_dials now a) = na_events a"
  "na_tasks (expire_dials now a) = na_tasks a"
  by (simp_all add: expire_dials_def split: prod.split)

section \<open>Every dial is answered once\<close>

fun dial_channels :: "(duration \<times> network_input) list \<Rightarrow> channel list" where
  "dial_channels [] = []"
| "dial_channels ((now, InCommand (CmdDial addresses ch)) # ins) = ch # dial_channels ins"
| "dial_channels ((now, Shutdown) # ins) = []"
| "dial_channels (_ # ins) = dial_channels ins"

definition answered_dials :: "(channel \<times> network_reply) list \<Rightarrow> channel list" where
  "answered_dials replies = map fst (filter (\<lambda>(ch, r). case r of ReplyDial _ \<Rightarrow> True | _ \<Rightarrow> False) replies)"

definition dial_books :: "'sw network_actor \<Rightarrow> channel multiset" where
  "dial_books a = mset (map pd_reply (na_pending_dials a)) + mset (answered_dials (na_replies a))"

lemma answered_dials_append [simp]:
  "answered_dials (xs @ ys) = answered_dials xs @ answered_dials ys"
  by (simp add: answered_dials_def)

lemma answered_dials_map [simp]:
  "answered_dials (map (\<lambda>d. (pd_reply d, ReplyDial r)) ds) = map pd_reply ds"
  by (simp add: answered_dials_def comp_def)

lemma answered_dials_single [simp]:
  "answered_dials [(ch, ReplyDial r)] = [ch]" "answered_dials [(ch, ReplyResolve x)] = []"
  "answered_dials [(ch, ReplyFind y)] = []" "answered_dials [(ch, ReplyConnected b)] = []"
  "answered_dials [] = []"
  by (simp_all add: answered_dials_def)

lemma drain_books:
  assumes "drain_loop test (ReplyDial r) 0 pending replies = (pending', replies')"
  shows "mset (map pd_reply pending') + mset (answered_dials replies')
    = mset (map pd_reply pending) + mset (answered_dials replies)"
proof -
  obtain answered where r: "replies' = replies @ map (\<lambda>d. (pd_reply d, ReplyDial r)) answered"
    and m: "mset answered = filter_mset test (mset pending)"
      "mset pending' = filter_mset (\<lambda>d. \<not> test d) (mset pending)"
    using drain_spec [OF assms] by blast
  have "mset pending = mset answered + mset pending'"
    using m by (simp add: multiset_partition [symmetric])
  then have "mset (map pd_reply pending) = mset (map pd_reply answered) + mset (map pd_reply pending')"
    by simp
  with r show ?thesis by simp
qed

lemma complete_books: "dial_books (complete_pending_dials peer a) = dial_books a"
  by (auto simp: dial_books_def complete_pending_dials_def dest: drain_books split: prod.split)

lemma expire_books: "dial_books (expire_dials now a) = dial_books a"
  by (auto simp: dial_books_def expire_dials_def dest: drain_books split: prod.split)

lemma books_update [simp]:
  "dial_books (a\<lparr>na_swarm := sw\<rparr>) = dial_books a" "dial_books (a\<lparr>na_ping_strikes := m\<rparr>) = dial_books a"
  "dial_books (a\<lparr>na_bootstrap_connected := x\<rparr>) = dial_books a"
  "dial_books (a\<lparr>na_bootstrap_dialing := x\<rparr>) = dial_books a"
  "dial_books (emit_network e a) = dial_books a" "dial_books (spawn_task t a) = dial_books a"
  by (simp_all add: dial_books_def emit_network_def spawn_task_def)

lemma handle_books:
  "dial_books (network_handle N now i a) = mset (dial_channels [(now, i)]) + dial_books a"
proof (cases i)
  case (InCommand c)
  then show ?thesis
    by (cases c) (auto simp: dial_books_def send_reply_def spawn_task_def Let_def split: sum.split)
next
  case (InSwarm e)
  then show ?thesis by (cases e) (auto simp: Let_def complete_books)
qed (auto simp: expire_books try_dial_bootstrap_def graceful_shutdown_def Let_def
    split: prod.split bool.split)

lemma run_inputs_books: "dial_books (run_inputs N ins a) = mset (dial_channels ins) + dial_books a"
proof (induction ins arbitrary: a)
  case (Cons ti ins)
  obtain now i where ti: "ti = (now, i)" by fastforce
  have split: "mset (dial_channels ((now, i) # ins))
      = mset (dial_channels [(now, i)]) + (if i = Shutdown then {#} else mset (dial_channels ins))"
    by (cases i; (cases "case i of InCommand c \<Rightarrow> c | _ \<Rightarrow> CmdNotifyBandwidth []")?) auto
  show ?case unfolding ti using Cons handle_books [of N now i a] split by auto
qed simp

text \<open>
  C7. No dial is lost and none is answered twice: after any sequence of inputs, the channels of
  the dials issued are exactly the channels still waiting together with the channels already
  answered, each as often as it was issued.
\<close>
theorem dials_answered_exactly_once:
  "mset (dial_channels ins)
   = mset (map pd_reply (na_pending_dials (run_network N ins (network_actor_new sw))))
     + mset (answered_dials (na_replies (run_network N ins (network_actor_new sw))))"
proof -
  have "dial_books (run_network N ins (network_actor_new sw))
      = mset (dial_channels ins) + dial_books (network_handle N 0 RetryBootstrap (network_actor_new sw))"
    by (simp only: run_network_def run_inputs_books)
  also have "dial_books (network_handle N 0 RetryBootstrap (network_actor_new sw)) = {#}"
    by (simp add: dial_books_def network_actor_new_def try_dial_bootstrap_def)
  finally show ?thesis by (simp add: dial_books_def)
qed

section \<open>What a dial is answered with, and when\<close>

definition reply_ok :: "(duration \<times> network_input) set \<Rightarrow> channel \<Rightarrow> network_reply \<Rightarrow> bool" where
  "reply_ok issued ch r \<longleftrightarrow>
     (case r of
        ReplyDial (Inr (Some p)) \<Rightarrow>
          \<exists>t A. (t, InCommand (CmdDial A ch)) \<in> issued \<and> p \<in> destination_peer_ids (set A)
      | ReplyDial (Inl _) \<Rightarrow> False
      | _ \<Rightarrow> True)"

definition dial_of :: "(duration \<times> network_input) set \<Rightarrow> pending_dial \<Rightarrow> bool" where
  "dial_of issued d \<longleftrightarrow>
     (\<exists>t A. (t, InCommand (CmdDial A (pd_reply d))) \<in> issued
        \<and> pd_candidates d = destination_peer_ids (set A) \<and> pd_deadline d = t + DIAL_TIMEOUT)"

definition dials_traced :: "(duration \<times> network_input) set \<Rightarrow> 'sw network_actor \<Rightarrow> bool" where
  "dials_traced issued a \<longleftrightarrow>
     (\<forall>d \<in> set (na_pending_dials a). dial_of issued d)
     \<and> (\<forall>(ch, r) \<in> set (na_replies a). reply_ok issued ch r)"

lemma reply_ok_mono: "reply_ok X ch r \<Longrightarrow> X \<subseteq> Y \<Longrightarrow> reply_ok Y ch r"
  by (fastforce simp: reply_ok_def split: network_reply.splits sum.splits option.splits)

lemma dial_of_mono: "dial_of X d \<Longrightarrow> X \<subseteq> Y \<Longrightarrow> dial_of Y d"
  by (fastforce simp: dial_of_def)

lemma dials_traced_mono: "dials_traced X a \<Longrightarrow> X \<subseteq> Y \<Longrightarrow> dials_traced Y a"
  unfolding dials_traced_def by (fastforce intro: reply_ok_mono dial_of_mono)

lemma drain_traced:
  assumes "drain_loop test reply 0 (na_pending_dials a) (na_replies a) = (pending', replies')"
    and "dials_traced X a" and "\<And>d. test d \<Longrightarrow> dial_of X d \<Longrightarrow> reply_ok X (pd_reply d) reply"
  shows "dials_traced X (a\<lparr>na_pending_dials := pending', na_replies := replies'\<rparr>)"
proof -
  obtain answered where r: "replies' = na_replies a @ map (\<lambda>d. (pd_reply d, reply)) answered"
    and m: "mset answered = filter_mset test (mset (na_pending_dials a))"
      "mset pending' = filter_mset (\<lambda>d. \<not> test d) (mset (na_pending_dials a))"
    using drain_spec [OF assms(1)] by blast
  have "set answered = {d \<in> set (na_pending_dials a). test d}"
    and "set pending' = {d \<in> set (na_pending_dials a). \<not> test d}"
    using m by (metis set_mset_filter set_mset_mset)+
  with r assms(2,3) show ?thesis by (auto simp: dials_traced_def)
qed

lemma complete_traced: "dials_traced X a \<Longrightarrow> dials_traced X (complete_pending_dials peer a)"
proof -
  assume "dials_traced X a"
  moreover have "reply_ok X (pd_reply d) (ReplyDial (Inr (Some peer)))"
    if "peer \<in> pd_candidates d" "dial_of X d" for d
    using that by (auto simp: reply_ok_def dial_of_def)
  ultimately show ?thesis
    unfolding complete_pending_dials_def by (auto split: prod.split intro: drain_traced)
qed

lemma expire_traced: "dials_traced X a \<Longrightarrow> dials_traced X (expire_dials now a)"
  unfolding expire_dials_def by (auto simp: reply_ok_def split: prod.split intro!: drain_traced)

lemma traced_update [simp]:
  "dials_traced X (a\<lparr>na_swarm := sw\<rparr>) = dials_traced X a"
  "dials_traced X (a\<lparr>na_ping_strikes := m\<rparr>) = dials_traced X a"
  "dials_traced X (a\<lparr>na_bootstrap_connected := x\<rparr>) = dials_traced X a"
  "dials_traced X (a\<lparr>na_bootstrap_dialing := x\<rparr>) = dials_traced X a"
  "dials_traced X (emit_network e a) = dials_traced X a"
  "dials_traced X (spawn_task t a) = dials_traced X a"
  by (simp_all add: dials_traced_def emit_network_def spawn_task_def)

lemma handle_traced:
  assumes "dials_traced X a"
  shows "dials_traced (insert (now, i) X) (network_handle N now i a)"
proof -
  have a: "dials_traced (insert (now, i) X) a" by (rule dials_traced_mono [OF assms]) auto
  show ?thesis
  proof (cases i)
    case (InCommand c)
    then show ?thesis using a
      by (cases c)
        (auto simp: dials_traced_def dial_of_def reply_ok_def send_reply_def spawn_task_def Let_def
          split: sum.split)
  next
    case (InSwarm e)
    then show ?thesis using a complete_traced [OF a] by (cases e) (auto simp: Let_def)
  qed (use a expire_traced [OF a] in \<open>auto simp: try_dial_bootstrap_def graceful_shutdown_def Let_def
      split: prod.split bool.split\<close>)
qed

lemma run_inputs_traced:
  "dials_traced X a \<Longrightarrow> dials_traced (X \<union> set ins) (run_inputs N ins a)"
proof (induction ins arbitrary: X a)
  case (Cons ti ins)
  obtain now i where ti: "ti = (now, i)" by fastforce
  note h = handle_traced [OF Cons.prems, of now i N]
  show ?case
  proof (cases "i = Shutdown")
    case True
    then show ?thesis using h dials_traced_mono [OF h, of "X \<union> set (ti # ins)"] ti by auto
  next
    case False
    with Cons.IH [OF h] ti show ?thesis by simp
  qed
qed simp

lemma new_traced: "dials_traced {} (network_handle N 0 RetryBootstrap (network_actor_new sw))"
  by (simp add: dials_traced_def network_actor_new_def try_dial_bootstrap_def)

text \<open>
  The dialer is faithful: a dial is only ever answered with a peer that one of the addresses
  it was issued with leads to, and never with an error (the documented error for a dial that
  connected nobody is not used: an expired dial is answered with no peer).
\<close>
theorem dial_answers_are_faithful:
  assumes "(ch, ReplyDial r) \<in> set (na_replies (run_network N ins (network_actor_new sw)))"
  shows "\<exists>hit. r = Inr hit
    \<and> (\<forall>p. hit = Some p \<longrightarrow>
         (\<exists>t A. (t, InCommand (CmdDial A ch)) \<in> set ins \<and> p \<in> destination_peer_ids (set A)))"
proof -
  have "reply_ok (set ins) ch (ReplyDial r)"
    using run_inputs_traced [OF new_traced [of N sw], of ins N] assms
    by (auto simp: run_network_def dials_traced_def)
  then show ?thesis by (auto simp: reply_ok_def split: sum.splits option.splits)
qed

theorem dial_answers_are_faithful_witness:
  "(1, ReplyDial (Inr (Some (PeerId 3))))
     \<in> set (na_replies (run_network sample_network dial_inputs (network_actor_new idle_swarm)))
   \<and> (\<exists>t A. (t, InCommand (CmdDial A 1)) \<in> set dial_inputs \<and> PeerId 3 \<in> destination_peer_ids (set A))"
proof -
  have reply: "(1, ReplyDial (Inr (Some (PeerId 3))))
      \<in> set (na_replies (run_network sample_network dial_inputs (network_actor_new idle_swarm)))"
    by (simp add: run_network_def dial_inputs_def network_actor_new_def try_dial_bootstrap_def
        destination_peer_ids_def last_p2p_def List.map_filter_def p2p_component_def
        complete_pending_dials_def drain_loop.simps swap_remove_def Let_def
        emit_network_def spawn_task_def sample_network_def)
  from dial_answers_are_faithful [OF this] reply show ?thesis by blast
qed

lemma run_inputs_append:
  "Shutdown \<notin> snd ` set ins \<Longrightarrow> run_inputs N (ins @ rest) a = run_inputs N rest (run_inputs N ins a)"
proof (induction ins arbitrary: a)
  case (Cons ti ins)
  then show ?case by (cases ti) auto
qed simp

lemma expire_leaves_young:
  assumes "d \<in> set (na_pending_dials (expire_dials now a))"
  shows "now < pd_deadline d"
proof -
  obtain pending' replies' where l: "drain_loop (\<lambda>d. pd_deadline d \<le> now) (ReplyDial (Inr None)) 0
      (na_pending_dials a) (na_replies a) = (pending', replies')" by fastforce
  then have "mset pending' = filter_mset (\<lambda>d. \<not> pd_deadline d \<le> now) (mset (na_pending_dials a))"
    using drain_spec by blast
  then have "set pending' = {d \<in> set (na_pending_dials a). \<not> pd_deadline d \<le> now}"
    by (metis set_mset_filter set_mset_mset)
  with l assms show ?thesis by (simp add: expire_dials_def)
qed

text \<open>
  C29. No dial waits longer than its ten seconds past a sweep: a dial still waiting after the
  expiry sweep at time \<open>now\<close> was issued less than ten seconds before.
\<close>
theorem dials_expire_in_time:
  assumes "Shutdown \<notin> snd ` set ins"
    and "d \<in> set (na_pending_dials (run_network N (ins @ [(now, ExpireDials)]) (network_actor_new sw)))"
  shows "\<exists>t A. (t, InCommand (CmdDial A (pd_reply d))) \<in> set ins \<and> now < t + from_secs 10"
proof -
  let ?a = "run_inputs N ins (network_handle N 0 RetryBootstrap (network_actor_new sw))"
  have "dials_traced (set ins) ?a" using run_inputs_traced [OF new_traced, of ins N] by simp
  then have "dials_traced (set ins) (expire_dials now ?a)" by (rule expire_traced)
  moreover have d: "d \<in> set (na_pending_dials (expire_dials now ?a))"
    using assms by (simp add: run_network_def run_inputs_append)
  ultimately have "dial_of (set ins) d" by (simp add: dials_traced_def)
  with expire_leaves_young [OF d] show ?thesis by (fastforce simp: dial_of_def DIAL_TIMEOUT_def)
qed

theorem dials_expire_in_time_witness:
  "\<exists>t A. (t, InCommand (CmdDial A 2)) \<in> set dial_inputs \<and> 8 < t + from_secs 10"
proof -
  let ?d = "\<lparr>pd_candidates = {PeerId 4}, pd_reply = 2, pd_deadline = 7 + DIAL_TIMEOUT\<rparr>"
  have "?d \<in> set (na_pending_dials (run_network sample_network (dial_inputs @ [(8, ExpireDials)])
      (network_actor_new idle_swarm)))"
    by (simp add: run_network_def dial_inputs_def network_actor_new_def try_dial_bootstrap_def
        destination_peer_ids_def last_p2p_def List.map_filter_def p2p_component_def
        complete_pending_dials_def expire_dials_def drain_loop.simps swap_remove_def Let_def
        emit_network_def spawn_task_def sample_network_def DIAL_TIMEOUT_def from_secs_def)
  from dials_expire_in_time [OF _ this] show ?thesis by (simp add: dial_inputs_def)
qed

section \<open>Ping strikes\<close>

text \<open>What an input means for the liveness of a peer: a failed ping, or the end of a series.\<close>

fun ping_mark :: "peer_id \<Rightarrow> network_input \<Rightarrow> bool option" where
  "ping_mark peer (InSwarm (PingFailure p)) = (if p = peer then Some True else None)"
| "ping_mark peer (InSwarm (PingOk p)) = (if p = peer then Some False else None)"
| "ping_mark peer (InSwarm (ConnectionClosed p n)) = (if p = peer then Some False else None)"
| "ping_mark peer _ = None"

definition failures_in_a_row :: "peer_id \<Rightarrow> (duration \<times> network_input) list \<Rightarrow> nat" where
  "failures_in_a_row peer ins =
     length (takeWhile id (rev (List.map_filter (\<lambda>ti. ping_mark peer (snd ti)) ins)))"

definition strikes_of :: "peer_id \<Rightarrow> 'sw network_actor \<Rightarrow> nat" where
  "strikes_of peer a = (case na_ping_strikes a peer of Some n \<Rightarrow> unat n | None \<Rightarrow> 0)"

definition strikes_ok :: "peer_id \<Rightarrow> nat \<Rightarrow> 'sw network_actor \<Rightarrow> bool" where
  "strikes_ok peer n a \<longleftrightarrow> na_ping_strikes a peer = (if n mod 3 = 0 then None else Some (of_nat (n mod 3)))"

lemma failures_snoc:
  "failures_in_a_row peer (ins @ [ti]) =
     (case ping_mark peer (snd ti) of
        None \<Rightarrow> failures_in_a_row peer ins
      | Some True \<Rightarrow> Suc (failures_in_a_row peer ins)
      | Some False \<Rightarrow> 0)"
  by (simp add: failures_in_a_row_def List.map_filter_def split: option.split bool.split)

lemma other_inputs_keep_strikes:
  assumes "ping_mark peer i = None"
  shows "na_ping_strikes (network_handle N now i a) peer = na_ping_strikes a peer"
proof (cases i)
  case (InCommand c)
  then show ?thesis by (cases c) (simp_all add: send_reply_def spawn_task_def Let_def split: sum.split)
next
  case (InSwarm e)
  with assms show ?thesis
    by (cases e) (auto simp: Let_def frame_simps emit_network_def spawn_task_def split: if_splits)
qed (simp_all add: frame_simps try_dial_bootstrap_def graceful_shutdown_def Let_def
    split: prod.split bool.split)

lemma failure_effect:
  assumes "strikes_ok peer n a"
  shows "strikes_ok peer (Suc n) (network_handle N now (InSwarm (PingFailure peer)) a)
    \<and> na_swarm (network_handle N now (InSwarm (PingFailure peer)) a)
      = (if Suc n mod 3 = 0 then sw_disconnect (nx_api N) peer (na_swarm a) else na_swarm a)"
proof -
  consider "n mod 3 = 0" | "n mod 3 = 1" | "n mod 3 = 2" by fastforce
  then show ?thesis
    using assms by cases (simp_all add: strikes_ok_def mod_Suc MAX_PING_STRIKES_def Let_def)
qed

lemma run_strikes:
  assumes "Shutdown \<notin> snd ` set ins" and "strikes_ok peer 0 a"
  shows "strikes_ok peer (failures_in_a_row peer ins) (run_inputs N ins a)"
  using assms(1)
proof (induction ins rule: rev_induct)
  case Nil
  with assms(2) show ?case by (simp add: failures_in_a_row_def List.map_filter_def)
next
  case (snoc ti ins)
  obtain now i where ti: "ti = (now, i)" by fastforce
  let ?b = "run_inputs N ins a"
  have run: "run_inputs N (ins @ [ti]) a = network_handle N now i ?b"
    using snoc.prems ti by (simp add: run_inputs_append)
  have ok: "strikes_ok peer (failures_in_a_row peer ins) ?b" using snoc by simp
  show ?case
  proof (cases "ping_mark peer i")
    case None
    with ok show ?thesis
      unfolding run by (simp add: failures_snoc ti strikes_ok_def other_inputs_keep_strikes)
  next
    case (Some m)
    show ?thesis
    proof (cases m)
      case True
      with Some have "i = InSwarm (PingFailure peer)"
        by (cases "(peer, i)" rule: ping_mark.cases) (auto split: if_splits)
      with failure_effect [OF ok, of N now] ti show ?thesis
        unfolding run by (simp add: failures_snoc del: network_handle.simps)
    next
      case False
      with Some have "i = InSwarm (PingOk peer) \<or> (\<exists>n. i = InSwarm (ConnectionClosed peer n))"
        by (cases "(peer, i)" rule: ping_mark.cases) (auto split: if_splits)
      with Some False ti show ?thesis
        unfolding run by (auto simp: failures_snoc strikes_ok_def Let_def emit_network_def spawn_task_def)
    qed
  qed
qed

text \<open>
  C28. A connection is given up exactly on every third ping failure in a row: after any history,
  one more failed ping disconnects the peer if and only if the failures since its last answered
  ping or closed connection, this one included, are a multiple of three; one or two are
  tolerated.
\<close>
theorem third_strike_disconnects:
  assumes "Shutdown \<notin> snd ` set ins"
  shows "let a = run_network N ins (network_actor_new sw)
    in na_swarm (network_handle N now (InSwarm (PingFailure peer)) a)
       = (if Suc (failures_in_a_row peer ins) mod 3 = 0
          then sw_disconnect (nx_api N) peer (na_swarm a) else na_swarm a)"
proof -
  have "strikes_ok peer 0 (network_handle N 0 RetryBootstrap (network_actor_new sw))"
    by (simp add: strikes_ok_def network_actor_new_def try_dial_bootstrap_def)
  from failure_effect [OF run_strikes [OF assms this]] show ?thesis
    by (simp add: run_network_def Let_def)
qed

theorem third_strike_disconnects_witness:
  "na_swarm (network_handle sample_network 3 (InSwarm (PingFailure (PeerId 4)))
      (run_network sample_network [(1, InSwarm (PingFailure (PeerId 4))), (2, InSwarm (PingFailure (PeerId 4)))]
         (network_actor_new idle_swarm)))
   = idle_swarm\<lparr>sample_connected := [PeerId 0]\<rparr>"
proof -
  let ?ins = "[(1, InSwarm (PingFailure (PeerId 4))), (2, InSwarm (PingFailure (PeerId 4)))]
     :: (duration \<times> network_input) list"
  have "Shutdown \<notin> snd ` set ?ins" by simp
  from third_strike_disconnects [OF this, of sample_network idle_swarm 3 "PeerId 4"]
  show ?thesis
    by (simp add: failures_in_a_row_def List.map_filter_def Let_def run_network_def network_actor_new_def
        try_dial_bootstrap_def MAX_PING_STRIKES_def sample_network_def idle_swarm_def)
qed

section \<open>The bootstrap link\<close>

text \<open>
  A bootstrap dial that fails without naming the peer is never retried: the failure of a dial
  by a bare \<open>/dnsaddr\<close> address carries no peer id, so the flag that a dial is under way stays
  set, and from then on, however many retries fire and whatever else happens, nothing is dialed
  until the bootstrap peer itself connects, closes or is named by a failure.
\<close>
theorem failed_bootstrap_dial_blocks_retries:
  assumes "fst (sw_dial (nx_api N) (nx_bootstrap_address N) (na_swarm a))"
    and "\<not> na_bootstrap_connected a" and "\<not> na_bootstrap_dialing a"
    and "\<forall>(now, i) \<in> set ins. i = RetryBootstrap \<or> i = ExpireDials \<or> i = InSwarm (OutgoingConnectionError None)"
  shows "na_swarm (run_inputs N ((t, RetryBootstrap) # (t, InSwarm (OutgoingConnectionError None)) # ins) a)
      = snd (sw_dial (nx_api N) (nx_bootstrap_address N) (na_swarm a))
    \<and> \<not> na_bootstrap_connected (run_inputs N ((t, RetryBootstrap) # (t, InSwarm (OutgoingConnectionError None)) # ins) a)
    \<and> na_bootstrap_dialing (run_inputs N ((t, RetryBootstrap) # (t, InSwarm (OutgoingConnectionError None)) # ins) a)"
proof -
  have stuck: "na_swarm (run_inputs N ins b) = na_swarm b \<and> \<not> na_bootstrap_connected (run_inputs N ins b)
      \<and> na_bootstrap_dialing (run_inputs N ins b)"
    if "\<not> na_bootstrap_connected b" "na_bootstrap_dialing b" for b
    using assms(4) that
  proof (induction ins arbitrary: b)
    case (Cons ti ins)
    obtain now i where ti: "ti = (now, i)" by fastforce
    then have "i = RetryBootstrap \<or> i = ExpireDials \<or> i = InSwarm (OutgoingConnectionError None)"
      using Cons.prems(1) by simp
    with Cons ti show ?case
      by (elim disjE) (simp_all add: try_dial_bootstrap_def frame_simps)
  qed simp
  obtain sw where d: "sw_dial (nx_api N) (nx_bootstrap_address N) (na_swarm a) = (True, sw)"
    using assms(1) by (metis prod.collapse)
  show ?thesis
    using stuck [of "a\<lparr>na_swarm := sw, na_bootstrap_dialing := True\<rparr>"] assms(2,3) d
    by (simp add: try_dial_bootstrap_def)
qed

theorem failed_bootstrap_dial_blocks_retries_witness:
  "sample_dialed (na_swarm (run_inputs sample_network
     [(0, RetryBootstrap), (0, InSwarm (OutgoingConnectionError None)), (5, RetryBootstrap), (10, RetryBootstrap)]
     ((network_actor_new idle_swarm)\<lparr>na_bootstrap_connected := False\<rparr>)))
   = [[Dnsaddr ''boot2.bitping.com'']]"
  using failed_bootstrap_dial_blocks_retries
    [of sample_network "(network_actor_new idle_swarm)\<lparr>na_bootstrap_connected := False\<rparr>"
      "[(5, RetryBootstrap), (10, RetryBootstrap)]" 0]
  by (simp add: sample_network_def network_actor_new_def idle_swarm_def)

end
