(* ===== verification/Gateway.thy ===== *)
theory Gateway
  imports Connect_Effects Network_Props
begin

text \<open>
  The network-facing ports as the program implements them: \<open>SwarmGateway\<close> over \<open>NetworkHandle\<close>
  over the network actor (\<open>adapters/swarm_gateway.rs\<close>, \<open>runtime/network/handle.rs\<close>,
  \<open>Context::gateway\<close>). A port call sends a command with a fresh reply channel and waits; until
  the answer comes the actor handles whatever reaches it. That is a batch of inputs: every port
  call takes the next batch of the world, so the model covers every interleaving of swarm
  events, sweeps, retries, other commands and a shutdown with the calls of the connect flow. The
  hub is a parameter: its answer to the \<open>n\<close>-th call of the gateway.
\<close>

record 'sw network_world =
  gw_actor :: "'sw network_actor"
  gw_batches :: "(duration \<times> network_input) list list"
  gw_now :: duration
  gw_calls :: nat
  gw_stopped :: bool

type_synonym hub = "nat \<Rightarrow> query_request \<Rightarrow> string + query_response"

section \<open>Reply channels\<close>

fun command_channels :: "network_command \<Rightarrow> channel list" where
  "command_channels (CmdResolvePeers _ ch) = [ch]"
| "command_channels (CmdFindNodes _ _ ch) = [ch]"
| "command_channels (CmdDial _ ch) = [ch]"
| "command_channels (CmdIsConnected _ ch) = [ch]"
| "command_channels (CmdNotifyBandwidth _) = []"

fun input_channels :: "network_input \<Rightarrow> channel list" where
  "input_channels (InCommand c) = command_channels c"
| "input_channels _ = []"

fun task_channels :: "network_task \<Rightarrow> channel list" where
  "task_channels (TaskResolve _ ch) = [ch]"
| "task_channels (TaskFind _ ch) = [ch]"
| "task_channels _ = []"

definition used_channels :: "'sw network_actor \<Rightarrow> (duration \<times> network_input) list \<Rightarrow> channel list" where
  "used_channels a batch =
     concat (map (input_channels \<circ> snd) batch) @ map pd_reply (na_pending_dials a)
     @ map fst (na_replies a) @ concat (map task_channels (na_tasks a))"

definition fresh_channel :: "'sw network_actor \<Rightarrow> (duration \<times> network_input) list \<Rightarrow> channel" where
  "fresh_channel a batch = Suc (fold max (used_channels a batch) 0)"

section \<open>A command and its answer\<close>

text \<open>A query task ends by sending its answer on its channel.\<close>

fun task_answer :: "hub \<Rightarrow> nat \<Rightarrow> network_task \<Rightarrow> (channel \<times> network_reply) option" where
  "task_answer hub n (TaskResolve request ch) = Some (ch, ReplyResolve (resolve_answer (hub n request)))"
| "task_answer hub n (TaskFind request ch) = Some (ch, ReplyFind (find_answer (hub n request)))"
| "task_answer hub n _ = None"

definition run_batch ::
    "'sw network_ctx \<Rightarrow> (duration \<times> network_input) list \<Rightarrow> 'sw network_world \<Rightarrow> 'sw network_world" where
  "run_batch N ins w =
     w\<lparr>gw_actor := run_inputs N ins (gw_actor w),
       gw_now := (case ins of [] \<Rightarrow> gw_now w | _ \<Rightarrow> fst (last ins)),
       gw_stopped := (Shutdown \<in> snd ` set ins)\<rparr>"

definition take_batch :: "'sw network_world \<Rightarrow> (duration \<times> network_input) list" where
  "take_batch w = (case gw_batches w of [] \<Rightarrow> [] | b # _ \<Rightarrow> b)"

definition await_command ::
    "'sw network_ctx \<Rightarrow> hub \<Rightarrow> (channel \<Rightarrow> network_command) \<Rightarrow> 'sw network_world
     \<Rightarrow> network_reply awaited \<times> 'sw network_world" where
  "await_command N hub c w =
     (if gw_stopped w then (ActorStopped, w)
      else
        (let batch = take_batch w;
             ch = fresh_channel (gw_actor w) batch;
             w' = run_batch N ((gw_now w, InCommand (c ch)) # batch)
                    (w\<lparr>gw_batches := tl (gw_batches w), gw_calls := gw_calls w + 1\<rparr>);
             answers = na_replies (gw_actor w')
               @ List.map_filter (task_answer hub (gw_calls w)) (na_tasks (gw_actor w'))
         in (case map_of answers ch of Some r \<Rightarrow> Answered r | None \<Rightarrow> ReplyDropped, w')))"

section \<open>The ports\<close>

fun resolve_reply :: "network_reply awaited \<Rightarrow> (directory_error + route_map) awaited" where
  "resolve_reply (Answered (ReplyResolve r)) = Answered r"
| "resolve_reply ActorStopped = ActorStopped"
| "resolve_reply _ = ReplyDropped"

fun find_reply :: "network_reply awaited \<Rightarrow> (directory_error + pool_peer list) awaited" where
  "find_reply (Answered (ReplyFind r)) = Answered r"
| "find_reply ActorStopped = ActorStopped"
| "find_reply _ = ReplyDropped"

fun dial_reply :: "network_reply awaited \<Rightarrow> (dial_error + peer_id option) awaited" where
  "dial_reply (Answered (ReplyDial r)) = Answered r"
| "dial_reply ActorStopped = ActorStopped"
| "dial_reply _ = ReplyDropped"

fun connected_reply :: "network_reply awaited \<Rightarrow> bool awaited" where
  "connected_reply (Answered (ReplyConnected r)) = Answered r"
| "connected_reply ActorStopped = ActorStopped"
| "connected_reply _ = ReplyDropped"

text \<open>
  \<open>hash_order\<close> is the iteration order of a \<open>HashSet\<close> of addresses; \<open>utc\<close> reads the wall clock.
  While the flow sleeps, the actor handles a batch too.
\<close>

definition swarm_gateway ::
    "'sw network_ctx \<Rightarrow> hub \<Rightarrow> (multiaddr set \<Rightarrow> multiaddr list) \<Rightarrow> (duration \<Rightarrow> int)
     \<Rightarrow> 'sw network_world ports" where
  "swarm_gateway N hub hash_order utc =
     \<lparr>port_resolve_peers = (\<lambda>peers w. case await_command N hub (gateway_resolve_peers peers) w of
          (r, w') \<Rightarrow> (handle_resolve_peers (resolve_reply r), w')),
      port_find_nodes = (\<lambda>server limit w. case await_command N hub (gateway_find_nodes server limit) w of
          (r, w') \<Rightarrow> (handle_find_nodes (find_reply r), w')),
      port_dial_and_wait = (\<lambda>addresses w. case await_command N hub (gateway_dial (hash_order addresses)) w of
          (r, w') \<Rightarrow> (handle_dial (dial_reply r), w')),
      port_is_connected = (\<lambda>peer w. case await_command N hub (gateway_is_connected peer) w of
          (r, w') \<Rightarrow> (handle_is_connected (connected_reply r), w')),
      port_sleep = (\<lambda>d w. if gw_stopped w then w
          else run_batch N (take_batch w) (w\<lparr>gw_batches := tl (gw_batches w)\<rparr>)),
      port_utc_now = (\<lambda>w. utc (gw_now w))\<rparr>"

section \<open>What one channel is answered with\<close>

text \<open>
  Relative to one channel: its dial waits only for peers of \<open>A\<close>, and it is only ever answered
  with such a peer. The actor itself never answers a resolution with routes.
\<close>

definition reply_within :: "multiaddr set \<Rightarrow> network_reply \<Rightarrow> bool" where
  "reply_within A r \<longleftrightarrow>
     (case r of ReplyDial (Inr (Some p)) \<Rightarrow> p \<in> destination_peer_ids A
      | ReplyResolve (Inr _) \<Rightarrow> False | _ \<Rightarrow> True)"

definition answers_within :: "multiaddr set \<Rightarrow> channel \<Rightarrow> 'sw network_actor \<Rightarrow> bool" where
  "answers_within A ch a \<longleftrightarrow>
     (\<forall>d \<in> set (na_pending_dials a). pd_reply d = ch \<longrightarrow> pd_candidates d \<subseteq> destination_peer_ids A)
     \<and> (\<forall>(c, r) \<in> set (na_replies a). c = ch \<longrightarrow> reply_within A r)"

lemma answers_within_update [simp]:
  "answers_within A ch (a\<lparr>na_swarm := sw\<rparr>) = answers_within A ch a"
  "answers_within A ch (a\<lparr>na_ping_strikes := m\<rparr>) = answers_within A ch a"
  "answers_within A ch (a\<lparr>na_bootstrap_connected := x\<rparr>) = answers_within A ch a"
  "answers_within A ch (a\<lparr>na_bootstrap_dialing := x\<rparr>) = answers_within A ch a"
  "answers_within A ch (emit_network e a) = answers_within A ch a"
  "answers_within A ch (spawn_task t a) = answers_within A ch a"
  by (simp_all add: answers_within_def emit_network_def spawn_task_def)

lemma drain_within:
  assumes "drain_loop test reply 0 (na_pending_dials a) (na_replies a) = (pending', replies')"
    and "answers_within A ch a"
    and "\<And>d. test d \<Longrightarrow> pd_candidates d \<subseteq> destination_peer_ids A \<Longrightarrow> reply_within A reply"
  shows "answers_within A ch (a\<lparr>na_pending_dials := pending', na_replies := replies'\<rparr>)"
proof -
  obtain answered where r: "replies' = na_replies a @ map (\<lambda>d. (pd_reply d, reply)) answered"
    and m: "mset answered = filter_mset test (mset (na_pending_dials a))"
      "mset pending' = filter_mset (\<lambda>d. \<not> test d) (mset (na_pending_dials a))"
    using drain_spec [OF assms(1)] by blast
  have "set answered = {d \<in> set (na_pending_dials a). test d}"
    and "set pending' = {d \<in> set (na_pending_dials a). \<not> test d}"
    using m by (metis set_mset_filter set_mset_mset)+
  with r assms(2,3) show ?thesis by (auto simp: answers_within_def)
qed

lemma complete_within: "answers_within A ch a \<Longrightarrow> answers_within A ch (complete_pending_dials peer a)"
  unfolding complete_pending_dials_def
  by (auto simp: reply_within_def split: prod.split intro!: drain_within)

lemma expire_within: "answers_within A ch a \<Longrightarrow> answers_within A ch (expire_dials now a)"
  unfolding expire_dials_def by (auto simp: reply_within_def split: prod.split intro!: drain_within)

lemma handle_within:
  assumes "answers_within A ch a"
    and "\<And>B. i = InCommand (CmdDial B ch) \<Longrightarrow> set B \<subseteq> A"
  shows "answers_within A ch (network_handle N now i a)"
proof (cases i)
  case (InCommand c)
  have mono: "destination_peer_ids (set B) \<subseteq> destination_peer_ids A" if "set B \<subseteq> A" for B
    using that unfolding subset_iff destination_peer_ids_iff by blast
  show ?thesis
  proof (cases c)
    case (CmdDial B c')
    have B: "c' = ch \<Longrightarrow> destination_peer_ids (set B) \<subseteq> destination_peer_ids A"
      using assms(2) [of B] mono InCommand CmdDial by blast
    show ?thesis
      using assms(1) B InCommand CmdDial
      by (auto simp: answers_within_def reply_within_def send_reply_def Let_def)
  qed (use assms(1) InCommand in \<open>auto simp: answers_within_def reply_within_def send_reply_def
      spawn_task_def Let_def split: sum.split\<close>)
next
  case (InSwarm e)
  then show ?thesis using assms(1) complete_within [OF assms(1)] by (cases e) (auto simp: Let_def)
qed (use assms(1) expire_within [OF assms(1)] in
    \<open>auto simp: try_dial_bootstrap_def graceful_shutdown_def Let_def split: prod.split bool.split\<close>)

lemma run_inputs_within:
  assumes "answers_within A ch a" and "\<And>t B. (t, InCommand (CmdDial B ch)) \<in> set ins \<Longrightarrow> set B \<subseteq> A"
  shows "answers_within A ch (run_inputs N ins a)"
  using assms
proof (induction ins arbitrary: a)
  case (Cons ti ins)
  obtain now i where ti: "ti = (now, i)" by fastforce
  have "answers_within A ch (network_handle N now i a)"
    using Cons.prems ti by (intro handle_within) auto
  then show ?case using Cons ti by auto
qed simp

lemma fresh_channel_unused: "fresh_channel a batch \<notin> set (used_channels a batch)"
  using fold_max_ge [of 0 "used_channels a batch"]
  by (fastforce simp: fresh_channel_def)

lemma in_fst_image: "(x, y) \<in> S \<Longrightarrow> x \<in> fst ` S"
  by (metis fst_conv imageI)

lemma unused_within: "ch \<notin> set (used_channels a batch) \<Longrightarrow> answers_within A ch a"
  unfolding answers_within_def used_channels_def by (auto dest: in_fst_image)

lemma unused_not_dialed:
  assumes "ch \<notin> set (used_channels a batch)"
  shows "(t, InCommand (CmdDial B ch)) \<notin> set batch"
proof
  assume "(t, InCommand (CmdDial B ch)) \<in> set batch"
  then have "ch \<in> set (concat (map (input_channels \<circ> snd) batch))"
    by (auto intro!: bexI [of _ "(t, InCommand (CmdDial B ch))"])
  with assms show False by (simp add: used_channels_def)
qed

lemma await_within:
  assumes "\<And>ch' B. c ch' = CmdDial B ch' \<Longrightarrow> set B \<subseteq> A"
    and "await_command N hub c w = (Answered r, w')"
  shows "reply_within A r \<or> (\<exists>n request. r = ReplyResolve (resolve_answer (hub n request)))"
proof -
  define batch where "batch = take_batch w"
  define ch where "ch = fresh_channel (gw_actor w) batch"
  define a where "a = run_inputs N ((gw_now w, InCommand (c ch)) # batch) (gw_actor w)"
  have "\<not> gw_stopped w" using assms(2) by (auto simp: await_command_def)
  then have "fst (await_command N hub c w)
      = (case map_of (na_replies a @ List.map_filter (task_answer hub (gw_calls w)) (na_tasks a)) ch of
           Some r \<Rightarrow> Answered r | None \<Rightarrow> ReplyDropped)"
    unfolding await_command_def run_batch_def Let_def batch_def ch_def a_def by simp
  then have "map_of (na_replies a @ List.map_filter (task_answer hub (gw_calls w)) (na_tasks a)) ch = Some r"
    using assms(2) by (simp split: option.splits)
  then have answer: "(ch, r) \<in> set (na_replies a)
      \<or> (\<exists>t. task_answer hub (gw_calls w) t = Some (ch, r))"
    by (auto dest!: map_of_SomeD simp: List.map_filter_def)
  have unused: "ch \<notin> set (used_channels (gw_actor w) batch)"
    by (simp add: ch_def fresh_channel_unused)
  have "answers_within A ch a"
    unfolding a_def
  proof (rule run_inputs_within)
    show "answers_within A ch (gw_actor w)"
      using unused by (rule unused_within)
    show "set B \<subseteq> A" if "(t, InCommand (CmdDial B ch)) \<in> set ((gw_now w, InCommand (c ch)) # batch)" for t B
    proof -
      have "(t, InCommand (CmdDial B ch)) \<notin> set batch"
        using unused unused_not_dialed by blast
      with that have "c ch = CmdDial B ch" by simp
      with assms(1) show ?thesis .
    qed
  qed
  then have "(ch, r) \<in> set (na_replies a) \<Longrightarrow> reply_within A r"
    by (auto simp: answers_within_def)
  moreover have "reply_within A r \<or> (\<exists>n request. r = ReplyResolve (resolve_answer (hub n request)))"
    if "task_answer hub (gw_calls w) t = Some (ch, r)" for t
    using that by (cases t) (auto simp: reply_within_def)
  ultimately show ?thesis using answer by blast
qed


section \<open>The gateway keeps the contract of the ports\<close>

definition hub_faithful :: "hub \<Rightarrow> bool" where
  "hub_faithful hub \<longleftrightarrow> (\<forall>n q ps. hub n q = Inr (ResponseFindNodes ps) \<longrightarrow> routes_faithful ps)"

lemma gateway_dialer_faithful:
  assumes "\<And>A. set (hash_order A) \<subseteq> A"
  shows "dialer_faithful (swarm_gateway N hub hash_order utc)"
  unfolding dialer_faithful_def
proof (intro allI impI)
  fix A w p w'
  assume "port_dial_and_wait (swarm_gateway N hub hash_order utc) A w = (Inr (Some p), w')"
  then obtain r where aw: "await_command N hub (gateway_dial (hash_order A)) w = (r, w')"
    and "handle_dial (dial_reply r) = Inr (Some p)"
    by (auto simp: swarm_gateway_def split: prod.splits)
  then have r: "r = Answered (ReplyDial (Inr (Some p)))"
    by (cases r rule: dial_reply.cases) auto
  have "\<And>ch B. gateway_dial (hash_order A) ch = CmdDial B ch \<Longrightarrow> set B \<subseteq> A"
    using assms by (auto simp: gateway_dial_def)
  from await_within [OF this aw [unfolded r]] show "p \<in> destination_peer_ids A"
    by (auto simp: reply_within_def)
qed

lemma gateway_directory_faithful:
  assumes "hub_faithful hub"
  shows "directory_faithful (swarm_gateway N hub hash_order utc)"
  unfolding directory_faithful_def
proof (intro allI impI)
  fix ps w routes w'
  assume "port_resolve_peers (swarm_gateway N hub hash_order utc) ps w = (Inr routes, w')"
  then obtain r where aw: "await_command N hub (gateway_resolve_peers ps) w = (r, w')"
    and "handle_resolve_peers (resolve_reply r) = Inr routes"
    by (auto simp: swarm_gateway_def split: prod.splits)
  then have r: "r = Answered (ReplyResolve (Inr routes))"
    by (cases r rule: resolve_reply.cases) auto
  have "\<exists>n request. resolve_answer (hub n request) = Inr routes"
    using await_within [of "gateway_resolve_peers ps" "{}", OF _ aw [unfolded r]]
    by (auto simp: gateway_resolve_peers_def reply_within_def eq_commute)
  then obtain n request where "resolve_answer (hub n request) = Inr routes" by blast
  then have "hub n request = Inr (ResponseFindNodes routes)"
    by (cases "hub n request" rule: resolve_answer.cases) auto
  with assms show "routes_faithful routes" by (auto simp: hub_faithful_def)
qed

text \<open>
  C1. The pins hold through the whole stack: a hard-pinned server that connects through the
  gateway, the command handle and the network actor only ever gets a pinned peer, at the rank it
  reports, whatever swarm events, sweeps, other commands or shutdown reach the actor while the
  flow waits, and whatever the hub answers (as long as the routes it gives for a peer lead to
  that peer).
\<close>
theorem pins_hold_through_gateway:
  assumes "cx_ports C = swarm_gateway N hub hash_order utc"
    and "\<And>A. set (hash_order A) \<subseteq> A" and "hub_faithful hub" and "maddr_laws (cx_maddr C)"
    and "\<forall>e \<in> set (pinned (srv_peer_options server)). entry_wf e"
    and "hard_pinned server" and "connect C server avoid st = (Inr d, st')"
  shows "\<exists>rank < length (pinned (srv_peer_options server)).
    cd_source d = Pinned rank
    \<and> cd_peer d = entry_peer_id (pinned (srv_peer_options server) ! rank)"
  using hard_pinned_names_pin [OF _ _ assms(4-7)] assms(1,2,3)
  by (simp add: gateway_dialer_faithful gateway_directory_faithful names_pin_def)

text \<open>
  The witness: a hub that is never reached, so routes are circuits; the relayed dial for the
  first pin is answered by its connection coming up, and the flow settles on rank 0.
\<close>

definition silent_hub :: hub where
  "silent_hub n request = Inl ''timed out''"

definition pin_circuit :: multiaddr where
  "pin_circuit = relay_addr @ [P2pCircuit, P2p (PeerId 1)]"

definition listed_order :: "multiaddr set \<Rightarrow> multiaddr list" where
  "listed_order A = filter (\<lambda>a. a \<in> A) [pin_circuit]"

definition gateway_ctx :: "(sample_swarm network_world, sticky_state) connect_ctx" where
  "gateway_ctx = \<lparr>cx_ports = swarm_gateway sample_network silent_hub listed_order (\<lambda>t. 7),
     cx_store = state_store, cx_relay_address = relay_addr, cx_maddr = list_maddr_api,
     cx_text = sample_text_api\<rparr>"

definition gateway_world :: "sample_swarm network_world" where
  "gateway_world = \<lparr>gw_actor = network_actor_new idle_swarm,
     gw_batches = [[], [(5, InSwarm (ConnectionEstablished (PeerId 1) pin_circuit True))]],
     gw_now = 0, gw_calls = 0, gw_stopped = False\<rparr>"

definition one_pin :: server where
  "one_pin = pinned_server 1080 [PeerId 1]"

lemma gateway_run:
  "fst (connect gateway_ctx one_pin None (start gateway_world default_sticky))
     = Inr \<lparr>cd_peer = PeerId 1, cd_source = Pinned 0\<rparr>"
  by (simp add: connect_def connect_pinned_def one_pin_def pinned_server_def discovery_server_def
      options_def pinned_def MAX_PINNED_PASSES_def numeral_eq_Suc gateway_ctx_def start_def emit_def
      resolve_routes_def swarm_gateway_def await_command_def gateway_world_def take_batch_def
      run_batch_def gateway_resolve_peers_def sample_network_def network_actor_new_def Let_def
      spawn_task_def List.map_filter_def silent_hub_def synthesize_circuit_def list_maddr_api_def
      ends_in_p2p_def relay_addr_def candidate_routes_def dial_def partition_direct_first_def
      is_relayed_def dial_set_def gateway_dial_def listed_order_def pin_circuit_def
      destination_peer_ids_def last_p2p_def p2p_component_def complete_pending_dials_def
      drain_loop.simps swap_remove_def emit_network_def adopt_best_pinned_rank_def
      fresh_channel_def used_channels_def)


lemma listed_order_subset: "set (listed_order A) \<subseteq> A"
  by (auto simp: listed_order_def)

theorem pins_hold_through_gateway_witness:
  "\<exists>rank < length (pinned (srv_peer_options one_pin)).
     Pinned 0 = Pinned rank \<and> PeerId 1 = entry_peer_id (pinned (srv_peer_options one_pin) ! rank)"
proof -
  let ?d = "\<lparr>cd_peer = PeerId 1, cd_source = Pinned 0\<rparr>"
  let ?st = "start gateway_world default_sticky"
  have run: "connect gateway_ctx one_pin None ?st = (Inr ?d, snd (connect gateway_ctx one_pin None ?st))"
    using gateway_run by (metis prod.collapse)
  have "\<exists>rank < length (pinned (srv_peer_options one_pin)). cd_source ?d = Pinned rank
      \<and> cd_peer ?d = entry_peer_id (pinned (srv_peer_options one_pin) ! rank)"
  proof (rule pins_hold_through_gateway [OF _ listed_order_subset _ _ _ _ run])
    show "cx_ports gateway_ctx = swarm_gateway sample_network silent_hub listed_order (\<lambda>t. 7)"
      by (simp add: gateway_ctx_def)
    show "hub_faithful silent_hub" by (simp add: hub_faithful_def silent_hub_def)
    show "maddr_laws (cx_maddr gateway_ctx)" by (simp add: gateway_ctx_def list_maddr_api_laws)
    show "\<forall>e \<in> set (pinned (srv_peer_options one_pin)). entry_wf e" by code_simp
    show "hard_pinned one_pin" by code_simp
  qed
  then show ?thesis by simp
qed

section \<open>A hub that cannot be asked\<close>

text \<open>
  A hub that times out, is disconnected or refuses the query is treated as one that does not
  know the query: \<open>resolve_routes\<close> synthesizes a circuit for every peer it asked about. The empty
  map that is documented for a transient failure comes only from a stopped actor or an answer of
  the wrong kind.
\<close>
theorem failed_resolution_synthesizes:
  "resolve_routes (C\<lparr>cx_ports := P\<lparr>port_resolve_peers :=
       (\<lambda>ps w. (handle_resolve_peers (resolve_reply (Answered (ReplyResolve (resolve_answer answer)))), w))\<rparr>\<rparr>)
     peers st
   = ((case answer of
         Inr (ResponseFindNodes routes) \<Rightarrow> routes
       | Inr (ResponseFindNode _) \<Rightarrow> []
       | _ \<Rightarrow> List.map_filter
           (\<lambda>p. map_option (\<lambda>a. (p, [a])) (synthesize_circuit (cx_maddr C) (cx_relay_address C) p)) peers),
      st)"
  by (cases answer rule: resolve_answer.cases) (simp_all add: resolve_routes_def)

end
