(* ===== verification/Ui_State.thy ===== *)
theory Ui_State
  imports Events "HOL-Library.Multiset"
begin

text \<open>
  What the terminal UI knows: \<open>UIState\<close> of \<open>crates/p2proxy/src/tui/ui_state.rs\<close> and the
  reducer \<open>handle_swarm_events\<close> of \<open>crates/p2proxy/src/tui/mod.rs\<close> that folds the events of the
  actors into it. Times are the \<open>now\<close> argument, in milliseconds; the graph samples keep the
  bytes of the sample, before their conversion to floating-point kilobytes. The \<open>u64\<close> totals
  wrap, as they do in a release build.
\<close>

section \<open>Address sources, worst to best\<close>

datatype addr_source = Candidate | Relayed | Direct

fun source_rank :: "addr_source \<Rightarrow> nat" where
  "source_rank Candidate = 0"
| "source_rank Relayed = 1"
| "source_rank Direct = 2"

instantiation addr_source :: linorder
begin

definition less_eq_addr_source :: "addr_source \<Rightarrow> addr_source \<Rightarrow> bool" where
  "a \<le> b \<longleftrightarrow> source_rank a \<le> source_rank b"

definition less_addr_source :: "addr_source \<Rightarrow> addr_source \<Rightarrow> bool" where
  "a < b \<longleftrightarrow> source_rank a < source_rank b"

instance
proof
  fix a b :: addr_source
  show "a \<le> b \<Longrightarrow> b \<le> a \<Longrightarrow> a = b" by (cases a; cases b) (auto simp: less_eq_addr_source_def)
qed (auto simp: less_eq_addr_source_def less_addr_source_def)

end

text \<open>A candidate route is classified by its circuit hop.\<close>

definition classify_candidate :: "multiaddr \<Rightarrow> addr_source" where
  "classify_candidate addr = (if is_relayed addr then Relayed else Direct)"

section \<open>State\<close>

datatype connection_status = StatusConnecting | StatusConnected peer_id | StatusDisconnected

definition status_as_str :: "connection_status \<Rightarrow> string" where
  "status_as_str s = (case s of StatusConnecting \<Rightarrow> ''Connecting...'' | StatusConnected _ \<Rightarrow> ''Connected''
     | StatusDisconnected \<Rightarrow> ''Disconnected'')"

record peer_addr =
  pa_addr :: multiaddr
  pa_source :: addr_source

record ui_state =
  us_local_peer_id :: "peer_id option"
  us_connection_status :: connection_status
  us_peers :: "peer_id set"
  us_sessions :: "session_id set"
  us_total_upload :: u64
  us_total_download :: u64
  us_upload_graph :: "(int \<times> u64) list"
  us_download_graph :: "(int \<times> u64) list"
  us_last_error :: "string option"
  us_server_pools :: "u16 \<rightharpoonup> peer_id list"
  us_sticky_pools :: "u16 \<rightharpoonup> peer_id list"
  us_active_destinations :: "u16 \<rightharpoonup> peer_id"
  us_destination_sources :: "u16 \<rightharpoonup> destination_source"
  us_pinned_statuses :: "u16 \<rightharpoonup> pinned_peer_status list"
  us_session_peer :: "session_id \<rightharpoonup> peer_id"
  us_peer_bandwidth :: "peer_id \<rightharpoonup> u64 \<times> u64"
  us_peer_addresses :: "peer_id \<rightharpoonup> peer_addr"

definition ui_state_new :: ui_state where
  "ui_state_new = \<lparr>us_local_peer_id = None, us_connection_status = StatusConnecting, us_peers = {},
     us_sessions = {}, us_total_upload = 0, us_total_download = 0, us_upload_graph = [],
     us_download_graph = [], us_last_error = None, us_server_pools = Map.empty,
     us_sticky_pools = Map.empty, us_active_destinations = Map.empty,
     us_destination_sources = Map.empty, us_pinned_statuses = Map.empty,
     us_session_peer = Map.empty, us_peer_bandwidth = Map.empty, us_peer_addresses = Map.empty\<rparr>"

section \<open>The rotation pool as it is shown\<close>

definition pool_sort_key :: "ui_state \<Rightarrow> peer_id \<Rightarrow> nat" where
  "pool_sort_key st peer =
     (case map_option pa_source (us_peer_addresses st peer) of
        Some Direct \<Rightarrow> 0
      | Some Candidate \<Rightarrow> 1
      | Some Relayed \<Rightarrow> 2
      | None \<Rightarrow> 2)"

definition push_missing :: "peer_id \<Rightarrow> peer_id list \<Rightarrow> peer_id list" where
  "push_missing peer pool = (if peer \<in> set pool then pool else pool @ [peer])"

definition ordered_pool_for :: "u16 \<Rightarrow> ui_state \<Rightarrow> peer_id list" where
  "ordered_pool_for port st =
     (let pool = (case us_server_pools st port of Some ps \<Rightarrow> ps | None \<Rightarrow> []);
          pool = fold push_missing (case us_sticky_pools st port of Some ps \<Rightarrow> ps | None \<Rightarrow> []) pool
      in sort_key (pool_sort_key st) pool)"

section \<open>Updates\<close>

definition note_peer_address :: "peer_id \<Rightarrow> multiaddr \<Rightarrow> addr_source \<Rightarrow> ui_state \<Rightarrow> ui_state" where
  "note_peer_address peer addr source st =
     (let keep_existing = (case us_peer_addresses st peer of
                             Some existing \<Rightarrow> pa_source existing > source
                           | None \<Rightarrow> False)
      in if keep_existing then st
         else st\<lparr>us_peer_addresses := (us_peer_addresses st)
                   (peer \<mapsto> \<lparr>pa_addr = addr, pa_source = source\<rparr>)\<rparr>)"

definition add_upload :: "int \<Rightarrow> u64 \<Rightarrow> ui_state \<Rightarrow> ui_state" where
  "add_upload now bytes st =
     st\<lparr>us_total_upload := us_total_upload st + bytes,
        us_upload_graph := filter (\<lambda>(time, _). now - 30000 \<le> time) (us_upload_graph st @ [(now, bytes)])\<rparr>"

definition add_download :: "int \<Rightarrow> u64 \<Rightarrow> ui_state \<Rightarrow> ui_state" where
  "add_download now bytes st =
     st\<lparr>us_total_download := us_total_download st + bytes,
        us_download_graph := filter (\<lambda>(time, _). now - 30000 \<le> time) (us_download_graph st @ [(now, bytes)])\<rparr>"

definition peer_bandwidth_of :: "peer_id \<Rightarrow> ui_state \<Rightarrow> u64 \<times> u64" where
  "peer_bandwidth_of peer st = (case us_peer_bandwidth st peer of Some b \<Rightarrow> b | None \<Rightarrow> (0, 0))"

definition candidate_address :: "pool_peer \<Rightarrow> multiaddr option" where
  "candidate_address pp =
     (case find (\<lambda>a. classify_candidate a = Direct) (pp_addresses pp) of
        Some a \<Rightarrow> Some a
      | None \<Rightarrow> (case pp_addresses pp of [] \<Rightarrow> None | a # _ \<Rightarrow> Some a))"

definition note_candidate :: "pool_peer \<Rightarrow> multiaddr option \<Rightarrow> ui_state \<Rightarrow> ui_state" where
  "note_candidate pp a st =
     (case a of Some addr \<Rightarrow> note_peer_address (pp_peer_id pp) addr Candidate st | None \<Rightarrow> st)"

definition first_address :: "pool_peer \<Rightarrow> multiaddr option" where
  "first_address pp = (case pp_addresses pp of [] \<Rightarrow> None | a # _ \<Rightarrow> Some a)"

definition drop_peer :: "peer_id \<Rightarrow> ui_state \<Rightarrow> ui_state" where
  "drop_peer peer st =
     (let st = st\<lparr>us_peers := us_peers st - {peer},
                  us_peer_bandwidth := (us_peer_bandwidth st)(peer := None),
                  us_peer_addresses := (us_peer_addresses st)(peer := None),
                  us_server_pools := (\<lambda>port. map_option (filter (\<lambda>p. p \<noteq> peer)) (us_server_pools st port)),
                  us_active_destinations := (\<lambda>port. case us_active_destinations st port of
                      Some p \<Rightarrow> if p \<noteq> peer then Some p else None | None \<Rightarrow> None)\<rparr>
      in if Set.is_empty (us_peers st) then st\<lparr>us_connection_status := StatusDisconnected\<rparr> else st)"

definition set_active :: "u16 \<Rightarrow> peer_id \<Rightarrow> destination_source option \<Rightarrow> ui_state \<Rightarrow> ui_state" where
  "set_active port p source st =
     st\<lparr>us_peers := insert p (us_peers st),
        us_active_destinations := (us_active_destinations st)(port \<mapsto> p),
        us_server_pools := (us_server_pools st)(port \<mapsto>
          push_missing p (case us_server_pools st port of Some pool \<Rightarrow> pool | None \<Rightarrow> [])),
        us_destination_sources := (us_destination_sources st)(port := source)\<rparr>"

section \<open>The reducer\<close>

text \<open>The part of \<open>handle_swarm_events\<close> that concerns \<open>state\<close>.\<close>

fun reduce :: "int \<Rightarrow> events \<Rightarrow> ui_state \<Rightarrow> ui_state" where
  "reduce now (LocalPeerId peer) st = st\<lparr>us_local_peer_id := Some peer\<rparr>"
| "reduce now (Connection Connecting) st = st\<lparr>us_connection_status := StatusConnecting\<rparr>"
| "reduce now (Connection (Connected peer)) st =
     st\<lparr>us_connection_status := StatusConnected peer, us_peers := insert peer (us_peers st),
        us_last_error := None\<rparr>"
| "reduce now (Connection (Disconnected peer)) st = drop_peer peer st"
| "reduce now (Session (SessionNew sid _ peer)) st =
     st\<lparr>us_peers := insert peer (us_peers st), us_session_peer := (us_session_peer st)(sid \<mapsto> peer),
        us_sessions := insert sid (us_sessions st)\<rparr>"
| "reduce now (Session (SessionEnd sid)) st =
     st\<lparr>us_sessions := us_sessions st - {sid}, us_session_peer := (us_session_peer st)(sid := None)\<rparr>"
| "reduce now (Bandwidth (Upload sid u)) st =
     (let st = add_upload now u st
      in case us_session_peer st sid of
           Some peer \<Rightarrow> (case peer_bandwidth_of peer st of
             (up, down) \<Rightarrow> st\<lparr>us_peer_bandwidth := (us_peer_bandwidth st)(peer \<mapsto> (up + u, down))\<rparr>)
         | None \<Rightarrow> st)"
| "reduce now (Bandwidth (Download sid d)) st =
     (let st = add_download now d st
      in case us_session_peer st sid of
           Some peer \<Rightarrow> (case peer_bandwidth_of peer st of
             (up, down) \<Rightarrow> st\<lparr>us_peer_bandwidth := (us_peer_bandwidth st)(peer \<mapsto> (up, down + d))\<rparr>)
         | None \<Rightarrow> st)"
| "reduce now (ErrorEvent message) st = st\<lparr>us_last_error := Some message\<rparr>"
| "reduce now (ServerPool port peers) st =
     (let st = fold (\<lambda>pp. note_candidate pp (candidate_address pp)) peers st;
          ids = map pp_peer_id peers;
          ids = (case us_active_destinations st port of Some active \<Rightarrow> push_missing active ids | None \<Rightarrow> ids)
      in st\<lparr>us_server_pools := (us_server_pools st)(port \<mapsto> ids)\<rparr>)"
| "reduce now (PeerRoute peer address relayed) st =
     note_peer_address peer address (if relayed then Relayed else Direct) st"
| "reduce now (ActiveDestination port peer source) st =
     (case peer of
        Some p \<Rightarrow> set_active port p source st
      | None \<Rightarrow> st\<lparr>us_active_destinations := (us_active_destinations st)(port := None),
                   us_destination_sources := (us_destination_sources st)(port := None)\<rparr>)"
| "reduce now (PinnedPeerStatuses port statuses) st =
     st\<lparr>us_pinned_statuses := (us_pinned_statuses st)(port \<mapsto> statuses)\<rparr>"
| "reduce now (StickyPool port peers) st =
     (let st = fold (\<lambda>pp. note_candidate pp (first_address pp)) peers st
      in st\<lparr>us_sticky_pools := (us_sticky_pools st)(port \<mapsto> map pp_peer_id peers)\<rparr>)"

section \<open>Frames\<close>

lemma note_peer_address_frame [frame_simps]:
  "us_active_destinations (note_peer_address p a s st) = us_active_destinations st"
  "us_server_pools (note_peer_address p a s st) = us_server_pools st"
  "us_sticky_pools (note_peer_address p a s st) = us_sticky_pools st"
  "us_peers (note_peer_address p a s st) = us_peers st"
  by (simp_all add: note_peer_address_def Let_def)

lemma note_candidate_frame [frame_simps]:
  "us_active_destinations (note_candidate pp a st) = us_active_destinations st"
  "us_server_pools (note_candidate pp a st) = us_server_pools st"
  "us_sticky_pools (note_candidate pp a st) = us_sticky_pools st"
  "us_peers (note_candidate pp a st) = us_peers st"
  by (simp_all add: note_candidate_def frame_simps split: option.split)

lemma fold_note_frame [frame_simps]:
  "us_active_destinations (fold (\<lambda>pp. note_candidate pp (f pp)) pps st) = us_active_destinations st"
  "us_server_pools (fold (\<lambda>pp. note_candidate pp (f pp)) pps st) = us_server_pools st"
  "us_sticky_pools (fold (\<lambda>pp. note_candidate pp (f pp)) pps st) = us_sticky_pools st"
  "us_peers (fold (\<lambda>pp. note_candidate pp (f pp)) pps st) = us_peers st"
  by (induction pps arbitrary: st) (simp_all add: frame_simps)

end
