(* ===== verification/Ui.thy ===== *)
theory Ui
  imports Ui_State
begin

text \<open>
  The interactive part of the terminal UI, \<open>Ui\<close> of \<open>crates/p2proxy/src/tui/mod.rs\<close>: tabs, the
  NETWORK tab's server and peer cursors, the dispatch of keys and wheel events, and the events
  of the actors. The widgets of the shared \<open>tui_components\<close> and \<open>tui_logger\<close> packages (the
  export prompt and the log viewport) are third-party: states of types \<open>'p\<close> and \<open>'l\<close> with the
  operations \<open>widgets\<close>. Painting is not modelled. Instants are readings \<open>now\<close> of the clock.
\<close>

section \<open>State\<close>

datatype key =
    KeyChar char
  | KeyUp | KeyDown | KeyLeft | KeyRight | KeyPageUp | KeyPageDown
  | KeyEnter | KeyEsc | KeyTab | KeyBackTab
  | KeyOther

datatype log_event = NextPageKey | PrevPageKey | EscapeKey

datatype prompt_outcome = PromptConfirm string | PromptClose | PromptRedraw | PromptIgnored

record ('p, 'l) widgets =
  prompt_is_open :: "'p \<Rightarrow> bool"
  prompt_handle_key :: "key \<Rightarrow> 'p \<Rightarrow> prompt_outcome \<times> 'p"
  prompt_open :: "'p \<Rightarrow> 'p"
  prompt_set_status_ok :: "string \<Rightarrow> nat \<Rightarrow> 'p \<Rightarrow> 'p"
  prompt_set_status_err :: "string \<Rightarrow> 'p \<Rightarrow> 'p"
  copy_log_file_to :: "string \<Rightarrow> string + nat"
  log_transition :: "log_event \<Rightarrow> 'l \<Rightarrow> 'l"

record ('p, 'l) ui =
  ui_show_logs :: bool
  ui_tab_index :: usize
  ui_tabs :: "string list"
  ui_needs_render :: bool
  ui_is_animating :: bool
  ui_state :: ui_state
  ui_log_state :: 'l
  ui_export_prompt :: 'p
  ui_network_selected_idx :: usize
  ui_network_expanded :: "u16 set"
  ui_network_peer_cursor :: "(u16 \<times> usize) option"
  ui_network_pending_selection :: "(u16 \<times> peer_id \<times> duration) option"
  ui_config :: config

definition SELECTION_FEEDBACK_TIMEOUT :: duration where
  "SELECTION_FEEDBACK_TIMEOUT = from_secs 30"

definition ui_new :: "'p \<Rightarrow> 'l \<Rightarrow> config \<Rightarrow> ('p, 'l) ui" where
  "ui_new prompt log config =
     \<lparr>ui_show_logs = False, ui_tab_index = 0, ui_tabs = [''OVERVIEW'', ''NETWORK'', ''LOGS''],
      ui_needs_render = True, ui_is_animating = True, ui_state = ui_state_new, ui_log_state = log, ui_export_prompt = prompt,
      ui_network_selected_idx = 0,
      ui_network_expanded = (case cfg_servers config of first # _ \<Rightarrow> {srv_port first} | [] \<Rightarrow> {}),
      ui_network_peer_cursor = None, ui_network_pending_selection = None, ui_config = config\<rparr>"

definition mark_dirty :: "('p, 'l) ui \<Rightarrow> ('p, 'l) ui" where
  "mark_dirty u = u\<lparr>ui_needs_render := True\<rparr>"

definition mark_clean :: "('p, 'l) ui \<Rightarrow> ('p, 'l) ui" where
  "mark_clean u = u\<lparr>ui_needs_render := False\<rparr>"

definition toggle_logs :: "('p, 'l) ui \<Rightarrow> ('p, 'l) ui" where
  "toggle_logs u = mark_dirty (u\<lparr>ui_show_logs := \<not> ui_show_logs u\<rparr>)"

definition get :: "'a list \<Rightarrow> nat \<Rightarrow> 'a option" where
  "get xs i = (if i < length xs then Some (xs ! i) else None)"

definition logs_focused :: "('p, 'l) ui \<Rightarrow> bool" where
  "logs_focused u \<longleftrightarrow> get (ui_tabs u) (ui_tab_index u) = Some ''LOGS'' \<or> ui_show_logs u"

fun log_event_of :: "key \<Rightarrow> log_event option" where
  "log_event_of (KeyChar c) =
     (if c = CHR ''j'' then Some NextPageKey else if c = CHR ''k'' then Some PrevPageKey else None)"
| "log_event_of KeyDown = Some NextPageKey"
| "log_event_of KeyPageDown = Some NextPageKey"
| "log_event_of KeyUp = Some PrevPageKey"
| "log_event_of KeyPageUp = Some PrevPageKey"
| "log_event_of KeyEsc = Some EscapeKey"
| "log_event_of _ = None"

definition scroll_logs :: "('p, 'l) widgets \<Rightarrow> key \<Rightarrow> ('p, 'l) ui \<Rightarrow> bool \<times> ('p, 'l) ui" where
  "scroll_logs W code u =
     (case log_event_of code of
        None \<Rightarrow> (False, u)
      | Some e \<Rightarrow> (True, u\<lparr>ui_log_state := log_transition W e (ui_log_state u)\<rparr>))"

section \<open>The NETWORK tab\<close>

definition servers_of :: "('p, 'l) ui \<Rightarrow> server list" where
  "servers_of u = cfg_servers (ui_config u)"

definition network_select_next :: "('p, 'l) ui \<Rightarrow> ('p, 'l) ui" where
  "network_select_next u =
     (let n = length (servers_of u)
      in if n = 0 then u
         else u\<lparr>ui_network_selected_idx := (ui_network_selected_idx u + 1) mod n\<rparr>)"

definition network_select_prev :: "('p, 'l) ui \<Rightarrow> ('p, 'l) ui" where
  "network_select_prev u =
     (let n = length (servers_of u)
      in if n = 0 then u
         else u\<lparr>ui_network_selected_idx :=
                  (if ui_network_selected_idx u = 0 then n - 1 else ui_network_selected_idx u - 1)\<rparr>)"

definition network_toggle_expand_selected :: "('p, 'l) ui \<Rightarrow> ('p, 'l) ui" where
  "network_toggle_expand_selected u =
     (case get (servers_of u) (ui_network_selected_idx u) of
        None \<Rightarrow> u
      | Some server \<Rightarrow>
          (let port = srv_port server
           in if port \<notin> ui_network_expanded u
              then u\<lparr>ui_network_expanded := insert port (ui_network_expanded u)\<rparr>
              else
                (let u = u\<lparr>ui_network_expanded := ui_network_expanded u - {port}\<rparr>
                 in case ui_network_peer_cursor u of
                      Some (p, _) \<Rightarrow> if p = port then u\<lparr>ui_network_peer_cursor := None\<rparr> else u
                    | None \<Rightarrow> u)))"

text \<open>The direction is the sign of \<open>delta\<close>, the only two values the callers pass.\<close>

definition network_cursor_step :: "int \<Rightarrow> ('p, 'l) ui \<Rightarrow> ('p, 'l) ui" where
  "network_cursor_step delta u =
     (case ui_network_peer_cursor u of
        None \<Rightarrow> u
      | Some (port, idx) \<Rightarrow>
          (let len = length (ordered_pool_for port (ui_state u))
           in if len = 0 then u\<lparr>ui_network_peer_cursor := None\<rparr>
              else
                (let last = len - 1;
                     cur = min idx last;
                     next = (if delta < 0 then cur - 1 else min (cur + 1) last)
                 in u\<lparr>ui_network_peer_cursor := Some (port, next)\<rparr>)))"

definition network_up :: "('p, 'l) ui \<Rightarrow> ('p, 'l) ui" where
  "network_up u = (if ui_network_peer_cursor u \<noteq> None then network_cursor_step (-1) u else network_select_prev u)"

definition network_down :: "('p, 'l) ui \<Rightarrow> ('p, 'l) ui" where
  "network_down u = (if ui_network_peer_cursor u \<noteq> None then network_cursor_step 1 u else network_select_next u)"

definition network_enter_peer_focus :: "('p, 'l) ui \<Rightarrow> ('p, 'l) ui" where
  "network_enter_peer_focus u =
     (case get (servers_of u) (ui_network_selected_idx u) of
        None \<Rightarrow> u
      | Some server \<Rightarrow>
          (let port = srv_port server
           in if port \<in> ui_network_expanded u \<and> ordered_pool_for port (ui_state u) \<noteq> []
              then u\<lparr>ui_network_peer_cursor := Some (port, 0)\<rparr> else u))"

definition network_exit_peer_focus :: "('p, 'l) ui \<Rightarrow> ('p, 'l) ui" where
  "network_exit_peer_focus u = u\<lparr>ui_network_peer_cursor := None\<rparr>"

definition network_enter :: "('p, 'l) ui \<Rightarrow> (u16 \<times> peer_id) option \<times> ('p, 'l) ui" where
  "network_enter u =
     (case ui_network_peer_cursor u of
        Some (port, idx) \<Rightarrow>
          (map_option (\<lambda>p. (port, p)) (get (ordered_pool_for port (ui_state u)) idx), u)
      | None \<Rightarrow>
          (case get (servers_of u) (ui_network_selected_idx u) of
             None \<Rightarrow> (None, u)
           | Some server \<Rightarrow>
               (let port = srv_port server
                in if port \<notin> ui_network_expanded u
                   then (None, u\<lparr>ui_network_expanded := insert port (ui_network_expanded u)\<rparr>)
                   else (None, network_enter_peer_focus u))))"

definition next_tab :: "('p, 'l) ui \<Rightarrow> ('p, 'l) ui" where
  "next_tab u = mark_dirty (u\<lparr>ui_tab_index := (ui_tab_index u + 1) mod length (ui_tabs u)\<rparr>)"

definition previous_tab :: "('p, 'l) ui \<Rightarrow> ('p, 'l) ui" where
  "previous_tab u = mark_dirty (u\<lparr>ui_tab_index :=
     (if 0 < ui_tab_index u then ui_tab_index u - 1 else length (ui_tabs u) - 1)\<rparr>)"

section \<open>Keys, wheel and events\<close>

text \<open>What a key asks of the rest of the process: to quit, or to select an exit.\<close>

datatype key_outcome = Stay | Quit | Select u16 peer_id

definition on_network_tab :: "(('p, 'l) ui \<Rightarrow> ('p, 'l) ui) \<Rightarrow> ('p, 'l) ui \<Rightarrow> key_outcome \<times> ('p, 'l) ui" where
  "on_network_tab f u = (Stay, mark_dirty (if ui_tab_index u = 1 then f u else u))"

definition press_enter :: "duration \<Rightarrow> ('p, 'l) ui \<Rightarrow> key_outcome \<times> ('p, 'l) ui" where
  "press_enter now u =
     (if ui_tab_index u = 1 then
        (case network_enter u of
           (Some (port, peer), u) \<Rightarrow>
             (Select port peer, mark_dirty (u\<lparr>ui_network_pending_selection := Some (port, peer, now)\<rparr>))
         | (None, u) \<Rightarrow> (Stay, mark_dirty u))
      else (Stay, mark_dirty u))"

fun dispatch_key :: "('p, 'l) widgets \<Rightarrow> duration \<Rightarrow> key \<Rightarrow> ('p, 'l) ui \<Rightarrow> key_outcome \<times> ('p, 'l) ui" where
  "dispatch_key W now (KeyChar c) u =
     (if c = CHR ''q'' then (Quit, u)
      else if c = CHR ''e'' \<or> c = CHR ''E''
      then (Stay, u\<lparr>ui_export_prompt := prompt_open W (ui_export_prompt u)\<rparr>)
      else if c = CHR ''l'' then (Stay, toggle_logs u)
      else if c = CHR ''k'' then on_network_tab network_up u
      else if c = CHR ''j'' then on_network_tab network_down u
      else if c = CHR '' '' then on_network_tab network_toggle_expand_selected u
      else (Stay, u))"
| "dispatch_key W now KeyTab u = (Stay, next_tab u)"
| "dispatch_key W now KeyBackTab u = (Stay, previous_tab u)"
| "dispatch_key W now KeyUp u = on_network_tab network_up u"
| "dispatch_key W now KeyDown u = on_network_tab network_down u"
| "dispatch_key W now KeyEnter u = press_enter now u"
| "dispatch_key W now KeyRight u = on_network_tab network_enter_peer_focus u"
| "dispatch_key W now KeyEsc u = on_network_tab network_exit_peer_focus u"
| "dispatch_key W now KeyLeft u = on_network_tab network_exit_peer_focus u"
| "dispatch_key W now _ u = (Stay, u)"

definition prompt_key :: "('p, 'l) widgets \<Rightarrow> key \<Rightarrow> ('p, 'l) ui \<Rightarrow> ('p, 'l) ui" where
  "prompt_key W code u =
     (case prompt_handle_key W code (ui_export_prompt u) of
        (outcome, prompt) \<Rightarrow>
          u\<lparr>ui_export_prompt :=
            (case outcome of
               PromptConfirm dest \<Rightarrow>
                 (case copy_log_file_to W dest of
                    Inr bytes \<Rightarrow> prompt_set_status_ok W dest bytes prompt
                  | Inl e \<Rightarrow> prompt_set_status_err W e prompt)
             | _ \<Rightarrow> prompt)\<rparr>)"

lemma prompt_key_frame:
  "\<exists>prompt. prompt_key W code u = u\<lparr>ui_export_prompt := prompt\<rparr>"
  by (auto simp: prompt_key_def split: prod.split)

definition handle_key :: "('p, 'l) widgets \<Rightarrow> duration \<Rightarrow> key \<Rightarrow> ('p, 'l) ui \<Rightarrow> key_outcome \<times> ('p, 'l) ui" where
  "handle_key W now code u =
     (let u = mark_dirty u
      in if prompt_is_open W (ui_export_prompt u)
         then (Stay, prompt_key W code u)
         else if logs_focused u
         then (case scroll_logs W code u of
                 (True, u) \<Rightarrow> (Stay, u)
               | (False, u) \<Rightarrow> dispatch_key W now code u)
         else dispatch_key W now code u)"

datatype wheel = ScrollUp | ScrollDown | OtherMouse

definition handle_mouse :: "('p, 'l) widgets \<Rightarrow> wheel \<Rightarrow> ('p, 'l) ui \<Rightarrow> ('p, 'l) ui" where
  "handle_mouse W w u =
     (if logs_focused u then
        (case (case w of ScrollUp \<Rightarrow> Some PrevPageKey | ScrollDown \<Rightarrow> Some NextPageKey | OtherMouse \<Rightarrow> None) of
           Some e \<Rightarrow> mark_dirty (u\<lparr>ui_log_state := log_transition W e (ui_log_state u)\<rparr>)
         | None \<Rightarrow> u)
      else u)"

definition clears_pending :: "events \<Rightarrow> (u16 \<times> peer_id \<times> duration) option \<Rightarrow> bool" where
  "clears_pending e pending =
     (case e of
        ErrorEvent _ \<Rightarrow> True
      | ActiveDestination port _ _ \<Rightarrow> (case pending of Some (p, _, _) \<Rightarrow> p = port | None \<Rightarrow> False)
      | _ \<Rightarrow> False)"

definition handle_swarm_events :: "int \<Rightarrow> events \<Rightarrow> ('p, 'l) ui \<Rightarrow> ('p, 'l) ui" where
  "handle_swarm_events now e u =
     mark_dirty (u\<lparr>ui_state := reduce now e (ui_state u),
        ui_network_pending_selection :=
          (if clears_pending e (ui_network_pending_selection u) then None
           else ui_network_pending_selection u)\<rparr>)"

text \<open>What \<open>render\<close> does to the state besides painting.\<close>

definition render_state :: "duration \<Rightarrow> ('p, 'l) ui \<Rightarrow> ('p, 'l) ui" where
  "render_state now u =
     mark_clean (u\<lparr>ui_network_pending_selection :=
       (case ui_network_pending_selection u of
          Some (port, peer, since) \<Rightarrow>
            if now - since > SELECTION_FEEDBACK_TIMEOUT then None else Some (port, peer, since)
        | None \<Rightarrow> None)\<rparr>)"

section \<open>Runs\<close>

inductive ui_step :: "('p, 'l) widgets \<Rightarrow> ('p, 'l) ui \<Rightarrow> ('p, 'l) ui \<Rightarrow> bool"
  for W :: "('p, 'l) widgets" where
  "ui_step W u (snd (handle_key W now code u))"
| "ui_step W u (handle_mouse W w u)"
| "ui_step W u (handle_swarm_events t e u)"
| "ui_step W u (render_state now u)"
| "ui_step W u (mark_dirty u)"

section \<open>Texts of the NETWORK tab\<close>

text \<open>
  A peer id fitted into \<open>max\<close> columns; \<open>Clipped head tail\<close> is shown with one ellipsis between.
\<close>

datatype fitted = Whole string | Clipped string string

definition fit_peer_id :: "string \<Rightarrow> usize \<Rightarrow> fitted" where
  "fit_peer_id pid mx =
     (if length pid \<le> mx then Whole pid
      else if mx \<le> 1 then Whole (take mx pid)
      else
        (let keep = mx - 1;
             head = (keep + 1) div 2;
             tail = keep - head
         in Clipped (take head pid) (drop (length pid - tail) pid)))"

fun columns :: "fitted \<Rightarrow> nat" where
  "columns (Whole s) = length s"
| "columns (Clipped h t) = length h + 1 + length t"

fun host_loop :: "multiaddr \<Rightarrow> string option \<Rightarrow> u16 option \<Rightarrow> (string option \<times> u16 option) option" where
  "host_loop [] host port = Some (host, port)"
| "host_loop (P2pCircuit # ps) host port = None"
| "host_loop (Ip4 ip # ps) host port = host_loop ps (Some ip) port"
| "host_loop (Ip6 ip # ps) host port = host_loop ps (Some (''['' @ ip @ '']'')) port"
| "host_loop (Dns h # ps) host port = host_loop ps (Some h) port"
| "host_loop (Dns4 h # ps) host port = host_loop ps (Some h) port"
| "host_loop (Dns6 h # ps) host port = host_loop ps (Some h) port"
| "host_loop (Dnsaddr h # ps) host port = host_loop ps (Some h) port"
| "host_loop (Tcp p # ps) host port = host_loop ps host (Some p)"
| "host_loop (Udp p # ps) host port = host_loop ps host (Some p)"
| "host_loop (_ # ps) host port = host_loop ps host port"

definition multiaddr_host :: "multiaddr \<Rightarrow> string option" where
  "multiaddr_host addr =
     (case host_loop addr None None of
        None \<Rightarrow> None
      | Some (None, _) \<Rightarrow> None
      | Some (Some host, Some p) \<Rightarrow> Some (host @ '':'' @ show_u16 p)
      | Some (Some host, None) \<Rightarrow> Some host)"

text \<open>The text of the Address cell; \<open>None\<close> is the dash.\<close>

definition addr_cell :: "peer_addr option \<Rightarrow> string option" where
  "addr_cell entry =
     (case entry of
        None \<Rightarrow> None
      | Some e \<Rightarrow>
          (case (pa_source e, multiaddr_host (pa_addr e)) of
             (Direct, Some host) \<Rightarrow> Some host
           | (Candidate, Some host) \<Rightarrow> Some host
           | (Relayed, _) \<Rightarrow> Some ''relayed''
           | _ \<Rightarrow> None))"

end
