(* ===== verification/Ui_Props.thy ===== *)
theory Ui_Props
  imports Ui
begin

text \<open>
  Properties of the terminal UI: the cursors never point at a server or peer that is not shown,
  what the rotation pool shows and in which order, what is left of a disconnected peer, and the
  fitted texts.
\<close>

section \<open>The cursors\<close>

definition nav_ok :: "('p, 'l) ui \<Rightarrow> bool" where
  "nav_ok u \<longleftrightarrow>
     ui_tab_index u < length (ui_tabs u)
     \<and> (servers_of u \<noteq> [] \<longrightarrow> ui_network_selected_idx u < length (servers_of u))
     \<and> (\<forall>port i. ui_network_peer_cursor u = Some (port, i) \<longrightarrow>
          servers_of u \<noteq> [] \<and> srv_port (servers_of u ! ui_network_selected_idx u) = port
          \<and> port \<in> ui_network_expanded u)"

lemma get_Some [simp]: "get xs i = Some x \<longleftrightarrow> i < length xs \<and> xs ! i = x"
  by (auto simp: get_def)

lemma get_None [simp]: "get xs i = None \<longleftrightarrow> length xs \<le> i"
  by (auto simp: get_def)

lemma ui_frames [simp]:
  "servers_of (u\<lparr>ui_needs_render := b\<rparr>) = servers_of u" "servers_of (u\<lparr>ui_show_logs := b\<rparr>) = servers_of u"
  "servers_of (u\<lparr>ui_tab_index := n\<rparr>) = servers_of u" "servers_of (u\<lparr>ui_state := st\<rparr>) = servers_of u"
  "servers_of (u\<lparr>ui_log_state := l\<rparr>) = servers_of u" "servers_of (u\<lparr>ui_export_prompt := p\<rparr>) = servers_of u"
  "servers_of (u\<lparr>ui_network_selected_idx := n\<rparr>) = servers_of u"
  "servers_of (u\<lparr>ui_network_expanded := E\<rparr>) = servers_of u"
  "servers_of (u\<lparr>ui_network_peer_cursor := c\<rparr>) = servers_of u"
  "servers_of (u\<lparr>ui_network_pending_selection := q\<rparr>) = servers_of u"
  by (simp_all add: servers_of_def)

lemma nav_frames [simp]:
  "nav_ok (u\<lparr>ui_needs_render := b\<rparr>) = nav_ok u" "nav_ok (u\<lparr>ui_show_logs := b\<rparr>) = nav_ok u"
  "nav_ok (u\<lparr>ui_state := st\<rparr>) = nav_ok u" "nav_ok (u\<lparr>ui_log_state := l\<rparr>) = nav_ok u"
  "nav_ok (u\<lparr>ui_export_prompt := p\<rparr>) = nav_ok u"
  "nav_ok (u\<lparr>ui_network_pending_selection := q\<rparr>) = nav_ok u"
  by (simp_all add: nav_ok_def)

lemma nav_select:
  assumes "nav_ok u" and "ui_network_peer_cursor u = None"
  shows "nav_ok (network_select_next u)" "nav_ok (network_select_prev u)"
  using assms by (auto simp: nav_ok_def network_select_next_def network_select_prev_def Let_def)

lemma nav_step: "nav_ok u \<Longrightarrow> nav_ok (network_cursor_step d u)"
  by (auto simp: nav_ok_def network_cursor_step_def Let_def split: option.split prod.split)

lemma nav_up_down: "nav_ok u \<Longrightarrow> nav_ok (network_up u)" "nav_ok u \<Longrightarrow> nav_ok (network_down u)"
  by (cases "ui_network_peer_cursor u = None"; simp add: network_up_def network_down_def nav_step nav_select)+

lemma nav_toggle: "nav_ok u \<Longrightarrow> nav_ok (network_toggle_expand_selected u)"
  by (auto simp: nav_ok_def network_toggle_expand_selected_def Let_def split: option.splits)

lemma nav_focus: "nav_ok u \<Longrightarrow> nav_ok (network_enter_peer_focus u)"
  by (auto simp: nav_ok_def network_enter_peer_focus_def Let_def split: option.splits)

lemma nav_exit: "nav_ok u \<Longrightarrow> nav_ok (network_exit_peer_focus u)"
  by (auto simp: nav_ok_def network_exit_peer_focus_def)

lemma nav_enter: "nav_ok u \<Longrightarrow> nav_ok (snd (network_enter u))"
  using nav_focus [of u]
  by (auto simp: network_enter_def Let_def nav_ok_def split: option.splits prod.splits)

lemma nav_tabs: "nav_ok u \<Longrightarrow> nav_ok (next_tab u)" "nav_ok u \<Longrightarrow> nav_ok (previous_tab u)"
  by (auto simp: next_tab_def previous_tab_def mark_dirty_def nav_ok_def intro: mod_less_divisor)

lemma nav_on_tab: "nav_ok u \<Longrightarrow> (nav_ok u \<Longrightarrow> nav_ok (f u)) \<Longrightarrow> nav_ok (snd (on_network_tab f u))"
  by (simp add: on_network_tab_def mark_dirty_def)

lemma nav_press: "nav_ok u \<Longrightarrow> nav_ok (snd (press_enter now u))"
  using nav_enter [of u] by (auto simp: press_enter_def mark_dirty_def split: prod.splits option.splits)

lemma nav_dispatch: "nav_ok u \<Longrightarrow> nav_ok (snd (dispatch_key W now code u))"
  by (cases code)
    (auto simp: toggle_logs_def mark_dirty_def
      intro: nav_on_tab nav_up_down nav_toggle nav_focus nav_exit nav_tabs nav_press)

lemma nav_key: "nav_ok u \<Longrightarrow> nav_ok (snd (handle_key W now code u))"
  using prompt_key_frame [of W code "mark_dirty u"]
  by (auto simp: handle_key_def Let_def mark_dirty_def scroll_logs_def
      intro!: nav_dispatch split: option.splits)

lemma nav_mouse: "nav_ok u \<Longrightarrow> nav_ok (handle_mouse W w u)"
  by (cases w) (auto simp: handle_mouse_def mark_dirty_def)

lemma nav_ui_step: "ui_step W u v \<Longrightarrow> nav_ok u \<Longrightarrow> nav_ok v"
  by (cases rule: ui_step.cases)
    (auto simp: handle_swarm_events_def render_state_def mark_dirty_def mark_clean_def
      intro: nav_key nav_mouse)

lemma nav_new: "nav_ok (ui_new prompt log config)"
  by (auto simp: nav_ok_def ui_new_def servers_of_def split: list.split)

lemma nav_reachable: "(ui_step W)\<^sup>*\<^sup>* u v \<Longrightarrow> nav_ok u \<Longrightarrow> nav_ok v"
  by (induction rule: rtranclp_induct) (auto intro: nav_ui_step)

lemma cursor_frame [simp]:
  "ui_config (network_cursor_step d u) = ui_config u"
  "ui_state (network_cursor_step d u) = ui_state u"
  "ui_config (network_select_next u) = ui_config u"
  "ui_state (network_select_next u) = ui_state u"
  "ui_config (network_select_prev u) = ui_config u"
  "ui_state (network_select_prev u) = ui_state u"
  "ui_config (network_toggle_expand_selected u) = ui_config u"
  "ui_state (network_toggle_expand_selected u) = ui_state u"
  "ui_config (network_enter_peer_focus u) = ui_config u"
  "ui_state (network_enter_peer_focus u) = ui_state u"
  "ui_config (network_exit_peer_focus u) = ui_config u"
  "ui_state (network_exit_peer_focus u) = ui_state u"
  "ui_config (next_tab u) = ui_config u"
  "ui_state (next_tab u) = ui_state u" "ui_config (previous_tab u) = ui_config u"
  "ui_state (previous_tab u) = ui_state u"
  by (simp_all add: network_cursor_step_def network_select_next_def network_select_prev_def
      network_toggle_expand_selected_def network_enter_peer_focus_def network_exit_peer_focus_def
      next_tab_def previous_tab_def mark_dirty_def Let_def split: option.split)

lemma up_down_frame [simp]:
  "ui_config (network_up u) = ui_config u"
  "ui_state (network_up u) = ui_state u" "ui_config (network_down u) = ui_config u"
  "ui_state (network_down u) = ui_state u"
  "ui_config (snd (network_enter u)) = ui_config u"
  "ui_state (snd (network_enter u)) = ui_state u"
  by (simp_all add: network_up_def network_down_def network_enter_def Let_def split: option.split)

lemma press_frame [simp]: "ui_config (snd (press_enter now u)) = ui_config u"
  "ui_state (snd (press_enter now u)) = ui_state u"
proof -
  obtain r v where enter: "network_enter u = (r, v)" by fastforce
  then have "ui_config v = ui_config u" "ui_state v = ui_state u"
    by (metis snd_conv up_down_frame(5), metis snd_conv up_down_frame(6))
  with enter show "ui_config (snd (press_enter now u)) = ui_config u"
    and "ui_state (snd (press_enter now u)) = ui_state u"
    by (auto simp: press_enter_def mark_dirty_def split: option.split)
qed

lemma dispatch_frame [simp]: "ui_config (snd (dispatch_key W now code u)) = ui_config u"
  "ui_state (snd (dispatch_key W now code u)) = ui_state u"
  by (cases code; simp add: toggle_logs_def on_network_tab_def mark_dirty_def)+

lemma handle_key_frame [simp]: "ui_config (snd (handle_key W now code u)) = ui_config u"
  "ui_state (snd (handle_key W now code u)) = ui_state u"
proof -
  obtain prompt where "prompt_key W code (mark_dirty u) = (mark_dirty u)\<lparr>ui_export_prompt := prompt\<rparr>"
    using prompt_key_frame [of W code "mark_dirty u"] by blast
  then show "ui_config (snd (handle_key W now code u)) = ui_config u"
    and "ui_state (snd (handle_key W now code u)) = ui_state u"
    by (simp_all add: handle_key_def Let_def scroll_logs_def mark_dirty_def split: option.split)
qed

lemma ui_step_config: "ui_step W u v \<Longrightarrow> ui_config v = ui_config u"
proof (cases rule: ui_step.cases, assumption, goal_cases)
  case (2 w)
  then show ?case by (cases w) (auto simp: handle_mouse_def mark_dirty_def)
qed (auto simp: handle_swarm_events_def render_state_def mark_dirty_def mark_clean_def)

lemma reachable_config: "(ui_step W)\<^sup>*\<^sup>* u v \<Longrightarrow> ui_config v = ui_config u"
  by (induction rule: rtranclp_induct) (auto dest: ui_step_config)

lemma selects_shown:
  assumes nav: "nav_ok u"
    and "fst (handle_key W now code u) = Select port peer"
  shows "port \<in> srv_port ` set (servers_of u) \<and> port \<in> ui_network_expanded u
    \<and> peer \<in> set (ordered_pool_for port (ui_state u))"
proof -
  have enter: "\<exists>i. ui_network_peer_cursor u = Some (port, i)
      \<and> i < length (ordered_pool_for port (ui_state u)) \<and> ordered_pool_for port (ui_state u) ! i = peer"
  proof (cases code)
    case (KeyChar c)
    with assms(2) show ?thesis
      by (auto simp: handle_key_def Let_def mark_dirty_def scroll_logs_def on_network_tab_def
          split: if_splits option.splits)
  next
    case KeyEnter
    then have "fst (press_enter now (mark_dirty u)) = Select port peer"
      using assms(2) by (auto simp: handle_key_def Let_def scroll_logs_def split: if_splits)
    then show ?thesis
      by (auto simp: press_enter_def network_enter_def mark_dirty_def Let_def
          split: if_splits option.splits prod.splits)
  qed (use assms(2) in \<open>auto simp: handle_key_def Let_def mark_dirty_def scroll_logs_def
      on_network_tab_def split: if_splits option.splits\<close>)
  then obtain i where c: "ui_network_peer_cursor u = Some (port, i)"
    and p: "peer \<in> set (ordered_pool_for port (ui_state u))" by auto
  from nav c have "servers_of u \<noteq> []" "srv_port (servers_of u ! ui_network_selected_idx u) = port"
      "port \<in> ui_network_expanded u" "ui_network_selected_idx u < length (servers_of u)"
    unfolding nav_ok_def by blast+
  with p show ?thesis by auto
qed

text \<open>
  An operator can only pick what is shown: in every state the UI can reach, through any keys,
  wheel events and events of the actors, a key that selects an exit selects, for a configured and
  expanded server, a peer of the rotation pool displayed for it.
\<close>
theorem selection_is_shown:
  assumes "(ui_step W)\<^sup>*\<^sup>* (ui_new prompt log config) u"
    and "fst (handle_key W now code u) = Select port peer"
  shows "port \<in> srv_port ` set (cfg_servers config) \<and> port \<in> ui_network_expanded u
    \<and> peer \<in> set (ordered_pool_for port (ui_state u))"
  using selects_shown [OF nav_reachable [OF assms(1) nav_new] assms(2)] reachable_config [OF assms(1)]
  by (simp add: servers_of_def ui_new_def)

text \<open>The witness: one server, one candidate, Tab then Enter to focus and Enter to select.\<close>

definition no_widgets :: "(unit, unit) widgets" where
  "no_widgets = \<lparr>prompt_is_open = (\<lambda>_. False), prompt_handle_key = (\<lambda>_ p. (PromptIgnored, p)),
     prompt_open = (\<lambda>p. p), prompt_set_status_ok = (\<lambda>_ _ p. p), prompt_set_status_err = (\<lambda>_ p. p),
     copy_log_file_to = (\<lambda>_. Inr 0), log_transition = (\<lambda>_ l. l)\<rparr>"

definition one_server_config :: config where
  "one_server_config = \<lparr>cfg_servers = [\<lparr>srv_protocol = Socks5, srv_port = 1080,
       srv_peer_options = \<lparr>opt_destination_peers = None, opt_fallback_to_discovery = False,
         opt_sticky = True, opt_sticky_reconnect = WithBackoff, opt_country = None, opt_min_bandwidth = 0,
         opt_city = None, opt_isp = None, opt_asn = None, opt_proxy = Allow, opt_mobile = Allow,
         opt_hosting = Allow\<rparr>, srv_pool = default_pool_config\<rparr>],
     cfg_listen_addrs = None, cfg_port = None, cfg_log_level = None, cfg_bitping_api_key = ''test-key'',
     cfg_bootstrap_address = [], cfg_grpc_url = ''https://grpc.bitping.com'',
     cfg_keypair_path = ''node_keypair.bin'', cfg_metrics_port = 9091\<rparr>"

definition focused_ui :: "(unit, unit) ui" where
  "focused_ui =
     snd (handle_key no_widgets 0 KeyEnter (snd (handle_key no_widgets 0 KeyTab
       (handle_swarm_events 0 (ServerPool 1080 [\<lparr>pp_peer_id = PeerId 3, pp_addresses = []\<rparr>])
          (ui_new () () one_server_config)))))"

lemma focused_ui_reachable: "(ui_step no_widgets)\<^sup>*\<^sup>* (ui_new () () one_server_config) focused_ui"
  unfolding focused_ui_def
  by (rule rtranclp.rtrancl_into_rtrancl [OF rtranclp.rtrancl_into_rtrancl [OF r_into_rtranclp]])
    (rule ui_step.intros)+

theorem selection_is_shown_witness:
  "fst (handle_key no_widgets 0 KeyEnter focused_ui) = Select 1080 (PeerId 3)
   \<and> PeerId 3 \<in> set (ordered_pool_for 1080 (ui_state focused_ui))"
proof -
  have "fst (handle_key no_widgets 0 KeyEnter focused_ui) = Select 1080 (PeerId 3)" by code_simp
  with selection_is_shown [OF focused_ui_reachable this] show ?thesis by blast
qed

section \<open>The rotation pool\<close>

lemma push_missing_set [simp]: "set (push_missing p ps) = insert p (set ps)"
  by (auto simp: push_missing_def)

lemma push_missing_distinct [simp]: "distinct (push_missing p ps) = distinct ps"
  by (auto simp: push_missing_def)

lemma fold_push_missing_set [simp]: "set (fold push_missing qs ps) = set ps \<union> set qs"
  by (induction qs arbitrary: ps) auto

lemma fold_push_missing_distinct [simp]: "distinct (fold push_missing qs ps) = distinct ps"
  by (induction qs arbitrary: ps) simp_all

definition known_pool :: "(u16 \<rightharpoonup> peer_id list) \<Rightarrow> u16 \<Rightarrow> peer_id list" where
  "known_pool pools port = (case pools port of Some ps \<Rightarrow> ps | None \<Rightarrow> [])"

lemma ordered_pool_alt:
  "ordered_pool_for port st = sort_key (pool_sort_key st)
     (fold push_missing (known_pool (us_sticky_pools st) port) (known_pool (us_server_pools st) port))"
  by (simp add: ordered_pool_for_def known_pool_def Let_def)

text \<open>
  The rotation pool shows every candidate and every remembered exit, each once, with the
  directly connected peers first, the advertised candidates next and the relayed or unknown ones
  last; within a tier the order of the pools is kept.
\<close>
theorem rotation_pool_spec:
  assumes "distinct (known_pool (us_server_pools st) port)"
  shows "set (ordered_pool_for port st)
      = set (known_pool (us_server_pools st) port) \<union> set (known_pool (us_sticky_pools st) port)
    \<and> distinct (ordered_pool_for port st)
    \<and> sorted (map (pool_sort_key st) (ordered_pool_for port st))
    \<and> (\<forall>tier. filter (\<lambda>p. pool_sort_key st p = tier) (ordered_pool_for port st)
         = filter (\<lambda>p. pool_sort_key st p = tier)
             (fold push_missing (known_pool (us_sticky_pools st) port) (known_pool (us_server_pools st) port)))"
  using assms by (auto simp: ordered_pool_alt intro: sort_key_stable)

definition two_tier_ui :: ui_state where
  "two_tier_ui = ui_state_new\<lparr>us_server_pools := [1080 \<mapsto> [PeerId 1, PeerId 2]],
     us_sticky_pools := [1080 \<mapsto> [PeerId 2, PeerId 3]],
     us_peer_addresses := [PeerId 3 \<mapsto> \<lparr>pa_addr = [Ip4 ''198.51.100.7''], pa_source = Direct\<rparr>]\<rparr>"

theorem rotation_pool_spec_witness:
  "distinct (ordered_pool_for 1080 two_tier_ui)
   \<and> ordered_pool_for 1080 two_tier_ui = [PeerId 3, PeerId 1, PeerId 2]"
proof -
  have "distinct (known_pool (us_server_pools two_tier_ui) 1080)"
    by (simp add: two_tier_ui_def known_pool_def)
  moreover have "ordered_pool_for 1080 two_tier_ui = [PeerId 3, PeerId 1, PeerId 2]" by code_simp
  ultimately show ?thesis using rotation_pool_spec [of two_tier_ui 1080] by blast
qed

text \<open>
  The rows do move when an exit is switched: of two remembered exits of one tier, making the
  second one active puts it first, although the documentation of the pool says that its order
  does not depend on the active peer and that the cursor stays put.
\<close>
theorem switching_reorders_rows:
  "let st = reduce 0 (StickyPool 1080 [\<lparr>pp_peer_id = PeerId 1, pp_addresses = []\<rparr>,
                                      \<lparr>pp_peer_id = PeerId 2, pp_addresses = []\<rparr>]) ui_state_new
   in ordered_pool_for 1080 st = [PeerId 1, PeerId 2]
      \<and> ordered_pool_for 1080 (reduce 0 (ActiveDestination 1080 (Some (PeerId 2)) (Some Manual)) st)
        = [PeerId 2, PeerId 1]"
  by code_simp

section \<open>Disconnected peers\<close>

text \<open>
  A disconnected peer is gone from what the reducer tracks of it, and nothing else changes:
  it is no peer, no candidate and no active exit of any server, its route and its byte counts are
  dropped, every other peer, pool member and active exit stays, and the overall status turns to
  disconnected exactly when it was the last peer.
\<close>
theorem disconnected_peer_is_dropped:
  "let st' = reduce now (Connection (Disconnected p)) st
   in us_peers st' = us_peers st - {p}
    \<and> us_peer_addresses st' = (us_peer_addresses st)(p := None)
    \<and> us_peer_bandwidth st' = (us_peer_bandwidth st)(p := None)
    \<and> us_server_pools st' = (\<lambda>port. map_option (removeAll p) (us_server_pools st port))
    \<and> us_active_destinations st'
        = (\<lambda>port. if us_active_destinations st port = Some p then None else us_active_destinations st port)
    \<and> us_connection_status st'
       = (if us_peers st - {p} = {} then StatusDisconnected else us_connection_status st)"
proof -
  have "removeAll p = filter (\<lambda>q. q \<noteq> p)" by (rule ext) (simp add: removeAll_filter_not_eq neq_commute)
  then show ?thesis
    by (auto simp: drop_peer_def Let_def intro!: ext split: option.splits)
qed

text \<open>
  Two traces of a disconnected exit remain: the way it was chosen stays recorded for the
  port that has no exit any more, and a remembered exit is still listed in the rotation pool,
  although the reducer is documented to remove it from every server's pool.
\<close>
theorem disconnected_exit_leaves_traces:
  "let st = reduce 0 (Connection (Disconnected (PeerId 1)))
         (fold (reduce 0) [StickyPool 1080 [\<lparr>pp_peer_id = PeerId 1, pp_addresses = []\<rparr>],
            ActiveDestination 1080 (Some (PeerId 1)) (Some Sticky)] ui_state_new)
   in us_active_destinations st 1080 = None \<and> us_destination_sources st 1080 = Some Sticky
      \<and> ordered_pool_for 1080 st = [PeerId 1]"
  by code_simp

section \<open>Addresses\<close>

definition source_of :: "ui_state \<Rightarrow> peer_id \<Rightarrow> addr_source option" where
  "source_of st p = map_option pa_source (us_peer_addresses st p)"

definition no_worse :: "addr_source option \<Rightarrow> addr_source option \<Rightarrow> bool" where
  "no_worse a b \<longleftrightarrow> (case a of None \<Rightarrow> True | Some x \<Rightarrow> (case b of None \<Rightarrow> False | Some y \<Rightarrow> x \<le> y))"

lemma no_worse_refl [simp]: "no_worse a a"
  by (simp add: no_worse_def split: option.split)

lemma no_worse_trans: "no_worse a b \<Longrightarrow> no_worse b c \<Longrightarrow> no_worse a c"
  by (auto simp: no_worse_def split: option.splits)

lemma note_no_worse: "no_worse (source_of st p) (source_of (note_peer_address q a s st) p)"
  by (auto simp: source_of_def no_worse_def note_peer_address_def Let_def split: option.split)

lemma note_candidate_no_worse: "no_worse (source_of st p) (source_of (note_candidate pp a st) p)"
  by (simp add: note_candidate_def note_no_worse split: option.split)

lemma fold_note_no_worse:
  "no_worse (source_of st p) (source_of (fold (\<lambda>pp. note_candidate pp (f pp)) pps st) p)"
  by (induction pps arbitrary: st) (auto intro: no_worse_trans note_candidate_no_worse)

lemma source_of_frame [simp]:
  "source_of (st\<lparr>us_server_pools := x\<rparr>) p = source_of st p"
  "source_of (st\<lparr>us_sticky_pools := x\<rparr>) p = source_of st p"
  "source_of (st\<lparr>us_peer_bandwidth := y\<rparr>) p = source_of st p"
  by (simp_all add: source_of_def)

lemma reduce_no_worse:
  assumes "e \<noteq> Connection (Disconnected p)"
  shows "no_worse (source_of st p) (source_of (reduce now e st) p)"
proof (cases "(now, e, st)" rule: reduce.cases)
  case (4 now peer st)
  with assms show ?thesis by (auto simp: drop_peer_def Let_def source_of_def no_worse_def split: option.split)
next
  case (7 now sid u st)
  then show ?thesis by (auto simp: Let_def add_upload_def split: option.split prod.split) (simp_all add: source_of_def)
next
  case (8 now sid d st)
  then show ?thesis by (auto simp: Let_def add_download_def split: option.split prod.split) (simp_all add: source_of_def)
next
  case (10 now port peers st)
  then show ?thesis using fold_note_no_worse by (auto simp: Let_def)
next
  case (11 now peer address relayed st)
  then show ?thesis using note_no_worse by simp
next
  case (14 now port peers st)
  then show ?thesis using fold_note_no_worse by (auto simp: Let_def)
qed (auto simp: note_no_worse set_active_def source_of_def no_worse_def split: option.split)

text \<open>
  The address shown for a peer never gets less trustworthy while the peer stays connected:
  over any events, a live direct route is not replaced by a relayed one or a mere candidate, nor
  a relayed one by a candidate, until the peer disconnects.
\<close>
theorem address_never_downgraded:
  assumes "\<forall>(now, e) \<in> set es. e \<noteq> Connection (Disconnected p)"
    and "us_peer_addresses st p = Some a"
  shows "\<exists>b. us_peer_addresses (fold (\<lambda>(now, e). reduce now e) es st) p = Some b \<and> pa_source a \<le> pa_source b"
proof -
  have "no_worse (source_of st p) (source_of (fold (\<lambda>(now, e). reduce now e) es st) p)"
    using assms(1)
  proof (induction es arbitrary: st)
    case (Cons x es)
    obtain now e where x: "x = (now, e)" by fastforce
    with Cons.prems have "e \<noteq> Connection (Disconnected p)" by simp
    from reduce_no_worse [OF this, of st now] Cons x show ?case by (auto intro: no_worse_trans)
  qed simp
  with assms(2) show ?thesis by (auto simp: source_of_def no_worse_def split: option.splits)
qed

theorem address_never_downgraded_witness:
  "\<exists>b. us_peer_addresses (fold (\<lambda>(now, e). reduce now e)
      [(1, PeerRoute (PeerId 3) [Ip4 ''198.51.100.9'', P2pCircuit] True)] two_tier_ui) (PeerId 3) = Some b
    \<and> Direct \<le> pa_source b"
  using address_never_downgraded
    [of "[(1, PeerRoute (PeerId 3) [Ip4 ''198.51.100.9'', P2pCircuit] True)]" "PeerId 3" two_tier_ui
      "\<lparr>pa_addr = [Ip4 ''198.51.100.7''], pa_source = Direct\<rparr>"]
  by (simp add: two_tier_ui_def)

section \<open>Fitted texts\<close>

text \<open>
  A peer id always fits its columns: it is shown whole when it fits, and otherwise, from two
  columns on, as its beginning and its end filling the columns exactly.
\<close>
theorem fit_peer_id_fits:
  "columns (fit_peer_id pid mx) \<le> mx
   \<and> (if length pid \<le> mx then fit_peer_id pid mx = Whole pid
      else if mx \<le> 1 then fit_peer_id pid mx = Whole (take mx pid)
      else \<exists>head mid tail. pid = head @ mid @ tail \<and> fit_peer_id pid mx = Clipped head tail
             \<and> columns (Clipped head tail) = mx)"
proof (cases "2 \<le> mx \<and> mx < length pid")
  case True
  then have h: "2 \<le> mx" "mx < length pid" by simp_all
  let ?h = "(mx - 1 + 1) div 2" and ?t = "mx - 1 - (mx - 1 + 1) div 2"
  have le: "?h + ?t = mx - 1" "?h \<le> length pid - ?t" using h by linarith+
  have "pid = take ?h pid @ drop ?h (take (length pid - ?t) pid) @ drop (length pid - ?t) pid"
    using le(2) by (metis append.assoc append_take_drop_id min.absorb1 take_take)
  moreover have "fit_peer_id pid mx = Clipped (take ?h pid) (drop (length pid - ?t) pid)"
    using h by (simp add: fit_peer_id_def Let_def)
  moreover have "columns (Clipped (take ?h pid) (drop (length pid - ?t) pid)) = mx"
    using h le by simp
  ultimately have "\<exists>head mid tail. pid = head @ mid @ tail \<and> fit_peer_id pid mx = Clipped head tail
      \<and> columns (Clipped head tail) = mx" by blast
  with h show ?thesis by fastforce
next
  case False
  then show ?thesis by (auto simp: fit_peer_id_def Let_def)
qed

lemma host_loop_relayed: "host_loop a host port = None \<longleftrightarrow> is_relayed a"
  by (induction a host port rule: host_loop.induct) (simp_all add: is_relayed_def)

text \<open>
  The host of a relay is never shown as a peer's egress: a relayed route has no host, and the
  address cell of a direct or candidate entry shows a host only if its route does not pass a relay.
\<close>
theorem relay_host_never_shown:
  "is_relayed a \<Longrightarrow> multiaddr_host a = None
     \<and> addr_cell (Some \<lparr>pa_addr = a, pa_source = s\<rparr>) = (if s = Relayed then Some ''relayed'' else None)"
  using host_loop_relayed [of a None None]
  by (cases s) (simp_all add: multiaddr_host_def addr_cell_def)

theorem relay_host_never_shown_witness:
  "multiaddr_host [Ip4 ''203.0.113.1'', Tcp 4001, P2p (PeerId 0), P2pCircuit, P2p (PeerId 3)] = None"
  using relay_host_never_shown [of "[Ip4 ''203.0.113.1'', Tcp 4001, P2p (PeerId 0), P2pCircuit, P2p (PeerId 3)]"]
  by (simp add: is_relayed_def)

end
