(* ===== verification/Ui_View.thy ===== *)
theory Ui_View
  imports Ui_Props
begin

text \<open>
  What the NETWORK and OVERVIEW tabs show (\<open>tui/network/mod.rs\<close>, \<open>tui/overview/mod.rs\<close>): the
  lines and rows handed to ratatui, as styled spans, and the bandwidth chart's data. Laying the
  lines out in a terminal is ratatui's. Texts are UTF-8 bytes. The decimal text of a float,
  \<open>{:.d}\<close> of \<open>n / m\<close>, is \<open>vw_fixed d n m\<close>.
\<close>

section \<open>Spans\<close>

datatype colour = Primary | Secondary | Accent | BorderColour | Success | ErrorColour | Warn | Foreground

datatype emphasis = Normal | Bold

type_synonym style = "(colour \<times> emphasis) option"
type_synonym span = "style \<times> string"

definition styled :: "string \<Rightarrow> colour \<Rightarrow> emphasis \<Rightarrow> span" where
  "styled s c e = (Some (c, e), s)"

definition raw :: "string \<Rightarrow> span" where
  "raw s = (None, s)"

record view_api =
  vw_text :: text_api
  vw_fixed :: "nat \<Rightarrow> nat \<Rightarrow> nat \<Rightarrow> string"

definition middot :: string where "middot = [CHR 0xC2, CHR 0xB7]"
definition ellipsis :: string where "ellipsis = [CHR 0xE2, CHR 0x80, CHR 0xA6]"
definition em_dash :: string where "em_dash = [CHR 0xE2, CHR 0x80, CHR 0x94]"
definition up_arrow :: string where "up_arrow = [CHR 0xE2, CHR 0x86, CHR 0x91]"
definition down_arrow :: string where "down_arrow = [CHR 0xE2, CHR 0x86, CHR 0x93]"
definition right_caret :: string where "right_caret = [CHR 0xE2, CHR 0x96, CHR 0xB8]"
definition down_caret :: string where "down_caret = [CHR 0xE2, CHR 0x96, CHR 0xBE]"
definition play_mark :: string where "play_mark = [CHR 0xE2, CHR 0x96, CHR 0xB6]"
definition dots_mark :: string where "dots_mark = [CHR 0xE2, CHR 0x8B, CHR 0xAF]"

definition separator :: string where "separator = ''  '' @ middot @ ''  ''"

fun join :: "string \<Rightarrow> string list \<Rightarrow> string" where
  "join sep [] = []"
| "join sep [s] = s"
| "join sep (s # ss) = s @ sep @ join sep ss"

definition plural :: "nat \<Rightarrow> string" where
  "plural n = (if n = 1 then [] else ''s'')"

section \<open>Numbers\<close>

definition bandwidth_text :: "view_api \<Rightarrow> nat \<Rightarrow> string" where
  "bandwidth_text A bps =
     (if 1000000000 \<le> bps then vw_fixed A 0 bps 1000000000 @ ''Gbps''
      else if 1000000 \<le> bps then vw_fixed A 0 bps 1000000 @ ''Mbps''
      else if 1000 \<le> bps then vw_fixed A 0 bps 1000 @ ''Kbps''
      else show_nat bps @ ''bps'')"

text \<open>
  The loop divides a float by 1024; all its comparisons are exact, since its thresholds are
  powers of two below \<open>2 ^ 53\<close>.
\<close>

definition UNITS :: "string list" where
  "UNITS = [''B'', ''KB'', ''MB'', ''GB'', ''TB'']"

function unit_index :: "nat \<Rightarrow> nat \<Rightarrow> nat" where
  "unit_index bytes idx =
     (if 1024 ^ (idx + 1) \<le> bytes \<and> idx < length UNITS - 1 then unit_index bytes (idx + 1) else idx)"
  by pat_completeness auto
termination by (relation "measure (\<lambda>(bytes, idx). length UNITS - idx)") auto

declare unit_index.simps [simp del]

definition human_bytes :: "view_api \<Rightarrow> u64 \<Rightarrow> string" where
  "human_bytes A bytes =
     (if bytes < 1024 then show_nat (unat bytes) @ '' B''
      else
        (let idx = unit_index (unat bytes) 0
         in vw_fixed A 1 (unat bytes) (1024 ^ idx) @ '' '' @ UNITS ! idx))"

definition format_bytes :: "view_api \<Rightarrow> u64 \<Rightarrow> string" where
  "format_bytes A bytes =
     (if bytes < 1024 then show_nat (unat bytes) @ '' B''
      else if bytes < 1024 * 1024 then vw_fixed A 2 (unat bytes) 1024 @ '' KB''
      else if bytes < 1024 * 1024 * 1024 then vw_fixed A 2 (unat bytes) (1024 * 1024) @ '' MB''
      else vw_fixed A 2 (unat bytes) (1024 * 1024 * 1024) @ '' GB'')"

section \<open>The NETWORK tab\<close>

datatype constraint = MinRows nat | FixedRows nat

definition network_constraints :: "('p, 'l) ui \<Rightarrow> constraint list" where
  "network_constraints u =
     map (\<lambda>s. if srv_port s \<in> ui_network_expanded u then MinRows 8 else FixedRows 3) (servers_of u)"

definition header_height :: "ui_state \<Rightarrow> u16 \<Rightarrow> nat" where
  "header_height st port =
     (let pinned_rows = (case us_pinned_statuses st port of Some s \<Rightarrow> length s mod 65536 | None \<Rightarrow> 0)
      in if 0 < pinned_rows then 5 + pinned_rows else 5)"

definition pool_size :: "ui_state \<Rightarrow> u16 \<Rightarrow> nat" where
  "pool_size st port = (case us_server_pools st port of Some v \<Rightarrow> length v | None \<Rightarrow> 0)"

definition collapsed_line :: "('p, 'l) ui \<Rightarrow> server \<Rightarrow> bool \<Rightarrow> span list" where
  "collapsed_line u server selected =
     (let labels = filter_labels (srv_peer_options server);
          summary = (if labels = [] then ''filters: any'' else join separator labels)
      in [styled (if selected then '' '' @ right_caret @ '' '' else ''   '') Accent Normal,
          styled ('':'' @ show_u16 (srv_port server)) (if selected then Accent else Primary) Bold,
          raw ''  '', styled summary Foreground Normal, raw separator,
          (case us_active_destinations (ui_state u) (srv_port server) of
             Some _ \<Rightarrow> styled ''active'' Success Bold | None \<Rightarrow> styled ''idle'' Warn Normal),
          raw separator,
          styled (''pool: '' @ show_nat (pool_size (ui_state u) (srv_port server))) Accent Normal,
          raw separator, styled ''[Enter] expand'' BorderColour Normal])"

definition filter_text :: "view_api \<Rightarrow> server_peer_options \<Rightarrow> string" where
  "filter_text A opts =
     (let parts = filter_labels opts @ [''min bw: '' @ bandwidth_text A (opt_min_bandwidth opts)];
          pins = pinned opts;
          parts = (if pins \<noteq> []
                   then parts @ [''pinned: '' @ show_nat (length pins) @ '' peer'' @ plural (length pins)]
                   else if opt_sticky opts then parts @ [''sticky''] else parts)
      in if parts = [] then ''no filters'' else join separator parts)"

fun fitted_text :: "fitted \<Rightarrow> string" where
  "fitted_text (Whole s) = s"
| "fitted_text (Clipped h t) = h @ ellipsis @ t"

fun source_badge :: "destination_source \<Rightarrow> string" where
  "source_badge (Pinned rank) = ''pinned['' @ show_nat rank @ '']''"
| "source_badge Sticky = ''sticky''"
| "source_badge Discovered = ''discovered''"
| "source_badge Manual = ''manual''"

definition active_line :: "view_api \<Rightarrow> nat \<Rightarrow> ui_state \<Rightarrow> u16 \<Rightarrow> span list" where
  "active_line A width st port =
     (case us_active_destinations st port of
        Some peer \<Rightarrow>
          (let (up, down) = peer_bandwidth_of peer st
           in [styled ''active: '' BorderColour Normal,
               styled (fitted_text (fit_peer_id (show_peer (vw_text A) peer) (width - 56))) Success Bold]
              @ (case us_destination_sources st port of
                   Some source \<Rightarrow> [styled separator BorderColour Normal, styled (source_badge source) Primary Normal]
                 | None \<Rightarrow> [])
              @ [styled separator BorderColour Normal,
                 styled (up_arrow @ '' '' @ human_bytes A up @ ''  '' @ down_arrow @ '' '' @ human_bytes A down)
                   Accent Normal])
      | None \<Rightarrow> [styled ''active: '' BorderColour Normal, styled (''discovering'' @ ellipsis) Warn Bold])"

definition pinned_line :: "view_api \<Rightarrow> nat \<Rightarrow> peer_id option \<Rightarrow> pinned_peer_status \<Rightarrow> span list" where
  "pinned_line A width active status =
     (let badge = (if Some (ps_peer_id status) = active then styled ''active'' Success Bold
                   else if ps_resolvable status then styled ''ok'' Accent Normal
                   else styled ''STALE'' Warn Bold)
      in [styled (''  ['' @ show_nat (ps_rank status) @ ''] '') BorderColour Normal,
          styled (fitted_text (fit_peer_id (show_peer (vw_text A) (ps_peer_id status)) (width - 18))) Foreground Normal,
          raw ''  '', badge])"

definition header_lines :: "view_api \<Rightarrow> nat \<Rightarrow> ui_state \<Rightarrow> server \<Rightarrow> span list list" where
  "header_lines A width st server =
     (let port = srv_port server;
          n = pool_size st port;
          statuses = (case us_pinned_statuses st port of Some s \<Rightarrow> s | None \<Rightarrow> [])
      in [[styled (filter_text A (srv_peer_options server)) Foreground Normal], [raw []],
          active_line A width st port]
         @ (if statuses \<noteq> [] then map (pinned_line A width (us_active_destinations st port)) statuses
            else [[styled ''pool: '' BorderColour Normal,
                   styled (show_nat n @ '' candidate'' @ plural n) Accent Normal]]))"

definition header_hint :: "('p, 'l) ui \<Rightarrow> u16 \<Rightarrow> bool \<Rightarrow> string" where
  "header_hint u port selected =
     (if \<not> selected then []
      else if (case ui_network_peer_cursor u of Some (p, _) \<Rightarrow> p = port | None \<Rightarrow> False)
      then middot @ '' ['' @ up_arrow @ down_arrow @ ''] move  [Enter] change exit  [Esc] back''
      else middot @ '' [Enter] choose exit  [Space] collapse'')"

section \<open>The rotation pool table\<close>

datatype row_style = Reversed | Dim | PlainRow

record pool_row =
  row_marker :: string
  row_id :: string
  row_address :: span
  row_status :: string
  row_up :: string
  row_down :: string
  row_colours :: "style \<times> style"
  row_style :: row_style

definition addr_cell_span :: "peer_addr option \<Rightarrow> bool \<Rightarrow> span" where
  "addr_cell_span entry active =
     (case addr_cell entry of
        None \<Rightarrow> styled em_dash BorderColour Normal
      | Some text \<Rightarrow>
          (case map_option pa_source entry of
             Some Direct \<Rightarrow> if active then styled text Success Bold else styled text Foreground Normal
           | Some Candidate \<Rightarrow> styled text Secondary Normal
           | _ \<Rightarrow> styled text (if active then Warn else BorderColour) Normal))"

definition pool_row_of ::
    "view_api \<Rightarrow> ui_state \<Rightarrow> peer_id option \<Rightarrow> usize option \<Rightarrow> peer_id option \<Rightarrow> usize \<times> peer_id \<Rightarrow> pool_row" where
  "pool_row_of A st active cursor pending = (\<lambda>(row_idx, peer).
     (let is_active = (active = Some peer);
          is_cursor = (cursor = Some row_idx);
          is_dialling = (\<not> is_active \<and> pending = Some peer);
          is_relay_only = (map_option pa_source (us_peer_addresses st peer) = Some Relayed);
          (up, down) = peer_bandwidth_of peer st
      in \<lparr>row_marker = (if is_active then play_mark else if is_dialling then dots_mark else middot),
          row_id = show_peer (vw_text A) peer,
          row_address = addr_cell_span (us_peer_addresses st peer) is_active,
          row_status = (if is_active then ''active'' else if is_dialling then ''dialling'' else ''standby''),
          row_up = human_bytes A up, row_down = human_bytes A down,
          row_colours =
            (if is_active then (Some (Success, Bold), Some (Success, Bold))
             else if is_dialling then (Some (Warn, Bold), Some (Warn, Normal))
             else (Some (BorderColour, Normal), Some (Foreground, Normal))),
          row_style = (if is_cursor then Reversed
                       else if is_relay_only \<and> \<not> is_active \<and> \<not> is_dialling then Dim else PlainRow)\<rparr>))"

text \<open>The single row of an empty pool.\<close>

definition waiting_row :: pool_row where
  "waiting_row = \<lparr>row_marker = em_dash, row_id = em_dash, row_address = raw em_dash,
     row_status = ''waiting for FindNodes response'' @ ellipsis, row_up = em_dash, row_down = em_dash,
     row_colours = (Some (Secondary, Normal), None), row_style = PlainRow\<rparr>"

definition pool_rows :: "view_api \<Rightarrow> ('p, 'l) ui \<Rightarrow> u16 \<Rightarrow> pool_row list" where
  "pool_rows A u port =
     (let st = ui_state u;
          pool = ordered_pool_for port st;
          cursor = (case ui_network_peer_cursor u of
                      Some (p, idx) \<Rightarrow> if p = port then Some idx else None | None \<Rightarrow> None);
          pending = (case ui_network_pending_selection u of
                       Some (p, peer, _) \<Rightarrow> if p = port then Some peer else None | None \<Rightarrow> None)
      in if pool = [] then [waiting_row]
         else map (pool_row_of A st (us_active_destinations st port) cursor pending) (List.enumerate 0 pool))"

section \<open>The OVERVIEW tab\<close>

definition status_colour :: "connection_status \<Rightarrow> colour" where
  "status_colour s =
     (case s of StatusConnected _ \<Rightarrow> Success | StatusConnecting \<Rightarrow> Warn | StatusDisconnected \<Rightarrow> Secondary)"

definition connection_status_lines :: "view_api \<Rightarrow> ui_state \<Rightarrow> span list list" where
  "connection_status_lines A st =
     (let chevron = [CHR 0xE2, CHR 0x9D, CHR 0xAF] @ '' '';
          status = us_connection_status st;
          local_id = (case us_local_peer_id st of
                        Some p \<Rightarrow> ''LOCAL ID: '' @ show_peer (vw_text A) p
                      | None \<Rightarrow> ''LOCAL ID: Not assigned'');
          relay_id = (case status of
                        StatusConnected p \<Rightarrow> ''RELAY ID: '' @ show_peer (vw_text A) p
                      | _ \<Rightarrow> ''RELAY ID: Not connected'')
      in [[styled chevron BorderColour Normal, styled (''STATUS: '' @ status_as_str status) (status_colour status) Bold],
          [raw []],
          [styled chevron Accent Normal, styled local_id Foreground Normal],
          [raw []],
          [styled chevron Secondary Normal, styled relay_id Foreground Normal]])"

definition error_banner :: "ui_state \<Rightarrow> span list option" where
  "error_banner st = map_option (\<lambda>msg.
     [styled ([CHR 0xE2, CHR 0x9A, CHR 0xA0] @ ''  '') Warn Bold, styled msg ErrorColour Normal]) (us_last_error st)"

text \<open>
  The chart: one bucket per second of age, in bytes. An age is \<open>num_seconds\<close> of a difference in
  milliseconds, which truncates towards zero. (The source keeps kibibytes as floats.)
\<close>

definition WINDOW_SECS :: int where "WINDOW_SECS = 30"

definition num_seconds :: "int \<Rightarrow> int" where
  "num_seconds ms = (if 0 \<le> ms then ms div 1000 else - ((- ms) div 1000))"

definition bucket_step :: "int \<Rightarrow> int \<times> u64 \<Rightarrow> nat list \<Rightarrow> nat list" where
  "bucket_step now = (\<lambda>(time, bytes) buckets.
     (let age = num_seconds (now - time)
      in if 0 \<le> age \<and> age < WINDOW_SECS
         then buckets[nat age := buckets ! nat age + unat bytes] else buckets))"

definition buckets_of :: "int \<Rightarrow> (int \<times> u64) list \<Rightarrow> nat list" where
  "buckets_of now graph = fold (bucket_step now) graph (replicate (nat WINDOW_SECS) 0)"

text \<open>The points of the chart: seconds ago, and bits per second (the source divides by a million).\<close>

definition chart_points :: "int \<Rightarrow> (int \<times> u64) list \<Rightarrow> (int \<times> nat) list" where
  "chart_points now graph = map (\<lambda>(i, bytes). (- int i, bytes * 8)) (List.enumerate 0 (buckets_of now graph))"

definition chart_peak :: "int \<Rightarrow> ui_state \<Rightarrow> nat" where
  "chart_peak now st =
     fold max (map snd (chart_points now (us_upload_graph st) @ chart_points now (us_download_graph st))) 0"

end
