(* ===== verification/Ui_View_Props.thy ===== *)
theory Ui_View_Props
  imports Ui_View Config_Props
begin

text \<open>
  Properties of what is shown: the highlighted row is the one a selection picks, the active exit
  is always a row of its table, the chart counts every byte of its window once, and the unit of a
  byte count.
\<close>

section \<open>The rotation pool table\<close>

lemma pool_rows_nth:
  assumes "ordered_pool_for port (ui_state u) \<noteq> []" and "i < length (ordered_pool_for port (ui_state u))"
  shows "\<exists>cursor pending. (\<forall>j. cursor = Some j \<longleftrightarrow> ui_network_peer_cursor u = Some (port, j))
    \<and> (\<forall>p. pending = Some p \<longleftrightarrow> (\<exists>since. ui_network_pending_selection u = Some (port, p, since)))
    \<and> length (pool_rows A u port) = length (ordered_pool_for port (ui_state u))
    \<and> pool_rows A u port ! i = pool_row_of A (ui_state u) (us_active_destinations (ui_state u) port)
        cursor pending (i, ordered_pool_for port (ui_state u) ! i)"
proof -
  define cursor where "cursor = (case ui_network_peer_cursor u of
      Some (p, idx) \<Rightarrow> if p = port then Some idx else None | None \<Rightarrow> None)"
  define pending where "pending = (case ui_network_pending_selection u of
      Some (p, peer, _) \<Rightarrow> if p = port then Some peer else None | None \<Rightarrow> None)"
  have rows: "pool_rows A u port = map (pool_row_of A (ui_state u) (us_active_destinations (ui_state u) port)
      cursor pending) (List.enumerate 0 (ordered_pool_for port (ui_state u)))"
    using assms(1) unfolding pool_rows_def cursor_def pending_def Let_def by simp
  have "\<forall>j. cursor = Some j \<longleftrightarrow> ui_network_peer_cursor u = Some (port, j)"
    by (auto simp: cursor_def split: option.splits)
  moreover have "\<forall>p. pending = Some p \<longleftrightarrow> (\<exists>since. ui_network_pending_selection u = Some (port, p, since))"
    by (auto simp: pending_def split: option.splits)
  ultimately show ?thesis
    using assms(2) rows by (intro exI [of _ cursor] exI [of _ pending]) (simp add: nth_enumerate_eq)
qed

lemma row_fields [simp]:
  "row_id (pool_row_of A st active cursor pending (i, p)) = show_peer (vw_text A) p"
  "row_status (pool_row_of A st active cursor pending (i, p))
     = (if active = Some p then ''active'' else if pending = Some p then ''dialling'' else ''standby'')"
  "row_style (pool_row_of A st active cursor pending (i, p)) = Reversed \<longleftrightarrow> cursor = Some i"
  by (auto simp: pool_row_of_def Let_def split: prod.split)

lemma network_enter_Some:
  assumes "network_enter u = (Some (port, p), v)"
  shows "\<exists>i. ui_network_peer_cursor u = Some (port, i)
    \<and> get (ordered_pool_for port (ui_state u)) i = Some p \<and> v = u"
proof (cases "ui_network_peer_cursor u")
  case None
  with assms show ?thesis by (auto simp: network_enter_def Let_def split: option.splits if_splits)
next
  case (Some c)
  with assms show ?thesis by (cases c) (auto simp: network_enter_def)
qed

lemma press_enter_Select:
  assumes "press_enter now u = (Select port p, u')"
  shows "\<exists>v. network_enter u = (Some (port, p), v)
    \<and> u' = mark_dirty (v\<lparr>ui_network_pending_selection := Some (port, p, now)\<rparr>)"
proof (cases "network_enter u")
  case (Pair r v)
  with assms show ?thesis by (cases r) (auto simp: press_enter_def split: if_splits)
qed

text \<open>
  What is highlighted is what is picked: when Enter selects an exit for a port, exactly one row of
  that port's table is highlighted, and it is the row of the selected peer.
\<close>
theorem highlighted_row_is_selected:
  assumes "network_enter u = (Some (port, p), u')"
  shows "\<exists>i. row_id (pool_rows A u port ! i) = show_peer (vw_text A) p
    \<and> {j. j < length (pool_rows A u port) \<and> row_style (pool_rows A u port ! j) = Reversed} = {i}"
proof -
  from assms obtain i where cursor: "ui_network_peer_cursor u = Some (port, i)"
    and p: "get (ordered_pool_for port (ui_state u)) i = Some p"
    using network_enter_Some by blast
  let ?pool = "ordered_pool_for port (ui_state u)"
  have i: "i < length ?pool" "?pool ! i = p" using p by simp_all
  then have pool: "?pool \<noteq> []" by auto
  have row: "row_id (pool_rows A u port ! j) = show_peer (vw_text A) (?pool ! j)"
    "row_style (pool_rows A u port ! j) = Reversed \<longleftrightarrow> j = i"
    "length (pool_rows A u port) = length ?pool" if "j < length ?pool" for j
    using pool_rows_nth [OF pool that, of A] cursor by auto
  from row(3) [OF i(1)] have "{j. j < length (pool_rows A u port) \<and> row_style (pool_rows A u port ! j) = Reversed} = {i}"
    using row(2) i(1) by auto
  with row(1) [OF i(1)] i(2) show ?thesis by blast
qed

text \<open>
  A keypress has feedback: right after Enter picks an exit, its highlighted row is labelled
  dialling, or active if it already was the exit.
\<close>
theorem picked_row_shows_dialling:
  assumes "press_enter now u = (Select port p, u')"
  shows "list_ex (\<lambda>row. row_id row = show_peer (vw_text A) p \<and> row_style row = Reversed
      \<and> row_status row = (if us_active_destinations (ui_state u) port = Some p then ''active'' else ''dialling''))
    (pool_rows A u' port)"
proof -
  from assms obtain v where enter: "network_enter u = (Some (port, p), v)"
    and u': "u' = mark_dirty (v\<lparr>ui_network_pending_selection := Some (port, p, now)\<rparr>)"
    using press_enter_Select by blast
  from enter obtain i where cursor: "ui_network_peer_cursor u = Some (port, i)"
    and p: "get (ordered_pool_for port (ui_state u)) i = Some p" and v: "v = u"
    using network_enter_Some by blast
  let ?pool = "ordered_pool_for port (ui_state u')"
  have same: "ui_state u' = ui_state u" "ui_network_peer_cursor u' = Some (port, i)"
    "ui_network_pending_selection u' = Some (port, p, now)"
    using u' v cursor by (simp_all add: mark_dirty_def)
  have i: "i < length ?pool" "?pool ! i = p" using p by (simp_all add: same)
  then have pool: "?pool \<noteq> []" by auto
  from pool_rows_nth [OF pool i(1), of A] i(2)
  have "i < length (pool_rows A u' port)" "row_id (pool_rows A u' port ! i) = show_peer (vw_text A) p"
    "row_style (pool_rows A u' port ! i) = Reversed"
    "row_status (pool_rows A u' port ! i)
      = (if us_active_destinations (ui_state u) port = Some p then ''active'' else ''dialling'')"
    using i(1) by (auto simp: same)
  then show ?thesis by (auto simp: list_ex_iff intro!: bexI [of _ "pool_rows A u' port ! i"])
qed

section \<open>The active exit is always shown\<close>

definition active_in_pool :: "ui_state \<Rightarrow> bool" where
  "active_in_pool st \<longleftrightarrow> (\<forall>port p. us_active_destinations st port = Some p
     \<longrightarrow> p \<in> set (known_pool (us_server_pools st) port))"

lemma active_in_poolD:
  "active_in_pool st \<Longrightarrow> us_active_destinations st port = Some p
     \<Longrightarrow> p \<in> set (known_pool (us_server_pools st) port)"
  by (simp add: active_in_pool_def)

lemma reduce_active_in_pool: "active_in_pool st \<Longrightarrow> active_in_pool (reduce now e st)"
proof (cases "(now, e, st)" rule: reduce.cases)
  case (4 now' peer st')
  assume ok: "active_in_pool st"
  have eq: "known_pool (us_server_pools (drop_peer peer st)) port
      = filter (\<lambda>p. p \<noteq> peer) (known_pool (us_server_pools st) port)" for port
    by (simp add: drop_peer_def known_pool_def Let_def split: option.split)
  have "us_active_destinations (drop_peer peer st) port = Some p
      \<Longrightarrow> us_active_destinations st port = Some p \<and> p \<noteq> peer" for port p
    by (auto simp: drop_peer_def Let_def split: option.splits if_splits)
  with ok eq 4 show ?thesis by (auto simp: active_in_pool_def)
qed (auto simp: active_in_pool_def frame_simps set_active_def known_pool_def Let_def add_upload_def
    add_download_def peer_bandwidth_of_def split: option.splits prod.splits if_splits)


lemma ui_step_active: "ui_step W u v \<Longrightarrow> active_in_pool (ui_state u) \<Longrightarrow> active_in_pool (ui_state v)"
proof (cases rule: ui_step.cases, assumption, goal_cases)
  case (2 w)
  then show ?case by (cases w) (auto simp: handle_mouse_def mark_dirty_def)
qed (auto simp: handle_swarm_events_def render_state_def mark_dirty_def mark_clean_def
    reduce_active_in_pool)

lemma reachable_active:
  "(ui_step W)\<^sup>*\<^sup>* (ui_new prompt log config) u \<Longrightarrow> active_in_pool (ui_state u)"
proof (induction rule: rtranclp_induct)
  case base
  then show ?case by (simp add: active_in_pool_def ui_new_def ui_state_new_def)
qed (auto intro: ui_step_active)

text \<open>
  The active exit is always visible: in every state the UI can reach, a port with an active exit
  has a row for it in its table, labelled active, whether it was discovered, remembered or picked.
\<close>
theorem active_exit_is_shown:
  assumes "(ui_step W)\<^sup>*\<^sup>* (ui_new prompt log config) u"
    and "us_active_destinations (ui_state u) port = Some p"
  shows "list_ex (\<lambda>row. row_id row = show_peer (vw_text A) p \<and> row_status row = ''active'') (pool_rows A u port)"
proof -
  let ?pool = "ordered_pool_for port (ui_state u)"
  have "p \<in> set (known_pool (us_server_pools (ui_state u)) port)"
    using active_in_poolD [OF reachable_active [OF assms(1)] assms(2)] .
  then have "p \<in> set ?pool" by (simp add: ordered_pool_alt)
  then obtain i where i: "i < length ?pool" "?pool ! i = p" by (auto simp: in_set_conv_nth)
  then have pool: "?pool \<noteq> []" by auto
  from pool_rows_nth [OF pool i(1), of A] assms(2) i(2)
  have "i < length (pool_rows A u port)" "row_id (pool_rows A u port ! i) = show_peer (vw_text A) p"
    "row_status (pool_rows A u port ! i) = ''active''" using i(1) by auto
  then show ?thesis by (auto simp: list_ex_iff intro!: bexI [of _ "pool_rows A u port ! i"])
qed

section \<open>The chart\<close>

lemma length_buckets: "length (buckets_of now graph) = 30"
proof -
  have step: "length (bucket_step now s bs) = length bs" for s bs
    by (simp add: bucket_step_def Let_def split: prod.split)
  have "length (fold (bucket_step now) g bs) = length bs" for g bs
    by (induction g arbitrary: bs) (simp_all add: step)
  then show ?thesis by (simp add: buckets_of_def WINDOW_SECS_def)
qed

definition sample_age :: "int \<Rightarrow> int \<times> u64 \<Rightarrow> int" where
  "sample_age now s = num_seconds (now - fst s)"

lemma bucket_fold:
  assumes "length bs = 30" and "i < 30"
  shows "fold (bucket_step now) graph bs ! i
    = bs ! i + sum_list (map (\<lambda>s. unat (snd s)) (filter (\<lambda>s. sample_age now s = int i) graph))"
  using assms(1)
proof (induction graph arbitrary: bs)
  case (Cons s graph)
  have "length (bucket_step now s bs) = 30"
    using Cons.prems by (simp add: bucket_step_def Let_def split: prod.split)
  from Cons.IH [OF this] show ?case
    using Cons.prems assms(2)
    by (auto simp: bucket_step_def sample_age_def Let_def nth_list_update WINDOW_SECS_def split: prod.split)
qed simp

text \<open>
  The chart counts every byte of its window exactly once: the point \<open>i\<close> seconds ago holds the
  bytes of exactly the samples of age \<open>i\<close>, in bits, and samples older than thirty seconds are in
  no point.
\<close>
theorem chart_counts_each_sample_once:
  "chart_points now graph
   = map (\<lambda>i. (- int i, 8 * sum_list (map (\<lambda>s. unat (snd s))
        (filter (\<lambda>s. num_seconds (now - fst s) = int i) graph)))) [0..<30]"
proof (rule nth_equalityI)
  show "length (chart_points now graph) = length (map (\<lambda>i. (- int i, 8 * sum_list (map (\<lambda>s. unat (snd s))
        (filter (\<lambda>s. num_seconds (now - fst s) = int i) graph)))) [0..<30])"
    by (simp add: chart_points_def length_buckets)
next
  fix i assume "i < length (chart_points now graph)"
  then have i: "i < 30" by (simp add: chart_points_def length_buckets)
  have "buckets_of now graph ! i
      = sum_list (map (\<lambda>s. unat (snd s)) (filter (\<lambda>s. num_seconds (now - fst s) = int i) graph))"
    using bucket_fold [of "replicate 30 0" i now graph] i
    by (simp add: buckets_of_def WINDOW_SECS_def sample_age_def)
  then show "chart_points now graph ! i = map (\<lambda>i. (- int i, 8 * sum_list (map (\<lambda>s. unat (snd s))
        (filter (\<lambda>s. num_seconds (now - fst s) = int i) graph)))) [0..<30] ! i"
    using i by (simp add: chart_points_def length_buckets nth_enumerate_eq)
qed

section \<open>Byte counts\<close>

lemma unit_index_range:
  "idx \<le> 4 \<Longrightarrow> 1024 ^ idx \<le> bytes \<Longrightarrow>
     idx \<le> unit_index bytes idx \<and> unit_index bytes idx \<le> 4
     \<and> 1024 ^ unit_index bytes idx \<le> bytes
     \<and> (unit_index bytes idx = 4 \<or> bytes < 1024 ^ (unit_index bytes idx + 1))"
proof (induction bytes idx rule: unit_index.induct)
  case (1 bytes idx)
  show ?case
  proof (cases "1024 ^ (idx + 1) \<le> bytes \<and> idx < length UNITS - 1")
    case True
    with 1 show ?thesis by (subst (1 2 3 4 5) unit_index.simps) (simp add: UNITS_def)
  next
    case False
    with 1(2,3) show ?thesis by (subst (1 2 3 4 5) unit_index.simps) (auto simp: UNITS_def)
  qed
qed

text \<open>
  A byte count is shown in the largest unit, up to terabytes, of which it is at least one, so with
  less than 1024 in front of the unit unless it is terabytes already.
\<close>
theorem human_bytes_unit:
  assumes "1024 \<le> bytes"
  shows "\<exists>idx \<le> 4. human_bytes A bytes = vw_fixed A 1 (unat bytes) (1024 ^ idx) @ '' '' @ UNITS ! idx
    \<and> 1024 ^ idx \<le> unat bytes \<and> (idx = 4 \<or> unat bytes < 1024 ^ (idx + 1))"
proof -
  have "1 \<le> unat bytes" using assms by (simp add: word_le_nat_alt)
  with unit_index_range [of 0 "unat bytes"] assms show ?thesis
    by (intro exI [of _ "unit_index (unat bytes) 0"]) (auto simp: human_bytes_def Let_def)
qed

text \<open>Witnesses: the sample UI with the cursor on its only exit.\<close>

definition sample_view :: view_api where
  "sample_view = \<lparr>vw_text = sample_text_api, vw_fixed = (\<lambda>d n m. show_nat (n div m))\<rparr>"

theorem highlighted_row_is_selected_witness:
  "\<exists>i. row_id (pool_rows sample_view focused_ui 1080 ! i) = ''12D3''
    \<and> {j. j < length (pool_rows sample_view focused_ui 1080)
          \<and> row_style (pool_rows sample_view focused_ui 1080 ! j) = Reversed} = {i}"
proof -
  have "fst (network_enter focused_ui) = Some (1080, PeerId 3)" by code_simp
  then have "network_enter focused_ui = (Some (1080, PeerId 3), snd (network_enter focused_ui))"
    by (metis prod.collapse)
  from highlighted_row_is_selected [OF this, of sample_view] show ?thesis
    by (simp add: sample_view_def sample_text_api_def)
qed

text \<open>The same UI once its exit became the active one.\<close>

definition serving_ui :: "(unit, unit) ui" where
  "serving_ui = handle_swarm_events 0 (ActiveDestination 1080 (Some (PeerId 3)) (Some Discovered)) focused_ui"

theorem active_exit_is_shown_witness:
  "list_ex (\<lambda>row. row_id row = ''12D3'' \<and> row_status row = ''active'') (pool_rows sample_view serving_ui 1080)"
proof -
  have run: "(ui_step no_widgets)\<^sup>*\<^sup>* (ui_new () () one_server_config) serving_ui"
    using focused_ui_reachable unfolding serving_ui_def
    by (rule rtranclp.rtrancl_into_rtrancl) (rule ui_step.intros)
  have active: "us_active_destinations (ui_state serving_ui) 1080 = Some (PeerId 3)" by code_simp
  from active_exit_is_shown [OF run active, of sample_view] show ?thesis
    by (simp add: sample_view_def sample_text_api_def)
qed

end
