(* ===== verification/Session.thy ===== *)
theory Session
  imports Events
begin

text \<open>
  SOCKS sessions: the stream opener of \<open>crates/p2proxy/src/runtime/stream_manager.rs\<close>, the session
  of \<open>crates/p2proxy/src/runtime/session/relay.rs\<close> and the accept loop of
  \<open>crates/p2proxy/src/runtime/session/supervisor.rs\<close>.

  The socket, the SOCKS codec and the proxy protocol are third-party: \<open>session_io\<close> holds what each
  of their calls yields in one session (\<open>Inl\<close> an error text). A session is then the list of what
  it does, in order. The metrics counters are not modelled.
\<close>

section \<open>Opening streams\<close>

text \<open>
  One semaphore per peer, created with the cap on the first open. \<open>sm_permits\<close> are the free
  permits; a permit is held from the start of an open until it returns, whatever its result.
\<close>

record stream_manager =
  sm_max_concurrent_per_peer :: usize
  sm_open_timeout :: duration
  sm_permits :: "peer_id \<rightharpoonup> nat"

definition stream_manager_new :: "usize \<Rightarrow> duration \<Rightarrow> stream_manager" where
  "stream_manager_new mx timeout = \<lparr>sm_max_concurrent_per_peer = max mx 1, sm_open_timeout = timeout,
     sm_permits = Map.empty\<rparr>"

definition permits_for :: "peer_id \<Rightarrow> stream_manager \<Rightarrow> nat" where
  "permits_for peer m = (case sm_permits m peer of Some n \<Rightarrow> n | None \<Rightarrow> sm_max_concurrent_per_peer m)"

text \<open>The acquisition: \<open>Some\<close> when a permit is free; \<open>None\<close> while the caller has to wait.\<close>

definition acquire_permit :: "peer_id \<Rightarrow> stream_manager \<Rightarrow> stream_manager option" where
  "acquire_permit peer m =
     (let n = permits_for peer m
      in if n = 0 then None else Some (m\<lparr>sm_permits := (sm_permits m)(peer \<mapsto> n - 1)\<rparr>))"

definition release_permit :: "peer_id \<Rightarrow> stream_manager \<Rightarrow> stream_manager" where
  "release_permit peer m = m\<lparr>sm_permits := (sm_permits m)(peer \<mapsto> permits_for peer m + 1)\<rparr>"

datatype open_stream_error = OpenUnsupportedProtocol string | OpenIo string | OpenOther string

fun map_open_error :: "peer_id \<Rightarrow> open_stream_error \<Rightarrow> stream_error" where
  "map_open_error peer (OpenUnsupportedProtocol protocol) = UnsupportedProtocol peer protocol"
| "map_open_error peer (OpenIo source) = StreamIo peer source"
| "map_open_error peer (OpenOther text) = StreamIo peer text"

text \<open>
  What an open returns: \<open>permit\<close> tells whether a permit came in time, \<open>control\<close> what
  \<open>open_stream\<close> ended with, \<open>None\<close> its timeout.
\<close>

definition open_result ::
    "peer_id \<Rightarrow> bool \<Rightarrow> (open_stream_error + 'stream) option \<Rightarrow> stream_error + 'stream" where
  "open_result peer permit control =
     (if \<not> permit then Inl (OpenTimeout peer)
      else
        (case control of
           Some (Inr s) \<Rightarrow> Inr s
         | Some (Inl e) \<Rightarrow> Inl (map_open_error peer e)
         | None \<Rightarrow> Inl (OpenTimeout peer)))"

text \<open>Opens in progress, interleaved arbitrarily: the list names the peer of each open.\<close>

inductive opener_step ::
    "stream_manager \<times> peer_id list \<Rightarrow> stream_manager \<times> peer_id list \<Rightarrow> bool" where
  start_open: "acquire_permit peer m = Some m' \<Longrightarrow> opener_step (m, opens) (m', peer # opens)"
| finish_open: "opens = xs @ peer # ys \<Longrightarrow> opener_step (m, opens) (release_permit peer m, xs @ ys)"

definition permits_balanced :: "stream_manager \<times> peer_id list \<Rightarrow> bool" where
  "permits_balanced s \<longleftrightarrow>
     (\<forall>peer. permits_for peer (fst s) + count_list (snd s) peer = sm_max_concurrent_per_peer (fst s))"

lemma opener_step_balanced:
  "opener_step s t \<Longrightarrow> permits_balanced s \<Longrightarrow> permits_balanced t
     \<and> sm_max_concurrent_per_peer (fst t) = sm_max_concurrent_per_peer (fst s)"
proof (induction rule: opener_step.induct)
  case (start_open peer m m' opens)
  then have m': "m' = m\<lparr>sm_permits := (sm_permits m)(peer \<mapsto> permits_for peer m - 1)\<rparr>"
    and pos: "permits_for peer m \<noteq> 0"
    by (auto simp: acquire_permit_def Let_def split: if_splits)
  have "permits_for q m' = (if q = peer then permits_for peer m - 1 else permits_for q m)" for q
    by (simp add: m' permits_for_def split: option.split)
  moreover have total: "permits_for q m + count_list opens q = sm_max_concurrent_per_peer m" for q
    using start_open.prems by (simp add: permits_balanced_def)
  moreover have "permits_for peer m - 1 + Suc (count_list opens peer) = permits_for peer m + count_list opens peer"
    using pos by simp
  ultimately have "permits_for q m' + count_list (peer # opens) q = sm_max_concurrent_per_peer m" for q
    by (cases "q = peer") simp_all
  then show ?case by (simp add: permits_balanced_def m')
next
  case (finish_open opens xs peer ys m)
  have free: "permits_for q (release_permit peer m) = (if q = peer then permits_for peer m + 1 else permits_for q m)" for q
    by (simp add: release_permit_def permits_for_def split: option.split)
  have total: "permits_for q m + count_list (xs @ peer # ys) q = sm_max_concurrent_per_peer m" for q
    using finish_open by (simp add: permits_balanced_def)
  have "(if q = peer then permits_for peer m + 1 else permits_for q m) + count_list (xs @ ys) q
      = sm_max_concurrent_per_peer m" for q
    using total [of q] by (simp split: if_splits)
  with free show ?case by (simp add: permits_balanced_def) (simp add: release_permit_def)
qed

lemma opener_reachable_balanced:
  "opener_step\<^sup>*\<^sup>* s t \<Longrightarrow> permits_balanced s \<Longrightarrow> permits_balanced t
     \<and> sm_max_concurrent_per_peer (fst t) = sm_max_concurrent_per_peer (fst s)"
  by (induction rule: rtranclp_induct) (auto dest: opener_step_balanced)



section \<open>One SOCKS session\<close>

datatype address = SocketAddress socket_addr | DomainAddress string u16

fun into_target :: "address \<Rightarrow> target_addr" where
  "into_target (SocketAddress addr) = TargetIp addr"
| "into_target (DomainAddress domain port) = TargetDomain domain port"

datatype auth_method = NoAuth | NoAcceptableMethods
datatype socks_reply = Succeeded | GeneralFailure
datatype transfer = Uploaded u64 | Downloaded u64

record session_io =
  io_request_new_peer :: "peer_id option option"
  io_session_id :: session_id
  io_handshake :: "string + auth_method set"
  io_method_written :: "string + unit"
  io_request :: "string + address"
  io_success_written :: "string + unit"
  io_open :: "stream_error + unit"
  io_client_init :: "string + unit"
  io_split :: "string + unit"
  io_transfers :: "transfer list"
  io_bytes :: "nat \<times> nat"
  io_report :: "string + unit"
  io_report_signed :: bool

datatype session_action =
    AskNewPeer u16
  | WriteMethod auth_method
  | WriteReply socks_reply
  | OpenStream peer_id
  | TellPeerUnusable peer_id
  | EmitEvent events
  | StreamClosed peer_id
  | NotifyBandwidth nat nat
  | SessionFailed string

definition transfer_event :: "session_id \<Rightarrow> transfer \<Rightarrow> events" where
  "transfer_event sid t = (case t of Uploaded n \<Rightarrow> Bandwidth (Upload sid n) | Downloaded n \<Rightarrow> Bandwidth (Download sid n))"

definition relay_session :: "session_io \<Rightarrow> (nat \<times> nat) \<times> session_action list" where
  "relay_session io =
     (case io_split io of
        Inl e \<Rightarrow> ((0, 0), [SessionFailed ''data-transfer''])
      | Inr _ \<Rightarrow> (io_bytes io, map (\<lambda>t. EmitEvent (transfer_event (io_session_id io) t)) (io_transfers io)))"

definition report_bandwidth :: "session_io \<Rightarrow> nat \<times> nat \<Rightarrow> session_action list" where
  "report_bandwidth io bytes =
     (case io_report io of
        Inl e \<Rightarrow> [SessionFailed ''shutdown'']
      | Inr _ \<Rightarrow> if io_report_signed io then [NotifyBandwidth (fst bytes) (snd bytes)] else [])"

definition proxy_session :: "session_io \<Rightarrow> peer_id \<Rightarrow> target_addr \<Rightarrow> session_action list" where
  "proxy_session io peer target =
     (case io_client_init io of
        Inl e \<Rightarrow> [SessionFailed ''peer-connection'']
      | Inr _ \<Rightarrow>
          (case relay_session io of
             (bytes, relayed) \<Rightarrow>
               [EmitEvent (Session (SessionNew (io_session_id io) target peer))] @ relayed
               @ [StreamClosed peer, EmitEvent (Session (SessionEnd (io_session_id io)))]
               @ report_bandwidth io bytes))"

definition open_session :: "session_io \<Rightarrow> peer_id \<Rightarrow> target_addr \<Rightarrow> session_action list" where
  "open_session io peer target =
     OpenStream peer #
     (case io_open io of
        Inl e \<Rightarrow> (if is_terminal_for_peer e then [TellPeerUnusable peer] else [])
                 @ [WriteReply GeneralFailure, SessionFailed ''peer-connection'']
      | Inr _ \<Rightarrow> proxy_session io peer target)"

definition handle_socks_connection :: "session_io \<Rightarrow> peer_id \<Rightarrow> session_action list" where
  "handle_socks_connection io peer =
     (case io_handshake io of
        Inl e \<Rightarrow> [SessionFailed ''handshake'']
      | Inr methods \<Rightarrow>
          if NoAuth \<notin> methods then [WriteMethod NoAcceptableMethods, SessionFailed ''handshake'']
          else
            WriteMethod NoAuth #
            (case io_method_written io of
               Inl e \<Rightarrow> [SessionFailed ''handshake'']
             | Inr _ \<Rightarrow>
                 (case io_request io of
                    Inl e \<Rightarrow> [SessionFailed ''request'']
                  | Inr address \<Rightarrow>
                      WriteReply Succeeded #
                      (case io_success_written io of
                         Inl e \<Rightarrow> [SessionFailed ''request'']
                       | Inr _ \<Rightarrow> open_session io peer (into_target address)))))"

text \<open>\<open>io_request_new_peer\<close> is \<open>None\<close> when the thirty seconds lapse.\<close>

definition run_session :: "session_io \<Rightarrow> u16 \<Rightarrow> peer_id option \<Rightarrow> session_action list" where
  "run_session io port destination =
     (case destination of
        Some peer \<Rightarrow> handle_socks_connection io peer
      | None \<Rightarrow>
          AskNewPeer port #
          (case io_request_new_peer io of
             Some (Some peer) \<Rightarrow> handle_socks_connection io peer
           | _ \<Rightarrow> [WriteReply GeneralFailure]))"

section \<open>The accept loop\<close>

text \<open>
  One turn of \<open>supervise\<close>: with the listener still held or freshly bound, it serves until an
  accept error or a panic ends the accept loop, and sleeps a second; a failed bind sleeps five.
  Each accepted socket is a session of its own.
\<close>

datatype supervisor_action = BindPort | SpawnSession nat | SleepSecs nat

fun accept_loop :: "(nat option) list \<Rightarrow> supervisor_action list" where
  "accept_loop [] = []"
| "accept_loop (Some socket # rest) = SpawnSession socket # accept_loop rest"
| "accept_loop (None # rest) = []"

definition supervise_turn :: "bool \<Rightarrow> bool \<Rightarrow> (nat option) list \<Rightarrow> supervisor_action list" where
  "supervise_turn held bound accepted =
     (if held then accept_loop accepted @ [SleepSecs 1]
      else if bound then BindPort # accept_loop accepted @ [SleepSecs 1]
      else [BindPort, SleepSecs 5])"

section \<open>Properties of a session\<close>

definition session_events_of :: "session_action list \<Rightarrow> events list" where
  "session_events_of as = List.map_filter (\<lambda>a. case a of EmitEvent e \<Rightarrow> Some e | _ \<Rightarrow> None) as"

lemma session_events_simps [simp]:
  "session_events_of [] = []" "session_events_of (xs @ ys) = session_events_of xs @ session_events_of ys"
  "session_events_of (a # xs) = (case a of EmitEvent e \<Rightarrow> [e] | _ \<Rightarrow> []) @ session_events_of xs"
  by (simp_all add: session_events_of_def List.map_filter_def split: session_action.split)

lemma session_events_map [simp]: "session_events_of (map (\<lambda>t. EmitEvent (f t)) ts) = map f ts"
  by (induction ts) simp_all

lemma report_events [simp]: "session_events_of (report_bandwidth io b) = []"
  by (auto simp: report_bandwidth_def split: sum.split)

definition bracketed :: "session_io \<Rightarrow> session_action list \<Rightarrow> bool" where
  "bracketed io as \<longleftrightarrow> session_events_of as = []
     \<or> (\<exists>target peer ts.
          session_events_of as = [Session (SessionNew (io_session_id io) target peer)]
            @ map (transfer_event (io_session_id io)) ts @ [Session (SessionEnd (io_session_id io))]
          \<and> (ts = io_transfers io \<or> ts = []))"

lemma bracketed_simps [simp]:
  "bracketed io []" "(\<And>e. a \<noteq> EmitEvent e) \<Longrightarrow> bracketed io (a # as) = bracketed io as"
  by (auto simp: bracketed_def split: session_action.split)

lemma bracketed_proxy: "bracketed io (proxy_session io peer target)"
  by (auto simp: bracketed_def proxy_session_def relay_session_def split: sum.split)

lemma bracketed_open: "bracketed io (open_session io peer target)"
  by (simp add: open_session_def bracketed_proxy split: sum.split)

lemma bracketed_socks: "bracketed io (handle_socks_connection io peer)"
  by (simp add: handle_socks_connection_def bracketed_open split: sum.split)


text \<open>
  A peer is reported unusable exactly when a session opened a stream to it and the peer does
  not speak the proxy protocol; a timeout or an I/O error never condemns a peer.
\<close>
theorem unusable_iff_unsupported:
  "TellPeerUnusable peer \<in> set (run_session io port destination)
   \<longleftrightarrow> OpenStream peer \<in> set (run_session io port destination)
       \<and> (\<exists>q protocol. io_open io = Inl (UnsupportedProtocol q protocol))"
proof -
  have terminal: "is_terminal_for_peer e \<longleftrightarrow> (\<exists>q protocol. e = UnsupportedProtocol q protocol)" for e
    by (cases e) simp_all
  have proxy: "TellPeerUnusable peer \<notin> set (proxy_session io q t)" "OpenStream peer \<notin> set (proxy_session io q t)"
    for q t
    by (auto simp: proxy_session_def relay_session_def report_bandwidth_def split: sum.splits)
  have "TellPeerUnusable peer \<in> set (open_session io q t) \<longleftrightarrow> OpenStream peer \<in> set (open_session io q t)
       \<and> (\<exists>q protocol. io_open io = Inl (UnsupportedProtocol q protocol))" for q t
    using proxy by (auto simp: open_session_def terminal split: sum.split)
  then have "TellPeerUnusable peer \<in> set (handle_socks_connection io q)
      \<longleftrightarrow> OpenStream peer \<in> set (handle_socks_connection io q)
       \<and> (\<exists>q protocol. io_open io = Inl (UnsupportedProtocol q protocol))" for q
    by (auto simp: handle_socks_connection_def split: sum.split)
  then show ?thesis by (auto simp: run_session_def split: option.split)
qed

text \<open>
  A client whose request was read is told that it succeeded before the stream to the peer is
  opened; when the opening then fails, the client gets a second, contradicting reply.
\<close>
theorem success_before_open:
  assumes "io_handshake io = Inr methods" and "NoAuth \<in> methods" and "io_method_written io = Inr ()"
    and "io_request io = Inr address" and "io_success_written io = Inr ()" and "io_open io = Inl e"
  shows "\<exists>more. run_session io port (Some peer)
    = [WriteMethod NoAuth, WriteReply Succeeded, OpenStream peer] @ more
      @ [WriteReply GeneralFailure, SessionFailed ''peer-connection'']"
  using assms by (simp add: run_session_def handle_socks_connection_def open_session_def)

definition failing_open_io :: session_io where
  "failing_open_io = \<lparr>io_request_new_peer = None, io_session_id = SessionId 1, io_handshake = Inr {NoAuth},
     io_method_written = Inr (), io_request = Inr (DomainAddress ''example.com'' 443),
     io_success_written = Inr (), io_open = Inl (OpenTimeout (PeerId 3)), io_client_init = Inr (),
     io_split = Inr (), io_transfers = [], io_bytes = (0, 0), io_report = Inr (), io_report_signed = True\<rparr>"

theorem success_before_open_witness:
  "\<exists>more. run_session failing_open_io 1080 (Some (PeerId 3))
    = [WriteMethod NoAuth, WriteReply Succeeded, OpenStream (PeerId 3)] @ more
      @ [WriteReply GeneralFailure, SessionFailed ''peer-connection'']"
  by (rule success_before_open [where methods = "{NoAuth}"]) (simp_all add: failing_open_io_def)

end
