(* ===== verification/Startup.thy ===== *)
theory Startup
  imports Network Fakes
begin

text \<open>
  Starting the process: the auth token (\<open>adapters/grpc_auth.rs\<close>), the node identity
  (\<open>adapters/keypair_identity.rs\<close>), the connection to the bootstrap hub
  (\<open>runtime/network/bootstrap.rs\<close>, \<open>utils/wait_ext.rs\<close>) and what \<open>main.rs\<close> derives from the
  configuration. Cryptography, gRPC and the swarm are third-party and are parameters.
\<close>

section \<open>The auth token\<close>

definition V4_PUBLIC_PREFIX :: string where "V4_PUBLIC_PREFIX = ''v4.public.''"

definition sanity_check_federated_token :: "string \<Rightarrow> auth_error + unit" where
  "sanity_check_federated_token token =
     (if token = [] then Inl EmptyToken
      else if \<not> starts_with token V4_PUBLIC_PREFIX then
        Inl (MalformedToken (''expected `'' @ V4_PUBLIC_PREFIX @ ''` prefix, got `'' @ take 16 token @ ''...`''))
      else
        (let dot_count = length (filter (\<lambda>b. b = CHR ''.'') token)
         in if dot_count < 2 then
              Inl (MalformedToken (''only '' @ show_nat dot_count
                @ '' `.` separator(s); expected at least 2 for PASETO v4.public''))
            else Inr ()))"

section \<open>The node identity\<close>

text \<open>
  The key file: absent, unreadable, or its bytes. \<open>kp_generate\<close> is the fresh key, \<open>kp_write_ok\<close>
  whether writing the file succeeds. The result is the key in use and the file afterwards.
\<close>

datatype key_file = NoKeyFile | UnreadableKeyFile | KeyFile string

record 'k keypair_api =
  kp_decode :: "string \<Rightarrow> 'k option"
  kp_encode :: "'k \<Rightarrow> string option"
  kp_generate :: 'k
  kp_write_ok :: bool

definition load_or_generate_keypair :: "'k keypair_api \<Rightarrow> key_file \<Rightarrow> 'k \<times> key_file" where
  "load_or_generate_keypair K file =
     (let loaded = (case file of KeyFile bytes \<Rightarrow> kp_decode K bytes | _ \<Rightarrow> None)
      in case loaded of
           Some k \<Rightarrow> (k, file)
         | None \<Rightarrow>
             (let k = kp_generate K
              in (k, case kp_encode K k of
                       Some bytes \<Rightarrow> if kp_write_ok K then KeyFile bytes else file
                     | None \<Rightarrow> file)))"

section \<open>The bootstrap hub\<close>

definition MAX_BOOTSTRAP_RETRIES :: nat where "MAX_BOOTSTRAP_RETRIES = 10"

text \<open>The two multiaddresses of each listen socket: TCP and QUIC.\<close>

record ip_text =
  show_ip4 :: "32 word \<Rightarrow> string"
  show_ip6 :: "128 word \<Rightarrow> string"

fun listen_multiaddrs_of :: "ip_text \<Rightarrow> socket_addr \<Rightarrow> multiaddr list" where
  "listen_multiaddrs_of T (SockV4 ip port) =
     [[Ip4 (show_ip4 T ip), Tcp port], [Ip4 (show_ip4 T ip), Udp port, QuicV1]]"
| "listen_multiaddrs_of T (SockV6 ip port) =
     [[Ip6 (show_ip6 T ip), Tcp port], [Ip6 (show_ip6 T ip), Udp port, QuicV1]]"

definition listen_multiaddrs :: "ip_text \<Rightarrow> config \<Rightarrow> multiaddr list" where
  "listen_multiaddrs T config = concat (map (listen_multiaddrs_of T) (effective_listen_addrs config))"

text \<open>
  What the predicate of the wait listens on when the hub identifies itself: a circuit through
  each of the hub's addresses that can be built.
\<close>

definition circuit_listen_addrs :: "maddr_api \<Rightarrow> peer_id \<Rightarrow> peer_id \<Rightarrow> multiaddr list \<Rightarrow> multiaddr list" where
  "circuit_listen_addrs M local_peer hub listen_addrs =
     List.map_filter
       (\<lambda>addr. case api_with_p2p M addr hub of
                 None \<Rightarrow> None
               | Some with_relay \<Rightarrow> api_with_p2p M (api_with M with_relay P2pCircuit) local_peer)
       listen_addrs"

text \<open>\<open>wait_for\<close>: the events are consumed until the predicate accepts one.\<close>

fun wait_for :: "('e \<Rightarrow> 'r option) \<Rightarrow> 'e list \<Rightarrow> ('r \<times> 'e list) option" where
  "wait_for accepts [] = None"
| "wait_for accepts (e # es) =
     (case accepts e of Some r \<Rightarrow> Some (r, es) | None \<Rightarrow> wait_for accepts es)"

text \<open>
  One turn of \<open>dial_bootstrap\<close>: the dial is refused, nobody identifies within ten seconds, or the
  hub does. \<open>attempt i\<close> is the outcome of turn \<open>i\<close>. The result comes with the sleeps taken.
\<close>

datatype bootstrap_attempt = DialRefused | IdentifyTimeout | Identified peer_id

datatype bootstrap_error =
    SwarmNotBuilt string | ListenFailed string | BootstrapDialFailed | BootstrapConnectFailed | NoRelayAddress

function dial_bootstrap_loop ::
    "(nat \<Rightarrow> bootstrap_attempt) \<Rightarrow> nat \<Rightarrow> duration list \<Rightarrow> (bootstrap_error + peer_id) \<times> duration list" where
  "dial_bootstrap_loop attempt retries slept =
     (case attempt retries of
        Identified peer \<Rightarrow> (Inr peer, slept)
      | DialRefused \<Rightarrow>
          (if retries + 1 > MAX_BOOTSTRAP_RETRIES then (Inl BootstrapDialFailed, slept)
           else dial_bootstrap_loop attempt (retries + 1) (slept @ [from_secs 2]))
      | IdentifyTimeout \<Rightarrow>
          (if retries + 1 > MAX_BOOTSTRAP_RETRIES then (Inl BootstrapConnectFailed, slept)
           else dial_bootstrap_loop attempt (retries + 1) (slept @ [from_secs 2])))"
  by pat_completeness auto
termination
  by (relation "measure (\<lambda>(attempt, retries, slept). MAX_BOOTSTRAP_RETRIES - retries)") auto

declare dial_bootstrap_loop.simps [simp del]

definition dial_bootstrap ::
    "(nat \<Rightarrow> bootstrap_attempt) \<Rightarrow> (bootstrap_error + peer_id) \<times> duration list" where
  "dial_bootstrap attempt = dial_bootstrap_loop attempt 0 []"

section \<open>What main derives from the configuration\<close>

text \<open>One handle per port, all empty; a repeated port shares its handle.\<close>

definition initial_destinations :: "config \<Rightarrow> (u16 \<times> peer_id option) list" where
  "initial_destinations config = map (\<lambda>port. (port, None)) (remdups (map srv_port (cfg_servers config)))"

definition max_concurrent :: "config \<Rightarrow> usize" where
  "max_concurrent config =
     (case map (\<lambda>s. pool_max_total (srv_pool s)) (cfg_servers config) of
        [] \<Rightarrow> 30 | n # ns \<Rightarrow> fold max ns n)"

definition open_timeout :: "config \<Rightarrow> nat" where
  "open_timeout config =
     (case map (\<lambda>s. pool_open_timeout_secs (srv_pool s)) (cfg_servers config) of
        [] \<Rightarrow> 20 | n # ns \<Rightarrow> fold min ns n)"

text \<open>
  How the process ends: the results of the tasks after the first that ended (\<open>None\<close>: shutdown
  came first), and whether the drain finished within its ten seconds. \<open>Inl\<close> is the forced exit.
\<close>

datatype task_result = TaskOk | TaskError string | TaskPanicked string

fun task_error :: "task_result \<Rightarrow> string option" where
  "task_error TaskOk = None"
| "task_error (TaskError e) = Some e"
| "task_error (TaskPanicked e) = Some (''task panicked: '' @ e)"

fun first_task_error :: "task_result list \<Rightarrow> string option" where
  "first_task_error [] = None"
| "first_task_error (r # rs) =
     (case task_error r of Some e \<Rightarrow> Some e | None \<Rightarrow> first_task_error rs)"

definition main_outcome :: "task_result option \<Rightarrow> task_result list option \<Rightarrow> int + string option" where
  "main_outcome first drained =
     (let first_error = Option.bind first task_error
      in case drained of
           None \<Rightarrow> Inl (if first_error \<noteq> None then 1 else 0)
         | Some rs \<Rightarrow> Inr (case first_error of Some e \<Rightarrow> Some e | None \<Rightarrow> first_task_error rs))"

section \<open>Properties\<close>

lemma starts_with_iff: "starts_with s p \<longleftrightarrow> (\<exists>rest. s = p @ rest)"
  by (auto simp: starts_with_def) (metis append_take_drop_id)

text \<open>
  The shape check accepts a token exactly when it has the prefix of a public version-4 PASETO.
  The documented check for two separators never rejects anything, since the prefix already has
  two: the bare prefix, with no payload at all, passes.
\<close>
theorem token_check_is_prefix_check:
  "(sanity_check_federated_token token = Inr () \<longleftrightarrow> starts_with token ''v4.public.'')
   \<and> sanity_check_federated_token ''v4.public.'' = Inr ()"
proof -
  have "sanity_check_federated_token (''v4.public.'' @ rest) = Inr ()" for rest
    by (simp add: sanity_check_federated_token_def starts_with_def V4_PUBLIC_PREFIX_def Let_def)
  moreover have "starts_with token ''v4.public.''" if "sanity_check_federated_token token = Inr ()"
    using that by (auto simp: sanity_check_federated_token_def V4_PUBLIC_PREFIX_def Let_def split: if_splits)
  ultimately show ?thesis by (metis append_Nil2 starts_with_iff)
qed

text \<open>
  The identity is stable: a key that was generated and saved is the key of the next start,
  and a key file that decodes is returned and never overwritten.
\<close>
theorem identity_is_stable:
  assumes "\<forall>k bytes. kp_encode K k = Some bytes \<longrightarrow> kp_decode K bytes = Some k"
    and "kp_write_ok K" and "kp_encode K (kp_generate K) \<noteq> None"
  shows "load_or_generate_keypair (K\<lparr>kp_generate := fresh\<rparr>) (snd (load_or_generate_keypair K file))
    = load_or_generate_keypair K file"
proof -
  obtain bytes where b: "kp_encode K (kp_generate K) = Some bytes" using assms(3) by blast
  show ?thesis
    using assms(1,2) b
    by (auto simp: load_or_generate_keypair_def Let_def split: key_file.splits option.splits)
qed

definition sample_keypair_api :: "string keypair_api" where
  "sample_keypair_api = \<lparr> kp_decode = (\<lambda>bytes. if starts_with bytes ''k'' then Some (drop 1 bytes) else None),
     kp_encode = (\<lambda>k. Some (CHR ''k'' # k)), kp_generate = ''ey'', kp_write_ok = True \<rparr>"

theorem identity_is_stable_witness:
  "load_or_generate_keypair sample_keypair_api (KeyFile ''bad'') = (''ey'', KeyFile ''key'')
   \<and> load_or_generate_keypair (sample_keypair_api\<lparr>kp_generate := ''other''\<rparr>) (KeyFile ''key'')
     = (''ey'', KeyFile ''key'')"
proof -
  have first: "load_or_generate_keypair sample_keypair_api (KeyFile ''bad'') = (''ey'', KeyFile ''key'')"
    by (simp add: load_or_generate_keypair_def sample_keypair_api_def starts_with_def Let_def)
  have "load_or_generate_keypair (sample_keypair_api\<lparr>kp_generate := ''other''\<rparr>)
      (snd (load_or_generate_keypair sample_keypair_api (KeyFile ''bad'')))
    = load_or_generate_keypair sample_keypair_api (KeyFile ''bad'')"
    by (rule identity_is_stable) (auto simp: sample_keypair_api_def starts_with_def)
  then show ?thesis using first by simp
qed

lemma one_sleep_less:
  "k + 1 \<le> n \<Longrightarrow> (xs @ [x]) @ replicate (n - (k + 1)) x = xs @ replicate (n - k) x"
  by (cases "n - k") (simp_all flip: replicate_Suc)

lemma dial_bootstrap_loop_outcome:
  assumes "retries \<le> MAX_BOOTSTRAP_RETRIES"
  shows "(\<exists>i p. retries \<le> i \<and> i \<le> MAX_BOOTSTRAP_RETRIES \<and> attempt i = Identified p
       \<and> (\<forall>j q. retries \<le> j \<and> j < i \<longrightarrow> attempt j \<noteq> Identified q)
       \<and> dial_bootstrap_loop attempt retries slept
         = (Inr p, slept @ replicate (i - retries) (from_secs 2)))
     \<or> ((\<forall>j q. retries \<le> j \<and> j \<le> MAX_BOOTSTRAP_RETRIES \<longrightarrow> attempt j \<noteq> Identified q)
       \<and> dial_bootstrap_loop attempt retries slept
         = (Inl (if attempt MAX_BOOTSTRAP_RETRIES = DialRefused then BootstrapDialFailed
                 else BootstrapConnectFailed),
            slept @ replicate (MAX_BOOTSTRAP_RETRIES - retries) (from_secs 2)))"
    (is "?found retries slept \<or> ?failed retries slept")
  using assms
proof (induction "MAX_BOOTSTRAP_RETRIES - retries" arbitrary: retries slept)
  case 0
  then have last_turn: "retries = MAX_BOOTSTRAP_RETRIES" by simp
  show ?case
  proof (cases "attempt retries")
    case (Identified p)
    then have "?found retries slept"
      using last_turn by (intro exI [of _ retries] exI [of _ p]) (auto simp: dial_bootstrap_loop.simps)
    then show ?thesis ..
  qed (use last_turn in \<open>auto simp: dial_bootstrap_loop.simps le_antisym\<close>)
next
  case (Suc n)
  show ?case
  proof (cases "\<exists>p. attempt retries = Identified p")
    case True
    then obtain p where "attempt retries = Identified p" ..
    then have "?found retries slept"
      using Suc.prems by (intro exI [of _ retries] exI [of _ p]) (auto simp: dial_bootstrap_loop.simps)
    then show ?thesis ..
  next
    case False
    let ?slept = "slept @ [from_secs 2]"
    have unfold: "dial_bootstrap_loop attempt retries slept
        = dial_bootstrap_loop attempt (retries + 1) ?slept"
      using False Suc.hyps(2)
      by (subst dial_bootstrap_loop.simps) (auto split: bootstrap_attempt.split)
    have later: "?found (retries + 1) ?slept \<or> ?failed (retries + 1) ?slept"
      by (rule Suc.hyps(1)) (use Suc.hyps(2) in auto)
    have split_from: "\<And>j. retries \<le> j \<longleftrightarrow> j = retries \<or> retries + 1 \<le> j" by auto
    from later show ?thesis
    proof
      assume "?found (retries + 1) ?slept"
      then obtain i p where i: "retries + 1 \<le> i" "i \<le> MAX_BOOTSTRAP_RETRIES" "attempt i = Identified p"
        "\<forall>j q. retries + 1 \<le> j \<and> j < i \<longrightarrow> attempt j \<noteq> Identified q"
        "dial_bootstrap_loop attempt (retries + 1) ?slept
          = (Inr p, ?slept @ replicate (i - (retries + 1)) (from_secs 2))" by blast
      then have "?found retries slept"
        using i(1) [THEN one_sleep_less] unfold False by (intro exI [of _ i] exI [of _ p]) (auto simp: split_from)
      then show ?thesis ..
    next
      assume failed: "?failed (retries + 1) ?slept"
      have "retries + 1 \<le> MAX_BOOTSTRAP_RETRIES" using Suc.hyps(2) by simp
      from one_sleep_less [OF this] have "?failed retries slept"
        using failed unfold False by (auto simp: split_from)
      then show ?thesis ..
    qed
  qed
qed

text \<open>
  C33. Bootstrapping is bounded and honest: it makes at most eleven attempts (one more than the
  error message says) with two seconds between them, stops at the first that identifies a peer
  and returns that peer, and fails only when all eleven failed, naming how the last one did.
\<close>
theorem bootstrap_attempts_bounded:
  "(\<exists>i p. i \<le> 10 \<and> attempt i = Identified p \<and> (\<forall>j q. j < i \<longrightarrow> attempt j \<noteq> Identified q)
      \<and> dial_bootstrap attempt = (Inr p, replicate i (from_secs 2)))
   \<or> ((\<forall>j q. j \<le> 10 \<longrightarrow> attempt j \<noteq> Identified q)
      \<and> dial_bootstrap attempt
        = (Inl (if attempt 10 = DialRefused then BootstrapDialFailed else BootstrapConnectFailed),
           replicate 10 (from_secs 2)))"
  using dial_bootstrap_loop_outcome [of 0 attempt "[]"]
  by (simp add: dial_bootstrap_def MAX_BOOTSTRAP_RETRIES_def)

theorem bootstrap_attempts_bounded_witness:
  "dial_bootstrap (\<lambda>i. if i = 10 then Identified (PeerId 1) else IdentifyTimeout)
   = (Inr (PeerId 1), replicate 10 (from_secs 2))"
proof -
  let ?attempt = "\<lambda>i::nat. if i = 10 then Identified (PeerId 1) else IdentifyTimeout"
  from bootstrap_attempts_bounded [of ?attempt] consider
      i p where "i \<le> 10" "?attempt i = Identified p"
        "dial_bootstrap ?attempt = (Inr p, replicate i (from_secs 2))"
    | "\<forall>j q. j \<le> 10 \<longrightarrow> ?attempt j \<noteq> Identified q" by blast
  then show ?thesis
  proof cases
    case 1
    then have "i = 10 \<and> p = PeerId 1" by (auto split: if_splits)
    then show ?thesis using 1(3) by simp
  next
    case 2
    then show ?thesis by (metis order_refl)
  qed
qed

text \<open>
  The stream limits of the servers are merged: the one cap of the process admits at least
  what each server configures, and the one open timeout is at most each server's. A server's own
  \<open>max_total\<close> is therefore not a bound for that server, nor is its \<open>open_timeout_secs\<close>.
\<close>
theorem stream_limits_merged:
  assumes "s \<in> set (cfg_servers config)"
  shows "pool_max_total (srv_pool s) \<le> max_concurrent config
    \<and> open_timeout config \<le> pool_open_timeout_secs (srv_pool s)"
  using assms
  by (cases "cfg_servers config")
     (auto simp: max_concurrent_def open_timeout_def fold_max_ge fold_min_le)

definition limited_server :: "u16 \<Rightarrow> usize \<Rightarrow> nat \<Rightarrow> server" where
  "limited_server port cap secs =
     (discovery_server port)\<lparr>srv_pool := \<lparr>pool_max_total = cap, pool_open_timeout_secs = secs\<rparr>\<rparr>"

definition two_limits :: config where
  "two_limits = \<lparr>cfg_servers = [limited_server 1080 5 60, limited_server 1081 40 3],
     cfg_listen_addrs = None, cfg_port = None, cfg_log_level = None,
     cfg_bitping_api_key = ''key'', cfg_bootstrap_address = relay_addr,
     cfg_grpc_url = ''https://grpc.bitping.com'', cfg_keypair_path = ''node_keypair.bin'',
     cfg_metrics_port = 9091\<rparr>"

text \<open>A server limited to 5 opens of 60 seconds runs with 40 opens of 3 seconds.\<close>

theorem stream_limits_merged_witness:
  "max_concurrent two_limits = 40 \<and> open_timeout two_limits = 3
   \<and> pool_max_total (srv_pool (limited_server 1080 5 60)) \<le> max_concurrent two_limits
   \<and> open_timeout two_limits \<le> pool_open_timeout_secs (srv_pool (limited_server 1080 5 60))"
  using stream_limits_merged [of "limited_server 1080 5 60" two_limits]
  by (simp add: two_limits_def limited_server_def discovery_server_def max_concurrent_def open_timeout_def)

end
