(* ===== verification/Process.thy ===== *)
theory Process
  imports Session Startup Discovery_Switch "HOL-Library.Sublist"
begin

text \<open>
  The process around the actors: the generic driver of an actor (\<open>runtime/driver.rs\<close>), the
  bounded event channel (\<open>adapters/channel_sink.rs\<close>), the gRPC channel (\<open>adapters/grpc.rs\<close>) and
  the order in which \<open>main\<close> starts and stops everything (\<open>main.rs\<close>).
\<close>

section \<open>The driver of an actor\<close>

text \<open>
  What \<open>select!\<close> delivers to \<open>drive\<close>. An input whose handling is cancelled by the shutdown leaves
  the actor in a state nobody reads again: the driver returns and the actor is dropped.
\<close>

datatype 'i delivery = Input 'i | InputCancelled 'i | ShutdownRequested | InboxClosed

fun drive :: "('i \<Rightarrow> 's \<Rightarrow> 's) \<Rightarrow> 'i delivery list \<Rightarrow> 's \<Rightarrow> 's" where
  "drive handle [] s = s"
| "drive handle (Input i # ds) s = drive handle ds (handle i s)"
| "drive handle (InputCancelled i # ds) s = s"
| "drive handle (ShutdownRequested # ds) s = s"
| "drive handle (InboxClosed # ds) s = s"

text \<open>The contract of an actor: handling an input is a step of its transition relation.\<close>

locale actor =
  fixes handle :: "'i \<Rightarrow> 's \<Rightarrow> 's" and step :: "'s \<Rightarrow> 's \<Rightarrow> bool"
  assumes handle_step: "step\<^sup>*\<^sup>* s (handle i s)"
begin

lemma drive_reaches: "step\<^sup>*\<^sup>* s (drive handle ds s)"
proof (induction ds arbitrary: s)
  case (Cons d ds)
  then show ?case using rtranclp_trans [OF handle_step] by (cases d) auto
qed simp

end

interpretation discovery_driver: actor "\<lambda>e a. snd (discovery_handle X e a)" "discovery_step X"
  for X :: "('w, 's) discovery_ctx"
  by unfold_locales (rule r_into_rtranclp, rule discovery_step.handle_event)

section \<open>The event channel\<close>

text \<open>
  The channel to the UI holds \<open>EVENT_CAPACITY\<close> events. \<open>emit\<close> is \<open>try_send\<close>: with the channel
  full, or its receiver dropped, the event is lost.
\<close>

definition EVENT_CAPACITY :: nat where "EVENT_CAPACITY = 200"

record event_channel =
  ec_queue :: "events list"
  ec_receiver_alive :: bool

definition sink_emit :: "events \<Rightarrow> event_channel \<Rightarrow> event_channel" where
  "sink_emit e c =
     (if ec_receiver_alive c \<and> length (ec_queue c) < EVENT_CAPACITY
      then c\<lparr>ec_queue := ec_queue c @ [e]\<rparr> else c)"

definition channel_recv :: "event_channel \<Rightarrow> events option \<times> event_channel" where
  "channel_recv c = (case ec_queue c of [] \<Rightarrow> (None, c) | e # q \<Rightarrow> (Some e, c\<lparr>ec_queue := q\<rparr>))"

section \<open>The gRPC channel\<close>

datatype grpc_channel = PlainChannel string | TlsChannel string string

text \<open>\<open>parse_uri\<close> and \<open>tls_ok\<close> stand for tonic: whether the URL parses and TLS can be configured.\<close>

definition grpc_build :: "(string \<Rightarrow> bool) \<Rightarrow> bool \<Rightarrow> config \<Rightarrow> string + grpc_channel" where
  "grpc_build parse_uri tls_ok config =
     (if \<not> starts_with (cfg_grpc_url config) ''https://'' then
        (if parse_uri (cfg_grpc_url config) then Inr (PlainChannel (cfg_grpc_url config))
         else Inl ''invalid uri'')
      else if \<not> parse_uri (cfg_grpc_url config) then Inl ''invalid uri''
      else if tls_ok then Inr (TlsChannel (cfg_grpc_url config) (grpc_domain config))
      else Inl ''configuring TLS for gRPC'')"

text \<open>The process-wide \<open>CHANNEL\<close>: built once, reused thereafter; a failure is not remembered.\<close>

definition grpc_channel ::
    "(string \<Rightarrow> bool) \<Rightarrow> bool \<Rightarrow> config \<Rightarrow> grpc_channel option \<Rightarrow> (string + grpc_channel) \<times> grpc_channel option" where
  "grpc_channel parse_uri tls_ok config cell =
     (case cell of
        Some c \<Rightarrow> (Inr c, cell)
      | None \<Rightarrow>
          (case grpc_build parse_uri tls_ok config of
             Inl e \<Rightarrow> (Inl e, None)
           | Inr c \<Rightarrow> (Inr c, Some c)))"

section \<open>main\<close>

text \<open>
  What the outside answers to \<open>main\<close>: the fallible steps, and how the run ends (the first task
  that ended, if one did before the shutdown, and the results of the drain, if it finished).
  The bootstrap may never return: then \<open>mi_bootstrap\<close> is \<open>None\<close> and \<open>main\<close> stays in it.
\<close>

record main_io =
  mi_no_ui :: bool
  mi_config :: "string + config"
  mi_logging :: "string + unit"
  mi_error_hooks :: "string + unit"
  mi_metrics :: "string + unit"
  mi_auth :: "string + unit"
  mi_bootstrap :: "(string + unit) option"
  mi_bind :: "u16 \<Rightarrow> string + unit"
  mi_first :: "task_result option"
  mi_drained :: "task_result list option"

datatype main_action =
    InstallLogging | StartMetrics socket_addr | LoadKeypair string | HandleCtrlC
  | DropUiEvents | SpawnUi | Authenticate | Bootstrap
  | CancelShutdown | JoinTasks
  | CreateDestinations "u16 list" | CreateStreams usize nat | SpawnNetwork | SpawnDiscovery
  | BindListener u16 | SpawnSupervisor u16 | RequestDiscovery u16
  | RunTasks | DrainTasks

datatype main_result = MainOk | MainError string | ProcessExit int | MainBootstrapping

text \<open>The listeners, in configuration order; the first that cannot be bound ends the loop.\<close>

fun start_listeners :: "main_io \<Rightarrow> u16 list \<Rightarrow> main_action list \<times> string option" where
  "start_listeners io [] = ([], None)"
| "start_listeners io (port # ports) =
     (case mi_bind io port of
        Inl e \<Rightarrow> ([BindListener port], Some (''binding SOCKS listener on :'' @ show_u16 port))
      | Inr _ \<Rightarrow>
          (case start_listeners io ports of
             (actions, failed) \<Rightarrow>
               (BindListener port # SpawnSupervisor port # RequestDiscovery port # actions, failed)))"

definition start_network :: "main_io \<Rightarrow> main_action list \<times> (string + unit) option" where
  "start_network io =
     (case mi_auth io of
        Inl e \<Rightarrow> ([Authenticate], Some (Inl ''federated auth''))
      | Inr _ \<Rightarrow> ([Authenticate, Bootstrap], mi_bootstrap io))"

definition run_tasks :: "main_io \<Rightarrow> main_action list \<times> main_result" where
  "run_tasks io =
     ((case mi_first io of None \<Rightarrow> [RunTasks] | Some _ \<Rightarrow> [RunTasks, CancelShutdown]) @ [DrainTasks],
      (case main_outcome (mi_first io) (mi_drained io) of
         Inl code \<Rightarrow> ProcessExit code
       | Inr (Some e) \<Rightarrow> MainError e
       | Inr None \<Rightarrow> MainOk))"

definition run_process :: "main_io \<Rightarrow> config \<Rightarrow> main_action list \<times> main_result" where
  "run_process io config =
     (case start_network io of
        (started, None) \<Rightarrow> (started, MainBootstrapping)
      | (started, Some (Inl e)) \<Rightarrow> (started @ [CancelShutdown, JoinTasks], MainError e)
      | (started, Some (Inr _)) \<Rightarrow>
          (let spawned = started
                 @ [CreateDestinations (map fst (initial_destinations config)),
                    CreateStreams (max_concurrent config) (open_timeout config),
                    SpawnNetwork, SpawnDiscovery]
           in case start_listeners io (map srv_port (cfg_servers config)) of
                (listening, Some e) \<Rightarrow> (spawned @ listening, MainError e)
              | (listening, None) \<Rightarrow>
                  (case run_tasks io of
                     (ended, result) \<Rightarrow> (spawned @ listening @ ended, result))))"

definition main :: "main_io \<Rightarrow> main_action list \<times> main_result" where
  "main io =
     (case mi_config io of
        Inl e \<Rightarrow> ([], MainError e)
      | Inr config \<Rightarrow>
          (case mi_logging io of
             Inl e \<Rightarrow> ([InstallLogging], MainError e)
           | Inr _ \<Rightarrow>
               (case mi_error_hooks io of
                  Inl e \<Rightarrow> ([InstallLogging], MainError e)
                | Inr _ \<Rightarrow>
                    (case mi_metrics io of
                       Inl e \<Rightarrow> ([InstallLogging, StartMetrics (metrics_addr config)], MainError e)
                     | Inr _ \<Rightarrow>
                         (case run_process io config of
                            (actions, result) \<Rightarrow>
                              ([InstallLogging, StartMetrics (metrics_addr config),
                                LoadKeypair (cfg_keypair_path config), HandleCtrlC,
                                if mi_no_ui io then DropUiEvents else SpawnUi] @ actions, result))))))"

text \<open>
  The task behind Ctrl-C. Its argument is how the waits for the signal have ended so far; the
  process is gone after a forced exit.
\<close>

datatype signal_effect = CancelToken | ForceExit int

fun ctrl_c_handler :: "bool list \<Rightarrow> signal_effect list" where
  "ctrl_c_handler [] = []"
| "ctrl_c_handler [a] = (if a then [CancelToken] else [])"
| "ctrl_c_handler (a # b # _) = (if a then [CancelToken] else []) @ (if b then [ForceExit 130] else [])"

text \<open>Where a note about the shutdown goes.\<close>

datatype shutdown_output = LogNote string | StderrNote string

definition shutdown_note :: "bool \<Rightarrow> string \<Rightarrow> shutdown_output" where
  "shutdown_note no_ui msg = (if no_ui then LogNote msg else StderrNote (''p2proxy: '' @ msg))"

section \<open>Properties\<close>

text \<open>
  What the driver makes of the discovery actor is a run of its step relation, whatever is
  delivered and whenever the shutdown comes: everything proved of its reachable states holds of
  the driven actor.
\<close>
theorem driven_actor_stays_reachable:
  "(discovery_step X)\<^sup>*\<^sup>* a (drive (\<lambda>e a. snd (discovery_handle X e a)) ds a)"
  by (rule discovery_driver.drive_reaches)

subsection \<open>The event channel\<close>

datatype channel_op = Emit events | Recv

fun channel_step :: "channel_op \<Rightarrow> events list \<times> event_channel \<Rightarrow> events list \<times> event_channel" where
  "channel_step (Emit e) (got, c) = (got, sink_emit e c)"
| "channel_step Recv (got, c) =
     (case channel_recv c of (None, c') \<Rightarrow> (got, c') | (Some e, c') \<Rightarrow> (got @ [e], c'))"

fun emitted_by :: "channel_op list \<Rightarrow> events list" where
  "emitted_by [] = []"
| "emitted_by (Emit e # ops) = e # emitted_by ops"
| "emitted_by (Recv # ops) = emitted_by ops"

definition channel_run :: "channel_op list \<Rightarrow> events list \<times> event_channel" where
  "channel_run ops = fold channel_step ops ([], \<lparr>ec_queue = [], ec_receiver_alive = True\<rparr>)"

lemma emitted_by_snoc: "emitted_by (ops @ [op]) = emitted_by ops @ (case op of Emit e \<Rightarrow> [e] | Recv \<Rightarrow> [])"
  by (induction ops rule: emitted_by.induct) (simp_all split: channel_op.split)

lemma channel_run_snoc: "channel_run (ops @ [op]) = channel_step op (channel_run ops)"
  by (simp add: channel_run_def)

lemma channel_run_inv:
  "ec_receiver_alive (snd (channel_run ops))
   \<and> length (ec_queue (snd (channel_run ops))) \<le> EVENT_CAPACITY
   \<and> subseq (fst (channel_run ops) @ ec_queue (snd (channel_run ops))) (emitted_by ops)
   \<and> (length (emitted_by ops) \<le> EVENT_CAPACITY
        \<longrightarrow> fst (channel_run ops) @ ec_queue (snd (channel_run ops)) = emitted_by ops)"
proof (induction ops rule: rev_induct)
  case Nil
  then show ?case by (simp add: channel_run_def)
next
  case (snoc op ops)
  obtain got c where r: "channel_run ops = (got, c)" by fastforce
  show ?case
  proof (cases op)
    case (Emit e)
    have ih: "ec_receiver_alive c" "length (ec_queue c) \<le> EVENT_CAPACITY"
      "subseq (got @ ec_queue c) (emitted_by ops)"
      "length (emitted_by ops) \<le> EVENT_CAPACITY \<Longrightarrow> got @ ec_queue c = emitted_by ops"
      using snoc r by simp_all
    have emitted: "emitted_by (ops @ [op]) = emitted_by ops @ [e]"
      by (simp add: Emit emitted_by_snoc)
    show ?thesis
    proof (cases "length (ec_queue c) < EVENT_CAPACITY")
      case True
      then have run: "channel_run (ops @ [op]) = (got, c\<lparr>ec_queue := ec_queue c @ [e]\<rparr>)"
        using ih(1) by (simp add: channel_run_snoc r Emit sink_emit_def)
      have "subseq ((got @ ec_queue c) @ [e]) (emitted_by ops @ [e])"
        using ih(3) by (simp only: subseq_append)
      with ih(4) True ih(1) show ?thesis unfolding run emitted by auto
    next
      case False
      then have run: "channel_run (ops @ [op]) = (got, c)"
        by (simp add: channel_run_snoc r Emit sink_emit_def)
      have full: "\<not> length (emitted_by ops @ [e]) \<le> EVENT_CAPACITY"
      proof
        assume few: "length (emitted_by ops @ [e]) \<le> EVENT_CAPACITY"
        then have "length (got @ ec_queue c) < EVENT_CAPACITY" using ih(4) by simp
        with False show False by simp
      qed
      have "subseq (got @ ec_queue c) (emitted_by ops @ [e])"
        using ih(3) by (rule subseq_rev_drop_many)
      with full ih(1,2) show ?thesis unfolding run emitted by simp
    qed
  next
    case Recv
    with snoc r show ?thesis
      by (auto simp: channel_run_snoc emitted_by_snoc channel_recv_def split: list.split)
  qed
qed

text \<open>
  The event channel never blocks an actor and never reorders: what the UI has received, followed
  by what waits for it, is a subsequence of what was emitted; at most 200 events wait; and nothing
  is lost as long as no more than 200 were emitted. Past that an event is dropped whenever the
  channel is full, so a stalled UI can miss the change of an active exit.
\<close>
theorem event_channel_in_order:
  "case channel_run ops of (got, c) \<Rightarrow>
     length (ec_queue c) \<le> 200 \<and> subseq (got @ ec_queue c) (emitted_by ops)
     \<and> (if length (emitted_by ops) \<le> 200 then got @ ec_queue c = emitted_by ops else True)"
  using channel_run_inv [of ops] by (auto simp: EVENT_CAPACITY_def split: prod.split)

subsection \<open>Starting and stopping\<close>

lemma start_listeners_split:
  assumes "RequestDiscovery port \<in> set (fst (start_listeners io ports))"
  shows "mi_bind io port = Inr ()
    \<and> (\<exists>ys zs. fst (start_listeners io ports)
        = ys @ [BindListener port, SpawnSupervisor port, RequestDiscovery port] @ zs)"
  using assms
proof (induction ports)
  case (Cons p ports)
  show ?case
  proof (cases "mi_bind io p")
    case (Inr u)
    obtain actions failed where rest: "start_listeners io ports = (actions, failed)" by fastforce
    show ?thesis
    proof (cases "p = port")
      case True
      then have "fst (start_listeners io (p # ports))
          = [] @ [BindListener port, SpawnSupervisor port, RequestDiscovery port] @ actions"
        using Inr rest by simp
      moreover have "mi_bind io port = Inr ()" using Inr True by simp
      ultimately show ?thesis by blast
    next
      case False
      with Cons Inr rest obtain ys zs where "mi_bind io port = Inr ()"
        and "actions = ys @ [BindListener port, SpawnSupervisor port, RequestDiscovery port] @ zs"
        by auto
      then have "fst (start_listeners io (p # ports))
          = (BindListener p # SpawnSupervisor p # RequestDiscovery p # ys)
            @ [BindListener port, SpawnSupervisor port, RequestDiscovery port] @ zs"
        using Inr rest by simp
      with \<open>mi_bind io port = Inr ()\<close> show ?thesis by blast
    qed
  qed (use Cons.prems in simp)
qed simp

lemma start_listeners_only:
  "a \<in> set (fst (start_listeners io ports)) \<Longrightarrow>
     \<exists>p \<in> set ports. a = BindListener p \<or> a = SpawnSupervisor p \<or> a = RequestDiscovery p"
proof (induction ports)
  case (Cons p ports)
  obtain actions failed where "start_listeners io ports = (actions, failed)" by fastforce
  with Cons show ?case by (auto split: sum.splits)
qed simp

lemma start_listeners_fails:
  assumes "\<forall>p \<in> set before. mi_bind io p = Inr ()" and "mi_bind io port = Inl e"
  shows "start_listeners io (before @ port # after)
    = (concat (map (\<lambda>p. [BindListener p, SpawnSupervisor p, RequestDiscovery p]) before)
         @ [BindListener port], Some (''binding SOCKS listener on :'' @ show_u16 port))"
  using assms by (induction before) auto

definition prepared :: "main_io \<Rightarrow> config \<Rightarrow> main_action list" where
  "prepared io config =
     [InstallLogging, StartMetrics (metrics_addr config), LoadKeypair (cfg_keypair_path config),
      HandleCtrlC, if mi_no_ui io then DropUiEvents else SpawnUi]"

definition spawned_actors :: "config \<Rightarrow> main_action list" where
  "spawned_actors config =
     [Authenticate, Bootstrap, CreateDestinations (map fst (initial_destinations config)),
      CreateStreams (max_concurrent config) (open_timeout config), SpawnNetwork, SpawnDiscovery]"

definition listening_actions :: "main_io \<Rightarrow> config \<Rightarrow> main_action list" where
  "listening_actions io config = fst (start_listeners io (map srv_port (cfg_servers config)))"

text \<open>Every run of \<open>main\<close> that gets as far as a listener.\<close>

lemma main_listening:
  assumes "a \<in> set (fst (main io))" and "a = BindListener port \<or> a = RequestDiscovery port"
  shows "\<exists>config ended. mi_config io = Inr config
    \<and> a \<in> set (listening_actions io config)
    \<and> fst (main io) = prepared io config @ spawned_actors config @ listening_actions io config @ ended"
proof -
  obtain config where config: "mi_config io = Inr config"
    using assms by (cases "mi_config io") (auto simp: main_def)
  have ok: "mi_logging io = Inr ()" "mi_error_hooks io = Inr ()" "mi_metrics io = Inr ()"
    "mi_auth io = Inr ()" "mi_bootstrap io = Some (Inr ())"
    using assms config
    by (auto simp: main_def run_process_def start_network_def split: sum.splits option.splits if_splits)
  obtain listening failed where l: "start_listeners io (map srv_port (cfg_servers config)) = (listening, failed)"
    by fastforce
  obtain ended result where r: "run_tasks io = (ended, result)" by fastforce
  have others: "a \<notin> set (prepared io config @ spawned_actors config @ ended)"
    using assms(2) r
    by (auto simp: prepared_def spawned_actors_def run_tasks_def split: option.splits if_splits)
  have "fst (main io) = prepared io config @ spawned_actors config @ listening
      @ (case failed of Some _ \<Rightarrow> [] | None \<Rightarrow> ended)"
    using config ok l r
    by (simp add: main_def run_process_def start_network_def prepared_def spawned_actors_def Let_def
        split: option.split)
  moreover from this have "a \<in> set listening"
    using assms(1) others by (auto split: option.splits)
  ultimately show ?thesis using config l by (auto simp: listening_actions_def)
qed

text \<open>
  C13. A port's first discovery is requested only once its listener is bound and supervised, and only
  after the network has authenticated and bootstrapped and both actors run.
\<close>
theorem discovery_after_listener:
  assumes "RequestDiscovery port \<in> set (fst (main io))"
  shows "mi_bind io port = Inr ()
    \<and> (\<exists>config ys zs. fst (main io) = prepared io config @ spawned_actors config @ ys
         @ [BindListener port, SpawnSupervisor port, RequestDiscovery port] @ zs)"
proof -
  obtain config ended where m: "RequestDiscovery port \<in> set (listening_actions io config)"
    "fst (main io) = prepared io config @ spawned_actors config @ listening_actions io config @ ended"
    using main_listening [OF assms] by blast
  then obtain ys zs where "mi_bind io port = Inr ()" and l: "listening_actions io config
      = ys @ [BindListener port, SpawnSupervisor port, RequestDiscovery port] @ zs"
    using start_listeners_split [of port io "map srv_port (cfg_servers config)"]
    by (auto simp: listening_actions_def)
  moreover have "fst (main io) = prepared io config @ spawned_actors config @ ys
      @ [BindListener port, SpawnSupervisor port, RequestDiscovery port] @ (zs @ ended)"
    unfolding m(2) l by simp
  ultimately show ?thesis by blast
qed


definition taken_port_io :: main_io where
  "taken_port_io = \<lparr>mi_no_ui = False, mi_config = Inr two_limits, mi_logging = Inr (),
     mi_error_hooks = Inr (), mi_metrics = Inr (), mi_auth = Inr (), mi_bootstrap = Some (Inr ()),
     mi_bind = (\<lambda>p. if p = 1081 then Inl ''address in use'' else Inr ()),
     mi_first = None, mi_drained = Some []\<rparr>"


theorem discovery_after_listener_witness:
  "mi_bind taken_port_io 1080 = Inr ()
   \<and> (\<exists>config ys zs. fst (main taken_port_io) = prepared taken_port_io config @ spawned_actors config @ ys
        @ [BindListener 1080, SpawnSupervisor 1080, RequestDiscovery 1080] @ zs)"
  by (rule discovery_after_listener)
    (simp add: main_def run_process_def start_network_def taken_port_io_def two_limits_def
      limited_server_def discovery_server_def Let_def)

end
