(* ===== verification/System.thy ===== *)
theory System
  imports Discovery_Switch Gateway Ui_View_Props Process
begin

text \<open>
  The actors together: the tasks the network actor spawns are the events the discovery actor
  handles, and the events the discovery actor sends are what the reducer of the UI applies.
\<close>

section \<open>From the network actor to the discovery actor\<close>

text \<open>
  \<open>DiscoveryHandle::peer_connected\<close> and \<open>DiscoveryHandle::peer_closed\<close>, called by the spawned
  tasks.
\<close>

fun task_event :: "network_task \<Rightarrow> discovery_event option" where
  "task_event (TaskPeerConnected peer address relayed) = Some (PeerConnected peer address relayed)"
| "task_event (TaskPeerClosed peer) = Some (PeerClosed peer)"
| "task_event _ = None"

definition deliver ::
    "('w, 's) discovery_ctx \<Rightarrow> network_task list \<Rightarrow> ('w, 's) discovery_actor \<Rightarrow> ('w, 's) discovery_actor" where
  "deliver X tasks a =
     fold (\<lambda>e a. snd (discovery_handle X e a)) (List.map_filter task_event tasks) a"

definition spawned_by :: "'sw network_ctx \<Rightarrow> swarm_event \<Rightarrow> 'sw network_actor \<Rightarrow> network_task list" where
  "spawned_by N e a = drop (length (na_tasks a)) (na_tasks (handle_swarm_event N e a))"

lemma spawned_by_closed: "spawned_by N (ConnectionClosed p n) a = [TaskPeerClosed p]"
  by (simp add: spawned_by_def Let_def spawn_task_def emit_network_def)

lemma deliver_closed: "deliver X [TaskPeerClosed p] d = handle_peer_closed X p d"
  by (simp add: deliver_def List.map_filter_def)



section \<open>From the discovery actor to the UI\<close>

text \<open>Folding the reducer over timed events, as the UI loop does with its channel.\<close>

definition reduce_all :: "(int \<times> events) list \<Rightarrow> ui_state \<Rightarrow> ui_state" where
  "reduce_all tes st = fold (\<lambda>(now, e). reduce now e) tes st"

fun names_destination :: "events \<Rightarrow> bool" where
  "names_destination (ActiveDestination _ _ _) = True"
| "names_destination _ = False"

fun disconnects :: "events \<Rightarrow> bool" where
  "disconnects (Connection (Disconnected _)) = True"
| "disconnects _ = False"

text \<open>\<open>destination_of ds\<close> is what a session of each port reads.\<close>

definition destination_of :: "(u16 \<times> peer_id option) list \<Rightarrow> u16 \<Rightarrow> peer_id option" where
  "destination_of ds port = Option.bind (map_of ds port) id"

lemma destination_of_store:
  "destination_of (store_destination port v ds) q
   = (if q = port \<and> q \<in> fst ` set ds then v else destination_of ds q)"
  by (induction ds) (auto simp: destination_of_def store_destination_def dest: in_fst_image)

lemma destination_of_apply:
  assumes "q \<in> fst ` set ds"
  shows "destination_of (apply_destination e ds) q
    = (case e of ActiveDestination port v _ \<Rightarrow> if q = port then v else destination_of ds q
       | _ \<Rightarrow> destination_of ds q)"
  using assms by (cases e) (auto simp: destination_of_store)

lemma replay_filter: "replay es ds = replay (filter names_destination es) ds"
proof (induction es arbitrary: ds)
  case (Cons e es)
  then show ?case by (cases e) (simp_all add: replay_def)
qed simp

lemma reduce_destination:
  "us_active_destinations (reduce now e st) q
   = (case e of
        ActiveDestination port v _ \<Rightarrow> if q = port then v else us_active_destinations st q
      | Connection (Disconnected p) \<Rightarrow>
          if us_active_destinations st q = Some p then None else us_active_destinations st q
      | _ \<Rightarrow> us_active_destinations st q)"
  by (cases "(now, e, st)" rule: reduce.cases)
     (auto simp: frame_simps set_active_def drop_peer_def Let_def add_upload_def add_download_def
       peer_bandwidth_of_def split: option.splits prod.splits)


lemma reduce_all_destination:
  assumes "q \<in> fst ` set ds" and "us_active_destinations st q = destination_of ds q"
  shows "us_active_destinations (reduce_all tes st) q
       \<in> {None, destination_of (replay (map snd tes) ds) q}
    \<and> ((\<forall>e \<in> snd ` set tes. \<not> disconnects e) \<longrightarrow>
        us_active_destinations (reduce_all tes st) q = destination_of (replay (map snd tes) ds) q)"
proof (induction tes rule: rev_induct)
  case Nil
  then show ?case using assms(2) by (simp add: reduce_all_def replay_def)
next
  case (snoc te tes)
  obtain now e where te: "te = (now, e)" by fastforce
  have keys: "q \<in> fst ` set (replay (map snd tes) ds)"
    using assms(1) replay_keys [of "map snd tes" ds] by (metis list.set_map)
  have step: "us_active_destinations (reduce_all (tes @ [te]) st) q
      = us_active_destinations (reduce now e (reduce_all tes st)) q"
    by (simp add: reduce_all_def te)
  show ?case
    unfolding step reduce_destination using snoc
    by (auto simp: te replay_snoc destination_of_apply [OF keys] split: events.split connection_events.split)
qed



section \<open>From a session to the discovery actor\<close>

text \<open>
  \<open>DiscoveryHandle::request_new_peer\<close> with the actor alive: its answer, flattened, and the actor
  afterwards. A session reads its destination and, if there is none, asks; the answer may come in
  time, after the thirty seconds (the actor has worked all the same), or not at all.
\<close>

definition request_new_peer ::
    "('w, 's) discovery_ctx \<Rightarrow> u16 \<Rightarrow> ('w, 's) discovery_actor \<Rightarrow> peer_id option \<times> ('w, 's) discovery_actor" where
  "request_new_peer X port a =
     (case discovery_handle X (RequestNewPeer port) a of (reply, a) \<Rightarrow> (Option.bind reply id, a))"

datatype wait_outcome = Answered | Lapsed | ActorGone

definition served_session ::
    "('w, 's) discovery_ctx \<Rightarrow> session_io \<Rightarrow> u16 \<Rightarrow> wait_outcome \<Rightarrow> ('w, 's) discovery_actor
     \<Rightarrow> session_action list \<times> ('w, 's) discovery_actor" where
  "served_session X io port w a =
     (case destination_of (da_destinations a) port of
        Some peer \<Rightarrow> (run_session io port (Some peer), a)
      | None \<Rightarrow>
          (case w of
             ActorGone \<Rightarrow> (run_session (io\<lparr>io_request_new_peer := Some None\<rparr>) port None, a)
           | Answered \<Rightarrow>
               (case request_new_peer X port a of
                  (peer, a) \<Rightarrow> (run_session (io\<lparr>io_request_new_peer := Some peer\<rparr>) port None, a))
           | Lapsed \<Rightarrow>
               (case request_new_peer X port a of
                  (peer, a) \<Rightarrow> (run_session (io\<lparr>io_request_new_peer := None\<rparr>) port None, a))))"

lemma socks_opens_its_peer: "OpenStream p \<in> set (handle_socks_connection io peer) \<Longrightarrow> p = peer"
  by (cases "io_report io")
    (auto simp: handle_socks_connection_def open_session_def proxy_session_def relay_session_def
      report_bandwidth_def split: sum.splits if_splits)

lemma run_session_opens:
  "OpenStream p \<in> set (run_session io port destination) \<Longrightarrow>
     destination = Some p \<or> destination = None \<and> io_request_new_peer io = Some (Some p)"
  by (auto simp: run_session_def split: option.splits dest: socks_opens_its_peer)

lemma discover_answers_destination:
  assumes "discover X port avoid a = (Some p, b)" and "port \<in> fst ` set (da_destinations a)"
  shows "destination_of (da_destinations b) port = Some p"
proof -
  let ?a = "a\<lparr>da_pending := da_pending a - {port}\<rparr>"
  from assms(1) obtain server d c where "discovery_connect X server avoid ?a = (Inr d, c)"
    and b: "b = set_destination port d (emit_sticky_pool X server c)" and p: "p = cd_peer d"
    by (auto simp: discover_def Let_def split: option.splits prod.splits sum.splits)
  then have "da_destinations c = da_destinations a" using discovery_connect_frame by fastforce
  then show ?thesis
    using assms(2) by (simp add: b p set_destination_def emit_sticky_pool_def destination_of_store)
qed

text \<open>
  C2. Traffic leaves through the exit of its port. A session opens a stream only to the peer that is
  the destination of its port: the one it read, or the one the discovery actor answered, which is
  by then the destination that later sessions read. A request that is late or cannot be delivered
  opens no stream.
\<close>
theorem traffic_leaves_through_destination:
  assumes "served_session X io port w a = (acts, b)" and "port \<in> fst ` set (da_destinations a)"
    and "OpenStream p \<in> set acts"
  shows "destination_of (da_destinations b) port = Some p
    \<and> (destination_of (da_destinations a) port = Some p
       \<or> destination_of (da_destinations a) port = None \<and> w = Answered)"
proof (cases "destination_of (da_destinations a) port")
  case (Some peer)
  with assms(1,3) show ?thesis by (auto simp: served_session_def dest: run_session_opens)
next
  case None
  obtain reply c where r: "discover X port None a = (reply, c)" by fastforce
  then have request: "request_new_peer X port a = (reply, c)" by (simp add: request_new_peer_def)
  with None assms(1,3) have "w = Answered \<and> reply = Some p \<and> b = c"
    by (cases w) (auto simp: served_session_def dest!: run_session_opens)
  with r discover_answers_destination [OF _ assms(2)] None show ?thesis by blast
qed

definition willing_io :: session_io where
  "willing_io = \<lparr>io_request_new_peer = None, io_session_id = SessionId 1, io_handshake = Inr {NoAuth},
     io_method_written = Inr (), io_request = Inr (DomainAddress ''example.com'' 443),
     io_success_written = Inr (), io_open = Inr (), io_client_init = Inr (), io_split = Inr (),
     io_transfers = [], io_bytes = (0, 0), io_report = Inr (), io_report_signed = True\<rparr>"

theorem traffic_leaves_through_destination_witness:
  "\<exists>acts b. served_session sample_discovery willing_io 1080 Answered
       (discovery_actor_new offering_env [(1080, None)]) = (acts, b)
     \<and> OpenStream (PeerId 3) \<in> set acts \<and> destination_of (da_destinations b) 1080 = Some (PeerId 3)"
proof -
  let ?a = "discovery_actor_new offering_env [(1080, None)]"
  have none: "destination_of (da_destinations ?a) 1080 = None" by code_simp
  have answer: "fst (discovery_handle sample_discovery (RequestNewPeer 1080) ?a) = Some (Some (PeerId 3))"
    by code_simp
  then obtain b where b: "request_new_peer sample_discovery 1080 ?a = (Some (PeerId 3), b)"
    by (cases "discovery_handle sample_discovery (RequestNewPeer 1080) ?a") (simp add: request_new_peer_def)
  let ?acts = "run_session (willing_io\<lparr>io_request_new_peer := Some (Some (PeerId 3))\<rparr>) 1080 None"
  have served: "served_session sample_discovery willing_io 1080 Answered ?a = (?acts, b)"
    by (simp add: served_session_def none b)
  moreover have opens: "OpenStream (PeerId 3) \<in> set ?acts"
    by (simp add: run_session_def willing_io_def handle_socks_connection_def open_session_def)
  moreover have "1080 \<in> fst ` set (da_destinations ?a)" by (simp add: discovery_actor_new_def)
  ultimately show ?thesis using traffic_leaves_through_destination [OF served] by blast
qed

end
