(* ===== verification/Hub_Bootstrap.thy ===== *)
theory Hub_Bootstrap
  imports System
begin

text \<open>
  The whole of \<open>bootstrap\<close> (\<open>runtime/network/bootstrap.rs\<close>): listening, dialing the hub, waiting
  for the relay reservation, and the events reported on the way, as one list of actions. It refines
  the attempt-level \<open>dial_bootstrap\<close> of \<open>Startup\<close>; its events drive the UI and its end decides
  whether \<open>main\<close> goes on. libp2p's swarm is a \<open>boot_world\<close>: what its calls answer and the events
  it yields while the program waits.
\<close>

section \<open>The swarm during the bootstrap\<close>

datatype boot_event =
    IdentifyReceived peer_id "multiaddr list"
  | ReservationReqAccepted peer_id
  | OtherSwarmEvent

text \<open>
  \<open>bw_dial i\<close> answers the dial of turn \<open>i\<close>, \<open>bw_heard i\<close> are the events of the ten seconds after
  it, \<open>bw_later\<close> the events after the hub identified itself, as far as they have come.
\<close>

record boot_world =
  bw_built :: "string + unit"
  bw_local_peer_id :: peer_id
  bw_listen_on :: "multiaddr \<Rightarrow> string + unit"
  bw_dial :: "nat \<Rightarrow> string + unit"
  bw_heard :: "nat \<Rightarrow> boot_event list"
  bw_later :: "boot_event list"

datatype boot_action =
    Report events
  | ListenOn multiaddr
  | AddExternalAddress multiaddr
  | DialHub multiaddr
  | SleepFor duration

record bootstrapped =
  bs_relay_peer_id :: peer_id
  bs_relay_address :: multiaddr
  bs_bootstrap_address :: multiaddr
  bs_bootstrap_peer_id :: peer_id

text \<open>The last outcome is the wait for a reservation that has not come, which has no timeout.\<close>

datatype boot_outcome = BootFailed bootstrap_error | Booted bootstrapped | AwaitingReservation

section \<open>Listening and dialing\<close>

fun listen_all :: "boot_world \<Rightarrow> multiaddr list \<Rightarrow> boot_action list \<times> string option" where
  "listen_all W [] = ([], None)"
| "listen_all W (addr # addrs) =
     (case bw_listen_on W addr of
        Inl e \<Rightarrow> ([ListenOn addr], Some e)
      | Inr _ \<Rightarrow>
          (case listen_all W addrs of
             (acts, failed) \<Rightarrow> (ListenOn addr # AddExternalAddress addr # acts, failed)))"

text \<open>The two predicates the program waits with.\<close>

fun identified :: "boot_event \<Rightarrow> (peer_id \<times> multiaddr list) option" where
  "identified (IdentifyReceived peer listen_addrs) = Some (peer, listen_addrs)"
| "identified _ = None"

fun reserved :: "boot_event \<Rightarrow> peer_id option" where
  "reserved (ReservationReqAccepted relay_peer_id) = Some relay_peer_id"
| "reserved _ = None"

text \<open>
  \<open>dial_bootstrap\<close> from turn \<open>retries\<close> on. The predicate listens on the circuits while it looks at
  the event; the outcome of these calls is ignored.
\<close>

function dial_hub ::
    "maddr_api \<Rightarrow> boot_world \<Rightarrow> multiaddr \<Rightarrow> nat \<Rightarrow> boot_action list \<times> (bootstrap_error + peer_id)" where
  "dial_hub M W bootstrap retries =
     (case bw_dial W retries of
        Inl e \<Rightarrow>
          (if retries + 1 > MAX_BOOTSTRAP_RETRIES then ([DialHub bootstrap], Inl BootstrapDialFailed)
           else (case dial_hub M W bootstrap (retries + 1) of
                   (acts, result) \<Rightarrow> (DialHub bootstrap # SleepFor (from_secs 2) # acts, result)))
      | Inr _ \<Rightarrow>
          (case wait_for identified (bw_heard W retries) of
             Some ((peer, listen_addrs), _) \<Rightarrow>
               (DialHub bootstrap
                  # map ListenOn (circuit_listen_addrs M (bw_local_peer_id W) peer listen_addrs), Inr peer)
           | None \<Rightarrow>
               (if retries + 1 > MAX_BOOTSTRAP_RETRIES then ([DialHub bootstrap], Inl BootstrapConnectFailed)
                else (case dial_hub M W bootstrap (retries + 1) of
                        (acts, result) \<Rightarrow> (DialHub bootstrap # SleepFor (from_secs 2) # acts, result)))))"
  by pat_completeness auto
termination
  by (relation "measure (\<lambda>(M, W, bootstrap, retries). MAX_BOOTSTRAP_RETRIES - retries)") auto

declare dial_hub.simps [simp del]

section \<open>bootstrap\<close>

definition await_reservation ::
    "maddr_api \<Rightarrow> boot_world \<Rightarrow> config \<Rightarrow> peer_id \<Rightarrow> boot_action list \<times> boot_outcome" where
  "await_reservation M W config hub =
     (case wait_for reserved (bw_later W) of
        None \<Rightarrow> ([], AwaitingReservation)
      | Some (relay, _) \<Rightarrow>
          ([Report (Connection (Connected relay))],
           (case api_with_p2p M (cfg_bootstrap_address config) hub of
              None \<Rightarrow> BootFailed NoRelayAddress
            | Some relay_address \<Rightarrow>
                Booted \<lparr>bs_relay_peer_id = relay, bs_relay_address = relay_address,
                  bs_bootstrap_address = cfg_bootstrap_address config, bs_bootstrap_peer_id = hub\<rparr>)))"

definition bootstrap ::
    "maddr_api \<Rightarrow> ip_text \<Rightarrow> boot_world \<Rightarrow> config \<Rightarrow> boot_action list \<times> boot_outcome" where
  "bootstrap M T W config =
     (case bw_built W of
        Inl e \<Rightarrow> ([], BootFailed (SwarmNotBuilt e))
      | Inr _ \<Rightarrow>
          (case listen_all W (listen_multiaddrs T config) of
             (listening, Some e) \<Rightarrow> (Report (LocalPeerId (bw_local_peer_id W)) # listening, BootFailed (ListenFailed e))
           | (listening, None) \<Rightarrow>
               (let started = Report (LocalPeerId (bw_local_peer_id W)) # listening @ [Report (Connection Connecting)]
                in case dial_hub M W (cfg_bootstrap_address config) 0 of
                     (dialing, Inl e) \<Rightarrow> (started @ dialing, BootFailed e)
                   | (dialing, Inr hub) \<Rightarrow>
                       (case await_reservation M W config hub of
                          (acts, outcome) \<Rightarrow> (started @ dialing @ acts, outcome)))))"

text \<open>What \<open>main\<close> gets to see of it.\<close>

fun bootstrap_message :: "bootstrap_error \<Rightarrow> string" where
  "bootstrap_message (SwarmNotBuilt e) = e"
| "bootstrap_message (ListenFailed e) = e"
| "bootstrap_message BootstrapDialFailed =
     ''failed to dial bootstrap server after '' @ show_nat MAX_BOOTSTRAP_RETRIES @ '' attempts''"
| "bootstrap_message BootstrapConnectFailed =
     ''failed to connect to bootstrap server after '' @ show_nat MAX_BOOTSTRAP_RETRIES @ '' attempts''"
| "bootstrap_message NoRelayAddress = ''could not construct relay multiaddr''"

fun boot_result :: "boot_outcome \<Rightarrow> (string + unit) option" where
  "boot_result (BootFailed e) = Some (Inl (bootstrap_message e))"
| "boot_result (Booted b) = Some (Inr ())"
| "boot_result AwaitingReservation = None"

section \<open>Lemmas\<close>

definition reported :: "boot_action list \<Rightarrow> events list" where
  "reported acts = List.map_filter (\<lambda>a. case a of Report e \<Rightarrow> Some e | _ \<Rightarrow> None) acts"

definition listened :: "boot_action list \<Rightarrow> multiaddr list" where
  "listened acts = List.map_filter (\<lambda>a. case a of ListenOn m \<Rightarrow> Some m | _ \<Rightarrow> None) acts"

definition slept :: "boot_action list \<Rightarrow> duration list" where
  "slept acts = List.map_filter (\<lambda>a. case a of SleepFor d \<Rightarrow> Some d | _ \<Rightarrow> None) acts"

lemma map_filter_append [simp]: "List.map_filter f (xs @ ys) = List.map_filter f xs @ List.map_filter f ys"
  by (induction xs) (simp_all add: map_filter_simps split: option.split)

lemma reported_simps [simp]:
  "reported [] = []" "reported (xs @ ys) = reported xs @ reported ys"
  "reported (Report e # xs) = e # reported xs" "reported (ListenOn m # xs) = reported xs"
  "reported (AddExternalAddress m # xs) = reported xs" "reported (DialHub m # xs) = reported xs"
  "reported (SleepFor d # xs) = reported xs"
  by (simp_all add: reported_def map_filter_simps)

lemma listened_simps [simp]:
  "listened [] = []" "listened (xs @ ys) = listened xs @ listened ys"
  "listened (Report e # xs) = listened xs" "listened (ListenOn m # xs) = m # listened xs"
  "listened (AddExternalAddress m # xs) = listened xs" "listened (DialHub m # xs) = listened xs"
  "listened (SleepFor d # xs) = listened xs"
  by (simp_all add: listened_def map_filter_simps)

lemma slept_simps [simp]:
  "slept [] = []" "slept (Report e # xs) = slept xs" "slept (ListenOn m # xs) = slept xs"
  "slept (AddExternalAddress m # xs) = slept xs" "slept (DialHub m # xs) = slept xs"
  "slept (SleepFor d # xs) = d # slept xs"
  by (simp_all add: slept_def map_filter_simps)

lemma listen_ons [simp]:
  "reported (map ListenOn ms) = []" "listened (map ListenOn ms) = ms" "slept (map ListenOn ms) = []"
  by (induction ms) simp_all

lemma listen_all_reports: "reported (fst (listen_all W addrs)) = []"
  by (induction addrs) (auto split: sum.split prod.split)

lemma listen_all_listens: "snd (listen_all W addrs) = None \<Longrightarrow> listened (fst (listen_all W addrs)) = addrs"
  by (induction addrs) (auto split: sum.splits prod.splits)

lemma wait_for_first:
  assumes "wait_for accepts es = Some (r, rest)"
  shows "\<exists>before e. es = before @ e # rest \<and> accepts e = Some r \<and> (\<forall>x \<in> set before. accepts x = None)"
  using assms
proof (induction es)
  case (Cons x es)
  show ?case
  proof (cases "accepts x")
    case None
    with Cons obtain before e where "es = before @ e # rest" "accepts e = Some r"
      "\<forall>x \<in> set before. accepts x = None" by auto
    with None show ?thesis by (intro exI [of _ "x # before"] exI [of _ e]) simp
  next
    case (Some r')
    with Cons.prems show ?thesis by (intro exI [of _ "[]"] exI [of _ x]) simp
  qed
qed simp

lemma wait_for_none: "wait_for accepts es = None \<longleftrightarrow> (\<forall>x \<in> set es. accepts x = None)"
  by (induction es) (auto split: option.split)

text \<open>One turn as the attempt-level model sees it.\<close>

definition attempt_outcome :: "boot_world \<Rightarrow> nat \<Rightarrow> bootstrap_attempt" where
  "attempt_outcome W i =
     (case bw_dial W i of
        Inl _ \<Rightarrow> DialRefused
      | Inr _ \<Rightarrow> (case wait_for identified (bw_heard W i) of
                    Some ((peer, _), _) \<Rightarrow> Identified peer | None \<Rightarrow> IdentifyTimeout))"

lemma dial_hub_refines:
  "dial_bootstrap_loop (attempt_outcome W) retries before
   = (snd (dial_hub M W b retries), before @ slept (fst (dial_hub M W b retries)))"
proof (induction M W b retries arbitrary: before rule: dial_hub.induct)
  case (1 M W b retries)
  show ?case
  proof (cases "bw_dial W retries")
    case (Inl e)
    then have "attempt_outcome W retries = DialRefused" by (simp add: attempt_outcome_def)
    then show ?thesis
      using 1(1) [OF Inl] Inl
      by (simp add: dial_bootstrap_loop.simps [of _ retries] dial_hub.simps [of _ _ _ retries] split: prod.split)
  next
    case (Inr u)
    show ?thesis
    proof (cases "wait_for identified (bw_heard W retries)")
      case None
      with Inr have "attempt_outcome W retries = IdentifyTimeout" by (simp add: attempt_outcome_def)
      then show ?thesis
        using 1(2) [OF Inr None] Inr None
        by (simp add: dial_bootstrap_loop.simps [of _ retries] dial_hub.simps [of _ _ _ retries] split: prod.split)
    next
      case (Some r)
      with Inr show ?thesis
        by (auto simp: dial_bootstrap_loop.simps [of _ retries] dial_hub.simps [of _ _ _ retries]
            attempt_outcome_def split: prod.split)
    qed
  qed
qed

lemma dial_hub_reports: "reported (fst (dial_hub M W b retries)) = []"
  by (induction M W b retries rule: dial_hub.induct)
     (subst dial_hub.simps, auto split: sum.split option.split prod.split)


lemma dial_hub_first:
  assumes "dial_hub M W b retries = (acts, Inr hub)" and "retries \<le> MAX_BOOTSTRAP_RETRIES"
  shows "\<exists>i before listen_addrs rest. retries \<le> i \<and> i \<le> MAX_BOOTSTRAP_RETRIES \<and> bw_dial W i = Inr ()
    \<and> bw_heard W i = before @ IdentifyReceived hub listen_addrs # rest
    \<and> (\<forall>e \<in> set before. identified e = None)
    \<and> (\<forall>j. retries \<le> j \<and> j < i \<and> bw_dial W j = Inr () \<longrightarrow> (\<forall>e \<in> set (bw_heard W j). identified e = None))
    \<and> listened acts = circuit_listen_addrs M (bw_local_peer_id W) hub listen_addrs"
    (is "\<exists>i before listen_addrs rest. ?P retries acts i before listen_addrs rest")
  using assms
proof (induction "MAX_BOOTSTRAP_RETRIES - retries" arbitrary: retries acts rule: less_induct)
  case less
  have goes_on: ?case
    if step: "dial_hub M W b retries
        = (if retries + 1 > MAX_BOOTSTRAP_RETRIES then ([DialHub b], Inl e)
           else (case dial_hub M W b (retries + 1) of
                   (acts, result) \<Rightarrow> (DialHub b # SleepFor (from_secs 2) # acts, result)))"
      and quiet: "bw_dial W retries = Inr () \<longrightarrow> (\<forall>e \<in> set (bw_heard W retries). identified e = None)"
    for e
  proof -
    from step less.prems(1) obtain later where more: "retries + 1 \<le> MAX_BOOTSTRAP_RETRIES"
      and later: "dial_hub M W b (retries + 1) = (later, Inr hub)"
      and acts: "acts = DialHub b # SleepFor (from_secs 2) # later"
      by (auto split: if_splits prod.splits)
    have "MAX_BOOTSTRAP_RETRIES - (retries + 1) < MAX_BOOTSTRAP_RETRIES - retries" using more by simp
    from less.hyps [OF this later more] obtain i before listen_addrs rest
      where "?P (retries + 1) later i before listen_addrs rest" by blast
    moreover have "retries \<le> j \<longleftrightarrow> j = retries \<or> retries + 1 \<le> j" for j by auto
    ultimately have "?P retries acts i before listen_addrs rest" using quiet acts by auto
    then show ?thesis by blast
  qed
  show ?case
  proof (cases "bw_dial W retries")
    case (Inl x)
    show ?thesis
      by (rule goes_on [of BootstrapDialFailed]) (simp_all add: Inl dial_hub.simps [of _ _ _ retries])
  next
    case (Inr u)
    show ?thesis
    proof (cases "wait_for identified (bw_heard W retries)")
      case None
      show ?thesis
        by (rule goes_on [of BootstrapConnectFailed], simp add: None Inr dial_hub.simps [of _ _ _ retries],
            use None in \<open>simp add: wait_for_none\<close>)
    next
      case (Some r)
      then obtain peer listen_addrs rest
        where w: "wait_for identified (bw_heard W retries) = Some ((peer, listen_addrs), rest)"
        by (cases r) auto
      then have "peer = hub" and l: "listened acts = circuit_listen_addrs M (bw_local_peer_id W) hub listen_addrs"
        using less.prems(1) Inr by (auto simp: dial_hub.simps [of _ _ _ retries])
      with wait_for_first [OF w] obtain before e where "bw_heard W retries = before @ e # rest"
        "identified e = Some (hub, listen_addrs)" "\<forall>x \<in> set before. identified x = None" by blast
      then have "?P retries acts retries before listen_addrs rest"
        using Inr l less.prems(2) by (cases e) auto
      then show ?thesis by blast
    qed
  qed
qed

text \<open>The cases of a run of \<open>bootstrap\<close> that reaches the hub.\<close>

lemma bootstrap_reaches_hub:
  assumes "bootstrap M T W config = (acts, outcome)"
    and "outcome = Booted b \<or> outcome = BootFailed NoRelayAddress \<or> outcome = AwaitingReservation"
  shows "\<exists>listening dialing hub.
      listen_all W (listen_multiaddrs T config) = (listening, None)
    \<and> dial_hub M W (cfg_bootstrap_address config) 0 = (dialing, Inr hub)
    \<and> outcome = snd (await_reservation M W config hub)
    \<and> acts = Report (LocalPeerId (bw_local_peer_id W)) # listening @ [Report (Connection Connecting)]
        @ dialing @ fst (await_reservation M W config hub)"
proof -
  have never: "snd (dial_hub M W c n) \<noteq> Inl NoRelayAddress" for c n
    by (induction M W c n rule: dial_hub.induct)
       (subst dial_hub.simps, auto split: sum.split option.split prod.split)
  then have "dial_hub M W c 0 \<noteq> (x, Inl NoRelayAddress)" for c x by (metis snd_conv)
  with assms show ?thesis
    by (auto simp: bootstrap_def Let_def split: sum.splits prod.splits option.splits)
qed

lemma bootstrap_reports:
  assumes "bootstrap M T W config = (acts, outcome)"
  shows "case outcome of
      Booted b \<Rightarrow> reported acts = [LocalPeerId (bw_local_peer_id W), Connection Connecting,
        Connection (Connected (bs_relay_peer_id b))]
    | AwaitingReservation \<Rightarrow> reported acts = [LocalPeerId (bw_local_peer_id W), Connection Connecting]
    | BootFailed e \<Rightarrow>
        reported acts \<in> {[], [LocalPeerId (bw_local_peer_id W)],
          [LocalPeerId (bw_local_peer_id W), Connection Connecting]}
        \<or> (e = NoRelayAddress \<and> (\<exists>relay. reported acts = [LocalPeerId (bw_local_peer_id W),
             Connection Connecting, Connection (Connected relay)]))"
proof -
  have quiet: "listen_all W addrs = (listening, r) \<Longrightarrow> reported listening = []"
    "dial_hub M W c n = (dialing, q) \<Longrightarrow> reported dialing = []" for addrs listening r c n dialing q
    using listen_all_reports [of W addrs] dial_hub_reports [of M W c n] by simp_all
  from assms show ?thesis
    by (auto simp: bootstrap_def await_reservation_def Let_def
        split: sum.splits prod.splits option.splits dest!: quiet)
qed

section \<open>Properties\<close>

text \<open>
  The event-level bootstrap implements the attempt-level one: same result, same pauses, so the
  bound of eleven attempts holds of it.
\<close>
theorem dial_hub_implements_attempts:
  "dial_bootstrap (attempt_outcome W) = (snd (dial_hub M W b 0), slept (fst (dial_hub M W b 0)))"
  using dial_hub_refines [of W 0 "[]" M b] by (simp add: dial_bootstrap_def)

text \<open>
  C15. The hub is whoever identifies first. A bootstrap that succeeds takes for the hub the peer of the
  first Identify event that comes in the ten seconds of one of the first eleven attempts, without
  comparing it with the address it dialed; it has listened on the configured addresses and on a
  circuit through each address that peer announced, and some relay has accepted a reservation.
\<close>
theorem hub_is_first_to_identify:
  assumes "bootstrap M T W config = (acts, Booted b)"
  shows "\<exists>i before listen_addrs rest. i \<le> 10
    \<and> bw_heard W i = before @ IdentifyReceived (bs_bootstrap_peer_id b) listen_addrs # rest
    \<and> (\<forall>e \<in> set before. identified e = None)
    \<and> (\<forall>j < i. bw_dial W j = Inr () \<longrightarrow> (\<forall>e \<in> set (bw_heard W j). identified e = None))
    \<and> listened acts = listen_multiaddrs T config
        @ circuit_listen_addrs M (bw_local_peer_id W) (bs_bootstrap_peer_id b) listen_addrs
    \<and> api_with_p2p M (cfg_bootstrap_address config) (bs_bootstrap_peer_id b) = Some (bs_relay_address b)
    \<and> ReservationReqAccepted (bs_relay_peer_id b) \<in> set (bw_later W)"
proof -
  from bootstrap_reaches_hub [OF assms] obtain listening dialing hub
    where l: "listen_all W (listen_multiaddrs T config) = (listening, None)"
      and d: "dial_hub M W (cfg_bootstrap_address config) 0 = (dialing, Inr hub)"
      and o: "snd (await_reservation M W config hub) = Booted b"
      and acts: "acts = Report (LocalPeerId (bw_local_peer_id W)) # listening @ [Report (Connection Connecting)]
        @ dialing @ fst (await_reservation M W config hub)" by auto
  from o obtain rest where w: "wait_for reserved (bw_later W) = Some (bs_relay_peer_id b, rest)"
    and hub: "hub = bs_bootstrap_peer_id b"
    and relay: "api_with_p2p M (cfg_bootstrap_address config) hub = Some (bs_relay_address b)"
    by (auto simp: await_reservation_def split: option.splits)
  from wait_for_first [OF w] obtain before e where "bw_later W = before @ e # rest"
    and "reserved e = Some (bs_relay_peer_id b)" by blast
  then have accepted: "ReservationReqAccepted (bs_relay_peer_id b) \<in> set (bw_later W)" by (cases e) auto
  have "listened acts = listen_multiaddrs T config @ listened dialing"
    using listen_all_listens [of W "listen_multiaddrs T config"] l w
    by (simp add: acts await_reservation_def)
  moreover obtain i before listen_addrs rest where "i \<le> 10"
    and "bw_heard W i = before @ IdentifyReceived hub listen_addrs # rest"
    and "\<forall>e \<in> set before. identified e = None"
    and "\<forall>j < i. bw_dial W j = Inr () \<longrightarrow> (\<forall>e \<in> set (bw_heard W j). identified e = None)"
    and "listened dialing = circuit_listen_addrs M (bw_local_peer_id W) hub listen_addrs"
    using dial_hub_first [OF d] by (auto simp: MAX_BOOTSTRAP_RETRIES_def)
  ultimately show ?thesis
    using relay accepted hub by (intro exI conjI) (assumption | simp)+
qed

text \<open>
  While the process starts, the UI shows the connection as it is: connecting until a relay has
  accepted the reservation, connected to that relay from then on. A bootstrap that fails is not
  shown: the status stays at connecting and no error appears.
\<close>
theorem ui_follows_bootstrap:
  assumes "map snd tes = reported (fst (bootstrap M T W config))"
  shows "us_last_error (reduce_all tes ui_state_new) = None
    \<and> (case snd (bootstrap M T W config) of
        Booted b \<Rightarrow>
          us_connection_status (reduce_all tes ui_state_new) = StatusConnected (bs_relay_peer_id b)
          \<and> us_local_peer_id (reduce_all tes ui_state_new) = Some (bw_local_peer_id W)
      | AwaitingReservation \<Rightarrow> us_connection_status (reduce_all tes ui_state_new) = StatusConnecting
      | BootFailed e \<Rightarrow> e \<noteq> NoRelayAddress \<longrightarrow>
          us_connection_status (reduce_all tes ui_state_new) = StatusConnecting)"
proof -
  obtain acts outcome where b: "bootstrap M T W config = (acts, outcome)" by fastforce
  have split_tes: "map snd tes = x # xs \<Longrightarrow> \<exists>now tes'. tes = (now, x) # tes' \<and> map snd tes' = xs"
    for tes :: "(int \<times> events) list" and x xs by (cases tes) auto
  from bootstrap_reports [OF b] assms b show ?thesis
    by (auto simp: reduce_all_def ui_state_new_def split: boot_outcome.splits dest!: split_tes)
qed

definition stranger_world :: boot_world where
  "stranger_world = \<lparr>bw_built = Inr (), bw_local_peer_id = PeerId 1, bw_listen_on = (\<lambda>_. Inr ()),
     bw_dial = (\<lambda>i. if i = 0 then Inl ''no route'' else Inr ()),
     bw_heard = (\<lambda>i. [OtherSwarmEvent, IdentifyReceived (PeerId 9) [], IdentifyReceived (PeerId 2) []]),
     bw_later = [OtherSwarmEvent, ReservationReqAccepted (PeerId 2)]\<rparr>"

definition digits :: ip_text where
  "digits = \<lparr>show_ip4 = (\<lambda>_. ''0.0.0.0''), show_ip6 = (\<lambda>_. ''::'')\<rparr>"

text \<open>A stranger (\<open>PeerId 9\<close>) that identifies before the hub becomes the bootstrap peer.\<close>

lemma stranger_booted:
  "snd (bootstrap list_maddr_api digits stranger_world two_limits)
   = Booted \<lparr>bs_relay_peer_id = PeerId 2, bs_relay_address = relay_addr @ [P2p (PeerId 9)],
       bs_bootstrap_address = relay_addr, bs_bootstrap_peer_id = PeerId 9\<rparr>"
  by (simp add: bootstrap_def await_reservation_def stranger_world_def two_limits_def
      listen_multiaddrs_def effective_listen_addrs_def default_listen_addrs_def dial_hub.simps
      MAX_BOOTSTRAP_RETRIES_def list_maddr_api_def relay_addr_def ends_in_p2p_def circuit_listen_addrs_def
      List.map_filter_def)

theorem hub_is_first_to_identify_witness:
  "\<exists>i before listen_addrs rest. i \<le> 10
    \<and> bw_heard stranger_world i = before @ IdentifyReceived (PeerId 9) listen_addrs # rest"
proof -
  let ?b = "\<lparr>bs_relay_peer_id = PeerId 2, bs_relay_address = relay_addr @ [P2p (PeerId 9)],
       bs_bootstrap_address = relay_addr, bs_bootstrap_peer_id = PeerId 9\<rparr>"
  have "bootstrap list_maddr_api digits stranger_world two_limits
      = (fst (bootstrap list_maddr_api digits stranger_world two_limits), Booted ?b)"
    by (metis stranger_booted prod.collapse)
  from hub_is_first_to_identify [OF this] show ?thesis by simp blast
qed

theorem ui_follows_bootstrap_witness:
  "us_connection_status (reduce_all (map (Pair 0)
     (reported (fst (bootstrap list_maddr_api digits stranger_world two_limits)))) ui_state_new)
   = StatusConnected (PeerId 2)"
  using ui_follows_bootstrap [of "map (Pair 0)
      (reported (fst (bootstrap list_maddr_api digits stranger_world two_limits)))"
      list_maddr_api digits stranger_world two_limits]
  by (simp add: stranger_booted comp_def)


definition silent_relay_io :: main_io where
  "silent_relay_io = taken_port_io\<lparr>mi_bootstrap := None\<rparr>"


end
