(* ===== verification/Core_Tests.thy ===== *)
theory Core_Tests
  imports Sticky_State Backoff
begin

text \<open>
  The unit tests of the domain (\<open>domain/backoff.rs\<close>, \<open>domain/circuit.rs\<close>, \<open>domain/selection.rs\<close>,
  \<open>domain/sticky.rs\<close>) and of the stream port (\<open>ports/stream.rs\<close>) as bool-valued scenarios of the
  model. The random peers of a test are arguments, and so are libp2p's address builders \<open>A\<close>. The
  domain knows a fingerprint as a text and an address as its components, and so do the scenarios.
\<close>

section \<open>Backoff\<close>

definition grows_exponentially_and_caps :: bool where
  "grows_exponentially_and_caps =
     (map (\<lambda>d. d div from_secs 1) (delays 6 (backoff_new (from_secs 1) 2 (from_secs 8))) = [1, 2, 4, 8, 8, 8])"

definition reset_returns_to_initial :: bool where
  "reset_returns_to_initial =
     (let b = backoff_new (from_secs 1) 2 (from_secs 8);
          (_, b) = next_delay b;
          (_, b) = next_delay b;
          b = backoff_reset b
      in fst (next_delay b) = from_secs 1)"

definition factor_zero_is_treated_as_one :: bool where
  "factor_zero_is_treated_as_one =
     (let half_second = 500000000;
          b = backoff_new half_second 0 (from_secs 8);
          (d1, b) = next_delay b;
          (d2, b) = next_delay b
      in d1 = half_second \<and> d2 = half_second)"

lemmas delays_numeral = delays.simps(2) [where n = "pred_numeral k" for k, folded numeral_eq_Suc]

lemma backoff_tests_hold: "grows_exponentially_and_caps" "reset_returns_to_initial" "factor_zero_is_treated_as_one"
  by (simp_all add: grows_exponentially_and_caps_def reset_returns_to_initial_def
      factor_zero_is_treated_as_one_def backoff_new_def next_delay_def backoff_reset_def
      saturating_mul_def from_secs_def duration_max_def min_def delays_numeral)

section \<open>Circuits and selection\<close>

definition synthesizes_circuit_through_relay :: "maddr_api \<Rightarrow> peer_id \<Rightarrow> bool" where
  "synthesizes_circuit_through_relay A peer =
     (case synthesize_circuit A [Dns4 ''boot.example.com'', Tcp 45445] peer of
        None \<Rightarrow> False
      | Some circuit \<Rightarrow>
          list_ex (\<lambda>p. case p of P2pCircuit \<Rightarrow> True | _ \<Rightarrow> False) circuit \<and> last_p2p circuit = Some peer)"

definition candidate_routes_unions_resolved_and_verbatim :: "peer_id \<Rightarrow> peer_id \<Rightarrow> peer_id \<Rightarrow> bool" where
  "candidate_routes_unions_resolved_and_verbatim peer other another =
     (let verbatim = [Ip4 ''9.9.9.9'', Tcp 31515, P2p peer];
          hub_route = [Dns4 ''hub.example.com'', Tcp 31515, P2pCircuit, P2p peer];
          resolved = [(peer, [hub_route])];
          entry = \<lparr>entry_peer_id = peer, entry_address = Some verbatim\<rparr>;
          bare = \<lparr>entry_peer_id = other, entry_address = None\<rparr>;
          verbatim_only = \<lparr>entry_peer_id = another, entry_address = Some verbatim\<rparr>
      in candidate_routes entry resolved = {verbatim, hub_route}
         \<and> Set.is_empty (candidate_routes bare resolved)
         \<and> candidate_routes verbatim_only resolved = {verbatim})"

definition dial_set_uses_last_p2p_component :: "peer_id \<Rightarrow> peer_id \<Rightarrow> peer_id \<Rightarrow> bool" where
  "dial_set_uses_last_p2p_component relay dest direct_dest =
     (let circuit = [Dns4 ''hub.example.com'', Tcp 31515, P2p relay, P2pCircuit, P2p dest];
          direct = [Ip4 ''9.9.9.9'', Tcp 31515, P2p direct_dest];
          ids = destination_peer_ids {circuit, direct}
      in ids = {dest, direct_dest} \<and> relay \<notin> ids)"

definition bare_direct_address_must_be_tagged_with_peer_id :: "maddr_api \<Rightarrow> peer_id \<Rightarrow> bool" where
  "bare_direct_address_must_be_tagged_with_peer_id A peer =
     (let bare = [Ip4 ''203.0.113.7'', Udp 45445, QuicV1]
      in Set.is_empty (destination_peer_ids {bare})
         \<and> (case api_with_p2p A bare peer of
              None \<Rightarrow> False
            | Some tagged \<Rightarrow> destination_peer_ids {tagged} = {peer}))"

definition partition_keeps_direct_before_circuit :: "peer_id \<Rightarrow> bool" where
  "partition_keeps_direct_before_circuit p =
     (let direct = [Ip4 ''9.9.9.9'', Tcp 443, P2p p];
          circuit = [Dns4 ''h'', Tcp 1, P2pCircuit, P2p p]
      in case partition_direct_first {circuit, direct} of (d, c) \<Rightarrow> d = {direct} \<and> c = {circuit})"

lemma partition_direct_first_eval:
  "partition_direct_first {} = ({}, {})"
  "partition_direct_first (insert a A) =
     (case partition_direct_first A of
        (direct, relay) \<Rightarrow> if P2pCircuit \<in> set a then (direct, insert a relay) else (insert a direct, relay))"
  by (auto simp: partition_direct_first_def is_relayed_iff)

lemma destination_peer_ids_eval:
  "destination_peer_ids (insert a A) = set_option (last_p2p a) \<union> destination_peer_ids A"
  by (simp add: destination_peer_ids_def)

lemma selection_tests_hold:
  "maddr_laws A \<Longrightarrow> synthesizes_circuit_through_relay A p"
  "p \<noteq> q \<Longrightarrow> p \<noteq> r \<Longrightarrow> candidate_routes_unions_resolved_and_verbatim p q r"
  "p \<noteq> q \<Longrightarrow> p \<noteq> r \<Longrightarrow> dial_set_uses_last_p2p_component p q r"
  "maddr_laws A \<Longrightarrow> bare_direct_address_must_be_tagged_with_peer_id A p"
  "partition_keeps_direct_before_circuit p"
  by (auto simp: synthesizes_circuit_through_relay_def synthesize_circuit_eq last_p2p_def List.map_filter_def
      candidate_routes_unions_resolved_and_verbatim_def candidate_routes_def Let_def Set.is_empty_iff
      dial_set_uses_last_p2p_component_def bare_direct_address_must_be_tagged_with_peer_id_def
      destination_peer_ids_eval p2p_component_def maddr_lawsD ends_in_p2p_def
      partition_keeps_direct_before_circuit_def partition_direct_first_eval)

section \<open>Sticky pools\<close>

text \<open>The pool of port 1080 under a fingerprint; a test's \<open>Utc::now()\<close> is \<open>now\<close>.\<close>

definition pool_at :: "string \<Rightarrow> sticky_state \<Rightarrow> peer_id list \<times> sticky_state" where
  "pool_at fp s = sticky_pool_of 1080 fp s"

definition remembered :: "int \<Rightarrow> string \<Rightarrow> usize \<Rightarrow> peer_id list \<Rightarrow> sticky_state" where
  "remembered now fp mx peers = fold (\<lambda>p s. snd (sticky_remember now 1080 fp p mx s)) peers default_sticky"

definition pool_is_empty_when_unknown :: bool where
  "pool_is_empty_when_unknown = (fst (pool_at ''fp'' default_sticky) = [])"

definition remember_keeps_mru_first_and_caps :: "int \<Rightarrow> peer_id \<Rightarrow> peer_id \<Rightarrow> peer_id \<Rightarrow> peer_id \<Rightarrow> bool" where
  "remember_keeps_mru_first_and_caps now p0 p1 p2 p3 =
     (fst (pool_at ''fp'' (remembered now ''fp'' 3 [p0, p1, p2, p3])) = [p3, p2, p1])"

definition re_remembering_promotes_without_duplicating :: "int \<Rightarrow> peer_id \<Rightarrow> peer_id \<Rightarrow> bool" where
  "re_remembering_promotes_without_duplicating now a b =
     (let s = remembered now ''fp'' 5 [a, b];
          (changed, s) = sticky_remember now 1080 ''fp'' a 5 s;
          (pool, s) = pool_at ''fp'' s
      in changed \<and> pool = [a, b] \<and> \<not> fst (sticky_remember now 1080 ''fp'' a 5 s))"

definition fingerprint_mismatch_drops_whole_pool :: "int \<Rightarrow> peer_id \<Rightarrow> bool" where
  "fingerprint_mismatch_drops_whole_pool now p =
     (let (other, s) = pool_at ''fp-RU'' (remembered now ''fp-NL'' 5 [p])
      in other = [] \<and> fst (pool_at ''fp-NL'' s) = [])"

definition forget_removes_one_keeps_rest :: "int \<Rightarrow> peer_id \<Rightarrow> peer_id \<Rightarrow> bool" where
  "forget_removes_one_keeps_rest now a b =
     (fst (pool_at ''fp'' (sticky_forget_peer 1080 b (remembered now ''fp'' 5 [a, b]))) = [a])"

definition note_direct_address_updates_existing_but_never_adds :: "int \<Rightarrow> peer_id \<Rightarrow> peer_id \<Rightarrow> bool" where
  "note_direct_address_updates_existing_but_never_adds now p hub =
     (let addr = \<lambda>p. [Ip4 ''198.51.100.1'', Tcp 443, P2p p];
          s = sticky_note_direct_address p (addr p) (remembered now ''fp'' 5 [p]);
          noted = sticky_direct_address 1080 p s;
          s = sticky_note_direct_address hub (addr hub) s
      in noted = Some (addr p) \<and> hub \<notin> set (fst (pool_at ''fp'' s)))"

lemmas sticky_test_simps = pool_at_def remembered_def default_sticky_def sticky_pool_of_def
  sticky_remember_def sticky_forget_peer_def sticky_note_direct_address_def sticky_direct_address_def
  take_entry_def extract_Nil_code extract_Cons_code Let_def

lemma sticky_tests_hold:
  "pool_is_empty_when_unknown"
  "distinct [p0, p1, p2, p3] \<Longrightarrow> remember_keeps_mru_first_and_caps now p0 p1 p2 p3"
  "p \<noteq> q \<Longrightarrow> re_remembering_promotes_without_duplicating now p q"
  "fingerprint_mismatch_drops_whole_pool now p"
  "p \<noteq> q \<Longrightarrow> forget_removes_one_keeps_rest now p q"
  "p \<noteq> q \<Longrightarrow> note_direct_address_updates_existing_but_never_adds now p q"
  by (simp_all add: pool_is_empty_when_unknown_def remember_keeps_mru_first_and_caps_def
      re_remembering_promotes_without_duplicating_def fingerprint_mismatch_drops_whole_pool_def
      forget_removes_one_keeps_rest_def note_direct_address_updates_existing_but_never_adds_def
      sticky_test_simps)

section \<open>Streams\<close>

definition unsupported_protocol_is_terminal :: "peer_id \<Rightarrow> bool" where
  "unsupported_protocol_is_terminal peer = is_terminal_for_peer (UnsupportedProtocol peer ''/bitping/tcp/1'')"

definition open_timeout_is_not_terminal :: "peer_id \<Rightarrow> bool" where
  "open_timeout_is_not_terminal peer = (\<not> is_terminal_for_peer (OpenTimeout peer))"

lemma stream_tests_hold: "unsupported_protocol_is_terminal p" "open_timeout_is_not_terminal p"
  by (simp_all add: unsupported_protocol_is_terminal_def open_timeout_is_not_terminal_def)

text \<open>
  The unit tests of the domain hold of the model for every distinct peers they draw, at every
  clock reading: the backoff doubles up to its cap, returns to its start on a reset and treats the
  factor 0 as 1; a circuit goes through the relay and ends in the peer; the routes of a pin are the
  resolved ones and its own; the dial set holds the last peer of each address and never the relay;
  direct routes are told from circuits; the sticky pool keeps its most recent members first, without
  duplicates, is dropped when the filters change, and learns addresses only for its members.
\<close>
theorem core_tests_hold:
  assumes "maddr_laws A" and "distinct [p, q, r, s]"
  shows "grows_exponentially_and_caps \<and> reset_returns_to_initial \<and> factor_zero_is_treated_as_one
     \<and> synthesizes_circuit_through_relay A p \<and> candidate_routes_unions_resolved_and_verbatim p q r
     \<and> dial_set_uses_last_p2p_component p q r \<and> bare_direct_address_must_be_tagged_with_peer_id A p
     \<and> partition_keeps_direct_before_circuit p
     \<and> pool_is_empty_when_unknown \<and> remember_keeps_mru_first_and_caps now p q r s
     \<and> re_remembering_promotes_without_duplicating now p q \<and> fingerprint_mismatch_drops_whole_pool now p
     \<and> forget_removes_one_keeps_rest now p q \<and> note_direct_address_updates_existing_but_never_adds now p q
     \<and> unsupported_protocol_is_terminal p \<and> open_timeout_is_not_terminal p"
  using assms
  by (intro conjI backoff_tests_hold selection_tests_hold sticky_tests_hold stream_tests_hold) simp_all

lemma core_tests_hold_witness:
  "remember_keeps_mru_first_and_caps 7 (PeerId 1) (PeerId 2) (PeerId 3) (PeerId 4)
   \<and> synthesizes_circuit_through_relay list_maddr_api (PeerId 1)"
proof -
  have "distinct [PeerId 1, PeerId 2, PeerId 3, PeerId 4]" by simp
  from core_tests_hold [OF list_maddr_api_laws this, of 7] show ?thesis by blast
qed

end
