(* ===== verification/Connect_Tests.thy ===== *)
theory Connect_Tests
  imports Connect_Props Core_Tests
begin

text \<open>
  The tests of \<open>domain/connect.rs\<close> as runs of the model: each scenario arranges the fakes, runs
  \<open>connect\<close> and makes the assertions of the test. A test draws fresh peers; here the peers are the
  arguments, so a scenario that holds is the test for every choice of them.
\<close>

section \<open>The harness\<close>

definition queue_find :: "(directory_error + pool_peer list) list \<Rightarrow> fake_directory \<Rightarrow> fake_directory" where
  "queue_find responses d = d\<lparr>fd_find_responses := responses\<rparr>"

definition with_resolved :: "(peer_id \<times> multiaddr list) list \<Rightarrow> fake_directory \<Rightarrow> fake_directory" where
  "with_resolved routes d = d\<lparr>fd_resolved := routes\<rparr>"

definition dial_count :: "fake_dialer \<Rightarrow> usize" where
  "dial_count d = length (fl_dialed d)"

text \<open>\<open>FakeClock\<close> and \<open>RecordingSink\<close> are fields of the state.\<close>

definition sleeps :: "(fake_world, 's) conn_state \<Rightarrow> duration list" where
  "sleeps st = fw_slept (cs_world st)"

definition recorded :: "('w, 's) conn_state \<Rightarrow> events list" where
  "recorded st = cs_events st"

definition errors :: "('w, 's) conn_state \<Rightarrow> string list" where
  "errors st = List.map_filter (\<lambda>e. case e of ErrorEvent m \<Rightarrow> Some m | _ \<Rightarrow> None) (recorded st)"

definition run ::
    "server \<Rightarrow> peer_id option \<Rightarrow> fake_directory \<Rightarrow> fake_dialer \<Rightarrow> peer_id list \<times> multiaddr list
     \<Rightarrow> sticky_state \<Rightarrow> (connect_error + connected_destination) \<times> (fake_world, sticky_state) conn_state" where
  "run server avoid dir dl orders sticky =
     connect (sample_ctx\<lparr>cx_ports := fake_ports\<rparr>) server avoid
       (start \<lparr>fw_directory = dir, fw_dialer = dl, fw_slept = [], fw_now = 0,
               fw_peer_order = fst orders, fw_address_order = snd orders\<rparr> sticky)"

definition candidate :: "peer_id \<Rightarrow> pool_peer" where
  "candidate p = \<lparr>pp_peer_id = p, pp_addresses = [direct_addr p]\<rparr>"

definition find_calls :: "(fake_world, 's) conn_state \<Rightarrow> usize" where
  "find_calls st = fd_find_calls (fw_directory (cs_world st))"

definition dials :: "(fake_world, 's) conn_state \<Rightarrow> usize" where
  "dials st = dial_count (fw_dialer (cs_world st))"

definition pool_now :: "server \<Rightarrow> ('w, sticky_state) conn_state \<Rightarrow> peer_id list" where
  "pool_now server st =
     fst (sticky_pool_of 1080 (filter_fingerprint (srv_peer_options server) 1080) (cs_sticky st))"

definition remembering :: "server \<Rightarrow> peer_id \<Rightarrow> sticky_state" where
  "remembering server p =
     snd (sticky_remember 0 1080 (filter_fingerprint (srv_peer_options server) 1080) p 5 default_sticky)"

section \<open>Scenarios\<close>

definition discovered_adopts_and_remembers :: "peer_id \<Rightarrow> bool" where
  "discovered_adopts_and_remembers p =
     (let server = discovery_server 1080;
          dir = queue_find [Inr [candidate p]] fake_directory_new;
          dl = fake_dialer_reachable {p}
      in case run server None dir dl ([p], []) default_sticky of
           (dest, st) \<Rightarrow>
             dest = Inr \<lparr>cd_peer = p, cd_source = Discovered\<rparr> \<and> pool_now server st = [p]
             \<and> list_ex (\<lambda>e. case e of ServerPool _ _ \<Rightarrow> True | _ \<Rightarrow> False) (recorded st))"

definition direct_route_preferred_over_relay_circuit :: "peer_id \<Rightarrow> bool" where
  "direct_route_preferred_over_relay_circuit p =
     (let server = discovery_server 1080;
          direct = direct_addr p;
          circuit = [Dns4 ''boot.example.com'', Tcp 45445, P2pCircuit, P2p p];
          both = \<lparr>pp_peer_id = p, pp_addresses = [direct, circuit]\<rparr>;
          dir = queue_find [Inr [both]] fake_directory_new;
          dl = fake_dialer_reachable_addresses {direct}
      in case run server None dir dl ([], [direct, circuit]) default_sticky of
           (dest, st) \<Rightarrow> dest = Inr \<lparr>cd_peer = p, cd_source = Discovered\<rparr> \<and> dials st = 1)"

definition discovery_retries_until_candidates_appear :: "peer_id \<Rightarrow> bool" where
  "discovery_retries_until_candidates_appear p =
     (let server = discovery_server 1080;
          dir = queue_find [Inr [], Inr [candidate p]] fake_directory_new;
          dl = fake_dialer_reachable {p}
      in case run server None dir dl ([p], []) default_sticky of
           (dest, st) \<Rightarrow>
             dest = Inr \<lparr>cd_peer = p, cd_source = Discovered\<rparr> \<and> 2 \<le> find_calls st
             \<and> from_secs 1 \<in> set (sleeps st))"

definition discovery_exhausts_and_reports_error :: bool where
  "discovery_exhausts_and_reports_error =
     (case run (discovery_server 1080) None fake_directory_new fake_dialer_new ([], []) default_sticky of
        (res, st) \<Rightarrow>
          (case res of Inl (DiscoveryExhausted port _) \<Rightarrow> port = 1080 | _ \<Rightarrow> False)
          \<and> find_calls st = MAX_DISCOVERY_ATTEMPTS \<and> errors st \<noteq> [])"

text \<open>The peer is remembered without an address and the hub answers without a route to it.\<close>

definition reconnects :: "peer_id \<Rightarrow> fake_directory \<Rightarrow> fake_dialer \<Rightarrow> multiaddr list \<Rightarrow> sticky_state
    \<Rightarrow> bool \<times> (fake_world, sticky_state) conn_state" where
  "reconnects p dir dl address_order sticky =
     (case run (discovery_server 1080) None dir dl ([p], address_order) sticky of
        (dest, st) \<Rightarrow> (dest = Inr \<lparr>cd_peer = p, cd_source = Sticky\<rparr>, st))"

definition sticky_pool_falls_back_to_relay_circuit_on_transient_hub_failure :: "peer_id \<Rightarrow> bool" where
  "sticky_pool_falls_back_to_relay_circuit_on_transient_hub_failure p =
     (case reconnects p fake_directory_new (fake_dialer_reachable {p}) []
             (remembering (discovery_server 1080) p) of
        (ok, st) \<Rightarrow> ok \<and> find_calls st = 0)"

definition sticky_pool_reconnects_using_remembered_direct_address :: "peer_id \<Rightarrow> bool" where
  "sticky_pool_reconnects_using_remembered_direct_address p =
     (let sticky = sticky_note_direct_address p (direct_addr p) (remembering (discovery_server 1080) p)
      in case reconnects p fake_directory_new (fake_dialer_reachable {p}) [] sticky of
           (ok, st) \<Rightarrow> ok \<and> find_calls st = 0 \<and> dials st = 1)"

definition stale_remembered_direct_does_not_block_a_fresh_route :: "peer_id \<Rightarrow> bool" where
  "stale_remembered_direct_does_not_block_a_fresh_route p =
     (let stale = [Ip4 ''203.0.113.7'', Tcp 9, P2p p];
          fresh = direct_addr p;
          sticky = sticky_note_direct_address p stale (remembering (discovery_server 1080) p);
          dir = with_resolved [(p, [fresh])] fake_directory_new
      in case reconnects p dir (fake_dialer_reachable_addresses {fresh}) [stale, fresh] sticky of
           (ok, st) \<Rightarrow> ok \<and> dials st = 1)"

definition unsupported_resolve_falls_back_to_circuit :: "peer_id \<Rightarrow> bool" where
  "unsupported_resolve_falls_back_to_circuit p =
     (case reconnects p fake_directory_unsupported (fake_dialer_reachable {p}) []
             (remembering (discovery_server 1080) p) of
        (ok, st) \<Rightarrow> ok \<and> find_calls st = 0)"

definition sticky_reconnect_backs_off_then_forgets_and_discovers :: "peer_id \<Rightarrow> peer_id \<Rightarrow> bool" where
  "sticky_reconnect_backs_off_then_forgets_and_discovers old fresh =
     (let server = discovery_server 1080;
          dir = queue_find [Inr [candidate fresh]] fake_directory_new;
          dl = fake_dialer_reachable {fresh}
      in case run server (Some old) dir dl ([old, fresh], []) (remembering server old) of
           (dest, st) \<Rightarrow>
             dest = Inr \<lparr>cd_peer = fresh, cd_source = Discovered\<rparr> \<and> pool_now server st = [fresh]
             \<and> take 2 (sleeps st) = [from_secs 1, from_secs 2])"

definition pinned_rank0_wins_when_reachable :: "peer_id \<Rightarrow> peer_id \<Rightarrow> bool" where
  "pinned_rank0_wins_when_reachable a b =
     (let dir = with_resolved [(a, [direct_addr a])] fake_directory_new
      in case run (pinned_server 1080 [a, b]) None dir (fake_dialer_reachable {a}) ([a, b], []) default_sticky of
           (dest, st) \<Rightarrow>
             dest = Inr \<lparr>cd_peer = a, cd_source = Pinned 0\<rparr>
             \<and> list_ex (\<lambda>e. case e of PinnedPeerStatuses _ _ \<Rightarrow> True | _ \<Rightarrow> False) (recorded st))"

definition pinned_fails_over_to_rank1 :: "peer_id \<Rightarrow> peer_id \<Rightarrow> bool" where
  "pinned_fails_over_to_rank1 a b =
     (let dir = with_resolved [(a, [direct_addr a]), (b, [direct_addr b])] fake_directory_new
      in case run (pinned_server 1080 [a, b]) None dir (fake_dialer_reachable {b}) ([a, b], []) default_sticky of
           (dest, st) \<Rightarrow> dest = Inr \<lparr>cd_peer = b, cd_source = Pinned 1\<rparr>)"

definition hard_pin_exhausts_without_silently_discovering :: "peer_id \<Rightarrow> bool" where
  "hard_pin_exhausts_without_silently_discovering a =
     (case run (pinned_server 1080 [a]) None fake_directory_new fake_dialer_new ([a], []) default_sticky of
        (res, st) \<Rightarrow>
          res = Inl (PinnedExhausted 1080 1) \<and> length (sleeps st) = MAX_PINNED_PASSES \<and> errors st \<noteq> [])"

definition pinned_falls_back_to_discovery_when_opted_in :: "peer_id \<Rightarrow> peer_id \<Rightarrow> bool" where
  "pinned_falls_back_to_discovery_when_opted_in a fresh =
     (let server = pinned_server 1080 [a];
          server = server\<lparr>srv_peer_options := (srv_peer_options server)\<lparr>opt_fallback_to_discovery := True\<rparr>\<rparr>;
          dir = queue_find [Inr [candidate fresh]] fake_directory_new
      in case run server None dir (fake_dialer_reachable {fresh}) ([a, fresh], []) default_sticky of
           (dest, st) \<Rightarrow> dest = Inr \<lparr>cd_peer = fresh, cd_source = Discovered\<rparr>)"

section \<open>Evaluation rules\<close>

lemmas scenario_simps = run_def start_def queue_find_def with_resolved_def dial_count_def sleeps_def
  errors_def recorded_def candidate_def find_calls_def dials_def pool_now_def remembering_def Let_def
  fake_directory_new_def fake_directory_unsupported_def fake_dialer_new_def fake_dialer_reachable_def
  fake_dialer_reachable_addresses_def discovery_server_def options_def sample_ctx_def fake_ports_def
  fake_resolve_peers_def fake_find_nodes_def fake_dial_and_wait_def fake_is_connected_def
  reconnects_def pinned_server_def direct_addr_def relay_addr_def default_pool_config_def pinned_def

lemmas loops_numeral =
  discovery_loop.simps(2) [where left = "pred_numeral k" for k, folded numeral_eq_Suc]
  pinned_passes.simps(2) [where left = "pred_numeral k" for k, folded numeral_eq_Suc]
  reconnect_loop.simps(2) [where left = "pred_numeral k" for k, folded numeral_eq_Suc]

lemmas flow_simps = connect_def connect_discovered_def pool_then_discovery_def connect_sticky_pool_def
  run_discovery_def discovery_loop.simps pool_loop.simps candidate_addresses_def dial_def dial_set_def
  partition_direct_first_eval destination_peer_ids_eval last_p2p_def p2p_component_def
  List.map_filter_def emit_def sleep_for_def remember_def forget_def try_reach_peer_def
  resolve_routes_def synthesize_circuit_def list_maddr_api_def opt_list_def sticky_destination_def
  reconnect_sticky_peer_def connect_pinned_def rank_loop.simps adopt_best_pinned_rank_def
  pinned_statuses_def candidate_routes_def next_delay_def backoff_new_def
  MAX_DISCOVERY_ATTEMPTS_def MAX_PINNED_PASSES_def STICKY_RECONNECT_ATTEMPTS_def
  Set.is_empty_iff loops_numeral

lemmas store_simps = state_store_def default_sticky_def sticky_pool_of_def sticky_remember_def take_entry_def
  sticky_direct_address_def sticky_note_direct_address_def sticky_forget_peer_def
  extract_Nil_code extract_Cons_code

lemma discovered_adopts_and_remembers_holds: "discovered_adopts_and_remembers p"
  by (simp add: discovered_adopts_and_remembers_def scenario_simps flow_simps store_simps)

lemma direct_route_preferred_over_relay_circuit_holds: "direct_route_preferred_over_relay_circuit p"
  by (simp add: direct_route_preferred_over_relay_circuit_def scenario_simps flow_simps store_simps)

lemma discovery_retries_until_candidates_appear_holds: "discovery_retries_until_candidates_appear p"
  by (simp add: discovery_retries_until_candidates_appear_def scenario_simps flow_simps store_simps)

lemma discovery_exhausts_and_reports_error_holds: "discovery_exhausts_and_reports_error"
  by (simp add: discovery_exhausts_and_reports_error_def scenario_simps flow_simps store_simps)

lemma sticky_pool_falls_back_to_relay_circuit_on_transient_hub_failure_holds: "sticky_pool_falls_back_to_relay_circuit_on_transient_hub_failure p"
  by (simp add: sticky_pool_falls_back_to_relay_circuit_on_transient_hub_failure_def scenario_simps flow_simps store_simps)

lemma sticky_pool_reconnects_using_remembered_direct_address_holds: "sticky_pool_reconnects_using_remembered_direct_address p"
  by (simp add: sticky_pool_reconnects_using_remembered_direct_address_def scenario_simps flow_simps store_simps)

lemma stale_remembered_direct_does_not_block_a_fresh_route_holds: "stale_remembered_direct_does_not_block_a_fresh_route p"
  by (simp add: stale_remembered_direct_does_not_block_a_fresh_route_def scenario_simps flow_simps store_simps)

lemma unsupported_resolve_falls_back_to_circuit_holds: "unsupported_resolve_falls_back_to_circuit p"
  by (simp add: unsupported_resolve_falls_back_to_circuit_def scenario_simps flow_simps store_simps)

lemma sticky_reconnect_backs_off_then_forgets_and_discovers_holds: "old \<noteq> fresh \<Longrightarrow> sticky_reconnect_backs_off_then_forgets_and_discovers old fresh"
  by (simp add: sticky_reconnect_backs_off_then_forgets_and_discovers_def scenario_simps flow_simps store_simps
      saturating_mul_def from_secs_def duration_max_def min_def)

lemma pinned_rank0_wins_when_reachable_holds: "pinned_rank0_wins_when_reachable a b"
  by (simp add: pinned_rank0_wins_when_reachable_def scenario_simps flow_simps store_simps)

lemma pinned_fails_over_to_rank1_holds: "a \<noteq> b \<Longrightarrow> pinned_fails_over_to_rank1 a b"
  by (simp add: pinned_fails_over_to_rank1_def scenario_simps flow_simps store_simps)

lemma hard_pin_exhausts_without_silently_discovering_holds: "hard_pin_exhausts_without_silently_discovering a"
  by (simp add: hard_pin_exhausts_without_silently_discovering_def scenario_simps flow_simps store_simps)

lemma pinned_falls_back_to_discovery_when_opted_in_holds: "a \<noteq> fresh \<Longrightarrow> pinned_falls_back_to_discovery_when_opted_in a fresh"
  by (simp add: pinned_falls_back_to_discovery_when_opted_in_def scenario_simps flow_simps store_simps)



end
