(* ===== verification/Discovery_Tests.thy ===== *)
theory Discovery_Tests
  imports Discovery_Switch Connect_Tests
begin

text \<open>
  The tests of \<open>runtime/discovery/actor.rs\<close> as runs of the model: the discovery actor handles one
  event against a stand-in for the network, with the file-backed store loaded from an empty
  directory. A test draws fresh peers; here the exits are arguments, and so are the JSON codec and
  the wall clock.
\<close>

section \<open>The harness\<close>

definition test_config :: config where
  "test_config = \<lparr>cfg_servers = [discovery_server 1080], cfg_listen_addrs = Some [SockV4 0 0],
     cfg_port = None, cfg_log_level = None, cfg_bitping_api_key = ''test-key'',
     cfg_bootstrap_address = [Dnsaddr ''boot2.bitping.com''],
     cfg_grpc_url = ''https://grpc.bitping.com'', cfg_keypair_path = ''node_keypair.bin'',
     cfg_metrics_port = 9091\<rparr>"

text \<open>
  The answers of the stand-in: every search finds the exit, a dial reaches it when it is one of the
  dialed destinations, nothing resolves and nothing is connected already.
\<close>

definition fake_network :: "peer_id \<Rightarrow> multiaddr \<Rightarrow> int ports" where
  "fake_network exit addr =
     \<lparr>port_resolve_peers = (\<lambda>peers w. (Inr [], w)),
      port_find_nodes = (\<lambda>server limit w. (Inr [\<lparr>pp_peer_id = exit, pp_addresses = [addr]\<rparr>], w)),
      port_dial_and_wait = (\<lambda>A w. (Inr (if exit \<in> destination_peer_ids A then Some exit else None), w)),
      port_is_connected = (\<lambda>p w. (False, w)),
      port_sleep = (\<lambda>d w. w),
      port_utc_now = (\<lambda>w. w)\<rparr>"

definition discovery_test_context :: "json_codec \<Rightarrow> int ports \<Rightarrow> (int, file_sticky) discovery_ctx" where
  "discovery_test_context J net =
     \<lparr>dx_config = test_config,
      dx_connect = \<lparr>cx_ports = net, cx_store = file_store J, cx_relay_address = relay_addr,
                    cx_maddr = list_maddr_api, cx_text = sample_text_api\<rparr>,
      dx_now = (\<lambda>w. 0)\<rparr>"

definition empty_store :: "json_codec \<Rightarrow> file_sticky" where
  "empty_store J = load J (FilePath ''sticky'' ''json'')
     \<lparr>disk_files = Map.empty, disk_script = [], disk_unreadable = {}\<rparr>"

definition actor_with :: "int \<Rightarrow> file_sticky \<Rightarrow> peer_id option \<Rightarrow> (int, file_sticky) discovery_actor" where
  "actor_with now store destination = discovery_actor_new (start now store) [(1080, destination)]"

definition destination_of :: "('w, 's) discovery_actor \<Rightarrow> peer_id option" where
  "destination_of a = Option.bind (map_of (da_destinations a) 1080) (\<lambda>h. h)"

definition sent :: "('w, 's) discovery_actor \<Rightarrow> events list" where
  "sent a = cs_events (da_env a)"

section \<open>Scenarios\<close>

definition discovery_actor_adopts_a_discovered_peer :: "json_codec \<Rightarrow> int \<Rightarrow> peer_id \<Rightarrow> bool" where
  "discovery_actor_adopts_a_discovered_peer J now exit =
     (let X = discovery_test_context J (fake_network exit (direct_addr exit));
          actor = actor_with now (empty_store J) None;
          (_, actor) = discovery_handle X (DiscoverFor 1080) actor
      in destination_of actor = Some exit
         \<and> list_ex (\<lambda>e. case e of ActiveDestination _ (Some p) _ \<Rightarrow> p = exit | _ \<Rightarrow> False) (sent actor)
         \<and> list_ex (\<lambda>e. case e of StickyPool port peers \<Rightarrow>
               port = 1080 \<and> list_ex (\<lambda>pp. pp_peer_id pp = exit) peers | _ \<Rightarrow> False) (sent actor))"

text \<open>The two rotation tests differ in the connection that comes up.\<close>

definition after_connection :: "json_codec \<Rightarrow> int \<Rightarrow> peer_id \<Rightarrow> peer_id \<Rightarrow> bool \<Rightarrow> peer_id option" where
  "after_connection J now relay_peer other relayed =
     (let X = discovery_test_context J (fake_network other (direct_addr other));
          fp = filter_fingerprint (srv_peer_options (hd (cfg_servers test_config))) 1080;
          (_, store) = file_remember J now 1080 fp other 10 (empty_store J);
          actor = actor_with now store (Some relay_peer);
          (_, actor) = discovery_handle X (PeerConnected other (direct_addr other) relayed) actor
      in destination_of actor)"

definition relay_stuck_active_rotates_to_direct_peer :: "json_codec \<Rightarrow> int \<Rightarrow> peer_id \<Rightarrow> peer_id \<Rightarrow> bool" where
  "relay_stuck_active_rotates_to_direct_peer J now relay_peer direct_peer =
     (after_connection J now relay_peer direct_peer False = Some direct_peer)"

definition relayed_connection_does_not_rotate :: "json_codec \<Rightarrow> int \<Rightarrow> peer_id \<Rightarrow> peer_id \<Rightarrow> bool" where
  "relayed_connection_does_not_rotate J now relay_peer other_peer =
     (after_connection J now relay_peer other_peer True = Some relay_peer)"

definition select_peer_switches_active_destination :: "json_codec \<Rightarrow> int \<Rightarrow> peer_id \<Rightarrow> bool" where
  "select_peer_switches_active_destination J now exit =
     (let X = discovery_test_context J (fake_network exit (direct_addr exit));
          actor = actor_with now (empty_store J) None;
          (_, actor) = discovery_handle X (SelectPeer 1080 exit) actor
      in destination_of actor = Some exit
         \<and> list_ex (\<lambda>e. case e of ActiveDestination _ (Some p) (Some Manual) \<Rightarrow> p = exit | _ \<Rightarrow> False)
             (sent actor))"

section \<open>They hold of the model\<close>

lemma empty_store_state: "fst_state (empty_store J) = \<lparr>st_pools = Map.empty\<rparr>"
  by (simp add: empty_store_def load_def fs_read_def Let_def)

lemmas harness_simps = discovery_test_context_def fake_network_def test_config_def
  actor_with_def destination_of_def sent_def after_connection_def discovery_actor_new_def
  empty_store_state

lemmas actor_simps = discover_def server_for_def discovery_connect_def emit_sticky_pool_def
  set_destination_def send_event_def store_destination_def select_peer_def reach_specific_peer_def
  adopt_specific_def with_sticky_def rotate_off_relay_if_better_def relay_stuck_def rotate_port_def
  promote_direct_def file_pool_def file_remember_def file_snapshot_def file_direct_address_def
  file_note_direct_address_def sticky_snapshot_def

lemma discovery_actor_adopts_a_discovered_peer_holds: "discovery_actor_adopts_a_discovered_peer J now exit"
  by (simp add: discovery_actor_adopts_a_discovered_peer_def harness_simps actor_simps scenario_simps
      flow_simps store_simps)

lemma relay_stuck_active_rotates_to_direct_peer_holds:
  "r \<noteq> d \<Longrightarrow> relay_stuck_active_rotates_to_direct_peer J now r d"
  by (simp add: relay_stuck_active_rotates_to_direct_peer_def harness_simps actor_simps scenario_simps
      flow_simps store_simps)

lemma relayed_connection_does_not_rotate_holds: "relayed_connection_does_not_rotate J now r p"
  by (simp add: relayed_connection_does_not_rotate_def harness_simps actor_simps scenario_simps
      flow_simps store_simps)

lemma select_peer_switches_active_destination_holds: "select_peer_switches_active_destination J now exit"
  by (simp add: select_peer_switches_active_destination_def harness_simps actor_simps scenario_simps
      flow_simps store_simps)

text \<open>
  The scenarios of the test module of the discovery actor hold of the model, for every JSON
  codec, clock reading and pair of distinct exits: a discovered exit is adopted, announced and
  shown in the sticky pool; an active exit that is only relayed gives way to a pool member that
  comes up directly, and not to one that comes up over a relay; a hand-picked exit is adopted as
  manual.
\<close>
theorem discovery_tests_hold:
  assumes "p \<noteq> q"
  shows "discovery_actor_adopts_a_discovered_peer J now p
     \<and> relay_stuck_active_rotates_to_direct_peer J now p q
     \<and> relayed_connection_does_not_rotate J now p q
     \<and> select_peer_switches_active_destination J now p"
  using assms
  by (simp add: discovery_actor_adopts_a_discovered_peer_holds relay_stuck_active_rotates_to_direct_peer_holds
      relayed_connection_does_not_rotate_holds select_peer_switches_active_destination_holds)

lemma discovery_tests_hold_witness:
  "relay_stuck_active_rotates_to_direct_peer sample_codec 7 (PeerId 1) (PeerId 2)"
  using discovery_tests_hold [of "PeerId 1" "PeerId 2" sample_codec 7] by simp

end
