(* ===== verification/Ui_Run.thy ===== *)
theory Ui_Run
  imports System
begin

text \<open>
  \<open>run_ui\<close> (\<open>tui/mod.rs\<close>): setting the terminal up, the splash screen, the loop over ticks,
  events, keys and the wheel with its repaint, and giving the terminal back. What the terminal and
  the other sources deliver is the argument: a turn is its input, the time and the outcome of the
  repaint that follows it.
\<close>

section \<open>The terminal\<close>

record terminal =
  tm_raw_mode :: bool
  tm_alternate_screen :: bool
  tm_mouse_capture :: bool

definition cooked :: terminal where
  "cooked = \<lparr>tm_raw_mode = False, tm_alternate_screen = False, tm_mouse_capture = False\<rparr>"

text \<open>The operations that took effect; \<open>DrawSplash\<close> stands for all the frames of the splash.\<close>

datatype terminal_op =
    EnableRawMode | EnterScreen | DrawSplash | DrawUi | DrawShuttingDown | Pause duration
  | DisableRawMode | LeaveScreen | ShowCursor

fun apply_op :: "terminal_op \<Rightarrow> terminal \<Rightarrow> terminal" where
  "apply_op EnableRawMode t = t\<lparr>tm_raw_mode := True\<rparr>"
| "apply_op EnterScreen t = t\<lparr>tm_alternate_screen := True, tm_mouse_capture := True\<rparr>"
| "apply_op DisableRawMode t = t\<lparr>tm_raw_mode := False\<rparr>"
| "apply_op LeaveScreen t = t\<lparr>tm_alternate_screen := False, tm_mouse_capture := False\<rparr>"
| "apply_op _ t = t"

definition apply_ops :: "terminal_op list \<Rightarrow> terminal \<Rightarrow> terminal" where
  "apply_ops ops t = fold apply_op ops t"

text \<open>What the calls outside the loop answer.\<close>

record terminal_io =
  ti_enable_raw_mode :: "string + unit"
  ti_enter_screen :: "string + unit"
  ti_new :: "string + unit"
  ti_first_draw :: "string + unit"
  ti_disable_raw_mode :: "string + unit"
  ti_leave_screen :: "string + unit"
  ti_show_cursor :: "string + unit"

section \<open>The loop\<close>

datatype ui_input =
    ShutdownCancelled
  | IdleTick
  | SwarmEvents int events
  | KeyEvent key
  | MouseEvent wheel
  | OtherTerminalEvent

record ui_turn =
  tn_input :: ui_input
  tn_now :: duration
  tn_drawn :: "string + unit"

fun ui_input_step ::
    "('p, 'l) widgets \<Rightarrow> duration \<Rightarrow> ui_input \<Rightarrow> ('p, 'l) ui \<Rightarrow> key_outcome \<times> ('p, 'l) ui" where
  "ui_input_step W now ShutdownCancelled u = (Quit, u)"
| "ui_input_step W now IdleTick u = (Stay, mark_dirty u)"
| "ui_input_step W now (SwarmEvents t e) u = (Stay, handle_swarm_events t e u)"
| "ui_input_step W now (KeyEvent code) u = handle_key W now code u"
| "ui_input_step W now (MouseEvent w) u = (Stay, handle_mouse W w u)"
| "ui_input_step W now OtherTerminalEvent u = (Stay, u)"

text \<open>The selections are the tasks spawned to tell the discovery actor.\<close>

fun selected :: "key_outcome \<Rightarrow> discovery_event list" where
  "selected (Select port peer) = [SelectPeer port peer]"
| "selected _ = []"

datatype loop_end = LoopRunning | LoopBroken | LoopFailed string

fun ui_loop ::
    "('p, 'l) widgets \<Rightarrow> ui_turn list \<Rightarrow> ('p, 'l) ui \<Rightarrow> terminal_op list \<times> discovery_event list \<times> ('p, 'l) ui \<times> loop_end" where
  "ui_loop W [] u = ([], [], u, LoopRunning)"
| "ui_loop W (turn # turns) u =
     (case ui_input_step W (tn_now turn) (tn_input turn) u of
        (Quit, u) \<Rightarrow> ([], [], u, LoopBroken)
      | (outcome, u) \<Rightarrow>
          (if ui_needs_render u \<or> ui_is_animating u then
             (case tn_drawn turn of
                Inl e \<Rightarrow> ([], selected outcome, u, LoopFailed e)
              | Inr _ \<Rightarrow>
                  (case ui_loop W turns (render_state (tn_now turn) u) of
                     (ops, sent, rest) \<Rightarrow> (DrawUi # ops, selected outcome @ sent, rest)))
           else
             (case ui_loop W turns u of (ops, sent, rest) \<Rightarrow> (ops, selected outcome @ sent, rest))))"

section \<open>run_ui\<close>

text \<open>The way back: the last frame may fail, each of the other calls ends the function.\<close>

definition from_millis :: "nat \<Rightarrow> duration" where
  "from_millis n = n * 1000000"

definition restore_terminal :: "terminal_io \<Rightarrow> terminal_op list \<times> (string + unit)" where
  "restore_terminal io =
     (let shown = [DrawShuttingDown, Pause (from_millis 400)]
      in case ti_disable_raw_mode io of
           Inl e \<Rightarrow> (shown, Inl e)
         | Inr _ \<Rightarrow>
             (case ti_leave_screen io of
                Inl e \<Rightarrow> (shown @ [DisableRawMode], Inl e)
              | Inr _ \<Rightarrow>
                  (case ti_show_cursor io of
                     Inl e \<Rightarrow> (shown @ [DisableRawMode, LeaveScreen], Inl e)
                   | Inr _ \<Rightarrow> (shown @ [DisableRawMode, LeaveScreen, ShowCursor], Inr ()))))"

text \<open>The result is \<open>None\<close> while the loop runs.\<close>

definition run_ui ::
    "('p, 'l) widgets \<Rightarrow> terminal_io \<Rightarrow> 'p \<Rightarrow> 'l \<Rightarrow> config \<Rightarrow> duration \<Rightarrow> ui_turn list
     \<Rightarrow> terminal_op list \<times> discovery_event list \<times> (string + unit) option" where
  "run_ui W io prompt log config started turns =
     (case ti_enable_raw_mode io of
        Inl e \<Rightarrow> ([], [], Some (Inl e))
      | Inr _ \<Rightarrow>
     (case ti_enter_screen io of
        Inl e \<Rightarrow> ([EnableRawMode], [], Some (Inl e))
      | Inr _ \<Rightarrow>
     (case ti_new io of
        Inl e \<Rightarrow> ([EnableRawMode, EnterScreen], [], Some (Inl e))
      | Inr _ \<Rightarrow>
     (case ti_first_draw io of
        Inl e \<Rightarrow> ([EnableRawMode, EnterScreen, DrawSplash], [], Some (Inl e))
      | Inr _ \<Rightarrow>
          (let up = [EnableRawMode, EnterScreen, DrawSplash, DrawUi]
           in case ui_loop W turns (render_state started (ui_new prompt log config)) of
                (ops, sent, _, LoopRunning) \<Rightarrow> (up @ ops, sent, None)
              | (ops, sent, _, LoopFailed e) \<Rightarrow> (up @ ops, sent, Some (Inl e))
              | (ops, sent, _, LoopBroken) \<Rightarrow>
                  (case restore_terminal io of (down, result) \<Rightarrow> (up @ ops @ down, sent, Some result)))))))"

section \<open>What the loop keeps\<close>

text \<open>
  A reading of the UI that no operation writes: the fields they do write are the ten of the laws,
  so it is the same in every state the UI reaches.
\<close>

locale ui_constant =
  fixes f :: "('p, 'l) ui \<Rightarrow> 'a"
  assumes update_laws [simp]:
    "\<And>u x. f (u\<lparr>ui_show_logs := x\<rparr>) = f u"
    "\<And>u x. f (u\<lparr>ui_tab_index := x\<rparr>) = f u"
    "\<And>u x. f (u\<lparr>ui_needs_render := x\<rparr>) = f u"
    "\<And>u x. f (u\<lparr>ui_state := x\<rparr>) = f u"
    "\<And>u x. f (u\<lparr>ui_log_state := x\<rparr>) = f u"
    "\<And>u x. f (u\<lparr>ui_export_prompt := x\<rparr>) = f u"
    "\<And>u x. f (u\<lparr>ui_network_selected_idx := x\<rparr>) = f u"
    "\<And>u x. f (u\<lparr>ui_network_expanded := x\<rparr>) = f u"
    "\<And>u x. f (u\<lparr>ui_network_peer_cursor := x\<rparr>) = f u"
    "\<And>u x. f (u\<lparr>ui_network_pending_selection := x\<rparr>) = f u"
begin

lemma nav [simp]:
  "f (mark_dirty u) = f u" "f (toggle_logs u) = f u" "f (next_tab u) = f u" "f (previous_tab u) = f u"
  "f (network_up u) = f u" "f (network_down u) = f u" "f (network_toggle_expand_selected u) = f u"
  "f (network_enter_peer_focus u) = f u" "f (network_exit_peer_focus u) = f u"
  by (simp_all add: mark_dirty_def toggle_logs_def next_tab_def previous_tab_def network_up_def
      network_down_def network_cursor_step_def network_select_prev_def network_select_next_def
      network_toggle_expand_selected_def network_enter_peer_focus_def network_exit_peer_focus_def
      Let_def split: option.split)

lemma enter: "network_enter u = (picked, v) \<Longrightarrow> f v = f u"
  by (auto simp: network_enter_def Let_def split: option.splits if_splits)

lemma dispatch [simp]: "f (snd (dispatch_key W now code u)) = f u"
  by (cases code) (auto simp: on_network_tab_def press_enter_def split: prod.split option.split dest: enter)

lemma handle_key [simp]: "f (snd (handle_key W now code u)) = f u"
proof -
  obtain prompt where "prompt_key W code (mark_dirty u) = (mark_dirty u)\<lparr>ui_export_prompt := prompt\<rparr>"
    using prompt_key_frame [of W code "mark_dirty u"] by blast
  then show ?thesis by (auto simp: handle_key_def Let_def scroll_logs_def split: option.split)
qed

lemma handle_mouse [simp]: "f (handle_mouse W w u) = f u"
  by (cases w) (simp_all add: handle_mouse_def)

lemma handle_swarm_events [simp]: "f (handle_swarm_events t e u) = f u"
  by (simp add: handle_swarm_events_def)

lemma input_step [simp]: "f (snd (ui_input_step W now input u)) = f u"
  by (cases input) simp_all

lemma render_state [simp]: "f (render_state now u) = f u"
  by (simp add: render_state_def mark_clean_def)

lemma step: "ui_step W u v \<Longrightarrow> f v = f u"
  by (cases rule: ui_step.cases) auto

lemma reachable: "(ui_step W)\<^sup>*\<^sup>* u v \<Longrightarrow> f v = f u"
  by (induction rule: rtranclp_induct) (auto dest: step)

end

interpretation tabs: ui_constant ui_tabs
  by unfold_locales simp_all

interpretation animating: ui_constant ui_is_animating
  by unfold_locales simp_all

interpretation configured: ui_constant servers_of
  by unfold_locales simp_all

text \<open>A turn of the loop is steps of the UI.\<close>

lemma input_step_reaches: "(ui_step W)\<^sup>*\<^sup>* u (snd (ui_input_step W now input u))"
  by (cases input) (auto intro: ui_step.intros r_into_rtranclp)

lemma selected_iff [simp]: "e \<in> set (selected outcome) \<longleftrightarrow> (\<exists>port peer. outcome = Select port peer \<and> e = SelectPeer port peer)"
  by (cases outcome) auto

lemma input_step_selects:
  "fst (ui_input_step W now input u) = Select port peer \<Longrightarrow>
     \<exists>code. input = KeyEvent code \<and> fst (handle_key W now code u) = Select port peer"
  by (cases input) simp_all

text \<open>What a selection sent from a state \<open>u\<close> on refers to.\<close>

definition shown_later :: "('p, 'l) widgets \<Rightarrow> ('p, 'l) ui \<Rightarrow> discovery_event \<Rightarrow> bool" where
  "shown_later W u e \<longleftrightarrow> (\<exists>port peer v. e = SelectPeer port peer \<and> (ui_step W)\<^sup>*\<^sup>* u v
     \<and> port \<in> srv_port ` set (servers_of v) \<and> port \<in> ui_network_expanded v
     \<and> peer \<in> set (ordered_pool_for port (ui_state v)))"

lemma shown_later_mono:
  assumes "(ui_step W)\<^sup>*\<^sup>* u v" and "shown_later W v e"
  shows "shown_later W u e"
proof -
  from assms(2) obtain port peer w where w: "e = SelectPeer port peer" "(ui_step W)\<^sup>*\<^sup>* v w"
    "port \<in> srv_port ` set (servers_of w)" "port \<in> ui_network_expanded w"
    "peer \<in> set (ordered_pool_for port (ui_state w))" unfolding shown_later_def by blast
  from assms(1) w(2) have "(ui_step W)\<^sup>*\<^sup>* u w" by (rule rtranclp_trans)
  with w show ?thesis unfolding shown_later_def by blast
qed

lemma ui_loop_selects:
  assumes "e \<in> set (fst (snd (ui_loop W turns u)))" and "nav_ok u"
  shows "shown_later W u e"
  using assms
proof (induction turns arbitrary: u)
  case (Cons turn turns)
  obtain outcome v where step: "ui_input_step W (tn_now turn) (tn_input turn) u = (outcome, v)" by fastforce
  have to_v: "(ui_step W)\<^sup>*\<^sup>* u v" by (metis input_step_reaches step snd_conv)
  then have nav: "nav_ok v" using Cons.prems(2) by (rule nav_reachable)
  have painted: "(ui_step W)\<^sup>*\<^sup>* v (render_state (tn_now turn) v)"
    by (rule r_into_rtranclp) (rule ui_step.intros)
  note later = Cons.IH [OF _ nav] Cons.IH [OF _ nav_reachable [OF painted nav]]
  have "e \<in> set (selected outcome)
      \<or> e \<in> set (fst (snd (ui_loop W turns v)))
      \<or> e \<in> set (fst (snd (ui_loop W turns (render_state (tn_now turn) v))))"
    using Cons.prems(1) step
    by (cases outcome) (auto split: if_splits sum.splits prod.splits)
  then show ?case
  proof (elim disjE)
    assume "e \<in> set (selected outcome)"
    then obtain port peer where e: "e = SelectPeer port peer" and "outcome = Select port peer" by auto
    with step obtain code where "fst (handle_key W (tn_now turn) code u) = Select port peer"
      using input_step_selects by (metis fst_conv)
    from selects_shown [OF Cons.prems(2) this] e show ?thesis
      unfolding shown_later_def by blast
  next
    assume "e \<in> set (fst (snd (ui_loop W turns v)))"
    from to_v later(1) [OF this] show ?thesis by (rule shown_later_mono)
  next
    assume "e \<in> set (fst (snd (ui_loop W turns (render_state (tn_now turn) v))))"
    from painted later(2) [OF this] have "shown_later W v e" by (rule shown_later_mono)
    with to_v show ?thesis by (rule shown_later_mono)
  qed
qed simp

section \<open>Properties\<close>


text \<open>The keys of the witness: to the NETWORK tab, into the pool, and the first exit.\<close>

definition picking_turns :: "ui_turn list" where
  "picking_turns =
     [\<lparr>tn_input = SwarmEvents 0 (ServerPool 1080 [\<lparr>pp_peer_id = PeerId 3, pp_addresses = []\<rparr>]),
       tn_now = 0, tn_drawn = Inr ()\<rparr>,
      \<lparr>tn_input = KeyEvent KeyTab, tn_now = 0, tn_drawn = Inr ()\<rparr>,
      \<lparr>tn_input = KeyEvent KeyEnter, tn_now = 0, tn_drawn = Inr ()\<rparr>,
      \<lparr>tn_input = KeyEvent KeyEnter, tn_now = 0, tn_drawn = Inl ''broken pipe''\<rparr>]"

definition working_terminal :: terminal_io where
  "working_terminal = \<lparr>ti_enable_raw_mode = Inr (), ti_enter_screen = Inr (), ti_new = Inr (),
     ti_first_draw = Inr (), ti_disable_raw_mode = Inr (), ti_leave_screen = Inr (), ti_show_cursor = Inr ()\<rparr>"


text \<open>
  Every turn is repainted in that turn, a keystroke in the export prompt included: the animation
  flag is set when the UI is made and never cleared.
\<close>
theorem every_turn_repaints:
  assumes "ui_is_animating u" and "ui_loop W turns u = (ops, sent, v, LoopRunning)"
  shows "ops = replicate (length turns) DrawUi"
  using assms
proof (induction turns arbitrary: u ops sent)
  case (Cons turn turns)
  obtain outcome w where step: "ui_input_step W (tn_now turn) (tn_input turn) u = (outcome, w)" by fastforce
  then have "ui_is_animating w"
    using animating.input_step [of W "tn_now turn" "tn_input turn" u] Cons.prems(1) by simp
  then have painted: "ui_is_animating (render_state (tn_now turn) w)" by simp
  with \<open>ui_is_animating w\<close> show ?case
    using Cons.prems(2) step
    by (auto split: key_outcome.splits sum.splits prod.splits dest: Cons.IH [OF painted])
qed simp


end
