(* ===== verification/Ui_Screen.thy ===== *)
theory Ui_Screen
  imports Ui_Run
begin

text \<open>
  What a frame is made of (\<open>render\<close> in \<open>tui/mod.rs\<close>, \<open>render_network_tab\<close> in
  \<open>tui/network/mod.rs\<close>, \<open>render_overview_tab\<close> in \<open>tui/overview/mod.rs\<close>): which panels are
  painted, in order, with their contents. Where a panel lies on the screen is ratatui's layout.
\<close>

section \<open>Panels\<close>

datatype panel =
    TabBar "string list" usize
  | ConnectionPanel "span list list"
  | StatsPanel
  | AlertPanel "span list"
  | BandwidthPanel "(int \<times> nat) list" "(int \<times> nat) list"
  | NoServersPanel
  | CollapsedServer u16 "span list"
  | ServerHeader u16 string "span list list"
  | PoolTable u16 "pool_row list"
  | LogPane
  | LogFooter
  | HelpFooter
  | ExportBanner
  | ExportPrompt

definition alert_panels :: "ui_state \<Rightarrow> panel list" where
  "alert_panels st = (case error_banner st of Some spans \<Rightarrow> [AlertPanel spans] | None \<Rightarrow> [])"

definition overview_tab :: "view_api \<Rightarrow> int \<Rightarrow> ui_state \<Rightarrow> panel list" where
  "overview_tab A clock st =
     [ConnectionPanel (connection_status_lines A st), StatsPanel] @ alert_panels st
     @ [BandwidthPanel (chart_points clock (us_upload_graph st)) (chart_points clock (us_download_graph st))]"

definition server_block :: "view_api \<Rightarrow> nat \<Rightarrow> ('p, 'l) ui \<Rightarrow> usize \<times> server \<Rightarrow> panel list" where
  "server_block A width u = (\<lambda>(i, server).
     (let port = srv_port server;
          is_selected = (i = ui_network_selected_idx u)
      in if port \<in> ui_network_expanded u
         then [ServerHeader port (header_hint u port is_selected) (header_lines A width (ui_state u) server),
               PoolTable port (pool_rows A u port)]
         else [CollapsedServer port (collapsed_line u server is_selected)]))"

definition network_tab :: "view_api \<Rightarrow> nat \<Rightarrow> ('p, 'l) ui \<Rightarrow> panel list" where
  "network_tab A width u =
     (if servers_of u = [] then [NoServersPanel]
      else alert_panels (ui_state u) @ concat (map (server_block A width u) (List.enumerate 0 (servers_of u))))"

text \<open>
  A frame; \<open>banner\<close> is whether the status of the last export is still fresh. The prompt is drawn
  last and paints nothing while it is closed.
\<close>

definition screen :: "view_api \<Rightarrow> nat \<Rightarrow> int \<Rightarrow> bool \<Rightarrow> ('p, 'l) ui \<Rightarrow> panel list" where
  "screen A width clock banner u =
     [TabBar (ui_tabs u) (ui_tab_index u)]
     @ (if ui_tab_index u = 0 then overview_tab A clock (ui_state u)
        else if ui_tab_index u = 1 then network_tab A width u
        else if ui_tab_index u = 2 then [LogPane]
        else [])
     @ [if ui_show_logs u then LogFooter else HelpFooter]
     @ (if banner then [ExportBanner] else [])
     @ [ExportPrompt]"

section \<open>Properties\<close>

definition alert_of :: "string \<Rightarrow> panel" where
  "alert_of message = AlertPanel [styled ([CHR 0xE2, CHR 0x9A, CHR 0xA0] @ ''  '') Warn Bold,
     styled message ErrorColour Normal]"

lemma reachable_tabs:
  assumes "(ui_step W)\<^sup>*\<^sup>* (ui_new prompt log config) u"
  shows "ui_tabs u = [''OVERVIEW'', ''NETWORK'', ''LOGS'']" and "ui_tab_index u < 3"
proof -
  show tabs: "ui_tabs u = [''OVERVIEW'', ''NETWORK'', ''LOGS'']"
    using tabs.reachable [OF assms] by (simp add: ui_new_def)
  have "nav_ok u" by (rule nav_reachable [OF assms nav_new])
  then show "ui_tab_index u < 3" by (simp add: nav_ok_def tabs)
qed

text \<open>
  The highlighted title and the body agree: the tab bar highlights an existing title in
  every reachable state, and the body painted under it is that tab's.
\<close>
theorem body_matches_title:
  assumes "(ui_step W)\<^sup>*\<^sup>* (ui_new prompt log config) u"
  shows "\<exists>title body rest. get (ui_tabs u) (ui_tab_index u) = Some title
    \<and> screen A width clock banner u = TabBar (ui_tabs u) (ui_tab_index u) # body @ rest
    \<and> (title = ''OVERVIEW'' \<and> body = overview_tab A clock (ui_state u)
       \<or> title = ''NETWORK'' \<and> body = network_tab A width u
       \<or> title = ''LOGS'' \<and> body = [LogPane])"
proof -
  from reachable_tabs(2) [OF assms] consider "ui_tab_index u = 0" | "ui_tab_index u = 1" | "ui_tab_index u = 2"
    by linarith
  then show ?thesis
    by cases (simp_all add: screen_def reachable_tabs(1) [OF assms])
qed

text \<open>
  C27. A failure is seen where the operator acts. Whatever the UI is doing, an error event puts its
  message on the screen as an alert at once, on the OVERVIEW tab and on the NETWORK tab of a
  configuration with servers, and takes back the \<open>dialling\<close> mark of a selection under way; only
  the LOGS tab does not show it.
\<close>
theorem failed_switch_is_visible:
  assumes "(ui_step W)\<^sup>*\<^sup>* (ui_new prompt log config) u" and "cfg_servers config \<noteq> []"
  shows "ui_network_pending_selection (handle_swarm_events now (ErrorEvent message) u) = None
    \<and> (alert_of message \<in> set (screen A width clock banner (handle_swarm_events now (ErrorEvent message) u))
        \<longleftrightarrow> get (ui_tabs u) (ui_tab_index u) \<noteq> Some ''LOGS'')"
proof -
  let ?v = "handle_swarm_events now (ErrorEvent message) u"
  have servers: "servers_of ?v \<noteq> []"
    using configured.reachable [OF assms(1)] configured.handle_swarm_events [of now "ErrorEvent message" u]
      assms(2) by (simp add: servers_of_def ui_new_def)
  have same: "ui_tab_index ?v = ui_tab_index u" "us_last_error (ui_state ?v) = Some message"
    "ui_network_pending_selection ?v = None"
    by (simp_all add: handle_swarm_events_def mark_dirty_def clears_pending_def)
  from reachable_tabs(2) [OF assms(1)] consider "ui_tab_index u = 0" | "ui_tab_index u = 1" | "ui_tab_index u = 2"
    by linarith
  then show ?thesis
    by cases (use servers same in \<open>auto simp: screen_def overview_tab_def network_tab_def alert_panels_def
      error_banner_def alert_of_def reachable_tabs(1) [OF assms(1)]\<close>)
qed

theorem failed_switch_is_visible_witness:
  "\<forall>A width clock. alert_of ''unreachable''
      \<in> set (screen A width clock False (handle_swarm_events 0 (ErrorEvent ''unreachable'') focused_ui))"
proof (intro allI)
  fix A width clock
  have "get (ui_tabs focused_ui) (ui_tab_index focused_ui) = Some ''NETWORK''" by code_simp
  moreover have "cfg_servers one_server_config \<noteq> []" by (simp add: one_server_config_def)
  ultimately show "alert_of ''unreachable''
      \<in> set (screen A width clock False (handle_swarm_events 0 (ErrorEvent ''unreachable'') focused_ui))"
    using failed_switch_is_visible [OF focused_ui_reachable] by fastforce
qed

end
