(* ===== verification/Adapter_Tests.thy ===== *)
theory Adapter_Tests
  imports Discovery_Tests Startup Session Network Ui_Screen
begin

text \<open>
  The tests of the adapters and of the terminal UI as runs of the model: the file-backed sticky
  store (\<open>adapters/file_sticky.rs\<close>), the token check (\<open>adapters/grpc_auth.rs\<close>), the SOCKS
  negotiation (\<open>runtime/session/relay.rs\<close>) and the reducer and tabs (\<open>tui/mod.rs\<close>).
\<close>

section \<open>The file-backed store\<close>

definition store_path :: file_path where
  "store_path = FilePath ''sticky_peers'' ''json''"

definition dir_with :: "string option \<Rightarrow> disk" where
  "dir_with content = \<lparr>disk_files = (\<lambda>p. if p = store_path then content else None), disk_script = [],
     disk_unreadable = {}\<rparr>"

definition reload :: "json_codec \<Rightarrow> file_sticky \<Rightarrow> file_sticky" where
  "reload J store = load J store_path (fst_disk store)"

definition remember_roundtrips_across_reload :: "json_codec \<Rightarrow> int \<Rightarrow> peer_id \<Rightarrow> bool" where
  "remember_roundtrips_across_reload J now peer =
     (let store = load J store_path (dir_with None);
          (_, store) = file_remember J now 1080 ''fp'' peer 5 store
      in fst (file_pool J 1080 ''fp'' (reload J store)) = [peer])"

definition v1_file_migrates_to_one_member_pool :: "json_codec \<Rightarrow> string \<Rightarrow> peer_id \<Rightarrow> bool" where
  "v1_file_migrates_to_one_member_pool J v1 peer =
     (let store = load J store_path (dir_with (Some v1))
      in fst (file_pool J 1080 ''fp'' store) = [peer])"

definition corrupt_file_loads_empty_and_next_save_recovers :: "json_codec \<Rightarrow> int \<Rightarrow> peer_id \<Rightarrow> bool" where
  "corrupt_file_loads_empty_and_next_save_recovers J now peer =
     (let store = load J store_path (dir_with (Some ''{not json''));
          (pool, store) = file_pool J 1080 ''fp'' store;
          (_, store) = file_remember J now 1080 ''fp'' peer 5 store
      in pool = [] \<and> fst (file_pool J 1080 ''fp'' (reload J store)) = [peer])"

definition atomic_write_leaves_no_tmp_file :: "json_codec \<Rightarrow> int \<Rightarrow> peer_id \<Rightarrow> bool" where
  "atomic_write_leaves_no_tmp_file J now peer =
     (let store = load J store_path (dir_with None);
          (_, store) = file_remember J now 1080 ''fp'' peer 5 store;
          files = disk_files (fst_disk store)
      in files (FilePath ''sticky_peers'' ''json.tmp'') = None \<and> files store_path \<noteq> None)"

text \<open>What serde promises for the three files of these tests.\<close>

definition remembered_file :: "int \<Rightarrow> peer_id \<Rightarrow> sticky_file" where
  "remembered_file now peer = \<lparr>file_version = STORE_VERSION,
     file_servers = [1080 \<mapsto> \<lparr>pool_fingerprint = ''fp'',
        pool_peers = [\<lparr>sp_peer_id = peer, sp_address = None, sp_updated_at = now\<rparr>]\<rparr>]\<rparr>"

definition serde_laws :: "json_codec \<Rightarrow> string \<Rightarrow> int \<Rightarrow> peer_id \<Rightarrow> bool" where
  "serde_laws J v1 now peer \<longleftrightarrow>
     (case to_json J (remembered_file now peer) of
        None \<Rightarrow> False
      | Some json \<Rightarrow> probe_version J json = Some STORE_VERSION \<and> read_v2 J json = Some (remembered_file now peer))
     \<and> (to_json J \<lparr>file_version = STORE_VERSION, file_servers = Map.empty\<rparr> \<noteq> None)
     \<and> probe_version J v1 = Some 1
     \<and> (case read_v1 J v1 of
          None \<Rightarrow> False
        | Some servers \<Rightarrow> servers 1080 = Some \<lparr>v1_peer_id = peer, v1_fingerprint = ''fp'', v1_updated_at = 0\<rparr>)
     \<and> probe_version J ''{not json'' = None"

text \<open>A save on a disk that does not fail.\<close>

lemma save_works:
  assumes "to_json J \<lparr>file_version = STORE_VERSION, file_servers = st_pools st\<rparr> = Some json"
  shows "save_best_effort J \<lparr>fst_path = store_path, fst_state = st,
      fst_disk = \<lparr>disk_files = files, disk_script = [], disk_unreadable = {}\<rparr>\<rparr>
    = \<lparr>fst_path = store_path, fst_state = st,
       fst_disk = \<lparr>disk_files = files(store_path \<mapsto> json, FilePath ''sticky_peers'' ''json.tmp'' := None),
                   disk_script = [], disk_unreadable = {}\<rparr>\<rparr>"
proof -
  have tmp: "with_extension store_path ''json.tmp'' = FilePath ''sticky_peers'' ''json.tmp''"
    "FilePath ''sticky_peers'' ''json.tmp'' \<noteq> store_path"
    by (simp_all add: store_path_def)
  then show ?thesis
    by (simp add: save_best_effort_def save_def assms fs_write_def fs_rename_def next_outcome_def
        Let_def fun_upd_twist split: unit.split)
qed

lemmas file_test_simps = load_def fs_read_def dir_with_def reload_def parse_store_def file_remember_def
  file_pool_def save_works migrate_v1_def sticky_pool_of_def sticky_remember_def
  take_entry_def extract_Nil_code extract_Cons_code Let_def

lemma file_tests:
  assumes "serde_laws J v1 now peer"
  shows "remember_roundtrips_across_reload J now peer"
    "v1_file_migrates_to_one_member_pool J v1 peer"
    "corrupt_file_loads_empty_and_next_save_recovers J now peer"
    "atomic_write_leaves_no_tmp_file J now peer"
proof -
  obtain json empty servers where J: "to_json J (remembered_file now peer) = Some json"
      "probe_version J json = Some STORE_VERSION" "read_v2 J json = Some (remembered_file now peer)"
      "to_json J \<lparr>file_version = STORE_VERSION, file_servers = Map.empty\<rparr> = Some empty"
    and v1: "probe_version J v1 = Some 1" "read_v1 J v1 = Some servers"
      "servers 1080 = Some \<lparr>v1_peer_id = peer, v1_fingerprint = ''fp'', v1_updated_at = 0\<rparr>"
    and corrupt: "probe_version J ''{not json'' = None"
    using assms by (auto simp: serde_laws_def split: option.splits)
  note laws = J [unfolded remembered_file_def STORE_VERSION_def] v1 corrupt
  have path: "FilePath ''sticky_peers'' ''json.tmp'' \<noteq> store_path" "STORE_VERSION = 2"
    by (simp_all add: store_path_def STORE_VERSION_def)
  show "remember_roundtrips_across_reload J now peer"
    by (simp add: remember_roundtrips_across_reload_def file_test_simps laws path)
  show "v1_file_migrates_to_one_member_pool J v1 peer"
    by (simp add: v1_file_migrates_to_one_member_pool_def file_test_simps laws path)
  show "corrupt_file_loads_empty_and_next_save_recovers J now peer"
    by (simp add: corrupt_file_loads_empty_and_next_save_recovers_def file_test_simps laws path)
  show "atomic_write_leaves_no_tmp_file J now peer"
    by (simp add: atomic_write_leaves_no_tmp_file_def file_test_simps laws path)
qed

section \<open>The token check\<close>

definition rejects_empty_token :: bool where
  "rejects_empty_token = (sanity_check_federated_token '''' = Inl EmptyToken)"

definition malformed :: "string \<Rightarrow> bool" where
  "malformed token = (case sanity_check_federated_token token of Inl (MalformedToken _) \<Rightarrow> True | _ \<Rightarrow> False)"

definition rejects_wrong_version :: bool where
  "rejects_wrong_version = malformed ''v3.local.something''"

definition rejects_garbage_token :: bool where
  "rejects_garbage_token = malformed ''not-a-paseto''"

definition accepts_well_formed_v4_public :: bool where
  "accepts_well_formed_v4_public =
     (sanity_check_federated_token ''v4.public.eyJzb21lIjoiY2xhaW1zIn0.eyJmb290ZXIiOiJoZXJlIn0'' = Inr ())"

lemma token_tests:
  "rejects_empty_token" "rejects_wrong_version" "rejects_garbage_token" "accepts_well_formed_v4_public"
  by code_simp+

section \<open>The SOCKS negotiation\<close>

text \<open>A client that offers only method 0xFF; nothing after the negotiation is reached.\<close>

definition rejects_socks_client_without_noauth :: "session_io \<Rightarrow> peer_id \<Rightarrow> bool" where
  "rejects_socks_client_without_noauth io destination =
     (run_session (io\<lparr>io_handshake := Inr {NoAcceptableMethods}\<rparr>) 1080 (Some destination)
      = [WriteMethod NoAcceptableMethods, SessionFailed ''handshake''])"

lemma socks_tests: "rejects_socks_client_without_noauth io p"
  by (simp add: rejects_socks_client_without_noauth_def run_session_def handle_socks_connection_def)

section \<open>The network actor\<close>

text \<open>
  The actor dials a listening peer on command; the swarm reports the connection, which it then
  counts as live. The answers are what the handle makes of the actor's replies.
\<close>

definition reply_on :: "channel \<Rightarrow> 'sw network_actor \<Rightarrow> network_reply option" where
  "reply_on ch a = map_of (na_replies a) ch"

definition dials_a_peer_and_reports_the_connection :: "'sw network_ctx \<Rightarrow> 'sw \<Rightarrow> multiaddr \<Rightarrow> peer_id \<Rightarrow> bool" where
  "dials_a_peer_and_reports_the_connection N swarm listen_addr peer =
     (let target = listen_addr @ [P2p peer];
          a = run_network N [(1, InCommand (CmdDial [target] 1)),
                             (2, InSwarm (ConnectionEstablished peer target False)),
                             (3, InCommand (CmdIsConnected peer 2))] (network_actor_new swarm)
      in (case reply_on 1 a of Some (ReplyDial r) \<Rightarrow> handle_dial (awaited.Answered r) = Inr (Some peer) | _ \<Rightarrow> False)
         \<and> (case reply_on 2 a of Some (ReplyConnected c) \<Rightarrow> handle_is_connected (awaited.Answered c) | _ \<Rightarrow> False))"

lemma network_tests:
  assumes "\<forall>s. sw_is_connected (nx_api N) p s"
  shows "dials_a_peer_and_reports_the_connection N swarm listen p"
  using assms
  by (simp add: dials_a_peer_and_reports_the_connection_def run_network_def network_actor_new_def
      try_dial_bootstrap_def destination_peer_ids_eval last_p2p_snoc_P2p complete_pending_dials_def
      drain_loop.simps swap_remove_def emit_network_def spawn_task_def send_reply_def reply_on_def Let_def)

section \<open>The terminal UI\<close>

definition test_ui :: "'p \<Rightarrow> 'l \<Rightarrow> ('p, 'l) ui" where
  "test_ui prompt log = ui_new prompt log test_config"

definition reducer_tracks_peers_status_and_errors :: "'p \<Rightarrow> 'l \<Rightarrow> int \<Rightarrow> peer_id \<Rightarrow> bool" where
  "reducer_tracks_peers_status_and_errors prompt log now p =
     (let ui = handle_swarm_events now (Connection (Connected p)) (test_ui prompt log);
          ui2 = handle_swarm_events now (ErrorEvent ''no peers match filter'') ui;
          ui3 = handle_swarm_events now (Connection (Disconnected p)) ui2
      in p \<in> us_peers (ui_state ui)
         \<and> (case us_connection_status (ui_state ui) of StatusConnected _ \<Rightarrow> True | _ \<Rightarrow> False)
         \<and> us_last_error (ui_state ui2) = Some ''no peers match filter''
         \<and> p \<notin> us_peers (ui_state ui3))"

definition bandwidth_events_accumulate_totals :: "'p \<Rightarrow> 'l \<Rightarrow> int \<Rightarrow> session_id \<Rightarrow> bool" where
  "bandwidth_events_accumulate_totals prompt log now sid =
     (let ui = test_ui prompt log;
          ui = handle_swarm_events now (Bandwidth (Download sid 4096)) ui;
          ui = handle_swarm_events now (Bandwidth (Upload sid 1024)) ui
      in us_total_download (ui_state ui) = 4096 \<and> us_total_upload (ui_state ui) = 1024)"

text \<open>
  The panels of the two tabs: the tab bar shows the OVERVIEW title, and the NETWORK tab shows the
  server of port 1080.
\<close>

definition shows_port :: "u16 \<Rightarrow> panel \<Rightarrow> bool" where
  "shows_port port p =
     (case p of CollapsedServer q _ \<Rightarrow> q = port | ServerHeader q _ _ \<Rightarrow> q = port | PoolTable q _ \<Rightarrow> q = port
      | _ \<Rightarrow> False)"

definition renders_overview_and_network_tabs :: "view_api \<Rightarrow> nat \<Rightarrow> int \<Rightarrow> 'p \<Rightarrow> 'l \<Rightarrow> bool" where
  "renders_overview_and_network_tabs A width clock prompt log =
     (let ui = test_ui prompt log;
          overview = screen A width clock False ui;
          network = screen A width clock False (next_tab ui)
      in list_ex (\<lambda>p. case p of TabBar titles _ \<Rightarrow> ''OVERVIEW'' \<in> set titles | _ \<Rightarrow> False) overview
         \<and> list_ex (shows_port 1080) network)"

lemma ui_tests:
  "reducer_tracks_peers_status_and_errors prompt log now p"
  "bandwidth_events_accumulate_totals prompt log now sid"
  "renders_overview_and_network_tabs A width clock prompt log"
  by (simp_all add: reducer_tracks_peers_status_and_errors_def bandwidth_events_accumulate_totals_def
      renders_overview_and_network_tabs_def test_ui_def ui_new_def handle_swarm_events_def mark_dirty_def
      ui_state_new_def drop_peer_def add_upload_def add_download_def screen_def network_tab_def
      servers_of_def test_config_def discovery_server_def server_block_def shows_port_def next_tab_def Let_def
      alert_panels_def error_banner_def)

text \<open>
  The tests of the adapters and the terminal UI hold of the model for every peer, session,
  clock, widget state and configuration of the session's io: a remembered exit survives a reload, a
  version-1 file becomes a pool of one, a corrupt file loads empty and the next save recovers it, a
  save leaves no temporary file; the token check refuses what is not a v4.public token; a SOCKS client
  without a usable method is refused before any stream; a dialled peer that connects is reported and
  counts as connected; and the UI's state follows connections, errors
  and traffic, with the two tabs showing their title and the configured port. The hypotheses are what
  serde promises for the files these tests read and write, and a swarm that counts the peer as
  connected.
\<close>
theorem adapter_tests_hold:
  assumes "serde_laws J v1 now p" and "\<forall>s. sw_is_connected (nx_api N) p s"
  shows "remember_roundtrips_across_reload J now p \<and> v1_file_migrates_to_one_member_pool J v1 p
     \<and> corrupt_file_loads_empty_and_next_save_recovers J now p \<and> atomic_write_leaves_no_tmp_file J now p
     \<and> rejects_empty_token \<and> rejects_wrong_version \<and> rejects_garbage_token \<and> accepts_well_formed_v4_public
     \<and> rejects_socks_client_without_noauth io p \<and> dials_a_peer_and_reports_the_connection N swarm listen p
     \<and> reducer_tracks_peers_status_and_errors prompt log now p
     \<and> bandwidth_events_accumulate_totals prompt log now sid
     \<and> renders_overview_and_network_tabs A width clock prompt log"
  using assms
  by (intro conjI file_tests token_tests socks_tests network_tests ui_tests)

definition two_file_codec :: json_codec where
  "two_file_codec =
     \<lparr>to_json = (\<lambda>f. Some (if file_servers f 1080 = None then ''{empty}'' else ''{json}'')),
      probe_version = (\<lambda>s. if s = ''{json}'' \<or> s = ''{empty}'' then Some 2 else if s = ''{v1}'' then Some 1 else None),
      read_v2 = (\<lambda>s. if s = ''{json}'' then Some (remembered_file 7 (PeerId 1)) else None),
      read_v1 = (\<lambda>s. Some [1080 \<mapsto> \<lparr>v1_peer_id = PeerId 1, v1_fingerprint = ''fp'', v1_updated_at = 0\<rparr>])\<rparr>"

definition connected_network :: "unit network_ctx" where
  "connected_network =
     \<lparr>nx_api = \<lparr>sw_dial = (\<lambda>a s. (True, s)), sw_is_connected = (\<lambda>p s. True), sw_connected_peers = (\<lambda>s. []),
                 sw_disconnect = (\<lambda>p s. s), sw_next = (\<lambda>s. s)\<rparr>,
      nx_bootstrap_peer_id = PeerId 0, nx_bootstrap_address = relay_addr, nx_max_resolve = 100,
      nx_sign = Inr, nx_shutdown_events = 0\<rparr>"

lemma adapter_tests_hold_witness:
  "v1_file_migrates_to_one_member_pool two_file_codec ''{v1}'' (PeerId 1)
   \<and> corrupt_file_loads_empty_and_next_save_recovers two_file_codec 7 (PeerId 1)
   \<and> dials_a_peer_and_reports_the_connection connected_network () [Ip4 ''127.0.0.1'', Tcp 1] (PeerId 1)"
proof -
  have laws: "serde_laws two_file_codec ''{v1}'' 7 (PeerId 1)"
    by (simp add: serde_laws_def two_file_codec_def remembered_file_def STORE_VERSION_def)
  have connected: "\<forall>s. sw_is_connected (nx_api connected_network) (PeerId 1) s"
    by (simp add: connected_network_def)
  show ?thesis
    using adapter_tests_hold [OF laws connected, of failing_open_io "()" "[Ip4 ''127.0.0.1'', Tcp 1]" "()" "()" "SessionId 1"]
    by simp
qed

end
