(* ===== verification/Machine_Float.thy ===== *)
theory Machine_Float
  imports Prelude Complex_Main
begin

text \<open>
  IEEE 754 binary arithmetic as the UI uses it: a finite float is the rational it stands for, and an
  operation is the exact operation followed by rounding to the nearest float, ties to even. The
  values of the UI stay far from overflow and from the subnormal range, so a format is only its
  number \<open>p\<close> of significant bits: 24 for \<open>f32\<close>, 53 for \<open>f64\<close>. \<open>as\<close> casts to integers truncate and
  saturate.
\<close>

section \<open>Rounding\<close>

fun bit_count :: "nat \<Rightarrow> nat" where
  "bit_count n = (if n = 0 then 0 else Suc (bit_count (n div 2)))"

declare bit_count.simps [simp del]

text \<open>The exponent of the binade of a positive number.\<close>

definition binade :: "rat \<Rightarrow> int" where
  "binade q =
     (case quotient_of q of
        (n, d) \<Rightarrow>
          (let e = int (bit_count (nat n)) - int (bit_count (nat d))
           in if q < 2 powi e then e - 1 else e))"

definition round_half_even :: "rat \<Rightarrow> int" where
  "round_half_even q =
     (let n = \<lfloor>q\<rfloor>; r = q - of_int n
      in if r < 1 / 2 then n else if 1 / 2 < r then n + 1 else if even n then n else n + 1)"

definition round_to :: "nat \<Rightarrow> rat \<Rightarrow> rat" where
  "round_to p q =
     (if q = 0 then 0
      else let ulp = 2 powi (binade \<bar>q\<bar> - int p + 1) in of_int (round_half_even (q / ulp)) * ulp)"

abbreviation f32 :: "rat \<Rightarrow> rat" where "f32 \<equiv> round_to 24"
abbreviation f64 :: "rat \<Rightarrow> rat" where "f64 \<equiv> round_to 53"

text \<open>The unsigned casts.\<close>

definition float_as :: "nat \<Rightarrow> rat \<Rightarrow> nat" where
  "float_as mx q = (if q \<le> 0 then 0 else min mx (nat \<lfloor>q\<rfloor>))"

abbreviation float_as_u8 :: "rat \<Rightarrow> nat" where "float_as_u8 \<equiv> float_as 255"
abbreviation float_as_u16 :: "rat \<Rightarrow> nat" where "float_as_u16 \<equiv> float_as 65535"

section \<open>The binade\<close>

lemma bit_count_bounds: "0 < n \<Longrightarrow> 2 ^ (bit_count n - 1) \<le> n \<and> n < 2 ^ bit_count n \<and> 0 < bit_count n"
proof (induction n rule: bit_count.induct)
  case (1 n)
  show ?case
  proof (cases "n div 2 = 0")
    case True
    with 1(2) have "n = 1" by auto
    then show ?thesis by (simp add: bit_count.simps)
  next
    case False
    with 1 have ih: "2 ^ (bit_count (n div 2) - 1) \<le> n div 2" "n div 2 < 2 ^ bit_count (n div 2)"
      "0 < bit_count (n div 2)" by auto
    define m where "m = (2::nat) ^ (bit_count (n div 2) - 1)"
    have double: "(2::nat) ^ bit_count (n div 2) = 2 * m"
      using ih(3) by (simp add: m_def power_eq_if)
    have "m \<le> n div 2" using ih(1) by (simp add: m_def)
    moreover have "n div 2 < 2 * m" using ih(2) by (simp only: double)
    ultimately have "2 * m \<le> n" "n < 4 * m" by linarith+
    moreover have "bit_count n = Suc (bit_count (n div 2))" using 1(2) by (simp add: bit_count.simps)
    ultimately show ?thesis by (simp add: double)
  qed
qed

lemma rat_quotient:
  assumes "0 < q"
  obtains n d where "quotient_of q = (int n, int d)" "0 < n" "0 < d" "q = of_nat n / of_nat d"
proof -
  obtain n d where nd: "quotient_of q = (n, d)" by fastforce
  have "0 < d" using quotient_of_denom_pos [OF nd] .
  have q: "q = of_int n / of_int d" using quotient_of_div [OF nd] .
  have "0 < n" using assms \<open>0 < d\<close> by (simp add: q zero_less_divide_iff)
  show ?thesis
    using nd \<open>0 < n\<close> \<open>0 < d\<close> q by (intro that [of "nat n" "nat d"]) simp_all
qed

lemma binade_bounds:
  assumes "0 < q"
  shows "2 powi binade q \<le> q" and "q < 2 powi (binade q + 1)"
proof -
  obtain n d where nd: "quotient_of q = (int n, int d)" "0 < n" "0 < d" "q = of_nat n / of_nat d"
    using assms by (rule rat_quotient)
  let ?a = "bit_count n" and ?b = "bit_count d"
  note n = bit_count_bounds [OF nd(2)] and d = bit_count_bounds [OF nd(3)]
  have n': "(2::rat) ^ (?a - 1) \<le> of_nat n" "of_nat n < (2::rat) ^ ?a"
    and d': "(2::rat) ^ (?b - 1) \<le> of_nat d" "of_nat d < (2::rat) ^ ?b"
    using n d by (simp_all flip: of_nat_power_le_of_nat_cancel_iff of_nat_less_of_nat_power_cancel_iff)
  have e: "(2::rat) powi (int ?a - int ?b) = 2 ^ ?a / 2 ^ ?b"
    by (simp add: power_int_diff)
  have "(2::rat) ^ ?a = 2 * 2 ^ (?a - 1)" "(2::rat) ^ ?b = 2 * 2 ^ (?b - 1)"
    using n d by (simp_all add: power_eq_if)
  moreover have "(2::rat) ^ (?a - 1) / 2 ^ ?b < q"
    unfolding nd(4) using n' d' nd(3) by (intro frac_less2) simp_all
  moreover have "q < (2::rat) ^ ?a / 2 ^ (?b - 1)"
    unfolding nd(4) using n' d' by (intro frac_less) simp_all
  ultimately have "2 powi (int ?a - int ?b - 1) \<le> q" "q < 2 powi (int ?a - int ?b + 1)"
    by (simp_all add: power_int_diff power_int_add field_simps)
  then show "2 powi binade q \<le> q" "q < 2 powi (binade q + 1)"
    by (auto simp: binade_def nd(1) Let_def)
qed

lemma binade_mono:
  assumes "0 < q" and "q \<le> r"
  shows "binade q \<le> binade r"
proof (rule ccontr)
  assume "\<not> binade q \<le> binade r"
  then have "(2::rat) powi (binade r + 1) \<le> 2 powi binade q" by (intro power_int_increasing) simp_all
  also have "\<dots> \<le> r" using binade_bounds(1) [of q] assms by simp
  finally show False using binade_bounds(2) [of r] assms by simp
qed

section \<open>Rounding to an integer\<close>

lemma round_half_even_of_int [simp]: "round_half_even (of_int k) = k"
  by (simp add: round_half_even_def)

lemma round_half_even_near: "\<lfloor>q\<rfloor> \<le> round_half_even q \<and> round_half_even q \<le> \<lfloor>q\<rfloor> + 1"
  by (simp add: round_half_even_def Let_def)

lemma round_half_even_mono:
  assumes "q \<le> r"
  shows "round_half_even q \<le> round_half_even r"
proof (cases "\<lfloor>q\<rfloor> = \<lfloor>r\<rfloor>")
  case True
  with assms show ?thesis by (auto simp: round_half_even_def Let_def)
next
  case False
  with floor_mono [OF assms] have "\<lfloor>q\<rfloor> + 1 \<le> \<lfloor>r\<rfloor>" by simp
  with round_half_even_near [of q] round_half_even_near [of r] show ?thesis by linarith
qed

lemma round_half_even_bounds:
  "of_int k \<le> q \<Longrightarrow> k \<le> round_half_even q" "q \<le> of_int k \<Longrightarrow> round_half_even q \<le> k"
  using round_half_even_mono [of "of_int k" q] round_half_even_mono [of q "of_int k"] by simp_all

section \<open>Rounding to a float\<close>

definition representable :: "nat \<Rightarrow> rat \<Rightarrow> bool" where
  "representable p x \<longleftrightarrow> (\<exists>k e. x = of_int k * 2 powi e \<and> \<bar>k\<bar> \<le> 2 ^ p)"

lemma two_powi_split: "(2::rat) powi n = of_int (2 ^ k) * 2 powi (n - int k)"
  by (simp add: power_int_diff)

lemma two_powi_pos [simp]: "0 < (2::rat) powi n" "\<not> (2::rat) powi n < 0"
  by (simp_all add: not_less less_imp_le)

lemma round_to_pos:
  assumes "0 < q"
  shows "round_to p q = of_int (round_half_even (q / 2 powi (binade q - int p + 1))) * 2 powi (binade q - int p + 1)"
  using assms by (simp add: round_to_def Let_def)

lemma round_to_binade:
  assumes "0 < q" and "0 < p"
  shows "2 powi binade q \<le> round_to p q" and "round_to p q \<le> 2 powi (binade q + 1)"
proof -
  let ?u = "(2::rat) powi (binade q - int p + 1)"
  have u: "0 < ?u" by simp
  have lower: "2 powi binade q = of_int (2 ^ (p - 1)) * ?u" and upper: "2 powi (binade q + 1) = of_int (2 ^ p) * ?u"
    using assms(2) two_powi_split [of "binade q" "p - 1"] two_powi_split [of "binade q + 1" p]
    by (simp_all add: of_nat_diff algebra_simps del: of_int_power)
  have "of_int (2 ^ (p - 1)) \<le> q / ?u" "q / ?u \<le> of_int (2 ^ p)"
    using binade_bounds [OF assms(1)] u lower upper
    by (simp_all add: pos_le_divide_eq pos_divide_le_eq del: of_int_power)
  then have "2 ^ (p - 1) \<le> round_half_even (q / ?u)" "round_half_even (q / ?u) \<le> 2 ^ p"
    by (simp_all only: round_half_even_bounds)
  then have "of_int (2 ^ (p - 1)) \<le> (of_int (round_half_even (q / ?u)) :: rat)"
    "(of_int (round_half_even (q / ?u)) :: rat) \<le> of_int (2 ^ p)"
    by (simp_all only: of_int_le_iff)
  with u show "2 powi binade q \<le> round_to p q" "round_to p q \<le> 2 powi (binade q + 1)"
    unfolding lower upper round_to_pos [OF assms(1)] by (simp_all add: mult_right_mono del: of_int_power)
qed

lemma round_to_mono:
  assumes "0 \<le> q" and "q \<le> r" and "0 < p"
  shows "round_to p q \<le> round_to p r"
proof (cases "q = 0")
  case True
  then show ?thesis
    using order_less_le_trans [OF two_powi_pos(1) round_to_binade(1), of r p] assms
    by (cases "r = 0") (simp_all add: round_to_def [of p 0] less_imp_le)
next
  case False
  with assms have pos: "0 < q" "0 < r" by simp_all
  show ?thesis
  proof (cases "binade q = binade r")
    case True
    then show ?thesis
      using round_half_even_mono [of "q / 2 powi (binade r - int p + 1)" "r / 2 powi (binade r - int p + 1)"] assms(2)
      by (simp add: round_to_pos [OF pos(1)] round_to_pos [OF pos(2)] divide_right_mono mult_right_mono)
  next
    case False
    with binade_mono [OF pos(1) assms(2)] have "(2::rat) powi (binade q + 1) \<le> 2 powi binade r"
      by (intro power_int_increasing) simp_all
    with round_to_binade(2) [OF pos(1) assms(3)] round_to_binade(1) [OF pos(2) assms(3)]
    show ?thesis by linarith
  qed
qed

lemma round_to_nonneg: "0 \<le> q \<Longrightarrow> 0 < p \<Longrightarrow> 0 \<le> round_to p q"
  using round_to_mono [of 0 q p] by (simp add: round_to_def [of p 0])

lemma round_to_representable:
  assumes "0 < x" and "representable p x" and "0 < p"
  shows "round_to p x = x"
proof -
  obtain k e where x: "x = of_int k * 2 powi e" and k: "\<bar>k\<bar> \<le> 2 ^ p"
    using assms(2) by (auto simp: representable_def)
  have "0 < k" using assms(1) by (simp add: x zero_less_mult_iff)
  have "of_int k \<le> (of_int (2 ^ p) :: rat)" using k by (simp only: of_int_le_iff)
  then have "x \<le> 2 powi (int p + e)" by (simp add: x power_int_add mult_right_mono)
  with binade_bounds(1) [OF assms(1)] have "(2::rat) powi binade x \<le> 2 powi (int p + e)" by simp
  then have "binade x \<le> int p + e" using power_int_strict_increasing [of "int p + e" "binade x" "2::rat"] by linarith
  then consider "binade x - int p + 1 \<le> e" | "binade x = int p + e" by linarith
  then have "\<exists>m. x = of_int m * 2 powi (binade x - int p + 1)"
  proof cases
    case 1
    define j where "j = nat (e - (binade x - int p + 1))"
    with 1 have "e - int j = binade x - int p + 1" by simp
    with two_powi_split [of e j] have "x = of_int (k * 2 ^ j) * 2 powi (binade x - int p + 1)"
      by (simp add: x mult.assoc)
    then show ?thesis ..
  next
    case 2
    with binade_bounds(1) [OF assms(1)] \<open>x \<le> 2 powi (int p + e)\<close> have "x = 2 powi (int p + e)" by simp
    then have "x = of_int (2 ^ (p - 1)) * 2 powi (binade x - int p + 1)"
      using two_powi_split [of "int p + e" "p - 1"] 2 assms(3) by (simp add: of_nat_diff algebra_simps)
    then show ?thesis ..
  qed
  then obtain m where "x = of_int m * 2 powi (binade x - int p + 1)" ..
  then have "x / 2 powi (binade x - int p + 1) = of_int m" by (simp add: field_simps)
  then show ?thesis using \<open>x = of_int m * _\<close> by (simp add: round_to_pos [OF assms(1)])
qed

lemma representable_round_to: "0 < q \<Longrightarrow> 0 < p \<Longrightarrow> representable p (round_to p q)"
proof -
  assume "0 < q" "0 < p"
  let ?k = "round_half_even (q / 2 powi (binade q - int p + 1))"
  have upper: "2 powi (binade q + 1) = of_int (2 ^ p) * (2::rat) powi (binade q - int p + 1)"
    using two_powi_split [of "binade q + 1" p] by (simp add: algebra_simps)
  have "of_int ?k * 2 powi (binade q - int p + 1) \<le> of_int (2 ^ p) * (2::rat) powi (binade q - int p + 1)"
    using round_to_binade(2) [OF \<open>0 < q\<close> \<open>0 < p\<close>] round_to_pos [OF \<open>0 < q\<close>, of p] upper by simp
  then have "?k \<le> 2 ^ p" by (simp only: mult_le_cancel_right_pos two_powi_pos of_int_le_iff)
  moreover have "0 \<le> ?k" using \<open>0 < q\<close> by (intro round_half_even_bounds) simp
  ultimately show "representable p (round_to p q)"
    unfolding representable_def round_to_pos [OF \<open>0 < q\<close>] by fastforce
qed

lemma representable_of_nat: "n \<le> 2 ^ p \<Longrightarrow> representable p (of_nat n)"
  unfolding representable_def
  by (rule exI [of _ "int n"], rule exI [of _ 0]) (simp flip: of_nat_power_le_of_nat_cancel_iff)

lemma round_to_of_nat:
  assumes "n \<le> 2 ^ p" and "0 < p"
  shows "round_to p (of_nat n) = of_nat n"
  using round_to_representable [OF _ representable_of_nat [OF assms(1)] assms(2)]
  by (cases "n = 0") (simp_all add: round_to_def)

lemma round_to_numeral [simp]:
  "numeral n \<le> (2::nat) ^ p \<Longrightarrow> 0 < p \<Longrightarrow> round_to p (numeral n) = numeral n"
  "0 < p \<Longrightarrow> round_to p 1 = 1" "round_to p 0 = 0"
  using round_to_of_nat [of "numeral n" p] round_to_of_nat [of 1 p] by (simp_all add: round_to_def [of p 0])

lemma round_to_idem: "0 \<le> q \<Longrightarrow> 0 < p \<Longrightarrow> round_to p (round_to p q) = round_to p q"
  using round_to_representable [of "round_to p q" p] representable_round_to [of q p]
    order_less_le_trans [OF two_powi_pos(1) round_to_binade(1), of q p]
  by (cases "q = 0") simp_all

text \<open>A float below the exact result is below the rounded one, and likewise above.\<close>

lemma round_to_at_least: "0 \<le> x \<Longrightarrow> x \<le> q \<Longrightarrow> 0 < p \<Longrightarrow> round_to p x = x \<Longrightarrow> x \<le> round_to p q"
  using round_to_mono [of x q p] by simp

lemma round_to_at_most: "0 \<le> q \<Longrightarrow> q \<le> x \<Longrightarrow> 0 < p \<Longrightarrow> round_to p x = x \<Longrightarrow> round_to p q \<le> x"
  using round_to_mono [of q x p] by simp

text \<open>Rounding is symmetric.\<close>

lemma round_half_even_minus [simp]: "round_half_even (- q) = - round_half_even q"
proof (cases "q = of_int \<lfloor>q\<rfloor>")
  case True
  then show ?thesis by (metis of_int_minus round_half_even_of_int)
next
  case False
  then have "\<lfloor>- q\<rfloor> = - \<lfloor>q\<rfloor> - 1"
    using ceiling_diff_floor_le_1 [of q] by (simp add: floor_minus ceiling_altdef)
  then show ?thesis by (auto simp: round_half_even_def Let_def)
qed

lemma round_to_minus [simp]: "round_to p (- q) = - round_to p q"
  by (simp add: round_to_def Let_def)

section \<open>Casts\<close>

lemma float_as_le: "float_as mx q \<le> mx"
  by (simp add: float_as_def)

lemma float_as_mono: "q \<le> r \<Longrightarrow> float_as mx q \<le> float_as mx r"
  using nat_mono [OF floor_mono, of q r] by (auto simp: float_as_def)

lemma float_as_of_nat [simp]: "float_as mx (of_nat n) = min mx n" "float_as mx (numeral k) = min mx (numeral k)"
  by (auto simp: float_as_def)

section \<open>Evaluation\<close>

text \<open>The float of a number whose binade \<open>e\<close> is known; the rest is arithmetic on numerals.\<close>

lemma binade_eqI:
  assumes "2 powi e \<le> q" and "q < 2 powi (e + 1)"
  shows "binade q = e"
proof -
  have "0 < q" using order_less_le_trans [OF two_powi_pos(1) assms(1)] .
  note bounds = binade_bounds [OF this]
  have "\<not> binade q < e"
    using power_int_increasing [of "binade q + 1" e "2::rat"] assms(1) bounds(2) by fastforce
  moreover have "\<not> e < binade q"
    using power_int_increasing [of "e + 1" "binade q" "2::rat"] assms(2) bounds(1) by fastforce
  ultimately show ?thesis by linarith
qed

lemma round_to_eval:
  assumes "2 powi e \<le> q" and "q < 2 powi (e + 1)"
  shows "round_to p q = of_int (round_half_even (q / 2 powi (e - int p + 1))) * 2 powi (e - int p + 1)"
  using round_to_pos [of q p] order_less_le_trans [OF two_powi_pos(1) assms(1)] binade_eqI [OF assms] by simp

lemma rat_floor_numeral [simp]:
  "\<lfloor>numeral a / numeral b :: rat\<rfloor> = numeral a div numeral b" "\<lfloor>1 / numeral b :: rat\<rfloor> = 1 div numeral b"
  "\<lfloor>- (numeral a / numeral b) :: rat\<rfloor> = - numeral a div numeral b"
  using floor_divide_of_int_eq [of "numeral a" "numeral b", where ?'a = rat]
    floor_divide_of_int_eq [of 1 "numeral b", where ?'a = rat]
    floor_divide_of_int_eq [of "- numeral a" "numeral b", where ?'a = rat] by simp_all

lemmas float_eval = round_half_even_def power_int_minus power_int_def power_divide Let_def

end
