(* ===== verification/Splash.thy ===== *)
theory Splash
  imports Machine_Float Ui_Run
begin

text \<open>
  The start-up screen of \<open>tui/splashscreen.rs\<close>: a logo under a moving band of light until two and a
  half seconds have passed. \<open>VERSION\<close> (set by cargo) is an argument, and so are the clock readings
  of the animation loop. A screen is the cells of its lines; their place on the terminal is ratatui's
  layout.
\<close>

section \<open>The logo\<close>

definition SPLASH_DURATION :: duration where "SPLASH_DURATION = from_millis 2500"

text \<open>The backslashes of the raw string literal are given by their code.\<close>

definition LOGO :: "string list" where
  "LOGO =
     (let b = [CHR 0x5C]
      in [''          ___'',
          ''    ____ |__ '' @ b @ '' ____  _________  _  ____  __'',
          ''   / __ '' @ b @ ''__/ // __ '' @ b @ ''/ ___/ __ '' @ b @ ''| |/_/ / / /'',
          ''  / /_/ / __// /_/ / /  / /_/ />  </ /_/ /'',
          '' / .___/____/ .___/_/   '' @ b @ ''____/_/|_|'' @ b @ ''__, /'',
          ''/_/        /_/                    /____/''])"

definition LOGO_MIN_WIDTH :: u16 where "LOGO_MIN_WIDTH = 50"
definition SHIMMER_BAND :: int where "SHIMMER_BAND = 10"
definition SHIMMER_SPEED :: int where "SHIMMER_SPEED = 1"

definition logo_width :: usize where
  "logo_width = fold max (map length LOGO) 0"

section \<open>The shimmer\<close>

text \<open>\<open>as i32\<close> and the remainder of \<open>i32\<close>, which has the sign of the dividend.\<close>

definition as_i32 :: "usize \<Rightarrow> int" where
  "as_i32 n = sint (word_of_nat n :: 32 word)"

definition i32_rem :: "int \<Rightarrow> int \<Rightarrow> int" where
  "i32_rem a b = sgn a * (\<bar>a\<bar> mod \<bar>b\<bar>)"

definition shimmer_intensity :: "usize \<Rightarrow> usize \<Rightarrow> usize \<Rightarrow> rat" where
  "shimmer_intensity x total_width frame_no =
     (let cycle = as_i32 total_width + SHIMMER_BAND * 2;
          pos = i32_rem (as_i32 frame_no * SHIMMER_SPEED) cycle;
          peak = pos - SHIMMER_BAND;
          dist = \<bar>as_i32 x - peak\<bar>
      in if SHIMMER_BAND \<le> dist then 0
         else let t = f32 (1 - f32 (f32 (of_int dist) / f32 (of_int SHIMMER_BAND))) in f32 (t * t))"

definition lerp_u8 :: "nat \<Rightarrow> nat \<Rightarrow> rat \<Rightarrow> nat" where
  "lerp_u8 a b t =
     (let af = f32 (of_nat a); bf = f32 (of_nat b)
      in float_as_u8 (f32 (af + f32 (f32 (bf - af) * min (max t 0) 1))))"

type_synonym rgb = "nat \<times> nat \<times> nat"

definition shimmer_style :: "rat \<Rightarrow> rgb" where
  "shimmer_style intensity =
     (lerp_u8 0x93 0x29 intensity, lerp_u8 0x52 0xff intensity, lerp_u8 0xff 0x98 intensity)"

datatype splash_cell = BlankCell char | LitCell char rgb

definition build_shimmer_line :: "string \<Rightarrow> usize \<Rightarrow> usize \<Rightarrow> splash_cell list" where
  "build_shimmer_line line_text width frame_no =
     (let padded = line_text @ replicate (width - length line_text) (CHR '' '')
      in map (\<lambda>(x, c). if c = CHR '' '' then BlankCell c
             else LitCell c (shimmer_style (shimmer_intensity x width frame_no))) (List.enumerate 0 padded))"

section \<open>Frames\<close>

text \<open>
  A terminal too small for the logo gets one centred line of text; otherwise the lines of the logo,
  an empty line and the version in a block of the given height.
\<close>

datatype splash_screen = CompactSplash string | FullSplash nat "splash_cell list list" string

definition draw_loading :: "string \<Rightarrow> u16 \<Rightarrow> u16 \<Rightarrow> usize \<Rightarrow> splash_screen" where
  "draw_loading version width height frame_no =
     (if width < LOGO_MIN_WIDTH \<or> height < of_nat (length LOGO) + 5 then
        (let dots = replicate ((frame_no div 12) mod 3 + 1) (CHR ''.'')
         in CompactSplash (''p2proxy v'' @ version @ ''  loading'' @ dots))
      else
        (let logo_height = length LOGO + 4;
             lines = map (\<lambda>l. build_shimmer_line l logo_width frame_no) LOGO @ [[]]
         in FullSplash logo_height lines (''v'' @ version)))"

text \<open>
  The loop: each tick reads the clock, draws, and stops when the duration has passed. The result is
  the frame numbers drawn for these readings of the time since the start.
\<close>

fun run_splash_screen_animation :: "duration list \<Rightarrow> 64 word \<Rightarrow> 64 word list" where
  "run_splash_screen_animation [] frame_no = []"
| "run_splash_screen_animation (elapsed # ticks) frame_no =
     frame_no # (if SPLASH_DURATION \<le> elapsed then [] else run_splash_screen_animation ticks (frame_no + 1))"

section \<open>The band of light\<close>

lemma as_i32_small: "n < 2 ^ 31 \<Longrightarrow> as_i32 n = int n"
  by (simp add: as_i32_def signed_of_nat signed_take_bit_int_eq_self)

lemma logo_shape: "length LOGO = 6" "logo_width = 43" "\<forall>l\<in>set LOGO. length l \<le> 43"
  by (simp_all add: LOGO_def logo_width_def)

text \<open>The intensity by the distance from the peak.\<close>

definition glow :: "int \<Rightarrow> rat" where
  "glow d =
     (if SHIMMER_BAND \<le> d then 0
      else let t = f32 (1 - f32 (f32 (of_int d) / f32 (of_int SHIMMER_BAND))) in f32 (t * t))"

definition light_distance :: "usize \<Rightarrow> usize \<Rightarrow> usize \<Rightarrow> int" where
  "light_distance x width frame_no = \<bar>int x - (int (frame_no mod (width + 20)) - 10)\<bar>"

lemma shimmer_intensity_glow:
  assumes "x < width" and "width + 20 < 2 ^ 31" and "frame_no < 2 ^ 31"
  shows "shimmer_intensity x width frame_no = glow (light_distance x width frame_no)"
proof -
  have "as_i32 x = int x" "as_i32 width = int width" "as_i32 frame_no = int frame_no"
    using assms by (simp_all add: as_i32_small)
  moreover have "i32_rem (int frame_no) (int width + 20) = int (frame_no mod (width + 20))"
    by (auto simp: i32_rem_def sgn_if zmod_int)
  ultimately show ?thesis
    by (simp add: shimmer_intensity_def glow_def light_distance_def SHIMMER_BAND_def SHIMMER_SPEED_def Let_def)
qed

lemma glow_antimono:
  assumes "0 \<le> d" and "d \<le> e"
  shows "glow e \<le> glow d"
proof -
  let ?t = "\<lambda>d. f32 (1 - f32 (f32 (of_int d) / 10))"
  have frac: "f32 (f32 (of_int d) / 10) \<le> f32 (f32 (of_int e) / 10)"
    "f32 (f32 (of_int e) / 10) \<le> 1" if "e < 10"
    using assms that round_to_mono [of "of_int d" "of_int e" 24] round_to_at_most [of "of_int e" 10 24]
    by (auto intro!: round_to_mono round_to_at_most divide_right_mono round_to_nonneg)
  have "0 \<le> ?t e" "?t e \<le> ?t d" if "e < 10"
    using frac [OF that] by (auto intro!: round_to_nonneg round_to_mono)
  have "f32 (?t e * ?t e) \<le> f32 (?t d * ?t d)" if "e < 10"
  proof -
    note le = \<open>e < 10 \<Longrightarrow> 0 \<le> ?t e\<close> [OF that] \<open>e < 10 \<Longrightarrow> ?t e \<le> ?t d\<close> [OF that]
    have "?t e * ?t e \<le> ?t d * ?t d" by (rule mult_mono [OF le(2) le(2) order_trans [OF le] le(1)])
    with le(1) show ?thesis by (intro round_to_mono mult_nonneg_nonneg) simp_all
  qed
  moreover have "0 \<le> glow d" by (auto simp: glow_def Let_def intro!: round_to_nonneg)
  ultimately show ?thesis
    using assms(2) by (auto simp: glow_def SHIMMER_BAND_def Let_def)
qed

lemma glow_ends: "glow 0 = 1" "10 \<le> d \<Longrightarrow> glow d = 0"
  by (simp_all add: glow_def SHIMMER_BAND_def)

lemma glow_range: "0 \<le> d \<Longrightarrow> 0 \<le> glow d \<and> glow d \<le> 1"
  using glow_antimono [of 0 d] glow_antimono [of d "max d 10"] by (auto simp: glow_ends)

section \<open>Colours\<close>

lemma lerp_value:
  assumes "a \<le> 255" and "b \<le> 255"
  shows "lerp_u8 a b t = float_as_u8 (f32 (of_nat a + (if a \<le> b then f32 (of_nat (b - a) * min (max t 0) 1)
      else - f32 (of_nat (a - b) * min (max t 0) 1))))"
proof -
  have nat: "f32 (of_nat n) = of_nat n" if "n \<le> 255" for n
    using that by (intro round_to_of_nat) simp_all
  have "f32 (of_nat b - of_nat a) = (if a \<le> b then of_nat (b - a) else - of_nat (a - b))"
  proof (cases "a \<le> b")
    case True
    then show ?thesis using nat [of "b - a"] assms by (simp add: of_nat_diff)
  next
    case False
    then have "of_nat b - of_nat a = (- of_nat (a - b) :: rat)" by (simp add: of_nat_diff)
    then show ?thesis using False nat [of "a - b"] assms by (simp only: round_to_minus) simp
  qed
  then show ?thesis
    using nat [OF assms(1)] nat [OF assms(2)] by (simp add: lerp_u8_def del: of_nat_diff)
qed

lemma lerp_ends: "a \<le> 255 \<Longrightarrow> b \<le> 255 \<Longrightarrow> lerp_u8 a b 0 = a \<and> lerp_u8 a b 1 = b"
  by (auto simp: lerp_value of_nat_diff round_to_of_nat simp flip: of_nat_diff of_nat_add)

lemma scaled:
  assumes "0 \<le> u" and "u \<le> v" and "v \<le> 1" and "d \<le> 255"
  shows "0 \<le> f32 (of_nat d * u)" "f32 (of_nat d * u) \<le> f32 (of_nat d * v)" "f32 (of_nat d * v) \<le> of_nat d"
proof -
  have "0 \<le> of_nat d * u" "of_nat d * u \<le> of_nat d * v" "0 \<le> of_nat d * v" "of_nat d * v \<le> of_nat d"
    using assms by (simp_all add: mult_left_mono mult_left_le)
  moreover have "f32 (of_nat d) = of_nat d" using assms(4) by (intro round_to_of_nat) simp_all
  ultimately show "0 \<le> f32 (of_nat d * u)" "f32 (of_nat d * u) \<le> f32 (of_nat d * v)"
    "f32 (of_nat d * v) \<le> of_nat d"
    by (auto intro: round_to_nonneg round_to_mono round_to_at_most)
qed

lemma lerp_between:
  assumes "a \<le> 255" and "b \<le> 255" and "s \<le> t"
  shows "a \<le> b \<Longrightarrow> lerp_u8 a b s \<le> lerp_u8 a b t" and "b < a \<Longrightarrow> lerp_u8 a b t \<le> lerp_u8 a b s"
proof -
  obtain u v where uv: "min (max s 0) 1 = u" "min (max t 0) 1 = v" by blast
  with assms(3) have m: "0 \<le> u" "u \<le> v" "v \<le> 1" by (auto simp: min_def max_def split: if_splits)
  show "lerp_u8 a b s \<le> lerp_u8 a b t" if "a \<le> b"
  proof -
    have "b - a \<le> 255" using assms by simp
    note g = scaled [OF m this]
    have "f32 (of_nat a + f32 (of_nat (b - a) * u)) \<le> f32 (of_nat a + f32 (of_nat (b - a) * v))"
      using g by (intro round_to_mono add_nonneg_nonneg) simp_all
    then show ?thesis using that by (simp only: lerp_value [OF assms(1,2)] uv if_True float_as_mono)
  qed
  show "lerp_u8 a b t \<le> lerp_u8 a b s" if "b < a"
  proof -
    have "a - b \<le> 255" using assms by simp
    note g = scaled [OF m this]
    have "(of_nat (a - b) :: rat) \<le> of_nat a" by (simp only: of_nat_le_iff diff_le_self)
    with g(3) have "0 \<le> of_nat a - f32 (of_nat (a - b) * v)" by linarith
    then have "f32 (of_nat a + - f32 (of_nat (a - b) * v)) \<le> f32 (of_nat a + - f32 (of_nat (a - b) * u))"
      using g(2) by (intro round_to_mono) simp_all
    moreover have "\<not> a \<le> b" using that by simp
    ultimately show ?thesis by (simp only: lerp_value [OF assms(1,2)] uv if_False float_as_mono)
  qed
qed

section \<open>Properties\<close>

definition base_colour :: rgb where "base_colour = (0x93, 0x52, 0xff)"
definition peak_colour :: rgb where "peak_colour = (0x29, 0xff, 0x98)"

lemma shimmer_style_ends: "shimmer_style 0 = base_colour" "shimmer_style 1 = peak_colour"
  by (simp_all add: shimmer_style_def lerp_ends base_colour_def peak_colour_def)

text \<open>
  The band of light never leaves its two colours: in every frame, each channel of a lit cell
  lies between the resting and the peak colour; the cell the band stands on has exactly the peak
  colour, a cell ten or more columns away exactly the resting one, and nearer cells are at least as
  bright as farther ones. The rounding of the 32-bit floats is part of the statement.
\<close>
theorem shimmer_between_two_colours:
  assumes "x < width" and "y < width" and "width + 20 < 2 ^ 31" and "frame_no < 2 ^ 31"
    and "light_distance x width frame_no \<le> light_distance y width frame_no"
  shows "(case shimmer_style (shimmer_intensity x width frame_no) of (r, g, b) \<Rightarrow>
        0x29 \<le> r \<and> r \<le> 0x93 \<and> 0x52 \<le> g \<and> g \<le> 0xff \<and> 0x98 \<le> b \<and> b \<le> 0xff)
    \<and> (light_distance x width frame_no = 0 \<longrightarrow>
         shimmer_style (shimmer_intensity x width frame_no) = peak_colour)
    \<and> (10 \<le> light_distance x width frame_no \<longrightarrow>
         shimmer_style (shimmer_intensity x width frame_no) = base_colour)
    \<and> shimmer_intensity y width frame_no \<le> shimmer_intensity x width frame_no"
proof -
  let ?i = "shimmer_intensity x width frame_no"
  have i: "?i = glow (light_distance x width frame_no)"
    "shimmer_intensity y width frame_no = glow (light_distance y width frame_no)"
    using assms by (simp_all add: shimmer_intensity_glow)
  have "0 \<le> light_distance x width frame_no" by (simp add: light_distance_def)
  then have range: "0 \<le> ?i" "?i \<le> 1" by (simp_all add: i glow_range)
  have lerp: "a \<le> 255 \<Longrightarrow> b \<le> 255 \<Longrightarrow> min a b \<le> lerp_u8 a b ?i \<and> lerp_u8 a b ?i \<le> max a b" for a b
    using lerp_between [of a b 0 ?i] lerp_between [of a b ?i 1] lerp_ends [of a b] range
    by (cases "a \<le> b") (simp_all add: min_def max_def)
  show ?thesis
    using lerp [of 147 41] lerp [of 82 255] lerp [of 255 152] i
      glow_antimono [of "light_distance x width frame_no" "light_distance y width frame_no"] assms(5)
      \<open>0 \<le> light_distance x width frame_no\<close>
    by (simp add: glow_ends shimmer_style_ends) (simp add: shimmer_style_def)
qed

lemma shimmer_between_two_colours_witness:
  "shimmer_style (shimmer_intensity 5 43 15) = peak_colour
   \<and> shimmer_style (shimmer_intensity 20 43 15) = base_colour"
  using shimmer_between_two_colours [of 5 43 20 15] shimmer_between_two_colours [of 20 43 20 15]
  by (simp add: light_distance_def)

text \<open>The frames drawn: one per tick, up to the first tick past the duration.\<close>

lemma animation_frames:
  assumes "\<forall>t\<in>set early. t < SPLASH_DURATION" and "SPLASH_DURATION \<le> final"
  shows "run_splash_screen_animation (early @ final # later) n = map (\<lambda>k. n + of_nat k) [0..<length early + 1]"
  using assms(1)
proof (induction early arbitrary: n)
  case Nil
  then show ?case using assms(2) by simp
next
  case (Cons t early)
  then have "run_splash_screen_animation (early @ final # later) (n + 1)
      = map (\<lambda>k. n + 1 + of_nat k) [0..<length early + 1]" by simp
  also have "\<dots> = map (\<lambda>k. n + of_nat k) [Suc 0..<Suc (length early + 1)]"
    by (simp only: map_Suc_upt [symmetric] map_map comp_def of_nat_Suc add.assoc)
  finally show ?case
    using Cons.prems upt_conv_Cons [of 0 "Suc (length early + 1)"] by (simp del: upt_Suc)
qed

lemma animation_prefix:
  assumes "\<forall>t\<in>set early. t < SPLASH_DURATION" and "k \<le> length early" and "ticks = early @ t # later"
  shows "n + of_nat k \<in> set (run_splash_screen_animation ticks n)"
  using assms
proof (induction early arbitrary: n k ticks)
  case (Cons s early)
  then show ?case
    using Cons.IH [of "k - 1" "early @ t # later" "n + 1"] by (cases k) (auto simp: algebra_simps)
qed simp

text \<open>
  The light crosses the whole logo before the main screen takes over: when the ticks keep
  their pace of 33 milliseconds and the animation starts within eight tenths of a second after the UI
  was created, every column of the logo is the peak of the band, in the peak colour, in some frame
  drawn.
\<close>
theorem light_crosses_the_logo:
  assumes "x < logo_width" and "length ticks = 76"
    and "\<forall>k<76. ticks ! k \<le> from_millis (800 + 33 * k)"
  shows "\<exists>frame_no\<in>set (run_splash_screen_animation ticks 0).
     shimmer_style (shimmer_intensity x logo_width (unat frame_no)) = peak_colour"
proof (rule bexI)
  let ?f = "x + 10"
  have x: "x < 43" using assms(1) by (simp add: logo_shape)
  have f: "unat (of_nat ?f :: 64 word) = ?f" using x by (simp only: unat_of_nat) simp
  have "light_distance x 43 ?f = 0" using x by (simp add: light_distance_def)
  then show "shimmer_style (shimmer_intensity x logo_width (unat (of_nat ?f :: 64 word))) = peak_colour"
    using x by (simp add: f logo_shape shimmer_intensity_glow glow_ends shimmer_style_ends del: of_nat_add)
  let ?early = "take ?f ticks"
  have "t < SPLASH_DURATION" if t: "t \<in> set ?early" for t
  proof -
    obtain k where k: "k < ?f" "k < 76" "t = ticks ! k"
      using t assms(2) by (auto simp: in_set_conv_nth)
    then have "t \<le> from_millis (800 + 33 * k)" using assms(3) by simp
    also have "\<dots> < SPLASH_DURATION" using k(1) x by (simp add: from_millis_def SPLASH_DURATION_def)
    finally show ?thesis .
  qed
  moreover have "ticks = ?early @ ticks ! ?f # drop (Suc ?f) ticks"
    using assms(2) x by (intro id_take_nth_drop) simp
  ultimately show "of_nat ?f \<in> set (run_splash_screen_animation ticks 0)"
    using animation_prefix [of ?early ?f ticks "ticks ! ?f" "drop (Suc ?f) ticks" 0] x assms(2) by simp
qed

lemma light_crosses_the_logo_witness:
  "\<exists>frame_no\<in>set (run_splash_screen_animation (map (\<lambda>k. from_millis (33 * k)) [0..<76]) 0).
     shimmer_style (shimmer_intensity 42 logo_width (unat frame_no)) = peak_colour"
  by (rule light_crosses_the_logo) (simp_all add: logo_shape from_millis_def)

end
