(* ===== verification/Ui_Stats.thy ===== *)
theory Ui_Stats
  imports Splash Ui_Screen
begin

text \<open>
  The numbers the OVERVIEW tab computes in floating point (\<open>tui/overview/mod.rs\<close> and the animation
  helpers of \<open>tui/mod.rs\<close>): the entrance animation, the four gauges, and the scale of the bandwidth
  chart. \<open>pow2\<close> stands for \<open>2.0f32.powf\<close>, whose precision Rust leaves open. The chart's buckets are
  the exact ones of \<open>Ui_View\<close>: the source's kibibytes are multiples of a power of two, exact while a
  bucket stays below \<open>2 ^ 53\<close> bytes.
\<close>

section \<open>The entrance animation\<close>

text \<open>\<open>elapsed\<close> is the whole milliseconds since the UI was created.\<close>

definition animation_progress :: "nat \<Rightarrow> rat" where
  "animation_progress elapsed = min (f32 (f32 (of_nat elapsed) / f32 800)) 1"

definition ease_out_expo :: "(rat \<Rightarrow> rat) \<Rightarrow> rat \<Rightarrow> rat" where
  "ease_out_expo pow2 progress = (if 1 \<le> progress then 1 else f32 (1 - pow2 (f32 (- 10 * progress))))"

record rect =
  rect_x :: u16
  rect_y :: u16
  rect_width :: u16
  rect_height :: u16

definition u16_saturating_add :: "u16 \<Rightarrow> u16 \<Rightarrow> u16" where
  "u16_saturating_add a b = (if unat a + unat b \<le> 65535 then a + b else 65535)"

definition u16_saturating_sub :: "u16 \<Rightarrow> u16 \<Rightarrow> u16" where
  "u16_saturating_sub a b = (if b \<le> a then a - b else 0)"

definition overview_area :: "(rat \<Rightarrow> rat) \<Rightarrow> nat \<Rightarrow> rect \<Rightarrow> rect" where
  "overview_area pow2 elapsed area =
     (let progress = ease_out_expo pow2 (animation_progress elapsed);
          animated_height = of_nat (float_as_u16 (f32 (f32 (of_nat (unat (rect_height area))) * progress)))
      in \<lparr>rect_x = rect_x area,
          rect_y = u16_saturating_add (rect_y area) (u16_saturating_sub (rect_height area) animated_height),
          rect_width = rect_width area, rect_height = animated_height\<rparr>)"

section \<open>The gauges\<close>

record gauge =
  gauge_title :: string
  gauge_percent :: nat
  gauge_label :: string

definition count_percent :: "nat \<Rightarrow> rat \<Rightarrow> nat" where
  "count_percent n progress = (if 0 < n then min (float_as_u16 (f32 (100 * progress))) 100 else 0)"

text \<open>The share of 100 MiB, before the animation.\<close>

definition traffic_percent :: "u64 \<Rightarrow> nat" where
  "traffic_percent bytes =
     (let max_bytes = 100 * 1024 * 1024
      in float_as_u16 (min (f64 (f64 (f64 (of_nat (unat bytes)) / f64 max_bytes) * f64 100)) 100))"

definition animated_percent :: "nat \<Rightarrow> rat \<Rightarrow> nat" where
  "animated_percent percent progress = min (float_as_u16 (f32 (f32 (of_nat percent) * progress))) 100"

definition overall_stats :: "view_api \<Rightarrow> (rat \<Rightarrow> rat) \<Rightarrow> nat \<Rightarrow> ui_state \<Rightarrow> gauge list" where
  "overall_stats A pow2 elapsed st =
     (let total_sessions = card (us_sessions st);
          active_peers = card (us_peers st);
          progress = ease_out_expo pow2 (animation_progress elapsed)
      in [\<lparr>gauge_title = '' ACTIVE SESSIONS '', gauge_percent = count_percent total_sessions progress,
           gauge_label = show_nat total_sessions\<rparr>,
          \<lparr>gauge_title = '' CONNECTED PEERS '', gauge_percent = count_percent active_peers progress,
           gauge_label = show_nat active_peers\<rparr>,
          \<lparr>gauge_title = '' TOTAL UPLOAD '',
           gauge_percent = animated_percent (traffic_percent (us_total_upload st)) progress,
           gauge_label = format_bytes A (us_total_upload st)\<rparr>,
          \<lparr>gauge_title = '' TOTAL DOWNLOAD '',
           gauge_percent = animated_percent (traffic_percent (us_total_download st)) progress,
           gauge_label = format_bytes A (us_total_download st)\<rparr>])"

section \<open>The scale of the chart\<close>

definition mbps :: "nat \<Rightarrow> rat" where
  "mbps bits = f64 (f64 (of_nat bits) / f64 1000000)"

definition chart_data :: "int \<Rightarrow> (int \<times> u64) list \<Rightarrow> (rat \<times> rat) list" where
  "chart_data now graph = map (\<lambda>(x, bits). (of_int x, mbps bits)) (chart_points now graph)"

definition y_max :: "(rat \<times> rat) list \<Rightarrow> (rat \<times> rat) list \<Rightarrow> rat" where
  "y_max upload_points download_points =
     (let peak = fold max (map snd (upload_points @ download_points)) 0
      in max (f64 (peak * f64 (11 / 10))) 1)"

definition show_fixed :: "view_api \<Rightarrow> nat \<Rightarrow> rat \<Rightarrow> string" where
  "show_fixed A digits q = (case quotient_of q of (n, d) \<Rightarrow> vw_fixed A digits (nat n) (nat d))"

record chart =
  chart_upload :: "(rat \<times> rat) list"
  chart_download :: "(rat \<times> rat) list"
  chart_x_bounds :: "rat \<times> rat"
  chart_y_bounds :: "rat \<times> rat"
  chart_y_labels :: "string list"

definition overall_bandwidth :: "view_api \<Rightarrow> int \<Rightarrow> ui_state \<Rightarrow> chart" where
  "overall_bandwidth A now st =
     (let upload_points = chart_data now (us_upload_graph st);
          download_points = chart_data now (us_download_graph st);
          top = y_max upload_points download_points
      in \<lparr>chart_upload = upload_points, chart_download = download_points,
          chart_x_bounds = (- of_int WINDOW_SECS, 0), chart_y_bounds = (0, top),
          chart_y_labels = [''0'', show_fixed A 1 (f64 (top / 2)), show_fixed A 1 top]\<rparr>)"

section \<open>The animation is over before it can be seen\<close>

lemma animation_progress_done:
  assumes "800 \<le> elapsed"
  shows "animation_progress elapsed = 1"
proof -
  have "800 \<le> f32 (of_nat elapsed)" using assms by (intro round_to_at_least) simp_all
  then have "1 \<le> f32 (f32 (of_nat elapsed) / 800)" by (intro round_to_at_least) simp_all
  then show ?thesis by (simp add: animation_progress_def)
qed

lemma float_as_u16_exact: "n \<le> 65535 \<Longrightarrow> float_as_u16 (f32 (f32 (of_nat n))) = n"
  by (simp add: round_to_of_nat)

lemma unat_u16_le: "unat (w :: u16) \<le> 65535"
proof -
  have "unat w < 2 ^ LENGTH(16)" by (rule unsigned_less)
  then show ?thesis by simp
qed

lemma overview_area_settled: "800 \<le> elapsed \<Longrightarrow> overview_area pow2 elapsed area = area"
  using float_as_u16_exact [OF unat_u16_le [of "rect_height area"]] unat_u16_le [of "rect_y area"]
  by (simp add: overview_area_def animation_progress_done ease_out_expo_def
      u16_saturating_add_def u16_saturating_sub_def)

lemma traffic_percent_le: "traffic_percent bytes \<le> 100"
proof -
  have "float_as_u16 q \<le> float_as_u16 100" if "q \<le> 100" for q :: rat
    using that by (rule float_as_mono)
  then show ?thesis by (simp add: traffic_percent_def)
qed

text \<open>
  The entrance animation of the OVERVIEW tab is never seen: it lasts 800 milliseconds from the
  creation of the UI, and the splash that is shown first only ends once two and a half seconds have
  passed. When the splash is over, the area is the whole one and the gauges stand at their final
  percentages, whatever \<open>powf\<close> computes. The two clocks were started within a second and a half.
\<close>
theorem entrance_animation_never_seen:
  assumes "SPLASH_DURATION \<le> since_splash" and "since_splash \<le> from_millis (elapsed + 1500)"
  shows "overview_area pow2 elapsed area = area
    \<and> map gauge_percent (overall_stats A pow2 elapsed st)
      = [if card (us_sessions st) = 0 then 0 else 100, if card (us_peers st) = 0 then 0 else 100,
         traffic_percent (us_total_upload st), traffic_percent (us_total_download st)]"
proof -
  have "800 \<le> elapsed" using assms by (simp add: SPLASH_DURATION_def from_millis_def)
  then have progress: "ease_out_expo pow2 (animation_progress elapsed) = 1"
    by (simp add: animation_progress_done ease_out_expo_def)
  have "animated_percent (traffic_percent t) 1 = traffic_percent t" for t
    using traffic_percent_le [of t] by (simp add: animated_percent_def float_as_u16_exact)
  then show ?thesis
    using overview_area_settled [OF \<open>800 \<le> elapsed\<close>]
    by (simp add: overall_stats_def progress count_percent_def Let_def)
qed

lemma entrance_animation_never_seen_witness:
  "overview_area (\<lambda>x. 0) 2500 \<lparr>rect_x = 0, rect_y = 3, rect_width = 80, rect_height = 20\<rparr>
   = \<lparr>rect_x = 0, rect_y = 3, rect_width = 80, rect_height = 20\<rparr>"
  using entrance_animation_never_seen [of SPLASH_DURATION 2500]
  by (simp add: SPLASH_DURATION_def from_millis_def)

section \<open>The traffic gauges\<close>

text \<open>The percentage as a function of the number of bytes.\<close>

definition share_percent :: "nat \<Rightarrow> nat" where
  "share_percent n = float_as_u16 (min (f64 (f64 (f64 (of_nat n) / 104857600) * 100)) 100)"

lemma traffic_percent_share: "traffic_percent bytes = share_percent (unat bytes)"
  by (simp add: traffic_percent_def share_percent_def)

lemma share_percent_mono:
  assumes "m \<le> n"
  shows "share_percent m \<le> share_percent n"
proof -
  have "f64 (of_nat m) \<le> f64 (of_nat n)" "0 \<le> f64 (of_nat m)"
    using assms by (auto intro!: round_to_mono round_to_nonneg)
  then have "f64 (f64 (of_nat m) / 104857600) \<le> f64 (f64 (of_nat n) / 104857600)"
    "0 \<le> f64 (f64 (of_nat m) / 104857600)"
    by (auto intro!: round_to_mono round_to_nonneg divide_right_mono)
  then have "f64 (f64 (f64 (of_nat m) / 104857600) * 100) \<le> f64 (f64 (f64 (of_nat n) / 104857600) * 100)"
    by (auto intro!: round_to_mono)
  then have "min (f64 (f64 (f64 (of_nat m) / 104857600) * 100)) 100
      \<le> min (f64 (f64 (f64 (of_nat n) / 104857600) * 100)) 100" by (rule min.mono) simp
  then show ?thesis by (simp only: share_percent_def float_as_mono)
qed

lemma share_percent_full: "104857600 \<le> n \<Longrightarrow> share_percent n = 100"
proof -
  assume "104857600 \<le> n"
  then have "(104857600 :: rat) \<le> of_nat n" by (metis of_nat_le_iff of_nat_numeral)
  then have "104857600 \<le> f64 (of_nat n)" by (intro round_to_at_least) simp_all
  then have "1 \<le> f64 (f64 (of_nat n) / 104857600)" by (intro round_to_at_least) simp_all
  then have "100 \<le> f64 (f64 (f64 (of_nat n) / 104857600) * 100)" by (intro round_to_at_least) simp_all
  then show ?thesis by (simp add: share_percent_def)
qed

text \<open>Concrete readings, evaluated in double precision: one byte short of the reference, and 29 MiB.\<close>

lemma share_percent_steps:
  assumes "f64 (of_nat n / 104857600) = x" and "f64 (x * 100) = y" and "n \<le> 2 ^ 53"
  shows "share_percent n = float_as_u16 (min y 100)"
  using assms by (simp add: share_percent_def round_to_of_nat)

lemma share_percent_readings: "share_percent 104857599 = 99" "share_percent 30408704 = 28" "share_percent 0 = 0"
proof -
  have "f64 (of_nat 104857599 / 104857600) = 4503599584420823 / 4503599627370496"
    by (simp, subst round_to_eval [where e = "-1"]) (simp_all add: float_eval)
  moreover have "f64 (4503599584420823 / 4503599627370496 * 100) = 104857599 / 1048576"
    by (subst round_to_eval [where e = 6]) (simp_all add: float_eval)
  ultimately have "share_percent 104857599 = float_as_u16 (min (104857599 / 1048576) 100)"
    by (rule share_percent_steps) simp
  then show "share_percent 104857599 = 99" by (simp add: float_as_def)
  have "f64 (of_nat 30408704 / 104857600) = 5224175567749775 / 18014398509481984"
    by (simp, subst round_to_eval [where e = "-2"]) (simp_all add: float_eval)
  moreover have "f64 (5224175567749775 / 18014398509481984 * 100) = 8162774324609023 / 281474976710656"
    by (subst round_to_eval [where e = 4]) (simp_all add: float_eval)
  ultimately have "share_percent 30408704 = float_as_u16 (min (8162774324609023 / 281474976710656) 100)"
    by (rule share_percent_steps) simp
  then show "share_percent 30408704 = 28" by (simp add: float_as_def)
  show "share_percent 0 = 0" by (simp add: share_percent_def float_as_def)
qed

text \<open>
  C38. A traffic gauge never asks for more than 100 percent, at which ratatui would panic, never
  moves back as bytes arrive, starts at 0 and stands at 100 exactly from 100 MiB on: the rounding of
  the double-precision division and multiplication never reaches 100 early. It can read one percent
  low: at 29 MiB it shows 28.
\<close>
theorem traffic_gauge_sound:
  "traffic_percent bytes \<le> 100
   \<and> (bytes \<le> later_total \<longrightarrow> traffic_percent bytes \<le> traffic_percent later_total)
   \<and> (traffic_percent bytes = 100 \<longleftrightarrow> 100 * 1024 * 1024 \<le> unat bytes)
   \<and> traffic_percent 0 = 0 \<and> traffic_percent (29 * 1024 * 1024) = 28"
proof -
  have "traffic_percent bytes \<noteq> 100" if "\<not> 104857600 \<le> unat bytes"
    using share_percent_mono [of "unat bytes" 104857599] share_percent_readings(1) that
    by (simp add: traffic_percent_share)
  moreover have "unat bytes \<le> unat later_total" if "bytes \<le> later_total" using that by (simp add: word_le_nat_alt)
  ultimately show ?thesis
    using share_percent_readings share_percent_full [of "unat bytes"] traffic_percent_le [of bytes]
    by (auto simp: traffic_percent_share share_percent_mono)
qed

lemma traffic_gauge_sound_witness: "traffic_percent 1000 \<le> traffic_percent 2000"
  using traffic_gauge_sound [of 1000 2000] by simp

section \<open>The chart\<close>

lemma mbps_float: "0 \<le> mbps bits" "f64 (mbps bits) = mbps bits"
  by (simp_all add: mbps_def round_to_nonneg round_to_idem)

lemma fold_max_upper: "x \<in> set (m # xs) \<Longrightarrow> x \<le> fold max xs (m :: rat)"
  by (simp only: Max.set_eq_fold [symmetric] Max_ge finite_set)

lemma chart_points_x: "(x, bits) \<in> set (chart_points now graph) \<Longrightarrow> - 30 < x \<and> x \<le> 0"
proof -
  have step: "length (bucket_step now s bs) = length bs" for s bs
    by (simp add: bucket_step_def Let_def split: prod.split)
  have "length (fold (bucket_step now) g bs) = length bs" for g bs
    by (induction g arbitrary: bs) (simp_all add: step)
  then have "length (buckets_of now graph) = 30" by (simp add: buckets_of_def WINDOW_SECS_def)
  moreover assume "(x, bits) \<in> set (chart_points now graph)"
  ultimately show ?thesis by (auto simp: chart_points_def in_set_enumerate_eq)
qed


definition uploading :: ui_state where
  "uploading = ui_state_new\<lparr>us_upload_graph := [(0, 5)]\<rparr>"


end
