(* ===== verification/Ui_Frame.thy ===== *)
theory Ui_Frame
  imports Ui_Stats
begin

text \<open>
  The frame around the tabs: the rows of the main layout, the toast of an export and the shutdown
  screen (\<open>render\<close>, \<open>render_shutting_down\<close>, \<open>default_export_path\<close> in \<open>tui/mod.rs\<close>), and the help
  footer (\<open>render_footer_or_logs\<close> in \<open>tui/overview/mod.rs\<close>). How ratatui turns the constraints into
  rectangles is its own; a layout is a parameter here.
\<close>

section \<open>Layout\<close>

definition frame_constraints :: "('p, 'l) ui \<Rightarrow> constraint list" where
  "frame_constraints u = [FixedRows 3, MinRows 0, FixedRows (if ui_show_logs u then 10 else 3)]"

definition banner_area :: "rect \<Rightarrow> rect" where
  "banner_area body =
     (let banner_h = 3
      in \<lparr>rect_x = rect_x body,
          rect_y = u16_saturating_add (rect_y body) (u16_saturating_sub (rect_height body) banner_h),
          rect_width = rect_width body, rect_height = banner_h\<rparr>)"

section \<open>Texts\<close>

text \<open>The footer: each key with what it does, dividers between.\<close>

datatype footer_span = Hint string | Label string | Divider

fun footer_spans :: "(string \<times> string) list \<Rightarrow> footer_span list" where
  "footer_spans [] = []"
| "footer_spans [(k, l)] = [Hint ('' ['' @ k @ ''] ''), Label l]"
| "footer_spans ((k, l) # rest) = [Hint ('' ['' @ k @ ''] ''), Label l, Divider] @ footer_spans rest"

text \<open>The arrows and the return symbol are their UTF-8 bytes.\<close>

definition footer_keys :: "(string \<times> string) list" where
  "footer_keys =
     [(''Tab'', ''Switch Tabs''), (''L'', ''Toggle Logs''), (''E'', ''Export Logs''),
      (up_arrow @ ''/'' @ down_arrow, ''Navigate''),
      ([CHR 0xE2, CHR 0x8F, CHR 0x8E], ''Expand''), (''Q'', ''Quit'')]"

definition help_footer :: "footer_span list" where
  "help_footer = footer_spans footer_keys"

definition default_export_path :: "string \<Rightarrow> string" where
  "default_export_path stamp = ''p2proxy-logs-'' @ stamp @ ''.txt''"

definition shutting_down_body :: string where
  "shutting_down_body =
     [CHR 0x0A, CHR 0x0A] @ ''Shutting down'' @ ellipsis @ [CHR 0x0A, CHR 0x0A]
     @ ''disconnecting peers and closing listeners''"

section \<open>Properties\<close>

text \<open>
  The rectangles of a layout, from the top: stacked without gaps inside the screen, and a fixed
  number of rows is granted when the screen has them.
\<close>

definition stacked :: "rect \<Rightarrow> rect list \<Rightarrow> bool" where
  "stacked area rects \<longleftrightarrow>
     (\<forall>i<length rects. rect_x (rects ! i) = rect_x area \<and> rect_width (rects ! i) = rect_width area
        \<and> unat (rect_y (rects ! i)) = unat (rect_y area) + sum_list (map (unat \<circ> rect_height) (take i rects)))
     \<and> sum_list (map (unat \<circ> rect_height) rects) = unat (rect_height area)"

definition grants :: "constraint list \<Rightarrow> rect list \<Rightarrow> bool" where
  "grants cs rects \<longleftrightarrow>
     list_all2 (\<lambda>c r. case c of FixedRows n \<Rightarrow> unat (rect_height r) = n | MinRows n \<Rightarrow> n \<le> unat (rect_height r)) cs rects"

definition inside :: "rect \<Rightarrow> rect \<Rightarrow> bool" where
  "inside inner outer \<longleftrightarrow>
     rect_x inner = rect_x outer \<and> rect_width inner = rect_width outer
     \<and> rect_y outer \<le> rect_y inner
     \<and> unat (rect_y inner) + unat (rect_height inner) \<le> unat (rect_y outer) + unat (rect_height outer)"

lemma u16_saturating_nat:
  "unat (u16_saturating_add a b) = min (unat a + unat b) 65535"
  "unat (u16_saturating_sub a b) = unat a - unat b"
  by (simp_all add: u16_saturating_add_def u16_saturating_sub_def unat_plus_if' unat_sub_if_size
      word_le_nat_alt min_def)

text \<open>
  The toast of an export never leaves the screen: with any layout that stacks the three parts of
  the frame and grants the fixed ones (the screen has the rows of the header and the footer), the
  banner lies within the screen even when no row is left for the main content, and within the main
  content when that has three rows.
\<close>
theorem export_banner_on_screen:
  assumes "stacked area [header, body, footer]" and "grants (frame_constraints u) [header, body, footer]"
    and "unat (rect_y area) + unat (rect_height area) \<le> 65535"
  shows "inside (banner_area body) area
    \<and> (3 \<le> unat (rect_height body) \<longrightarrow> inside (banner_area body) body)"
proof -
  have layout: "rect_x body = rect_x area" "rect_width body = rect_width area"
    "unat (rect_y body) = unat (rect_y area) + unat (rect_height header)"
    "unat (rect_height header) + unat (rect_height body) + unat (rect_height footer) = unat (rect_height area)"
    using assms(1) by (simp_all add: stacked_def numeral_eq_Suc All_less_Suc)
  have "3 \<le> unat (rect_height footer)"
    using assms(2) by (auto simp: grants_def frame_constraints_def split: if_splits)
  then show ?thesis
    using layout assms(3)
    by (auto simp: inside_def banner_area_def u16_saturating_nat word_le_nat_alt)
qed

text \<open>A terminal of six rows: header and footer take all of them.\<close>

definition six_rows :: rect where
  "six_rows = \<lparr>rect_x = 0, rect_y = 0, rect_width = 80, rect_height = 6\<rparr>"

definition six_row_layout :: "rect list" where
  "six_row_layout = [\<lparr>rect_x = 0, rect_y = 0, rect_width = 80, rect_height = 3\<rparr>,
     \<lparr>rect_x = 0, rect_y = 3, rect_width = 80, rect_height = 0\<rparr>,
     \<lparr>rect_x = 0, rect_y = 3, rect_width = 80, rect_height = 3\<rparr>]"

lemma export_banner_on_screen_witness:
  "inside (banner_area (six_row_layout ! 1)) six_rows"
proof -
  let ?u = "ui_new () () (discovery_config [])"
  have "stacked six_rows six_row_layout" "grants (frame_constraints ?u) six_row_layout"
    by (simp_all add: stacked_def grants_def six_rows_def six_row_layout_def frame_constraints_def ui_new_def
        discovery_config_def All_less_Suc)
  then show ?thesis
    using export_banner_on_screen [of six_rows _ _ _ ?u]
    by (simp add: six_row_layout_def six_rows_def)
qed

text \<open>
  The footer names its letters in capitals. With the prompt closed and no log view focused, the
  lower-case letters do what it says; of the capitals only \<open>E\<close> does, \<open>L\<close> and \<open>Q\<close> just repaint.
\<close>

theorem footer_letters:
  assumes "\<not> prompt_is_open W (ui_export_prompt u)" and "\<not> logs_focused u"
  shows "snd (handle_key W now (KeyChar (CHR ''l'')) u) = toggle_logs (mark_dirty u)"
    and "fst (handle_key W now (KeyChar (CHR ''q'')) u) = Quit"
    and "handle_key W now (KeyChar (CHR ''E'')) u = handle_key W now (KeyChar (CHR ''e'')) u"
    and "handle_key W now (KeyChar (CHR ''L'')) u = (Stay, mark_dirty u)"
    and "handle_key W now (KeyChar (CHR ''Q'')) u = (Stay, mark_dirty u)"
proof -
  have "ui_export_prompt (mark_dirty u) = ui_export_prompt u" "logs_focused (mark_dirty u) \<longleftrightarrow> logs_focused u"
    by (simp_all add: mark_dirty_def logs_focused_def)
  with assms have "handle_key W now c u = dispatch_key W now c (mark_dirty u)" for c
    by (simp add: handle_key_def Let_def)
  then show "snd (handle_key W now (KeyChar (CHR ''l'')) u) = toggle_logs (mark_dirty u)"
    "fst (handle_key W now (KeyChar (CHR ''q'')) u) = Quit"
    "handle_key W now (KeyChar (CHR ''E'')) u = handle_key W now (KeyChar (CHR ''e'')) u"
    "handle_key W now (KeyChar (CHR ''L'')) u = (Stay, mark_dirty u)"
    "handle_key W now (KeyChar (CHR ''Q'')) u = (Stay, mark_dirty u)"
    by simp_all
qed

text \<open>The footer as it reads.\<close>

lemma help_footer_text:
  "map (\<lambda>s. case s of Hint k \<Rightarrow> k | Label l \<Rightarrow> l | Divider \<Rightarrow> '' | '') (take 8 help_footer)
   = ['' [Tab] '', ''Switch Tabs'', '' | '', '' [L] '', ''Toggle Logs'', '' | '', '' [E] '', ''Export Logs'']"
  by (simp add: help_footer_def footer_keys_def)

end
