(* ===== verification/Ui_Blocks.thy ===== *)
theory Ui_Blocks
  imports Ui_Frame
begin

text \<open>
  The block of a server on the NETWORK tab (\<open>tui/network/mod.rs\<close>): how the rows of an expanded
  block are divided between its header and its table, the title, the columns, and what of the
  header's lines fits. How ratatui breaks a line into rows is the parameter \<open>wrap\<close>; every line,
  an empty one too, takes at least one row. \<open>Borders::ALL\<close> takes the first and the last row.
\<close>

section \<open>Layout\<close>

definition expanded_constraints :: "ui_state \<Rightarrow> u16 \<Rightarrow> constraint list" where
  "expanded_constraints st port = [FixedRows (header_height st port), MinRows 0]"

datatype columns_of = FixedColumns nat | MinColumns nat

definition pool_widths :: "columns_of list" where
  "pool_widths = [FixedColumns 2, MinColumns 52, MinColumns 20, FixedColumns 9, FixedColumns 10, FixedColumns 10]"

definition table_header :: "string list" where
  "table_header = ['''', ''Peer ID'', ''Address'', ''Status'', up_arrow @ '' bytes'', down_arrow @ '' bytes'']"

text \<open>One row, and the margin below it.\<close>

definition table_header_rows :: nat where
  "table_header_rows = 1 + 1"

definition inner_rows :: "nat \<Rightarrow> nat" where
  "inner_rows height = height - 2"

definition shown_rows :: "(span list \<Rightarrow> 'row list) \<Rightarrow> nat \<Rightarrow> span list list \<Rightarrow> 'row list" where
  "shown_rows wrap height lines = take (inner_rows height) (concat (map wrap lines))"

definition visible_pool_rows :: "nat \<Rightarrow> nat" where
  "visible_pool_rows height = inner_rows height - table_header_rows"

section \<open>Title and border\<close>

fun protocol_debug :: "proxy_protocols \<Rightarrow> string" where
  "protocol_debug Socks5 = ''Socks5''"

definition header_title :: "('p, 'l) ui \<Rightarrow> server \<Rightarrow> bool \<Rightarrow> string" where
  "header_title u server is_selected =
     '' '' @ down_caret @ '' :'' @ show_u16 (srv_port server) @ ''  ('' @ protocol_debug (srv_protocol server)
     @ '') '' @ header_hint u (srv_port server) is_selected @ '' ''"

definition border_of :: "bool \<Rightarrow> colour" where
  "border_of is_selected = (if is_selected then Accent else BorderColour)"

definition title_colour :: "bool \<Rightarrow> colour" where
  "title_colour is_selected = (if is_selected then Accent else Primary)"

section \<open>Properties\<close>

lemma take_concat_enough:
  assumes "\<And>l. l \<in> set ls \<Longrightarrow> wrap l \<noteq> []" and "n \<le> length ls"
  shows "take n (concat (map wrap (ls @ rest))) = take n (concat (map wrap ls))"
proof -
  have "length ls \<le> length (concat (map wrap ls))"
    using assms(1)
  proof (induction ls)
    case (Cons l ls)
    then have "1 \<le> length (wrap l)" and "length ls \<le> length (concat (map wrap ls))"
      by (auto simp: Suc_le_eq)
    from add_mono [OF this] show ?case by simp
  qed simp
  with assms(2) show ?thesis by simp
qed

text \<open>The lines every header starts with, and the one of a server without pinned statuses.\<close>

definition header_top :: "view_api \<Rightarrow> nat \<Rightarrow> ui_state \<Rightarrow> server \<Rightarrow> span list list" where
  "header_top A width st server =
     [[styled (filter_text A (srv_peer_options server)) Foreground Normal], [raw []],
      active_line A width st (srv_port server)]"

definition pool_line :: "ui_state \<Rightarrow> u16 \<Rightarrow> span list" where
  "pool_line st port =
     [styled ''pool: '' BorderColour Normal,
      styled (show_nat (pool_size st port) @ '' candidate'' @ plural (pool_size st port)) Accent Normal]"

lemma header_lines_split:
  "header_lines A width st server = header_top A width st server
     @ (case us_pinned_statuses st (srv_port server) of
          Some (s # ss) \<Rightarrow> map (pinned_line A width (us_active_destinations st (srv_port server))) (s # ss)
        | _ \<Rightarrow> [pool_line st (srv_port server)])"
  by (simp add: header_lines_def header_top_def pool_line_def Let_def split: option.split list.split)



text \<open>
  At the floor of eight rows an expanded block shows its table's heading and no exit; the first exit
  appears with ten rows, one more for each pinned status.
\<close>

theorem floor_shows_no_exit:
  assumes "length (the (us_pinned_statuses st port)) < 65536 \<or> us_pinned_statuses st port = None"
  shows "visible_pool_rows (8 - header_height st port) = 0"
    and "0 < visible_pool_rows (height - header_height st port)
      \<longleftrightarrow> 10 + (case us_pinned_statuses st port of Some s \<Rightarrow> length s | None \<Rightarrow> 0) \<le> height"
  using assms
  by (auto simp: visible_pool_rows_def inner_rows_def table_header_rows_def header_height_def split: option.splits if_splits)

end
