(* ===== verification/Node_Services.thy ===== *)
theory Node_Services
  imports Startup
begin

text \<open>
  What \<open>main\<close> needs before the actors run: the node's identity (\<open>adapters/keypair_identity.rs\<close>), the
  login with it (\<open>adapters/grpc_auth.rs\<close>), waiting for a swarm event with a deadline
  (\<open>utils/wait_ext.rs\<close>) and the choice of the log output (\<open>install_logging\<close> in \<open>main.rs\<close>). Keys,
  signatures, hashing and base58 are libp2p's and other crates'; they are the parameters \<open>key_ops\<close>.
\<close>

section \<open>The identity\<close>

record 'k key_ops =
  key_peer_id :: "'k \<Rightarrow> peer_id"
  key_ed25519 :: "'k \<Rightarrow> string + string"
  key_sign :: "'k \<Rightarrow> string \<Rightarrow> string + string"
  encode_check :: "string \<Rightarrow> string + string"
  sha256_digest :: "string \<Rightarrow> string"

fun signing :: "string + 'a \<Rightarrow> auth_error + 'a" where
  "signing (Inl e) = Inl (Signing e)"
| "signing (Inr x) = Inr x"

definition identity_peer_id :: "'k key_ops \<Rightarrow> 'k \<Rightarrow> peer_id" where
  "identity_peer_id K keypair = key_peer_id K keypair"

definition public_b58 :: "'k key_ops \<Rightarrow> 'k \<Rightarrow> auth_error + string" where
  "public_b58 K keypair =
     (case signing (key_ed25519 K keypair) of
        Inl e \<Rightarrow> Inl e
      | Inr ed \<Rightarrow> signing (encode_check K ed))"

definition identity_sign :: "'k key_ops \<Rightarrow> 'k \<Rightarrow> string \<Rightarrow> auth_error + string" where
  "identity_sign K keypair message = signing (key_sign K keypair message)"

section \<open>The login\<close>

record token_request =
  rq_api_token :: string
  rq_signature :: string
  rq_public_key :: string

record 'k grpc_auth =
  ga_api_key :: string
  ga_identity :: 'k

definition grpc_auth_new :: "string \<Rightarrow> 'k \<Rightarrow> 'k grpc_auth" where
  "grpc_auth_new api_key identity = \<lparr>ga_api_key = api_key, ga_identity = identity\<rparr>"

text \<open>
  \<open>service\<close> is the remote call. The result comes with the requests that were sent, none or one.
\<close>

definition federated_token ::
    "'k key_ops \<Rightarrow> (token_request \<Rightarrow> string + string) \<Rightarrow> 'k grpc_auth
     \<Rightarrow> (auth_error + string) \<times> token_request list" where
  "federated_token K service auth =
     (let digest = sha256_digest K (ga_api_key auth)
      in case identity_sign K (ga_identity auth) digest of
           Inl e \<Rightarrow> (Inl e, [])
         | Inr signature \<Rightarrow>
             (case signing (encode_check K signature) of
                Inl e \<Rightarrow> (Inl e, [])
              | Inr signature_text \<Rightarrow>
                  (case public_b58 K (ga_identity auth) of
                     Inl e \<Rightarrow> (Inl e, [])
                   | Inr public_key \<Rightarrow>
                       (let request = \<lparr>rq_api_token = ga_api_key auth, rq_signature = signature_text,
                                       rq_public_key = public_key\<rparr>
                        in (case service request of
                              Inl e \<Rightarrow> Inl (Transport e)
                            | Inr token \<Rightarrow>
                                (case sanity_check_federated_token token of
                                   Inl e \<Rightarrow> Inl e
                                 | Inr _ \<Rightarrow> Inr token), [request])))))"

text \<open>
  C37. The login proves the node's identity and hides failures from nobody: at most one request is
  sent, and only when everything local succeeded; the request carries the API key, a signature that
  verifies over the key's digest under the public key in the same request; a token is accepted only
  from an answered request and only in the shape of a v4.public PASETO. \<open>verifies\<close> is the documented
  meaning of signing, stated for this node's key.
\<close>
theorem login_proves_identity:
  assumes "\<forall>m s p. key_sign K (ga_identity auth) m = Inr s \<longrightarrow> key_ed25519 K (ga_identity auth) = Inr p
      \<longrightarrow> verifies p m s"
    and "federated_token K service auth = (result, requests)"
  shows "length requests \<le> 1
    \<and> (\<forall>r\<in>set requests. rq_api_token r = ga_api_key auth
         \<and> (\<exists>p s. encode_check K p = Inr (rq_public_key r) \<and> encode_check K s = Inr (rq_signature r)
              \<and> verifies p (sha256_digest K (ga_api_key auth)) s))
    \<and> (\<forall>token. result = Inr token \<longrightarrow>
         (\<exists>r. requests = [r] \<and> service r = Inr token) \<and> starts_with token V4_PUBLIC_PREFIX)"
proof -
  have signed: "signing x = Inr y \<longleftrightarrow> x = Inr y" for x :: "string + 'b" and y
    by (cases x) simp_all
  have shaped: "sanity_check_federated_token t = Inr () \<Longrightarrow> starts_with t V4_PUBLIC_PREFIX" for t
    by (auto simp: sanity_check_federated_token_def Let_def split: if_splits)
  show ?thesis
  proof (cases "requests = []")
    case True
    then show ?thesis
      using assms(2)
      by (auto simp: federated_token_def Let_def split: sum.splits)
  next
    case False
    then obtain s p b k where parts: "key_sign K (ga_identity auth) (sha256_digest K (ga_api_key auth)) = Inr s"
        "encode_check K s = Inr b" "key_ed25519 K (ga_identity auth) = Inr p" "encode_check K p = Inr k"
      and r: "requests = [\<lparr>rq_api_token = ga_api_key auth, rq_signature = b, rq_public_key = k\<rparr>]"
      using assms(2)
      by (auto simp: federated_token_def identity_sign_def public_b58_def signed Let_def split: sum.splits)
    have "verifies p (sha256_digest K (ga_api_key auth)) s" using assms(1) parts by blast
    moreover have "(\<exists>r. requests = [r] \<and> service r = Inr token) \<and> starts_with token V4_PUBLIC_PREFIX"
      if "result = Inr token" for token
      using assms(2) parts r that
      by (auto simp: federated_token_def identity_sign_def public_b58_def Let_def shaped split: sum.splits)
    ultimately show ?thesis using parts r by auto
  qed
qed

text \<open>Keys that are numbers; a signature names the key and the message.\<close>

definition number_keys :: "nat key_ops" where
  "number_keys =
     \<lparr>key_peer_id = PeerId, key_ed25519 = (\<lambda>k. Inr (show_nat k)),
      key_sign = (\<lambda>k m. Inr (show_nat k @ '':'' @ m)), encode_check = (\<lambda>s. Inr (''b58'' @ s)),
      sha256_digest = (\<lambda>s. ''sha'' @ s)\<rparr>"

lemma login_proves_identity_witness:
  "\<exists>token. fst (federated_token number_keys (\<lambda>r. Inr ''v4.public.payload.footer'') (grpc_auth_new ''key'' 7))
     = Inr token \<and> starts_with token V4_PUBLIC_PREFIX"
proof -
  let ?auth = "grpc_auth_new ''key'' 7"
  let ?run = "federated_token number_keys (\<lambda>r. Inr ''v4.public.payload.footer'') ?auth"
  have "sanity_check_federated_token ''v4.public.payload.footer'' = Inr ()" by code_simp
  then have "fst ?run = Inr ''v4.public.payload.footer''"
    by (simp add: federated_token_def number_keys_def identity_sign_def public_b58_def)
  with login_proves_identity [of number_keys ?auth "\<lambda>p m s. s = p @ '':'' @ m" _ "fst ?run" "snd ?run"]
  show ?thesis by (auto simp: number_keys_def)
qed

section \<open>Waiting with a deadline\<close>

text \<open>
  The events come with the time they arrive. The wait looks at the stream before the clock, so an
  event that is there at the deadline still counts.
\<close>

datatype elapsed = Elapsed

fun wait_for_with_timeout :: "('e \<Rightarrow> 'r option) \<Rightarrow> duration \<Rightarrow> (duration \<times> 'e) list \<Rightarrow> elapsed + 'r" where
  "wait_for_with_timeout accepts timeout [] = Inl Elapsed"
| "wait_for_with_timeout accepts timeout ((at, e) # es) =
     (if timeout < at then Inl Elapsed
      else case accepts e of Some r \<Rightarrow> Inr r | None \<Rightarrow> wait_for_with_timeout accepts timeout es)"

text \<open>
  Waiting with a deadline is waiting on the events that arrive in time: it succeeds exactly when
  one of them is accepted, with the result of the first such event, and otherwise reports the
  deadline.
\<close>
theorem wait_with_timeout_is_wait_in_time:
  assumes "sorted (map fst es)"
  shows "wait_for_with_timeout accepts timeout es =
    (case wait_for accepts (map snd (filter (\<lambda>(at, e). at \<le> timeout) es)) of
       Some (r, rest) \<Rightarrow> Inr r | None \<Rightarrow> Inl Elapsed)"
  using assms
proof (induction es)
  case (Cons ae es)
  obtain at e where ae: "ae = (at, e)" by fastforce
  show ?case
  proof (cases "timeout < at")
    case True
    with Cons.prems have "filter (\<lambda>(at, e). at \<le> timeout) es = []"
      by (auto simp: ae filter_empty_conv)
    with True show ?thesis by (simp add: ae)
  next
    case False
    with Cons show ?thesis by (simp add: ae split: option.split)
  qed
qed simp

lemma wait_with_timeout_is_wait_in_time_witness:
  "wait_for_with_timeout (\<lambda>n. if even n then Some n else None) 10 [(3, 5::nat), (9, 4), (12, 2)] = Inr 4"
  by (subst wait_with_timeout_is_wait_in_time) simp_all

section \<open>Logging\<close>

text \<open>\<open>parse\<close> reads a level of the configuration; \<open>init_tui\<close> is whether \<open>tui_logger\<close> can be installed.\<close>

datatype 'd logging_action =
  FmtLayer 'd | PanicHook | TuiLogger | FileMirror string | TuiLayer 'd

definition default_directive :: "(string \<Rightarrow> 'd option) \<Rightarrow> 'd \<Rightarrow> string option \<Rightarrow> 'd" where
  "default_directive parse info log_level =
     (case Option.bind log_level parse of Some d \<Rightarrow> d | None \<Rightarrow> info)"

definition install_logging ::
    "(string \<Rightarrow> 'd option) \<Rightarrow> 'd \<Rightarrow> string + unit \<Rightarrow> string option \<Rightarrow> bool
     \<Rightarrow> 'd logging_action list \<times> (string + unit)" where
  "install_logging parse info init_tui log_level no_ui =
     (let d = default_directive parse info log_level
      in if no_ui then ([FmtLayer d], Inr ())
         else case init_tui of
                Inl e \<Rightarrow> ([PanicHook], Inl (''failed to init tui_logger: '' @ e))
              | Inr _ \<Rightarrow> ([PanicHook, TuiLogger, FileMirror ''p2proxy'', TuiLayer d], Inr ()))"

text \<open>
  A level that does not parse is not an error: the log falls back to the default level. With the UI,
  a panic restores the terminal before anything else is installed.
\<close>

lemma logging_facts:
  "parse level = None \<Longrightarrow>
     install_logging parse info init_tui (Some level) no_ui = install_logging parse info init_tui None no_ui"
  "\<exists>more. fst (install_logging parse info init_tui log_level False) = PanicHook # more"
  by (simp_all add: install_logging_def default_directive_def split: sum.split)

end
