(* ===== verification/Pinned_System.thy ===== *)
theory Pinned_System
  imports System
begin

text \<open>
  The pins of a server followed through the running system: the discovery actor over the ports of
  the program (\<open>swarm_gateway\<close> over the network actor). What a connect promises
  (\<open>Gateway.pins_hold_through_gateway\<close>) is carried over every handler of the actor, and the two
  events that break it are named.
\<close>

section \<open>One handler\<close>

abbreviation serves :: "('w, 's) discovery_actor \<Rightarrow> u16 \<Rightarrow> peer_id \<Rightarrow> bool" where
  "serves a port p \<equiv> (port, Some p) \<in> set (da_destinations a)"

text \<open>The events that may put \<open>p\<close> on a port without asking whether it is pinned.\<close>

fun bypasses_pins :: "u16 \<Rightarrow> peer_id \<Rightarrow> discovery_event \<Rightarrow> bool" where
  "bypasses_pins port p (SelectPeer q _) \<longleftrightarrow> q = port"
| "bypasses_pins port p (PeerConnected q _ relayed) \<longleftrightarrow> q = p \<and> \<not> relayed"
| "bypasses_pins port p _ \<longleftrightarrow> False"

lemma serves_store: "(port, Some p) \<in> set (store_destination q v ds) \<Longrightarrow> (port, Some p) \<in> set ds \<or> (q = port \<and> v = Some p)"
  by (auto simp: store_destination_def split: if_splits)

lemma serves_set: "serves (set_destination q d a) port p \<Longrightarrow> serves a port p \<or> (q = port \<and> cd_peer d = p)"
  by (auto simp: set_destination_def dest: serves_store)

lemma serves_clear: "serves (clear_destination q a) port p \<Longrightarrow> serves a port p"
  by (auto simp: clear_destination_def dest: serves_store)

lemma serves_adopt: "serves (adopt_specific X server peer source a) port p
    \<Longrightarrow> serves a port p \<or> (srv_port server = port \<and> peer = p)"
  by (auto simp: adopt_specific_def emit_sticky_pool_def Let_def dest: serves_set)

lemma serves_rotate: "serves (rotate_port X candidate q a) port p \<Longrightarrow> serves a port p \<or> candidate = p"
  by (auto simp: rotate_port_def Let_def dest: serves_adopt split: option.splits prod.splits if_splits)

lemma serves_fold:
  assumes "serves (fold f xs a) port p" and "\<And>x b. serves (f x b) port p \<Longrightarrow> serves b port p \<or> ok"
  shows "serves a port p \<or> ok"
  using assms(1)
proof (induction xs arbitrary: a)
  case (Cons x xs)
  then show ?case using assms(2) [of x a] by auto
qed simp

text \<open>What the ports must promise, and the server whose pins are followed.\<close>

definition pins_kept_by_connect :: "('w, 's) discovery_ctx \<Rightarrow> u16 \<Rightarrow> peer_id set \<Rightarrow> bool" where
  "pins_kept_by_connect X port ps \<longleftrightarrow>
     (\<forall>server avoid env d env'. server_for X port = Some server
        \<longrightarrow> connect (dx_connect X) server avoid env = (Inr d, env') \<longrightarrow> cd_peer d \<in> ps)"

lemma serves_discover:
  assumes "pins_kept_by_connect X port ps" and "serves (snd (discover X q avoid a)) port p"
  shows "serves a port p \<or> p \<in> ps"
proof (cases "server_for X q")
  case None
  with assms(2) show ?thesis by (simp add: discover_def)
next
  case (Some server)
  obtain r a' where c: "discovery_connect X server avoid (a\<lparr>da_pending := da_pending a - {q}\<rparr>) = (r, a')"
    by fastforce
  then obtain env where env: "connect (dx_connect X) server avoid (da_env a) = (r, env)"
    by (auto simp: discovery_connect_def split: prod.splits)
  have "da_destinations a' = da_destinations a" using discovery_connect_frame [OF c] by simp
  moreover have "cd_peer d \<in> ps" if "r = Inr d" "q = port" for d
    using assms(1) Some env that unfolding pins_kept_by_connect_def by blast
  ultimately show ?thesis
    using assms(2) Some c
    by (auto simp: discover_def Let_def emit_sticky_pool_def dest!: serves_set serves_clear split: sum.splits)
qed

lemma serves_close:
  assumes "pins_kept_by_connect X port ps" and "serves (close_port X peer q a) port p"
  shows "serves a port p \<or> p \<in> ps"
  using assms(2)
  by (auto simp: close_port_def Let_def dest!: serves_clear serves_discover [OF assms(1)]
      split: option.splits if_splits)

lemma handled_keeps_pins:
  fixes X :: "('w, 's) discovery_ctx"
  assumes "pins_kept_by_connect X port ps" and "serves (snd (discovery_handle X e a)) port p"
    and "\<not> bypasses_pins port p e"
  shows "serves a port p \<or> p \<in> ps"
proof (cases e)
  case (PeerClosed peer)
  with assms(2) have "serves (a\<lparr>da_direct_peers := da_direct_peers a - {peer}\<rparr>) port p \<or> p \<in> ps"
    by (intro serves_fold [where f = "close_port X peer", OF _ serves_close [OF assms(1)]])
      (auto simp: handle_peer_closed_def Let_def)
  then show ?thesis by simp
next
  case (PeerUnusable peer)
  let ?a = "forget_everywhere X peer a"
  have same: "serves (fold (emit_sticky_pool X) ss b) port p \<longleftrightarrow> serves b port p" for ss b
    by (induction ss arbitrary: b) (simp_all add: emit_sticky_pool_def)
  have forget_fold: "serves (fold (\<lambda>s. with_sticky (f s)) ss b) port p \<longleftrightarrow> serves b port p" for f ss b
    by (induction ss arbitrary: b) simp_all
  have forget: "serves ?a port p \<longleftrightarrow> serves a port p"
    unfolding forget_everywhere_def by (rule forget_fold)
  from assms(2) PeerUnusable have "serves ?a port p \<or> p \<in> ps"
    by (intro serves_fold [where f = "\<lambda>port a. snd (discover X port None a)", OF _ serves_discover [OF assms(1)]])
      (auto simp: handle_peer_unusable_def Let_def same)
  with forget show ?thesis by simp
next
  case (PeerConnected peer address relayed)
  have "serves b port p \<or> peer = p"
    if "serves (rotate_off_relay_if_better X peer b) port p" for b :: "('w, 's) discovery_actor"
    using that serves_fold [where f = "rotate_port X peer", OF _ serves_rotate]
    by (auto simp: rotate_off_relay_if_better_def)
  with PeerConnected assms(2,3) show ?thesis
    by (fastforce simp: promote_direct_def split: if_splits)
next
  case (SelectPeer q peer)
  with assms(2,3) show ?thesis
    by (auto simp: select_peer_def dest!: serves_adopt server_for_Some split: option.splits prod.splits)
qed (use assms(1,2) in \<open>auto simp: case_prod_beta dest: serves_discover\<close>)

section \<open>Runs\<close>

lemma step_keeps_pins:
  assumes "pins_kept_by_connect X port ps" and "discovery_step X a b"
    and "serves b port p" and "\<not> serves a port p" and "p \<notin> ps"
  shows "\<exists>e. bypasses_pins port p e \<and> b = snd (discovery_handle X e a)"
  using assms(2)
proof (cases rule: discovery_step.cases)
  case (handle_event e)
  then show ?thesis using handled_keeps_pins [OF assms(1)] assms(3-5) by blast
next
  case (timer_fires ts q d us)
  then show ?thesis
    using handled_keeps_pins [OF assms(1), where e = "DiscoverFor q" and a = "a\<lparr>da_timers := ts @ us\<rparr>" and p = p] assms(3-5) by simp
next
  case (world_moves w)
  then show ?thesis using assms(3,4) by simp
qed

lemma run_keeps_pins:
  assumes "pins_kept_by_connect X port ps" and "(discovery_step X)\<^sup>*\<^sup>* a b"
    and "serves b port p" and "\<not> serves a port p" and "p \<notin> ps"
  shows "\<exists>x e. (discovery_step X)\<^sup>*\<^sup>* a x \<and> \<not> serves x port p \<and> bypasses_pins port p e
    \<and> serves (snd (discovery_handle X e x)) port p \<and> (discovery_step X)\<^sup>*\<^sup>* (snd (discovery_handle X e x)) b"
  using assms(2,3)
proof (induction rule: rtranclp_induct)
  case base
  with assms(4) show ?case by simp
next
  case (step b c)
  show ?case
  proof (cases "serves b port p")
    case True
    with step.IH step.hyps(2) show ?thesis by (meson rtranclp.rtrancl_into_rtrancl)
  next
    case False
    from step_keeps_pins [OF assms(1) step.hyps(2) step.prems False assms(5)]
    show ?thesis using step.hyps(1) step.prems False by blast
  qed
qed

text \<open>
  C3. A hard-pinned server leaves its pins only by a rotation or by the operator's hand. Over the
  program's own gateway and network actor, and in any run of the discovery actor - peers that come
  and go, prove unusable, timers, sessions that ask for a peer - an exit that is not one of the pins
  came to the port in one of two events: a direct connection of that very peer, or a manual pick for
  that port. Until then the destination is one of the pins, blank, or what it was at the start.
\<close>
theorem only_rotation_or_pick_leaves_pins:
  assumes "cx_ports (dx_connect X) = swarm_gateway N hub hash_order utc"
    and "\<And>A. set (hash_order A) \<subseteq> A" and "hub_faithful hub" and "maddr_laws (cx_maddr (dx_connect X))"
    and "server_for X port = Some server" and "hard_pinned server"
    and "\<forall>e \<in> set (pinned (srv_peer_options server)). entry_wf e"
    and "(discovery_step X)\<^sup>*\<^sup>* (discovery_actor_new env ds) b"
    and "(port, Some p) \<in> set (da_destinations b)" and "(port, Some p) \<notin> set ds"
    and "p \<notin> entry_peer_id ` set (pinned (srv_peer_options server))"
  shows "\<exists>a e. (discovery_step X)\<^sup>*\<^sup>* (discovery_actor_new env ds) a
    \<and> ((\<exists>address. e = PeerConnected p address False) \<or> (\<exists>peer. e = SelectPeer port peer))
    \<and> (port, Some p) \<notin> set (da_destinations a)
    \<and> (port, Some p) \<in> set (da_destinations (snd (discovery_handle X e a)))
    \<and> (discovery_step X)\<^sup>*\<^sup>* (snd (discovery_handle X e a)) b"
proof -
  have "names_pin (pinned (srv_peer_options server)) d"
    if "connect (dx_connect X) server avoid env = (Inr d, env')" for avoid env d env'
    using hard_pinned_names_pin [OF _ _ assms(4,7,6) that] assms(1-3)
    by (simp add: gateway_dialer_faithful gateway_directory_faithful)
  then have "pins_kept_by_connect X port (entry_peer_id ` set (pinned (srv_peer_options server)))"
    using assms(5) by (fastforce simp: pins_kept_by_connect_def names_pin_def)
  from run_keeps_pins [OF this assms(8,9) _ assms(11)] assms(10)
  obtain a e where "(discovery_step X)\<^sup>*\<^sup>* (discovery_actor_new env ds) a" "\<not> serves a port p"
    "bypasses_pins port p e" "serves (snd (discovery_handle X e a)) port p"
    "(discovery_step X)\<^sup>*\<^sup>* (snd (discovery_handle X e a)) b"
    by (auto simp: discovery_actor_new_def)
  moreover from \<open>bypasses_pins port p e\<close>
  have "(\<exists>address. e = PeerConnected p address False) \<or> (\<exists>peer. e = SelectPeer port peer)"
    by (cases e) auto
  ultimately show ?thesis by blast
qed

text \<open>
  The witness: the relayed pin of a server gives way to a peer remembered before the pins were
  configured, when that peer connects directly.
\<close>

definition pinned_discovery :: "(sample_swarm network_world, sticky_state) discovery_ctx" where
  "pinned_discovery = \<lparr>dx_config = discovery_config [one_pin], dx_connect = gateway_ctx, dx_now = gw_now\<rparr>"

definition relayed_pin :: "(sample_swarm network_world, sticky_state) discovery_actor" where
  "relayed_pin = discovery_actor_new
     (start gateway_world (snd (sticky_remember 1 1080 (current_fingerprint one_pin) (PeerId 3) 5 default_sticky)))
     [(1080, Some (PeerId 1))]"

lemma relayed_pin_rotated:
  "da_destinations (snd (discovery_handle pinned_discovery (PeerConnected (PeerId 3) (direct_addr (PeerId 3)) False)
     relayed_pin)) = [(1080, Some (PeerId 3))]"
  by code_simp

lemma only_rotation_or_pick_leaves_pins_witness:
  "\<exists>a e. (discovery_step pinned_discovery)\<^sup>*\<^sup>* relayed_pin a
    \<and> ((\<exists>address. e = PeerConnected (PeerId 3) address False) \<or> (\<exists>peer. e = SelectPeer 1080 peer))
    \<and> (1080, Some (PeerId 3)) \<in> set (da_destinations (snd (discovery_handle pinned_discovery e a)))"
proof -
  let ?b = "snd (discovery_handle pinned_discovery (PeerConnected (PeerId 3) (direct_addr (PeerId 3)) False) relayed_pin)"
  have run: "(discovery_step pinned_discovery)\<^sup>*\<^sup>* relayed_pin ?b"
    by (rule r_into_rtranclp) (rule discovery_step.handle_event)
  have "\<exists>a e. (discovery_step pinned_discovery)\<^sup>*\<^sup>* relayed_pin a
    \<and> ((\<exists>address. e = PeerConnected (PeerId 3) address False) \<or> (\<exists>peer. e = SelectPeer 1080 peer))
    \<and> (1080, Some (PeerId 3)) \<notin> set (da_destinations a)
    \<and> (1080, Some (PeerId 3)) \<in> set (da_destinations (snd (discovery_handle pinned_discovery e a)))
    \<and> (discovery_step pinned_discovery)\<^sup>*\<^sup>* (snd (discovery_handle pinned_discovery e a)) ?b"
    unfolding relayed_pin_def
  proof (rule only_rotation_or_pick_leaves_pins [OF _ listed_order_subset _ _ _ _ _ run [unfolded relayed_pin_def]])
    show "cx_ports (dx_connect pinned_discovery) = swarm_gateway sample_network silent_hub listed_order (\<lambda>t. 7)"
      by (simp add: pinned_discovery_def gateway_ctx_def)
    show "hub_faithful silent_hub" by (simp add: hub_faithful_def silent_hub_def)
    show "maddr_laws (cx_maddr (dx_connect pinned_discovery))"
      by (simp add: pinned_discovery_def gateway_ctx_def list_maddr_api_laws)
    show "server_for pinned_discovery 1080 = Some one_pin" by code_simp
    show "hard_pinned one_pin" by code_simp
    show "\<forall>e \<in> set (pinned (srv_peer_options one_pin)). entry_wf e" by code_simp
    show "PeerId 3 \<notin> entry_peer_id ` set (pinned (srv_peer_options one_pin))" by code_simp
  qed (use relayed_pin_rotated in \<open>simp_all add: relayed_pin_def\<close>)
  then show ?thesis by blast
qed

end
