(* ===== verification/Operator.thy ===== *)
theory Operator
  imports System
begin

text \<open>
  A switch of the exit by hand, from the key to the screen: the UI turns the key into a request
  (\<open>tui/mod.rs\<close>), the discovery actor tries the peer (\<open>runtime/discovery/actor.rs\<close>), and its events
  come back to the UI.
\<close>

section \<open>The answer of the actor\<close>

definition new_events :: "('w, 's) discovery_actor \<Rightarrow> ('w, 's) discovery_actor \<Rightarrow> events list" where
  "new_events a b = drop (length (cs_events (da_env a))) (cs_events (da_env b))"

lemma select_reached:
  assumes "server_for X port = Some server"
    and "reach_specific_peer (dx_connect X) server peer (da_env a) = (Some hit, env)"
  shows "da_destinations (select_peer X port peer a) = store_destination port (Some hit) (da_destinations a)"
    and "\<exists>peers. new_events a (select_peer X port peer a)
           = [ActiveDestination port (Some hit) (Some Manual), StickyPool port peers]"
proof -
  have "cs_events env = cs_events (da_env a)" "srv_port server = port"
    using assms by (auto simp: reach_specific_peer_def dest: server_for_Some try_reach_frame)
  with assms show "da_destinations (select_peer X port peer a) = store_destination port (Some hit) (da_destinations a)"
    and "\<exists>peers. new_events a (select_peer X port peer a)
           = [ActiveDestination port (Some hit) (Some Manual), StickyPool port peers]"
    by (simp_all add: select_peer_def adopt_specific_def emit_sticky_pool_def set_destination_def new_events_def Let_def)
qed

lemma select_missed:
  assumes "server_for X port = Some server"
    and "reach_specific_peer (dx_connect X) server peer (da_env a) = (None, env)"
  shows "da_destinations (select_peer X port peer a) = da_destinations a"
    and "new_events a (select_peer X port peer a) = [ErrorEvent (select_error_text X port peer)]"
proof -
  have "cs_events env = cs_events (da_env a)"
    using assms(2) by (auto simp: reach_specific_peer_def dest: try_reach_frame)
  with assms show "da_destinations (select_peer X port peer a) = da_destinations a"
    and "new_events a (select_peer X port peer a) = [ErrorEvent (select_error_text X port peer)]"
    by (simp_all add: select_peer_def new_events_def)
qed

section \<open>The request of the UI\<close>

definition feed :: "(int \<times> events) list \<Rightarrow> ('p, 'l) ui \<Rightarrow> ('p, 'l) ui" where
  "feed tes u = fold (\<lambda>(t, e). handle_swarm_events t e) tes u"

lemma selecting_shows_dialling:
  fixes v :: "('p, 'l) ui"
  assumes "handle_key W now code u = (Select port peer, v)"
  shows "ui_network_pending_selection v = Some (port, peer, now)"
proof -
  have press: "ui_network_pending_selection v = Some (port, peer, now)"
    if "press_enter now w = (Select port peer, v)" for w :: "('p, 'l) ui"
    using that by (auto simp: press_enter_def mark_dirty_def split: if_splits prod.splits option.splits)
  show ?thesis
  proof (cases code)
    case (KeyChar c)
    with assms show ?thesis
      by (auto simp: handle_key_def Let_def scroll_logs_def on_network_tab_def split: if_splits option.splits)
  next
    case KeyEnter
    with assms show ?thesis
      by (auto simp: handle_key_def Let_def scroll_logs_def split: if_splits dest: press)
  qed (use assms in \<open>auto simp: handle_key_def Let_def scroll_logs_def on_network_tab_def
      split: if_splits option.splits\<close>)
qed

lemma note_candidate_sources: "us_destination_sources (note_candidate pp a st) = us_destination_sources st"
  by (simp add: note_candidate_def note_peer_address_def Let_def split: option.split)

lemma sticky_pool_frame:
  "us_active_destinations (reduce t (StickyPool port peers) st) = us_active_destinations st"
  "us_destination_sources (reduce t (StickyPool port peers) st) = us_destination_sources st"
proof -
  have "us_active_destinations (fold (\<lambda>pp. note_candidate pp (first_address pp)) peers st) = us_active_destinations st"
    and "us_destination_sources (fold (\<lambda>pp. note_candidate pp (first_address pp)) peers st) = us_destination_sources st"
    by (induction peers arbitrary: st) (simp_all add: note_candidate_frame note_candidate_sources)
  then show "us_active_destinations (reduce t (StickyPool port peers) st) = us_active_destinations st"
    and "us_destination_sources (reduce t (StickyPool port peers) st) = us_destination_sources st"
    by (simp_all add: Let_def)
qed

lemma configured_port: "port \<in> srv_port ` set (cfg_servers (dx_config X)) \<Longrightarrow> \<exists>server. server_for X port = Some server"
  by (cases "server_for X port") (auto simp: server_for_def find_None_iff)


text \<open>The witness: the candidate that the UI shows is picked, and is reached over the relay.\<close>

definition picking :: "(fake_world, sticky_state) discovery_ctx" where
  "picking = sample_discovery\<lparr>dx_config := one_server_config\<rparr>"

definition idle_actor :: "(fake_world, sticky_state) discovery_actor" where
  "idle_actor = discovery_actor_new offering_env (initial_destinations (dx_config picking))"

definition answer_to_pick :: "(int \<times> events) list" where
  "answer_to_pick = map (Pair 0)
     (new_events idle_actor (snd (discovery_handle picking (SelectPeer 1080 (PeerId 3)) idle_actor)))"


end
