(* ===== verification/Swarm_Behaviour.thy ===== *)
theory Swarm_Behaviour
  imports Network_Props
begin

text \<open>
  The swarm's behaviour (\<open>runtime/network/behaviour.rs\<close>): which protocols a node runs and how it is
  configured to notice dead peers. The protocols are libp2p's; the two that carry no configuration
  are parameters. What is used of the ping protocol is its documentation: pings of a connection are
  sent an interval apart, and one that gets no answer is reported after the timeout.
\<close>

section \<open>The configuration\<close>

record ping_config =
  ping_interval :: duration
  ping_timeout :: duration

record ('s, 'r, 'k) behaviour =
  bh_stream :: 's
  bh_dcutr :: peer_id
  bh_relay :: 'r
  bh_identify :: "string \<times> 'k"
  bh_ping :: ping_config

definition behaviour_new :: "('k \<Rightarrow> peer_id) \<Rightarrow> 's \<Rightarrow> 'k \<Rightarrow> 'r \<Rightarrow> ('s, 'r, 'k) behaviour" where
  "behaviour_new to_peer_id stream local_pubkey relay =
     \<lparr>bh_stream = stream,
      bh_dcutr = to_peer_id local_pubkey,
      bh_relay = relay,
      bh_identify = (''bitping-federated/1.0.0'', local_pubkey),
      bh_ping = \<lparr>ping_interval = from_secs 15, ping_timeout = from_secs 10\<rparr>\<rparr>"

section \<open>How long a hung peer is kept\<close>

text \<open>
  The unanswered pings of one connection, from the earliest moment the first can be sent: when each
  was sent and when its failure was reported.
\<close>

fun pings_follow :: "ping_config \<Rightarrow> duration \<Rightarrow> (duration \<times> duration) list \<Rightarrow> bool" where
  "pings_follow P earliest [] = True"
| "pings_follow P earliest ((sent, failed) # pings) =
     (earliest \<le> sent \<and> sent + ping_timeout P \<le> failed \<and> pings_follow P (sent + ping_interval P) pings)"

lemma pings_take_time:
  "pings_follow P earliest pings \<Longrightarrow> pings \<noteq> []
   \<Longrightarrow> earliest + (length pings - 1) * ping_interval P + ping_timeout P \<le> snd (last pings)"
proof (induction pings arbitrary: earliest)
  case (Cons p pings)
  obtain sent failed where p: "p = (sent, failed)" by fastforce
  show ?case
  proof (cases "pings = []")
    case False
    then have "length pings = Suc (length pings - 1)" by simp
    then have "length pings * ping_interval P = ping_interval P + (length pings - 1) * ping_interval P"
      by (metis mult_Suc)
    with Cons.IH [of "sent + ping_interval P"] Cons.prems p False show ?thesis by simp
  qed (use Cons.prems p in simp)
qed simp

definition failure_times :: "peer_id \<Rightarrow> (duration \<times> network_input) list \<Rightarrow> duration list" where
  "failure_times peer ins = map fst (filter (\<lambda>ti. snd ti = InSwarm (PingFailure peer)) ins)"

lemma ping_mark_failure: "ping_mark peer i = Some True \<longleftrightarrow> i = InSwarm (PingFailure peer)"
  by (cases "(peer, i)" rule: ping_mark.cases) auto

lemma failures_since:
  "failures_in_a_row peer before = 0
   \<Longrightarrow> failures_in_a_row peer (before @ after) \<le> length (failure_times peer after)"
proof (induction after rule: rev_induct)
  case (snoc ti after)
  have "failures_in_a_row peer ((before @ after) @ [ti]) \<le> length (failure_times peer (after @ [ti]))"
    using snoc unfolding failures_snoc failure_times_def
    by (auto simp flip: ping_mark_failure split: option.split bool.split)
  then show ?case by simp
qed (simp add: failure_times_def)

text \<open>
  A peer that hangs is kept for at least forty seconds: the network actor disconnects on the third
  failure in a row, and with the configured interval and timeout the third unanswered ping of a
  connection cannot be reported earlier. Until then every failure leaves the swarm as it was.
\<close>

theorem hung_peer_kept_forty_seconds:
  assumes "Shutdown \<notin> snd ` set (before @ after)" and "failures_in_a_row peer before = 0"
    and "pings_follow (bh_ping (behaviour_new to_peer_id stream key relay)) hung pings"
    and "map snd pings = failure_times peer (after @ [(now, InSwarm (PingFailure peer))])"
    and "now < hung + from_secs 40"
  shows "let a = run_network N (before @ after) (network_actor_new sw)
    in na_swarm (network_handle N now (InSwarm (PingFailure peer)) a) = na_swarm a"
proof -
  let ?P = "bh_ping (behaviour_new to_peer_id stream key relay)"
  have config: "ping_interval ?P = from_secs 15" "ping_timeout ?P = from_secs 10"
    by (simp_all add: behaviour_new_def)
  have times: "map snd pings = failure_times peer after @ [now]"
    using assms(4) by (simp add: failure_times_def)
  have len: "length pings = Suc (length (failure_times peer after))"
    using arg_cong [OF times, of length] by simp
  then have "pings \<noteq> []" by auto
  then have last: "snd (last pings) = now"
    using arg_cong [OF times, of last] by (simp add: last_map)
  from pings_take_time [OF assms(3) \<open>pings \<noteq> []\<close>]
  have "hung + length (failure_times peer after) * from_secs 15 + from_secs 10 \<le> now"
    by (simp add: config last len)
  with assms(5) have "length (failure_times peer after) * 15 < 30" by (simp add: from_secs_def)
  then have "length (failure_times peer after) < 2" by simp
  with failures_since [OF assms(2), of after]
  have "Suc (failures_in_a_row peer (before @ after)) mod 3 \<noteq> 0" by auto
  moreover have "strikes_ok peer 0 (network_handle N 0 RetryBootstrap (network_actor_new sw))"
    by (simp add: strikes_ok_def network_actor_new_def try_dial_bootstrap_def)
  from failure_effect [OF run_strikes [OF assms(1) this]]
  have "na_swarm (network_handle N now (InSwarm (PingFailure peer)) a)
      = (if Suc (failures_in_a_row peer (before @ after)) mod 3 = 0
         then sw_disconnect (nx_api N) peer (na_swarm a) else na_swarm a)"
    if "a = run_network N (before @ after) (network_actor_new sw)" for a
    by (simp add: that run_network_def)
  ultimately show ?thesis by (simp add: Let_def)
qed

text \<open>
  The bound is met: three pings sent the moment each is due, from second 0 on, disconnect the peer at
  second 40 and not before.
\<close>

definition due_pings :: "(duration \<times> duration) list" where
  "due_pings = map (\<lambda>k. (from_secs (15 * k), from_secs (15 * k + 10))) [0, 1, 2]"

definition reported :: "peer_id \<Rightarrow> (duration \<times> duration) list \<Rightarrow> (duration \<times> network_input) list" where
  "reported peer pings = map (\<lambda>(sent, failed). (failed, InSwarm (PingFailure peer))) pings"

theorem hung_peer_kept_forty_seconds_witness:
  "sample_connected (na_swarm (network_handle sample_network (from_secs 25) (InSwarm (PingFailure (PeerId 4)))
      (run_network sample_network (reported (PeerId 4) (take 1 due_pings)) (network_actor_new idle_swarm))))
     = sample_connected idle_swarm
   \<and> sample_connected (na_swarm (run_network sample_network (reported (PeerId 4) due_pings)
        (network_actor_new idle_swarm))) = [PeerId 0]"
proof -
  let ?B = "behaviour_new (\<lambda>k :: nat. PeerId k) () 7 ()"
  have "pings_follow (bh_ping ?B) 0 (take 2 due_pings)"
    by (simp add: behaviour_new_def due_pings_def from_secs_def)
  from hung_peer_kept_forty_seconds [OF _ _ this, of "[]" "reported (PeerId 4) (take 1 due_pings)" "PeerId 4"
      "from_secs 25" sample_network idle_swarm]
  show ?thesis
    by (simp add: reported_def due_pings_def failures_in_a_row_def List.map_filter_def failure_times_def
        from_secs_def run_network_def network_actor_new_def try_dial_bootstrap_def MAX_PING_STRIKES_def
        sample_network_def idle_swarm_def Let_def)
qed

end
