(* ===== verification/Spec2Isabelle.thy ===== *)
theory Spec2Isabelle
  imports Config_Tests Sticky_Props File_Props Hub_Bootstrap Adapter_Tests Ui_Blocks Node_Services Pinned_System Operator Swarm_Behaviour
begin

text \<open>
  p2proxy: a SOCKS5 proxy that sends each connection through an exit peer of the Bitping network,
  over libp2p. \<open>crates/core\<close> holds the pure logic (configuration, filters, route selection, sticky
  affinity, the connect flow) behind ports; \<open>crates/p2proxy\<close> the adapters, the actors, the SOCKS
  sessions, the terminal UI and \<open>main\<close>.

  How the parts interact. \<open>main\<close> loads the configuration, authenticates, bootstraps the swarm and
  spawns two actors. The network actor owns the libp2p swarm: it answers commands (resolve, find,
  dial, is-connected) on reply channels and reports connections. The discovery actor owns the
  sticky store and one destination per listen port: it runs the connect flow through the gateway
  over the network actor, and reacts to peers that come, go or prove unusable. A session reads the
  destination of its port, opens a stream to that peer and relays bytes. Both actors and the
  sessions send events, which the UI reduces and shows; an operator's pick goes back to the
  discovery actor. A start is not finished before a relay has accepted a reservation.

  Theories, in dependency order:

  \<^item> \<open>Prelude\<close>: widths of the machine integers, durations in nanoseconds with Rust's saturation,
    ASCII text, list lemmas, and the collection \<open>frame_simps\<close>.
  \<^item> \<open>Multiaddr\<close> (\<open>domain/selection.rs\<close>, \<open>domain/circuit.rs\<close>): addresses as lists of protocols,
    direct and relayed routes, the synthesized circuit. libp2p's \<open>with_p2p\<close> is the parameter
    \<open>maddr_api\<close>, its documented laws \<open>maddr_laws\<close>.
  \<^item> \<open>Config\<close>, \<open>Config_Props\<close>, \<open>Config_Load\<close> (\<open>config.rs\<close>, \<open>filters.rs\<close>, \<open>network/requirements.rs\<close>): the
    configuration, its defaults and deserialization, its validation, the text form of pinned
    entries, country parsing, the filter fingerprint that keys the affinity, and the query sent to
    the hub.
  \<^item> \<open>Backoff\<close> (\<open>domain/backoff.rs\<close>): the delays, with their closed form.
  \<^item> \<open>Events\<close>, \<open>Ports\<close> (\<open>events.rs\<close>, \<open>ports\<close>): events, errors, and the ports as operations of an
    environment of arbitrary type. The locale \<open>exit_pool_store\<close> is the contract of a sticky store
    over abstract most-recently-used pools.
  \<^item> \<open>Sticky_State\<close>, \<open>Sticky_Props\<close> (\<open>domain/sticky.rs\<close>): the in-memory store and its
    interpretation of the contract. \<open>File_Sticky\<close>, \<open>File_Props\<close> (\<open>adapters/file_sticky.rs\<close>): the
    store on disk, its second interpretation; loading every shape of the file, migration, and
    saving by write and rename over a disk whose operations may fail or write partially.
  \<^item> \<open>Connect\<close> (\<open>domain/connect.rs\<close>): every method of \<open>ConnectCtx\<close>. \<open>Connect_Flow\<close> states what the
    phases of a connect share as the locale \<open>connect_phases\<close>: an invariant that survives the port
    calls survives a whole connect. \<open>Connect_Props\<close> (pins), \<open>Connect_Effects\<close> (calls, effort,
    failures) and \<open>Connect_Affinity\<close> (the store) are interpretations of it and theorems over them.
    \<open>Fakes\<close> (\<open>testing/fakes.rs\<close>, \<open>testing/builders.rs\<close>) gives concrete environments.
  \<^item> \<open>Discovery\<close> (\<open>runtime/discovery\<close>): the actor, its handlers and the step relation
    \<open>discovery_step\<close> (an event, a timer that fires, the world moving on). \<open>Discovery_Inv\<close> is the
    locale \<open>actor_invariant\<close>: what each primitive of the actor must keep for every reachable state
    to have it. \<open>Discovery_Props\<close> (destinations, timers, throttling) and \<open>Discovery_Switch\<close>
    (rotation, manual selection, affinity) interpret it.
  \<^item> \<open>Network\<close>, \<open>Network_Props\<close> (\<open>runtime/network/actor.rs\<close>, \<open>command.rs\<close>, \<open>handle.rs\<close>): the actor
    over a swarm with the operations \<open>swarm_api\<close>; dials in flight, sweeps, ping strikes, the
    bootstrap link, shutdown. \<open>Swarm_Behaviour\<close> (\<open>runtime/network/behaviour.rs\<close>): the configured
    protocols, and how long a peer that hangs is kept.
  \<^item> \<open>Gateway\<close> (\<open>adapters/swarm_gateway.rs\<close>): the ports as the program implements them, a command
    to the network actor and its answer, with any inputs handled in between. It is shown to keep
    the contract the connect flow relies on.
  \<^item> \<open>Session\<close> (\<open>runtime/session\<close>, \<open>runtime/stream_manager.rs\<close>): a SOCKS session as the list of its
    actions, the permits of stream opens, the accept loop.
  \<^item> \<open>Startup\<close> (\<open>grpc_auth.rs\<close>, \<open>keypair_identity.rs\<close>, \<open>network/bootstrap.rs\<close>, \<open>utils/wait_ext.rs\<close>,
    parts of \<open>main.rs\<close>) and \<open>Process\<close> (\<open>main.rs\<close>, \<open>runtime/driver.rs\<close>, \<open>adapters/channel_sink.rs\<close>,
    \<open>adapters/grpc.rs\<close>): the retry loop of the bootstrap, what is derived from the configuration,
    the order of start and stop, the driver of an actor (locale \<open>actor\<close>), the bounded event channel.
  \<^item> \<open>Ui_State\<close> (\<open>tui/ui_state.rs\<close> and the reducer of \<open>tui/mod.rs\<close>), \<open>Ui\<close>, \<open>Ui_Props\<close> (keys,
    cursors, tabs of \<open>tui/mod.rs\<close>), \<open>Ui_View\<close>, \<open>Ui_View_Props\<close> (\<open>tui/network\<close>, \<open>tui/overview\<close>): the
    UI as a state machine and what its lines and rows show.
  \<^item> \<open>System\<close>: the actors together: a closed connection followed from the swarm to the destinations,
    the destinations from the discovery actor to the UI, a session's request to the discovery actor
    and back. \<open>Pinned_System\<close>: the pins of a server through every run of the discovery actor over
    the program's own ports. \<open>Operator\<close>: a switch by hand from the key to the screen.
  \<^item> \<open>Hub_Bootstrap\<close> (\<open>network/bootstrap.rs\<close>): the whole bootstrap as a list of actions over the events
    of the swarm; it implements the attempt-level model of \<open>Startup\<close>, its events are followed to the
    UI and its end to \<open>main\<close>.
  \<^item> \<open>Ui_Run\<close> (\<open>run_ui\<close> in \<open>tui/mod.rs\<close>): the life of the terminal and the loop over ticks, keys and
    events, as a function of the list of turns; the locale \<open>ui_constant\<close> covers what no operation
    of the UI writes. \<open>Ui_Screen\<close> (\<open>render\<close> and the two tabs): the panels of a frame.
  \<^item> \<open>Machine_Float\<close>: the rounding of single and double precision over the rationals (round to
    nearest, ties to even; no overflow, no subnormals, which the code's values do not reach), with
    its monotonicity and exactness, and the casts to integers that saturate.
  \<^item> \<open>Splash\<close> (\<open>tui/splashscreen.rs\<close>): the logo, the shimmer and its loop. \<open>Ui_Stats\<close>
    (\<open>tui/overview\<close>, the animation of \<open>tui/mod.rs\<close>): gauges, the scale of the chart, the entrance
    animation. \<open>Ui_Frame\<close>: the rows of a frame, the toast of an export, the footer.
    \<open>Ui_Blocks\<close>: the rows of a server's block on the NETWORK tab and what of its lines fits.
  \<^item> \<open>Node_Services\<close> (\<open>grpc_auth.rs\<close>, \<open>keypair_identity.rs\<close>, \<open>wait_for_with_timeout\<close>,
    \<open>install_logging\<close>): the login and what it signs, waiting with a deadline, the logging layers.
  \<^item> \<open>Core_Tests\<close>, \<open>Connect_Tests\<close>, \<open>Config_Tests\<close>, \<open>Discovery_Tests\<close>, \<open>Adapter_Tests\<close>: the unit tests
    of the repository, stated over the model under their own names and with their random peers as
    variables, and proved. They tie the model to what the code was observed to do: a definition that
    departs from the code on what a test asserts would fail here.

  How code becomes definitions. An \<open>async\<close> method is a function from the state to its result and
  the next state; what it awaits is an operation of the environment, so every answer at every
  point is covered. A bounded loop is a recursion on the attempts left (20 discovery attempts and
  20 pinned passes, 3 reconnects, 11 bootstrap attempts: the source's own bounds, so no fuel is
  added). Loops that index and remove (\<open>swap_remove\<close>) are functions with a measure. Errors are
  values of sums. \<open>u16\<close>, \<open>u32\<close> and \<open>u64\<close> are words, \<open>usize\<close> counts are naturals. A hash map is a map,
  or an association list where its iteration is observed; a hash set that is iterated comes with
  its order as a parameter. Instants are readings of a clock of the environment.

  Parameters with hypotheses: \<open>maddr_laws\<close> (appending a peer id to an address that does not end in
  one), \<open>dialer_faithful\<close> and \<open>directory_faithful\<close> (a dial reports a peer only if an address of it
  was dialed; routes of a peer lead to it; the first is proved of the program's own gateway),
  \<open>hub_faithful\<close> (the same of the hub), \<open>text_faithful\<close> (parsing what libp2p printed). Each theorem
  with a hypothesis is followed by a run of the model in which it holds.

  Not modelled: libp2p, tokio, ratatui, tonic, figment, serde and clap, whose behaviour enters as
  parameters; how ratatui splits an area and paints a widget, the colours of the theme, and the log
  pane; metrics; reading YAML and the environment. Of the tests, those that only exercise a library
  are left out (the lower-case names serde gives the variants of an enum, the \<open>Tabs\<close> widget), and
  \<open>testutil.rs\<close>, which builds real swarms for them. The files without logic of their own (traits of
  one method, \<open>context.rs\<close>, \<open>args.rs\<close>, \<open>tokio_clock.rs\<close>) have no counterpart.
\<close>

end
